(* ===== verification/Prelude.thy ===== *)
theory Prelude
  imports Main "HOL-Library.Word" "HOL-Library.Sublist"
begin

text \<open>
  Shared vocabulary of the development: the names of the machine types of the Go code, the
  collections of facts the component theories fill, and the generic list and arithmetic lemmas
  that more than one component needs.

  Go types and their model: \<open>[]byte\<close> is \<open>bytes\<close>; \<open>string\<close>
  is Isabelle's \<open>string\<close>, whose characters are bytes as Go's are; \<open>uint64\<close>,
  \<open>int64\<close> and \<open>int32\<close> are words of their width, the signed ones read with
  \<open>sint\<close>; a pointer to a message is an \<open>option\<close> (\<open>None\<close> is
  \<open>nil\<close>). \<open>wire\<close> is the encoding of a message the client only forwards and never
  looks into.
\<close>

type_synonym bytes = "8 word list"
type_synonym u64 = "64 word"
type_synonym i64 = "64 word"
type_synonym i32 = "32 word"
type_synonym wire = bytes

named_theorems ok_simps \<open>when a composed computation returns normally\<close>
named_theorems triple_rules \<open>rules for pre- and postconditions of effectful code\<close>
named_theorems service_defs \<open>definitions of the service interface and its client stubs\<close>
named_theorems ref_defs \<open>definitions of the reference environment used by witnesses\<close>

section \<open>Lists\<close>

lemma concat_map_singleton [simp]: "concat (map (\<lambda>x. [f x]) xs) = map f xs"
  by (induction xs) auto

lemma append_eq_same_length:
  "length xs = length ys \<Longrightarrow> (xs @ us = ys @ vs) = (xs = ys \<and> us = vs)"
  by simp

lemma butlast_last_split: "xs \<noteq> [] \<Longrightarrow> butlast xs @ [last xs] = xs"
  by simp

section \<open>Positional arithmetic\<close>

text \<open>
  Two digits written next to each other determine both: the step of every injectivity proof
  about a positional encoding (hexadecimal, base64).
\<close>

lemma two_digits_inject:
  fixes x y :: nat
  assumes "y < b" and "y' < b"
  shows "(x * b + y = x' * b + y') = (x = x' \<and> y = y')"
proof
  assume eq: "x * b + y = x' * b + y'"
  from assms eq have "(x * b + y) div b = (x' * b + y') div b" by simp
  with assms have "x = x'" by simp
  with eq show "x = x' \<and> y = y'" by simp
qed simp

lemma divmod_inject:
  fixes x y :: nat
  shows "(x div b = y div b \<and> x mod b = y mod b) = (x = y)"
  by (metis div_mult_mod_eq)

lemma unat_lt_256 [simp]: "unat (b :: 8 word) < 256"
  using unsigned_less [of b] by simp

lemma map_unat_inject [simp]: "(map unat xs = map unat ys) = (xs = (ys :: 'a::len word list))"
  by (simp add: inj_map_eq_map inj_unsigned)

end
