(* ===== verification/Go_Effects.thy ===== *)
theory Go_Effects
  imports Prelude
begin

text \<open>
  How the development models what a Go function does beyond returning a value: an error
  return, a run-time panic, and the effects of the calls it makes.

  A Go function with results \<open>(T, error)\<close> is a value of \<open>T go\<close> when it is pure,
  and a function \<open>'w \<Rightarrow> T go \<times> 'w\<close> when it calls out: \<open>'w\<close> is the world
  outside the client (the network, the local cache, the files). \<open>Fail e\<close> is the return
  of a non-nil error \<open>e\<close>, the other result being the zero value, which is what every
  error return of the package does. \<open>Panic p\<close> is a run-time panic that leaves the
  function; deferred calls still run.
\<close>

section \<open>Outcomes\<close>

text \<open>
  Errors: the sentinels the code compares with, returns or exports (their texts are in \<open>State_Service\<close>), errors it builds from a text, gRPC
  status errors it builds, and errors of code outside the repository (identified by a text).
\<close>

datatype go_error =
    EOF
  | ErrCorruptedData
  | ErrNoServerUuid
  | ErrStateNotFound
  | ErrCacheNotLocked
  | ErrCacheAlreadyLocked
  | ErrPrevStateNotFound
  | ErrLocalStateCorrupted
  | NewError string
  | StatusError string string
  | StatusErrorf string string go_error
  | Foreign string

datatype go_panic =
    NilDereference
  | IndexOutOfRange
  | NegativeMake
  | TypeAssertion
  | ForeignPanic string

datatype 'a go = Ok 'a | Fail go_error | Panic go_panic

text \<open>
  \<open>tryG m (\<lambda>x. rest)\<close> is \<^verbatim>\<open>x, err := m; if err != nil { return nil, err }; rest\<close>.
  \<open>deref p (\<lambda>x. rest)\<close> reads through a pointer, and \<open>index xs i\<close> is
  \<^verbatim>\<open>xs[i]\<close> with a non-negative index.
\<close>

fun tryG :: "'a go \<Rightarrow> ('a \<Rightarrow> 'b go) \<Rightarrow> 'b go" where
  "tryG (Ok x) f = f x"
| "tryG (Fail e) f = Fail e"
| "tryG (Panic p) f = Panic p"

fun deref :: "'a option \<Rightarrow> ('a \<Rightarrow> 'b go) \<Rightarrow> 'b go" where
  "deref None f = Panic NilDereference"
| "deref (Some x) f = f x"

definition index :: "'a list \<Rightarrow> nat \<Rightarrow> 'a go" where
  "index xs i = (if i < length xs then Ok (xs ! i) else Panic IndexOutOfRange)"

lemma tryG_Ok [ok_simps]: "(tryG m f = Ok y) = (\<exists>x. m = Ok x \<and> f x = Ok y)"
  by (cases m) auto

lemma deref_Ok [ok_simps]: "(deref p f = Ok y) = (\<exists>x. p = Some x \<and> f x = Ok y)"
  by (cases p) auto

lemma index_Ok [ok_simps]: "(index xs i = Ok y) = (i < length xs \<and> xs ! i = y)"
  by (auto simp: index_def)

lemma index_nat [simp]: "index (x # xs) 0 = Ok x" "index [] i = Panic IndexOutOfRange"
  by (auto simp: index_def)

section \<open>Effectful computations\<close>

type_synonym ('w, 'a) io = "'w \<Rightarrow> 'a go \<times> 'w"

definition lift :: "'a go \<Rightarrow> ('w, 'a) io" where
  "lift r = (\<lambda>w. (r, w))"

abbreviation ret :: "'a \<Rightarrow> ('w, 'a) io" where
  "ret x \<equiv> lift (Ok x)"

abbreviation fail :: "go_error \<Rightarrow> ('w, 'a) io" where
  "fail e \<equiv> lift (Fail e)"

abbreviation panic :: "go_panic \<Rightarrow> ('w, 'a) io" where
  "panic p \<equiv> lift (Panic p)"

definition tryE :: "('w, 'a) io \<Rightarrow> ('a \<Rightarrow> ('w, 'b) io) \<Rightarrow> ('w, 'b) io" where
  "tryE m f = (\<lambda>w. case m w of
      (Ok x, w') \<Rightarrow> f x w'
    | (Fail e, w') \<Rightarrow> (Fail e, w')
    | (Panic p, w') \<Rightarrow> (Panic p, w'))"

fun derefE :: "'a option \<Rightarrow> ('a \<Rightarrow> ('w, 'b) io) \<Rightarrow> ('w, 'b) io" where
  "derefE None f = panic NilDereference"
| "derefE (Some x) f = f x"

text \<open>
  \<open>deferE cleanup body\<close> is a body after \<^verbatim>\<open>defer cleanup()\<close>: the clean-up runs
  however the body ends, its own error result is dropped, and a panic of the clean-up replaces
  the body's outcome.
\<close>

definition deferE :: "('w, 'u) io \<Rightarrow> ('w, 'a) io \<Rightarrow> ('w, 'a) io" where
  "deferE cleanup body = (\<lambda>w. case body w of (r, w') \<Rightarrow>
     (case cleanup w' of
        (Panic p, w'') \<Rightarrow> (Panic p, w'')
      | (_, w'') \<Rightarrow> (r, w'')))"

lemma lift_apply [simp]: "lift r w = (r, w)"
  by (simp add: lift_def)

lemma lift_Ok [ok_simps]: "(lift r w = (Ok x, w')) = (r = Ok x \<and> w' = w)"
  by auto

lemma tryE_Ok [ok_simps]:
  "(tryE m f w = (Ok y, w'')) = (\<exists>x w'. m w = (Ok x, w') \<and> f x w' = (Ok y, w''))"
  by (auto simp: tryE_def split: prod.splits go.splits)

lemma derefE_Ok [ok_simps]:
  "(derefE p f w = (Ok y, w')) = (\<exists>x. p = Some x \<and> f x w = (Ok y, w'))"
  by (cases p) auto

lemma deferE_Ok [ok_simps]:
  "(deferE c m w = (Ok y, w'')) = (\<exists>w' r. m w = (Ok y, w') \<and> c w' = (r, w'') \<and> (\<forall>p. r \<noteq> Panic p))"
  by (auto simp: deferE_def split: prod.splits go.splits)

lemma tryE_lift [simp]: "tryE (lift (Ok x)) f = f x"
  by (auto simp: tryE_def)

lemma tryE_step:
  "m w = (Ok x, w') \<Longrightarrow> tryE m f w = f x w'"
  "m w = (Fail e, w') \<Longrightarrow> tryE m f w = (Fail e, w')"
  "m w = (Panic p, w') \<Longrightarrow> tryE m f w = (Panic p, w')"
  by (auto simp: tryE_def)

lemma deferE_step:
  "m w = (r, w') \<Longrightarrow> c w' = (Ok u, w'') \<Longrightarrow> deferE c m w = (r, w'')"
  by (auto simp: deferE_def)

lemma tryE_assoc: "tryE (tryE m f) g = tryE m (\<lambda>x. tryE (f x) g)"
  by (rule ext) (auto simp: tryE_def split: prod.splits go.splits)

section \<open>Pre- and postconditions over every outcome\<close>

text \<open>
  \<open>triple P m Q\<close>: from a world satisfying \<open>P\<close>, the computation ends, however it
  ends, in an outcome and a world satisfying \<open>Q\<close>. Unlike the usual partial-correctness
  triples it also speaks of error returns and panics, which is what lock discipline needs.
\<close>

definition triple :: "('w \<Rightarrow> bool) \<Rightarrow> ('w, 'a) io \<Rightarrow> ('a go \<Rightarrow> 'w \<Rightarrow> bool) \<Rightarrow> bool" where
  "triple P m Q = (\<forall>w. P w \<longrightarrow> Q (fst (m w)) (snd (m w)))"

abbreviation preserves :: "('w \<Rightarrow> bool) \<Rightarrow> ('w, 'a) io \<Rightarrow> bool" where
  "preserves I m \<equiv> triple I m (\<lambda>_. I)"

lemma tripleI: "(\<And>w r w'. P w \<Longrightarrow> m w = (r, w') \<Longrightarrow> Q r w') \<Longrightarrow> triple P m Q"
  by (auto simp: triple_def)

lemma tripleD: "triple P m Q \<Longrightarrow> P w \<Longrightarrow> m w = (r, w') \<Longrightarrow> Q r w'"
  by (fastforce simp: triple_def)

lemma triple_weaken:
  "triple P m Q \<Longrightarrow> (\<And>w. P' w \<Longrightarrow> P w) \<Longrightarrow> (\<And>r w. Q r w \<Longrightarrow> Q' r w) \<Longrightarrow> triple P' m Q'"
  by (auto simp: triple_def)

lemma preserves_lift [triple_rules]: "preserves I (lift r)"
  by (auto simp: triple_def)

lemma preserves_tryE [triple_rules]:
  "preserves I m \<Longrightarrow> (\<And>x. preserves I (f x)) \<Longrightarrow> preserves I (tryE m f)"
  by (fastforce simp: triple_def tryE_def split: prod.splits go.splits)

lemma preserves_derefE [triple_rules]:
  "(\<And>x. p = Some x \<Longrightarrow> preserves I (f x)) \<Longrightarrow> preserves I (derefE p f)"
  by (cases p) (auto simp: triple_def)

lemma preserves_if [triple_rules]:
  "(b \<Longrightarrow> preserves I m) \<Longrightarrow> (\<not> b \<Longrightarrow> preserves I n) \<Longrightarrow> preserves I (if b then m else n)"
  by simp

lemma preserves_option [triple_rules]:
  "preserves I m \<Longrightarrow> (\<And>x. p = Some x \<Longrightarrow> preserves I (f x)) \<Longrightarrow>
     preserves I (case p of None \<Rightarrow> m | Some x \<Rightarrow> f x)"
  by (cases p) auto

lemma preserves_split [triple_rules]:
  "(\<And>a b. p = (a, b) \<Longrightarrow> preserves I (f a b)) \<Longrightarrow> preserves I (case p of (a, b) \<Rightarrow> f a b)"
  by (cases p) auto

lemma triple_tryE:
  assumes "triple P m (\<lambda>r w. case r of Ok x \<Rightarrow> R x w | Fail e \<Rightarrow> Q (Fail e) w | Panic p \<Rightarrow> Q (Panic p) w)"
    and "\<And>x. triple (R x) (f x) Q"
  shows "triple P (tryE m f) Q"
proof (rule tripleI)
  fix w r w'
  assume P: "P w" and run: "tryE m f w = (r, w')"
  obtain s v where m: "m w = (s, v)" by (cases "m w")
  from tripleD [OF assms(1) P m] run m assms(2) show "Q r w'"
    by (cases s) (auto simp: tryE_def dest: tripleD)
qed

lemma triple_deferE:
  assumes "triple P m (\<lambda>r. R r)"
    and "\<And>r. triple (R r) c (\<lambda>r' w. case r' of Panic p \<Rightarrow> Q (Panic p) w | _ \<Rightarrow> Q r w)"
  shows "triple P (deferE c m) Q"
proof (rule tripleI)
  fix w r w'
  assume P: "P w" and run: "deferE c m w = (r, w')"
  obtain s v where m: "m w = (s, v)" by (cases "m w")
  obtain t u where c: "c v = (t, u)" by (cases "c v")
  from tripleD [OF assms(1) P m] have "R s v" .
  from tripleD [OF assms(2) this c] run m c show "Q r w'"
    by (cases t) (auto simp: deferE_def)
qed

end
