(* ===== verification/Go_Strings.thy ===== *)
theory Go_Strings
  imports Go_Effects
begin

text \<open>
  The parts of Go's standard library the client computes with: \<open>strings.Join\<close> and
  \<open>strings.Split\<close>, the \<open>fmt\<close> verbs \<open>%d\<close>, \<open>%t\<close> and \<open>%x\<close>,
  \<open>encoding/hex\<close>, \<open>encoding/base64\<close> and \<open>bytes.Contains\<close>, each with
  the facts the components use: splitting undoes joining, and each encoding determines what it
  encodes. \<open>crypto/sha256\<close> is not here: it is a parameter \<open>sha\<close> of the definitions
  that hash, so that what is proved holds for every hash function.
\<close>

section \<open>Join and split\<close>

fun join :: "string \<Rightarrow> string list \<Rightarrow> string" where
  "join sep [] = []"
| "join sep [x] = x"
| "join sep (x # y # zs) = x @ sep @ join sep (y # zs)"

text \<open>\<open>strings.Split\<close> for a separator of one character: never an empty list.\<close>

fun split_on :: "char \<Rightarrow> string \<Rightarrow> string list" where
  "split_on c [] = [[]]"
| "split_on c (x # xs) =
     (if x = c then [] # split_on c xs
      else (case split_on c xs of [] \<Rightarrow> [[x]] | p # ps \<Rightarrow> (x # p) # ps))"

definition free_of :: "char \<Rightarrow> string list \<Rightarrow> bool" where
  "free_of c ps = list_all (\<lambda>p. c \<notin> set p) ps"

lemma free_of_simps [simp]:
  "free_of c []"
  "free_of c (p # ps) = (c \<notin> set p \<and> free_of c ps)"
  "free_of c (ps @ qs) = (free_of c ps \<and> free_of c qs)"
  by (auto simp: free_of_def)

lemma split_on_not_Nil [simp]: "split_on c s \<noteq> []"
  by (cases s) (auto split: list.splits)

lemma join_split_on: "join [c] (split_on c s) = s"
proof (induction s)
  case (Cons x xs)
  obtain p ps where ps: "split_on c xs = p # ps" by (cases "split_on c xs") auto
  with Cons show ?case by (cases ps) auto
qed simp

lemma split_on_free [simp]: "free_of c (split_on c s)"
  by (induction s) (auto split: list.splits)

lemma split_on_id: "c \<notin> set s \<Longrightarrow> split_on c s = [s]"
  by (induction s) auto

lemma split_on_sep: "c \<notin> set p \<Longrightarrow> split_on c (p @ c # s) = p # split_on c s"
  by (induction p) (auto split: list.splits)

lemma split_on_join: "ps \<noteq> [] \<Longrightarrow> free_of c ps \<Longrightarrow> split_on c (join [c] ps) = ps"
proof (induction ps rule: induct_list012)
  case (3 p q ps)
  then show ?case by (simp add: split_on_sep)
qed (auto simp: split_on_id)

lemma join_inject:
  assumes "ps \<noteq> []" and "qs \<noteq> []" and "free_of c ps" and "free_of c qs"
  shows "(join [c] ps = join [c] qs) = (ps = qs)"
  using split_on_join assms by metis

lemma join_snoc: "ps \<noteq> [] \<Longrightarrow> join s (ps @ [p]) = join s ps @ s @ p"
  by (induction s ps rule: join.induct) (auto simp: neq_Nil_conv)

section \<open>Decimal numbers and booleans\<close>

definition digit :: "nat \<Rightarrow> char" where
  "digit n = char_of (48 + n)"

fun fmt_u :: "nat \<Rightarrow> string" where
  "fmt_u n = (if n < 10 then [digit n] else fmt_u (n div 10) @ [digit (n mod 10)])"

declare fmt_u.simps [simp del]

definition fmt_d :: "int \<Rightarrow> string" where
  "fmt_d i = (if i < 0 then CHR ''-'' # fmt_u (nat (- i)) else fmt_u (nat i))"

definition fmt_t :: "bool \<Rightarrow> string" where
  "fmt_t b = (if b then ''true'' else ''false'')"

definition decimal_value :: "string \<Rightarrow> nat" where
  "decimal_value s = foldl (\<lambda>v c. 10 * v + (of_char c - 48)) 0 s"

lemma of_char_digit: "n < 10 \<Longrightarrow> (of_char (digit n) :: nat) = 48 + n"
  by (simp add: digit_def)

lemma decimal_value_fmt_u: "decimal_value (fmt_u n) = n"
proof (induction n rule: fmt_u.induct)
  case (1 n)
  then show ?case
    by (auto simp: fmt_u.simps [of n] decimal_value_def of_char_digit)
qed

lemma fmt_u_inject [simp]: "(fmt_u m = fmt_u n) = (m = n)"
  by (metis decimal_value_fmt_u)

lemma fmt_u_digits: "c \<in> set (fmt_u n) \<Longrightarrow> 48 \<le> (of_char c :: nat) \<and> (of_char c :: nat) < 58"
proof (induction n rule: fmt_u.induct)
  case (1 n)
  then show ?case
    by (auto simp: fmt_u.simps [of n] of_char_digit split: if_splits)
qed

lemma fmt_u_no_minus: "CHR ''-'' \<notin> set (fmt_u n)"
  using fmt_u_digits [of "CHR ''-''" n] by auto

lemma fmt_u_no_newline [simp]: "CHR 0x0A \<notin> set (fmt_u n)"
  using fmt_u_digits [of "CHR 0x0A" n] by auto

lemma fmt_d_no_newline [simp]: "CHR 0x0A \<notin> set (fmt_d i)"
  by (simp add: fmt_d_def)

lemma fmt_d_inject [simp]: "(fmt_d i = fmt_d j) = (i = j)"
proof
  have no: "fmt_u m \<noteq> CHR ''-'' # s" for m s
    using fmt_u_no_minus [of m] by auto
  assume "fmt_d i = fmt_d j"
  then show "i = j"
    by (auto simp: fmt_d_def no no [symmetric] eq_nat_nat_iff split: if_splits)
qed simp

lemma fmt_t_inject [simp]: "(fmt_t a = fmt_t b) = (a = b)"
  by (auto simp: fmt_t_def)

lemma fmt_t_no_newline [simp]: "CHR 0x0A \<notin> set (fmt_t b)"
  by (auto simp: fmt_t_def)

section \<open>Hexadecimal\<close>

definition hex_digits :: string where
  "hex_digits = ''0123456789abcdef''"

definition fmt_x :: "bytes \<Rightarrow> string" where
  "fmt_x bs = concat (map (\<lambda>b. [hex_digits ! (unat b div 16), hex_digits ! (unat b mod 16)]) bs)"

text \<open>The reverse table of \<open>encoding/hex\<close> accepts both letter cases.\<close>

definition from_hex :: "char \<Rightarrow> nat option" where
  "from_hex c = (let n = of_char c in
     if 48 \<le> n \<and> n \<le> 57 then Some (n - 48)
     else if 97 \<le> n \<and> n \<le> 102 then Some (n - 87)
     else if 65 \<le> n \<and> n \<le> 70 then Some (n - 55)
     else None)"

definition hex_InvalidByteError :: go_error where
  "hex_InvalidByteError = Foreign ''encoding/hex: invalid byte''"

definition hex_ErrLength :: go_error where
  "hex_ErrLength = Foreign ''encoding/hex: odd length hex string''"

fun hex_DecodeString :: "string \<Rightarrow> bytes go" where
  "hex_DecodeString [] = Ok []"
| "hex_DecodeString [c] =
     (case from_hex c of None \<Rightarrow> Fail hex_InvalidByteError | Some _ \<Rightarrow> Fail hex_ErrLength)"
| "hex_DecodeString (c # d # cs) =
     (case from_hex c of None \<Rightarrow> Fail hex_InvalidByteError | Some a \<Rightarrow>
      case from_hex d of None \<Rightarrow> Fail hex_InvalidByteError | Some b \<Rightarrow>
      tryG (hex_DecodeString cs) (\<lambda>bs. Ok (of_nat (a * 16 + b) # bs)))"

lemma less_16_cases:
  "(n :: nat) < 16 \<Longrightarrow> n \<in> {0, 1, 2, 3, 4, 5, 6, 7, 8, 9, 10, 11, 12, 13, 14, 15}"
  by (simp; arith)

lemma from_hex_digit: "n < 16 \<Longrightarrow> from_hex (hex_digits ! n) = Some n"
  by (drule less_16_cases) (auto simp: from_hex_def hex_digits_def)

lemma byte_recombine: "of_nat (unat b div 16 * 16 + unat b mod 16) = (b :: 8 word)"
  by (simp only: div_mult_mod_eq) simp

theorem hex_DecodeString_fmt_x: "hex_DecodeString (fmt_x bs) = Ok bs"
proof (induction bs)
  case (Cons b bs)
  have "unat b div 16 < 16" using unat_lt_256 [of b] by arith
  with Cons show ?case
    by (simp add: fmt_x_def from_hex_digit byte_recombine [simplified])
qed (simp add: fmt_x_def)

lemma fmt_x_inject [simp]: "(fmt_x a = fmt_x b) = (a = b)"
  by (metis hex_DecodeString_fmt_x go.inject(1))

section \<open>Base64\<close>

text \<open>
  Three bytes become four six-bit groups; a rest of one or two bytes becomes two or three
  groups, followed by padding in the padded encodings.
\<close>

fun sextets :: "nat list \<Rightarrow> nat list" where
  "sextets [] = []"
| "sextets [a] = [a div 4, (a mod 4) * 16]"
| "sextets [a, b] = [a div 4, (a mod 4) * 16 + b div 16, (b mod 16) * 4]"
| "sextets (a # b # c # r) =
     [a div 4, (a mod 4) * 16 + b div 16, (b mod 16) * 4 + c div 64, c mod 64] @ sextets r"

definition b64_std :: string where
  "b64_std = ''ABCDEFGHIJKLMNOPQRSTUVWXYZabcdefghijklmnopqrstuvwxyz0123456789+/''"

definition b64_url :: string where
  "b64_url = ''ABCDEFGHIJKLMNOPQRSTUVWXYZabcdefghijklmnopqrstuvwxyz0123456789-_''"

definition b64_padding :: "nat \<Rightarrow> string" where
  "b64_padding n = (if n mod 3 = 1 then ''=='' else if n mod 3 = 2 then ''='' else '''')"

definition StdEncoding :: "bytes \<Rightarrow> string" where
  "StdEncoding bs = map ((!) b64_std) (sextets (map unat bs)) @ b64_padding (length bs)"

definition RawURLEncoding :: "bytes \<Rightarrow> string" where
  "RawURLEncoding bs = map ((!) b64_url) (sextets (map unat bs))"

lemma sextets_length: "length (sextets xs) = (4 * length xs + 2) div 3"
  by (induction xs rule: sextets.induct) auto

lemma sextets_bound: "\<forall>x\<in>set xs. x < 256 \<Longrightarrow> \<forall>s\<in>set (sextets xs). s < 64"
  by (induction xs rule: sextets.induct) auto

lemma sextets_inject:
  "\<forall>x\<in>set xs. x < 256 \<Longrightarrow> \<forall>y\<in>set ys. y < 256 \<Longrightarrow> sextets xs = sextets ys \<Longrightarrow> xs = ys"
proof (induction xs arbitrary: ys rule: sextets.induct)
  case 1
  then show ?case by (cases ys rule: sextets.cases) auto
next
  case (2 a)
  then show ?case
    by (cases ys rule: sextets.cases) (auto, metis divmod_inject)
next
  case (3 a b)
  then show ?case
  proof (cases ys rule: sextets.cases)
    case (3 a' b')
    with "3.prems" have lt: "b div 16 < 16" "b' div 16 < 16" by auto
    from 3 "3.prems" have "a div 4 = a' div 4" "b mod 16 = b' mod 16"
      and "a mod 4 * 16 + b div 16 = a' mod 4 * 16 + b' div 16" by auto
    moreover from this(3) have "a mod 4 = a' mod 4" "b div 16 = b' div 16"
      by (simp_all only: two_digits_inject [OF lt])
    ultimately show ?thesis
      using 3 divmod_inject [of a 4 a'] divmod_inject [of b 16 b'] by simp
  qed auto
next
  case (4 a b c r)
  note prems = "4.prems" and IH = "4.IH"
  from prems(3) show ?case
  proof (cases ys rule: sextets.cases)
    case (4 a' b' c' r')
    have lt: "b div 16 < 16" "b' div 16 < 16" "c div 64 < 4" "c' div 64 < 4"
      using prems(1,2) 4 by auto
    have eqs: "a div 4 = a' div 4" "(a mod 4) * 16 + b div 16 = (a' mod 4) * 16 + b' div 16"
        "(b mod 16) * 4 + c div 64 = (b' mod 16) * 4 + c' div 64"
        "c mod 64 = c' mod 64" "sextets r = sextets r'"
      using prems(3) 4 by simp_all
    have "r = r'" using IH [of r'] prems(1,2) 4 eqs(5) by simp
    moreover from eqs(2) have "a mod 4 = a' mod 4" "b div 16 = b' div 16"
      by (simp_all only: two_digits_inject [OF lt(1,2)])
    moreover from eqs(3) have "b mod 16 = b' mod 16" "c div 64 = c' div 64"
      by (simp_all only: two_digits_inject [OF lt(3,4)])
    ultimately show ?thesis
      using 4 eqs(1,4) divmod_inject [of a 4 a'] divmod_inject [of b 16 b'] divmod_inject [of c 64 c']
      by simp
  qed simp_all
qed

lemma b64_alphabets: "length b64_std = 64" "length b64_url = 64" "distinct b64_std" "distinct b64_url"
  by (simp_all add: b64_std_def b64_url_def)

lemma map_nth_inject:
  assumes "distinct al" and "\<forall>x\<in>set xs. x < length al" and "\<forall>y\<in>set ys. y < length al"
  shows "(map ((!) al) xs = map ((!) al) ys) = (xs = ys)"
proof -
  have "inj_on ((!) al) (set xs \<union> set ys)"
    using assms by (auto intro!: inj_onI simp: nth_eq_iff_index_eq)
  then show ?thesis by (simp add: inj_on_map_eq_map)
qed

lemma sextets_unat_bound [simp]: "\<forall>s\<in>set (sextets (map unat (bs :: bytes))). s < 64"
  by (rule sextets_bound) simp

lemma sextets_unat_inject: "(sextets (map unat a) = sextets (map unat b)) = (a = (b :: bytes))"
  using sextets_inject [of "map unat a" "map unat b"] by auto

theorem RawURLEncoding_inject [simp]: "(RawURLEncoding a = RawURLEncoding b) = (a = b)"
  by (simp add: RawURLEncoding_def map_nth_inject b64_alphabets sextets_unat_inject)

lemma b64_std_no_pad: "n < 64 \<Longrightarrow> b64_std ! n \<noteq> CHR ''=''"
proof -
  assume "n < 64"
  then have "b64_std ! n \<in> set b64_std" by (simp add: b64_alphabets)
  moreover have "CHR ''='' \<notin> set b64_std" by (simp add: b64_std_def)
  ultimately show ?thesis by metis
qed

lemma filter_StdEncoding:
  "filter (\<lambda>c. c \<noteq> CHR ''='') (StdEncoding bs) = map ((!) b64_std) (sextets (map unat bs))"
proof -
  have "filter (\<lambda>c. c \<noteq> CHR ''='') (map ((!) b64_std) (sextets (map unat bs))) =
      map ((!) b64_std) (sextets (map unat bs))"
    using sextets_unat_bound [of bs] by (auto simp: filter_id_conv b64_std_no_pad)
  then show ?thesis by (simp add: StdEncoding_def b64_padding_def)
qed

theorem StdEncoding_inject [simp]: "(StdEncoding a = StdEncoding b) = (a = b)"
proof
  assume "StdEncoding a = StdEncoding b"
  then have "map ((!) b64_std) (sextets (map unat a)) = map ((!) b64_std) (sextets (map unat b))"
    by (metis filter_StdEncoding)
  then show "a = b" by (simp add: map_nth_inject b64_alphabets sextets_unat_inject)
qed simp

lemma StdEncoding_length: "length (StdEncoding bs) = 4 * ((length bs + 2) div 3)"
proof -
  have "(4 * n + 2) div 3 + length (b64_padding n) = 4 * ((n + 2) div 3)" for n
  proof -
    have "n mod 3 = 0 \<or> n mod 3 = 1 \<or> n mod 3 = 2" by linarith
    then have "n = 3 * (n div 3) \<or> n = 3 * (n div 3) + 1 \<or> n = 3 * (n div 3) + 2"
      by presburger
    then obtain k where "n = 3 * k \<or> n = 3 * k + 1 \<or> n = 3 * k + 2" ..
    then show ?thesis by (elim disjE) (simp_all add: b64_padding_def mod_Suc div_Suc)
  qed
  then show ?thesis by (simp add: StdEncoding_def sextets_length)
qed

lemma RawURLEncoding_chars: "set (RawURLEncoding bs) \<subseteq> set b64_url"
proof
  fix c
  assume "c \<in> set (RawURLEncoding bs)"
  then obtain n where "n \<in> set (sextets (map unat bs))" and c: "c = b64_url ! n"
    by (auto simp: RawURLEncoding_def)
  with sextets_unat_bound [of bs] have "n < 64" by blast
  with c show "c \<in> set b64_url" by (simp add: b64_alphabets)
qed

lemma RawURLEncoding_no_dot [simp]: "CHR ''.'' \<notin> set (RawURLEncoding bs)"
proof -
  have "CHR ''.'' \<notin> set b64_url" by (simp add: b64_url_def)
  with RawURLEncoding_chars show ?thesis by blast
qed

section \<open>Byte sequences\<close>

text \<open>\<open>bytes.Contains(b, sub)\<close>.\<close>

fun bytes_contains :: "bytes \<Rightarrow> bytes \<Rightarrow> bool" where
  "bytes_contains [] sub = (sub = [])"
| "bytes_contains (x # xs) sub = (prefix sub (x # xs) \<or> bytes_contains xs sub)"

lemma bytes_contains_sublist: "bytes_contains b sub = sublist sub b"
  by (induction b) (auto simp: sublist_Cons_right)

definition string_bytes :: "string \<Rightarrow> bytes" where
  "string_bytes s = map of_char s"

end
