(* ===== verification/Immudb_Types.thy ===== *)
theory Immudb_Types
  imports Go_Strings
begin

text \<open>
  What the client uses of immudb (\<open>github.com/codenotary/immudb\<close>), which is not in this
  repository.

  The messages of \<open>immudb/pkg/api/schema\<close> are records of the fields the client reads or
  writes, a \<open>float64\<close> being its 64 bits; what it only forwards is a \<open>wire\<close> field. The functions of
  \<open>embedded/store\<close>, \<open>pkg/database\<close> and \<open>pkg/api/schema\<close> it calls are the
  fields of the record \<open>immudb\<close>, over types of their own that stay variables:
  \<open>'ip\<close> inclusion proofs, \<open>'dp\<close> dual proofs, \<open>'tx\<close> transactions,
  \<open>'md\<close> key-value metadata, \<open>'es\<close> entry specifications and \<open>'k\<close> public
  keys. Every definition that verifies takes such a record \<open>F\<close>; nothing is assumed of it
  except by a named hypothesis.
\<close>

section \<open>Messages\<close>

record ImmutableState =
  ImmutableState_Db :: string
  ImmutableState_TxId :: u64
  ImmutableState_TxHash :: bytes
  ImmutableState_Signature :: "wire option"

record KeyRequest =
  KeyRequest_Key :: bytes
  KeyRequest_AtTx :: u64
  KeyRequest_SinceTx :: u64

record KeyValue =
  KeyValue_Key :: bytes
  KeyValue_Value :: bytes

record SetRequest =
  SetRequest_KVs :: "KeyValue list"

record VerifiableSetRequest =
  VerifiableSetRequest_SetRequest :: SetRequest
  VerifiableSetRequest_ProveSinceTx :: u64

record VerifiableGetRequest =
  VerifiableGetRequest_KeyRequest :: "KeyRequest option"
  VerifiableGetRequest_ProveSinceTx :: u64

record TxHeader =
  TxHeader_Id :: u64
  TxHeader_Version :: i32
  TxHeader_Nentries :: i32
  TxHeader_EH :: bytes
  TxHeader_rest :: wire

record Tx =
  Tx_Header :: "TxHeader option"
  Tx_Entries :: "wire list"

record DualProof =
  DualProof_SourceTxHeader :: "TxHeader option"
  DualProof_TargetTxHeader :: "TxHeader option"
  DualProof_rest :: wire

record VerifiableTx =
  VerifiableTx_Tx :: "Tx option"
  VerifiableTx_DualProof :: "DualProof option"
  VerifiableTx_Signature :: "wire option"

record Reference =
  Reference_Tx :: u64
  Reference_Key :: bytes
  Reference_Metadata :: "wire option"
  Reference_AtTx :: u64

record Entry =
  Entry_Tx :: u64
  Entry_Key :: bytes
  Entry_Value :: bytes
  Entry_Metadata :: "wire option"
  Entry_ReferencedBy :: "Reference option"
  Entry_rest :: wire

record VerifiableEntry =
  VerifiableEntry_Entry :: "Entry option"
  VerifiableEntry_VerifiableTx :: "VerifiableTx option"
  VerifiableEntry_InclusionProof :: "wire option"

record Entries =
  Entries_Entries :: "Entry list"

record ZEntry =
  ZEntry_Set :: bytes
  ZEntry_Key :: bytes
  ZEntry_Score :: u64
  ZEntry_rest :: wire

record ZEntries =
  ZEntries_Entries :: "ZEntry list"

text \<open>Messages the client only passes on: their kind and their encoding.\<close>

datatype immudb_message =
    KeyListRequest | ExecAllRequest | ScanRequest | HistoryRequest | ZAddRequest
  | VerifiableZAddRequest | ZScanRequest | HealthResponse | Chunk

definition zero_ImmutableState :: ImmutableState where
  "zero_ImmutableState = \<lparr>ImmutableState_Db = '''', ImmutableState_TxId = 0,
     ImmutableState_TxHash = [], ImmutableState_Signature = None\<rparr>"

definition zero_TxHeader :: TxHeader where
  "zero_TxHeader = \<lparr>TxHeader_Id = 0, TxHeader_Version = 0, TxHeader_Nentries = 0, TxHeader_EH = [],
     TxHeader_rest = []\<rparr>"

definition zero_Entry :: Entry where
  "zero_Entry = \<lparr>Entry_Tx = 0, Entry_Key = [], Entry_Value = [], Entry_Metadata = None,
     Entry_ReferencedBy = None, Entry_rest = []\<rparr>"

definition zero_VerifiableTx :: VerifiableTx where
  "zero_VerifiableTx = \<lparr>VerifiableTx_Tx = None, VerifiableTx_DualProof = None,
     VerifiableTx_Signature = None\<rparr>"

definition zero_VerifiableEntry :: VerifiableEntry where
  "zero_VerifiableEntry = \<lparr>VerifiableEntry_Entry = None, VerifiableEntry_VerifiableTx = None,
     VerifiableEntry_InclusionProof = None\<rparr>"

definition zero_Entries :: Entries where
  "zero_Entries = \<lparr>Entries_Entries = []\<rparr>"

definition zero_ZEntries :: ZEntries where
  "zero_ZEntries = \<lparr>ZEntries_Entries = []\<rparr>"

section \<open>Functions\<close>

text \<open>
  The types say what each function may do: one that reads through pointers taken from a server
  message returns a \<open>go\<close> value, since it may panic; \<open>dual_target_alh dp\<close> is
  \<^verbatim>\<open>dualProof.TargetTxHeader.Alh()\<close>, \<open>tx_entries_md tx\<close> the list of
  \<^verbatim>\<open>e.Metadata()\<close> for the entries of \<^verbatim>\<open>tx.Entries()\<close>, and \<open>CheckSignature st k\<close>
  is \<^verbatim>\<open>st.CheckSignature(k)\<close>.
\<close>

record ('ip, 'dp, 'tx, 'md, 'es, 'k) immudb =
  EntrySpecDigestFor :: "int \<Rightarrow> ('es \<Rightarrow> bytes) go"
  InclusionProofFromProto :: "wire option \<Rightarrow> 'ip go"
  DualProofFromProto :: "DualProof option \<Rightarrow> 'dp go"
  DigestFromProto :: "bytes \<Rightarrow> bytes"
  KVMetadataFromProto :: "wire option \<Rightarrow> 'md option"
  TxFromProto :: "Tx option \<Rightarrow> 'tx go"
  EncodeKey :: "bytes \<Rightarrow> bytes"
  EncodeEntrySpec :: "bytes \<Rightarrow> 'md option \<Rightarrow> bytes \<Rightarrow> 'es"
  EncodeReference :: "bytes \<Rightarrow> 'md option \<Rightarrow> bytes \<Rightarrow> u64 \<Rightarrow> 'es"
  VerifyInclusion :: "'ip \<Rightarrow> bytes \<Rightarrow> bytes \<Rightarrow> bool"
  VerifyDualProof :: "'dp \<Rightarrow> u64 \<Rightarrow> u64 \<Rightarrow> bytes \<Rightarrow> bytes \<Rightarrow> bool"
  dual_source_alh :: "'dp \<Rightarrow> bytes go"
  dual_target_alh :: "'dp \<Rightarrow> bytes go"
  tx_header_version :: "'tx \<Rightarrow> int"
  tx_header_eh :: "'tx \<Rightarrow> bytes"
  tx_header_id :: "'tx \<Rightarrow> u64"
  tx_header_alh :: "'tx \<Rightarrow> bytes go"
  tx_proof :: "'tx \<Rightarrow> bytes \<Rightarrow> 'ip go"
  tx_entries_md :: "'tx \<Rightarrow> 'md option list"
  md_deleted :: "'md \<Rightarrow> bool"
  CheckSignature :: "ImmutableState \<Rightarrow> 'k \<Rightarrow> unit go"

text \<open>
  Documented behaviour of \<open>store.VerifyDualProof\<close>: a proof of linear advancement goes from
  an older transaction to one that is not older. It is a hypothesis where a property needs it.
\<close>

definition dual_proof_ordered :: "('ip, 'dp, 'tx, 'md, 'es, 'k) immudb \<Rightarrow> bool" where
  "dual_proof_ordered F =
     (\<forall>dp s t sa ta. VerifyDualProof F dp s t sa ta \<longrightarrow> s \<le> t)"

text \<open>
  What a dual proof is for: the history that ends in the target contains the one that ends in the source. A
  history is known by its last transaction and the accumulated hash there; \<open>extends\<close> is any notion of one
  history continuing another that accepted proofs respect.
\<close>

definition dual_proof_extends ::
    "('ip, 'dp, 'tx, 'md, 'es, 'k) immudb \<Rightarrow> (u64 \<times> bytes \<Rightarrow> u64 \<times> bytes \<Rightarrow> bool) \<Rightarrow> bool" where
  "dual_proof_extends F extends =
     (reflp extends \<and> transp extends \<and>
      (\<forall>dp s t sa ta. VerifyDualProof F dp s t sa ta \<longrightarrow> extends (s, sa) (t, DigestFromProto F ta)))"

text \<open>The history a trusted state stands for. \<open>DigestFromProto\<close> cuts or pads a hash to its length.\<close>

definition history_of :: "('ip, 'dp, 'tx, 'md, 'es, 'k) immudb \<Rightarrow> ImmutableState \<Rightarrow> u64 \<times> bytes" where
  "history_of F st = (ImmutableState_TxId st, DigestFromProto F (ImmutableState_TxHash st))"

text \<open>States are ordered by their transactions.\<close>

instantiation ImmutableState_ext :: (type) preorder
begin

definition less_eq_ImmutableState_ext :: "'a ImmutableState_scheme \<Rightarrow> 'a ImmutableState_scheme \<Rightarrow> bool" where
  state_le [simp]: "s \<le> t \<longleftrightarrow> ImmutableState_TxId s \<le> ImmutableState_TxId t"

definition less_ImmutableState_ext :: "'a ImmutableState_scheme \<Rightarrow> 'a ImmutableState_scheme \<Rightarrow> bool" where
  state_less [simp]: "s < t \<longleftrightarrow> ImmutableState_TxId s < ImmutableState_TxId t"

instance
  by standard auto

end

end
