(* ===== verification/Lc_Messages.thy ===== *)
theory Lc_Messages
  imports Immudb_Types
begin

text \<open>
  The messages and enums of the ledger-compliance service (\<open>schema/lc.pb.go\<close>): one record
  per message, named and ordered as the Go struct, with its fields prefixed by the message's name
  (the message \<open>Entry\<close> is \<open>LcEntry\<close>, since immudb has an \<open>Entry\<close> too);
  \<open>zero_M\<close> is the value a message has after \<open>Reset\<close>, which is what \<open>new(M)\<close>
  gives. Enums are open in proto3: a value is any \<open>int32\<close>, with constants for the declared
  ones and the two tables the generated code keeps. The bookkeeping fields \<open>state\<close>,
  \<open>sizeCache\<close> and \<open>unknownFields\<close> of the protobuf run time are left out.
\<close>

section \<open>Enums\<close>

definition VCNDependency_Direct :: i32 where
  "VCNDependency_Direct = 0"

definition VCNDependency_Indirect :: i32 where
  "VCNDependency_Indirect = 1"

definition VCNDependency_Base :: i32 where
  "VCNDependency_Base = 2"

definition VCNDependency_Type_name :: "(i32 \<times> string) list" where
  "VCNDependency_Type_name = [(0, ''Direct''), (1, ''Indirect''), (2, ''Base'')]"

definition VCNDependency_Type_value :: "(string \<times> i32) list" where
  "VCNDependency_Type_value = [(''Direct'', 0), (''Indirect'', 1), (''Base'', 2)]"

definition VCNSearchRequest_Artifact :: i32 where
  "VCNSearchRequest_Artifact = 0"

definition VCNSearchRequest_Dependencies :: i32 where
  "VCNSearchRequest_Dependencies = 1"

definition VCNSearchRequest_WhatIncludes :: i32 where
  "VCNSearchRequest_WhatIncludes = 2"

definition VCNSearchRequest_ArtifactTimed :: i32 where
  "VCNSearchRequest_ArtifactTimed = 4"

definition VCNSearchRequest_Attachment :: i32 where
  "VCNSearchRequest_Attachment = 5"

definition VCNSearchRequest_ByApiKey :: i32 where
  "VCNSearchRequest_ByApiKey = 6"

definition VCNSearchRequest_ByName :: i32 where
  "VCNSearchRequest_ByName = 7"

definition VCNSearchRequest_History :: i32 where
  "VCNSearchRequest_History = 8"

definition VCNSearchRequest_Type_name :: "(i32 \<times> string) list" where
  "VCNSearchRequest_Type_name = [(0, ''Artifact''), (1, ''Dependencies''), (2,
     ''WhatIncludes''), (4, ''ArtifactTimed''), (5, ''Attachment''), (6, ''ByApiKey''),
     (7, ''ByName''), (8, ''History'')]"

definition VCNSearchRequest_Type_value :: "(string \<times> i32) list" where
  "VCNSearchRequest_Type_value = [(''Artifact'', 0), (''Dependencies'', 1),
     (''WhatIncludes'', 2), (''ArtifactTimed'', 4), (''Attachment'', 5), (''ByApiKey'',
     6), (''ByName'', 7), (''History'', 8)]"

definition VCNSearchRequest_Direct :: i32 where
  "VCNSearchRequest_Direct = 0"

definition VCNSearchRequest_Indirect :: i32 where
  "VCNSearchRequest_Indirect = 1"

definition VCNSearchRequest_Base :: i32 where
  "VCNSearchRequest_Base = 2"

definition VCNSearchRequest_ArtifactType_name :: "(i32 \<times> string) list" where
  "VCNSearchRequest_ArtifactType_name = [(0, ''Direct''), (1, ''Indirect''), (2,
     ''Base'')]"

definition VCNSearchRequest_ArtifactType_value :: "(string \<times> i32) list" where
  "VCNSearchRequest_ArtifactType_value = [(''Direct'', 0), (''Indirect'', 1), (''Base'',
     2)]"

definition VCNLabelsUpdateRequest_ADD :: i32 where
  "VCNLabelsUpdateRequest_ADD = 0"

definition VCNLabelsUpdateRequest_DELETE :: i32 where
  "VCNLabelsUpdateRequest_DELETE = 1"

definition VCNLabelsUpdateRequest_VCNLabelsOpType_name :: "(i32 \<times> string) list" where
  "VCNLabelsUpdateRequest_VCNLabelsOpType_name = [(0, ''ADD''), (1, ''DELETE'')]"

definition VCNLabelsUpdateRequest_VCNLabelsOpType_value :: "(string \<times> i32) list" where
  "VCNLabelsUpdateRequest_VCNLabelsOpType_value = [(''ADD'', 0), (''DELETE'', 1)]"

section \<open>Messages\<close>

record TamperReport =
  TamperReport_Index :: u64
  TamperReport_Key :: bytes
  TamperReport_Root :: bytes

record ReportOptions =
  ReportOptions_Payload :: "TamperReport option"
  ReportOptions_Signature :: "wire option"

record DataValue =
  DataValue_Name :: string
  DataValue_Type :: string
  DataValue_Value :: bytes

record Data =
  Data_Key :: string
  Data_MsgID :: i64
  Data_DbName :: string
  Data_TableName :: string
  Data_Operation :: string
  Data_Data :: bytes

record Response =
  Response_Status :: i32
  Response_Msg :: string
  Response_MsgID :: i64
  Response_VerifiableTx :: "VerifiableTx option"
  Response_State :: "ImmutableState option"

record VerifiableItemExt =
  VerifiableItemExt_Item :: "VerifiableEntry option"
  VerifiableItemExt_Timestamp :: "wire option"
  VerifiableItemExt_ApikeyRevoked :: "wire option"
  VerifiableItemExt_LedgerName :: string
  VerifiableItemExt_PublicKey :: string
  VerifiableItemExt_UID :: string

record ItemExt =
  ItemExt_Item :: "Entry option"
  ItemExt_Timestamp :: "wire option"
  ItemExt_ApikeyRevoked :: "wire option"
  ItemExt_LedgerName :: string
  ItemExt_PublicKey :: string
  ItemExt_UID :: string

record ItemExtList =
  ItemExtList_Items :: "ItemExt option list"

record ZItemExt =
  ZItemExt_Item :: "ZEntry option"
  ZItemExt_Timestamp :: "wire option"
  ZItemExt_ApikeyRevoked :: "wire option"
  ZItemExt_LedgerName :: string
  ZItemExt_PublicKey :: string
  ZItemExt_UID :: string

record ZItemExtList =
  ZItemExtList_Items :: "ZItemExt option list"

record Features =
  Features_Feat :: "string list"
  Features_Version :: string
  Features_BuildTime :: string
  Features_Component :: string

record VerifiableGetExtMultiRequest =
  VerifiableGetExtMultiRequest_Requests :: "VerifiableGetRequest option list"

record VerifiableGetExtMultiResponse =
  VerifiableGetExtMultiResponse_Items :: "VerifiableItemExt option list"
  VerifiableGetExtMultiResponse_Errors :: "string list"

record SetMultiRequest =
  SetMultiRequest_Requests :: "SetRequest option list"

record SetMultiResponse =
  SetMultiResponse_Transactions :: "TxHeader option list"
  SetMultiResponse_Errors :: "string list"

record VCNAttachment =
  VCNAttachment_Content :: bytes
  VCNAttachment_Signature :: bytes

record VCNDependency =
  VCNDependency_Hash :: string
  VCNDependency_Type :: i32

record VCNArtifact =
  VCNArtifact_Artifact :: bytes
  VCNArtifact_Signature :: bytes
  VCNArtifact_Dependencies :: "VCNDependency option list"
  VCNArtifact_Attachments :: "VCNAttachment option list"

record VCNArtifactsRequest =
  VCNArtifactsRequest_Artifacts :: "VCNArtifact option list"
  VCNArtifactsRequest_SignedAt :: "wire option"

record VCNArtifactsGetRequest =
  VCNArtifactsGetRequest_Hashes :: "string list"
  VCNArtifactsGetRequest_Verify :: bool
  VCNArtifactsGetRequest_ProveSinceTx :: u64
  VCNArtifactsGetRequest_UID :: string
  VCNArtifactsGetRequest_SignerID :: string

record Proof =
  Proof_VerifiableTx :: "VerifiableTx option"
  Proof_InclusionProof :: "wire option"
  Proof_Metadata :: "wire option"
  Proof_ImmudbFullKey :: bytes

record VCNArtifactsResponse =
  VCNArtifactsResponse_Transaction :: "TxHeader option"

record VCNSearchRequest =
  VCNSearchRequest_Hash :: string
  VCNSearchRequest_SignerID :: string
  VCNSearchRequest_AType :: i32
  VCNSearchRequest_Type :: i32
  VCNSearchRequest_Limit :: u64
  VCNSearchRequest_Desc :: bool
  VCNSearchRequest_StartTS :: i64
  VCNSearchRequest_EndTS :: i64
  VCNSearchRequest_AttachName :: string
  VCNSearchRequest_ArtifactName :: string
  VCNSearchRequest_UID :: string
  VCNSearchRequest_ContinuationToken :: bytes

record LcEntry =
  LcEntry_Key :: bytes
  LcEntry_Value :: bytes
  LcEntry_Tx :: u64
  LcEntry_Timestamp :: "wire option"
  LcEntry_ApikeyRevoked :: "wire option"
  LcEntry_LedgerName :: string
  LcEntry_Proof :: "Proof option"
  LcEntry_PublicKey :: string
  LcEntry_UID :: string

record EntryList =
  EntryList_Entries :: "LcEntry option list"
  EntryList_ContinuationToken :: bytes

record VCNLabelsUpdateResponse =
  VCNLabelsUpdateResponse_Transaction :: "TxHeader option"

record LabelsSetRequest =
  LabelsSetRequest_Hash :: string
  LabelsSetRequest_Labels :: "string list"

record VCNLabelsSetRequest =
  VCNLabelsSetRequest_Request :: "LabelsSetRequest option list"

record VCNLabelsSetResponse =
  VCNLabelsSetResponse_Transaction :: "TxHeader option"

record LabelsGetRequest =
  LabelsGetRequest_Hash :: string
  LabelsGetRequest_SignerID :: string

record VCNLabelsGetRequest =
  VCNLabelsGetRequest_Request :: "LabelsGetRequest option list"

record LabelsGetResponse =
  LabelsGetResponse_Hash :: string
  LabelsGetResponse_Labels :: "string list"

record VCNLabelsGetResponse =
  VCNLabelsGetResponse_Response :: "LabelsGetResponse option list"

record VCNGetAttachmentRequest =
  VCNGetAttachmentRequest_SignerID :: string
  VCNGetAttachmentRequest_ArtifactHash :: string
  VCNGetAttachmentRequest_AttachmentHash :: string

record VCNGetAttachmentResponse =
  VCNGetAttachmentResponse_Attachment :: bytes

record VCNGetClientSignatureRequest =
  VCNGetClientSignatureRequest_ArtifactHash :: string
  VCNGetClientSignatureRequest_SignerID :: string
  VCNGetClientSignatureRequest_AtTx :: u64

record VCNGetClientSignatureResponse =
  VCNGetClientSignatureResponse_SignatureJSON :: bytes

record VCNLabelsOp =
  VCNLabelsOp_OpType :: i32
  VCNLabelsOp_Labels :: "string list"

record VCNLabelsUpdateRequest =
  VCNLabelsUpdateRequest_Hash :: string
  VCNLabelsUpdateRequest_Ops :: "VCNLabelsOp option list"

section \<open>Zero values\<close>

definition zero_TamperReport :: TamperReport where
  "zero_TamperReport = \<lparr>TamperReport_Index = 0, TamperReport_Key = [],
     TamperReport_Root = []\<rparr>"

definition zero_ReportOptions :: ReportOptions where
  "zero_ReportOptions = \<lparr>ReportOptions_Payload = None,
     ReportOptions_Signature = None\<rparr>"

definition zero_DataValue :: DataValue where
  "zero_DataValue = \<lparr>DataValue_Name = '''', DataValue_Type = '''',
     DataValue_Value = []\<rparr>"

definition zero_Data :: Data where
  "zero_Data = \<lparr>Data_Key = '''', Data_MsgID = 0, Data_DbName = '''',
     Data_TableName = '''', Data_Operation = '''', Data_Data = []\<rparr>"

definition zero_Response :: Response where
  "zero_Response = \<lparr>Response_Status = 0, Response_Msg = '''', Response_MsgID = 0,
     Response_VerifiableTx = None, Response_State = None\<rparr>"

definition zero_VerifiableItemExt :: VerifiableItemExt where
  "zero_VerifiableItemExt = \<lparr>VerifiableItemExt_Item = None,
     VerifiableItemExt_Timestamp = None, VerifiableItemExt_ApikeyRevoked = None,
     VerifiableItemExt_LedgerName = '''', VerifiableItemExt_PublicKey = '''',
     VerifiableItemExt_UID = ''''\<rparr>"

definition zero_ItemExt :: ItemExt where
  "zero_ItemExt = \<lparr>ItemExt_Item = None, ItemExt_Timestamp = None,
     ItemExt_ApikeyRevoked = None, ItemExt_LedgerName = '''', ItemExt_PublicKey = '''',
     ItemExt_UID = ''''\<rparr>"

definition zero_ItemExtList :: ItemExtList where
  "zero_ItemExtList = \<lparr>ItemExtList_Items = []\<rparr>"

definition zero_ZItemExt :: ZItemExt where
  "zero_ZItemExt = \<lparr>ZItemExt_Item = None, ZItemExt_Timestamp = None,
     ZItemExt_ApikeyRevoked = None, ZItemExt_LedgerName = '''', ZItemExt_PublicKey = '''',
     ZItemExt_UID = ''''\<rparr>"

definition zero_ZItemExtList :: ZItemExtList where
  "zero_ZItemExtList = \<lparr>ZItemExtList_Items = []\<rparr>"

definition zero_Features :: Features where
  "zero_Features = \<lparr>Features_Feat = [], Features_Version = '''',
     Features_BuildTime = '''', Features_Component = ''''\<rparr>"

definition zero_VerifiableGetExtMultiRequest :: VerifiableGetExtMultiRequest where
  "zero_VerifiableGetExtMultiRequest = \<lparr>
     VerifiableGetExtMultiRequest_Requests = []\<rparr>"

definition zero_VerifiableGetExtMultiResponse :: VerifiableGetExtMultiResponse where
  "zero_VerifiableGetExtMultiResponse = \<lparr>VerifiableGetExtMultiResponse_Items = [],
     VerifiableGetExtMultiResponse_Errors = []\<rparr>"

definition zero_SetMultiRequest :: SetMultiRequest where
  "zero_SetMultiRequest = \<lparr>SetMultiRequest_Requests = []\<rparr>"

definition zero_SetMultiResponse :: SetMultiResponse where
  "zero_SetMultiResponse = \<lparr>SetMultiResponse_Transactions = [],
     SetMultiResponse_Errors = []\<rparr>"

definition zero_VCNAttachment :: VCNAttachment where
  "zero_VCNAttachment = \<lparr>VCNAttachment_Content = [],
     VCNAttachment_Signature = []\<rparr>"

definition zero_VCNDependency :: VCNDependency where
  "zero_VCNDependency = \<lparr>VCNDependency_Hash = '''', VCNDependency_Type = 0\<rparr>"

definition zero_VCNArtifact :: VCNArtifact where
  "zero_VCNArtifact = \<lparr>VCNArtifact_Artifact = [], VCNArtifact_Signature = [],
     VCNArtifact_Dependencies = [], VCNArtifact_Attachments = []\<rparr>"

definition zero_VCNArtifactsRequest :: VCNArtifactsRequest where
  "zero_VCNArtifactsRequest = \<lparr>VCNArtifactsRequest_Artifacts = [],
     VCNArtifactsRequest_SignedAt = None\<rparr>"

definition zero_VCNArtifactsGetRequest :: VCNArtifactsGetRequest where
  "zero_VCNArtifactsGetRequest = \<lparr>VCNArtifactsGetRequest_Hashes = [],
     VCNArtifactsGetRequest_Verify = False, VCNArtifactsGetRequest_ProveSinceTx = 0,
     VCNArtifactsGetRequest_UID = '''', VCNArtifactsGetRequest_SignerID = ''''\<rparr>"

definition zero_Proof :: Proof where
  "zero_Proof = \<lparr>Proof_VerifiableTx = None, Proof_InclusionProof = None,
     Proof_Metadata = None, Proof_ImmudbFullKey = []\<rparr>"

definition zero_VCNArtifactsResponse :: VCNArtifactsResponse where
  "zero_VCNArtifactsResponse = \<lparr>VCNArtifactsResponse_Transaction = None\<rparr>"

definition zero_VCNSearchRequest :: VCNSearchRequest where
  "zero_VCNSearchRequest = \<lparr>VCNSearchRequest_Hash = '''',
     VCNSearchRequest_SignerID = '''', VCNSearchRequest_AType = 0, VCNSearchRequest_Type = 0,
     VCNSearchRequest_Limit = 0, VCNSearchRequest_Desc = False, VCNSearchRequest_StartTS = 0,
     VCNSearchRequest_EndTS = 0, VCNSearchRequest_AttachName = '''',
     VCNSearchRequest_ArtifactName = '''', VCNSearchRequest_UID = '''',
     VCNSearchRequest_ContinuationToken = []\<rparr>"

definition zero_LcEntry :: LcEntry where
  "zero_LcEntry = \<lparr>LcEntry_Key = [], LcEntry_Value = [], LcEntry_Tx = 0,
     LcEntry_Timestamp = None, LcEntry_ApikeyRevoked = None, LcEntry_LedgerName = '''',
     LcEntry_Proof = None, LcEntry_PublicKey = '''', LcEntry_UID = ''''\<rparr>"

definition zero_EntryList :: EntryList where
  "zero_EntryList = \<lparr>EntryList_Entries = [], EntryList_ContinuationToken = []\<rparr>"

definition zero_VCNLabelsUpdateResponse :: VCNLabelsUpdateResponse where
  "zero_VCNLabelsUpdateResponse = \<lparr>VCNLabelsUpdateResponse_Transaction = None\<rparr>"

definition zero_LabelsSetRequest :: LabelsSetRequest where
  "zero_LabelsSetRequest = \<lparr>LabelsSetRequest_Hash = '''',
     LabelsSetRequest_Labels = []\<rparr>"

definition zero_VCNLabelsSetRequest :: VCNLabelsSetRequest where
  "zero_VCNLabelsSetRequest = \<lparr>VCNLabelsSetRequest_Request = []\<rparr>"

definition zero_VCNLabelsSetResponse :: VCNLabelsSetResponse where
  "zero_VCNLabelsSetResponse = \<lparr>VCNLabelsSetResponse_Transaction = None\<rparr>"

definition zero_LabelsGetRequest :: LabelsGetRequest where
  "zero_LabelsGetRequest = \<lparr>LabelsGetRequest_Hash = '''',
     LabelsGetRequest_SignerID = ''''\<rparr>"

definition zero_VCNLabelsGetRequest :: VCNLabelsGetRequest where
  "zero_VCNLabelsGetRequest = \<lparr>VCNLabelsGetRequest_Request = []\<rparr>"

definition zero_LabelsGetResponse :: LabelsGetResponse where
  "zero_LabelsGetResponse = \<lparr>LabelsGetResponse_Hash = '''',
     LabelsGetResponse_Labels = []\<rparr>"

definition zero_VCNLabelsGetResponse :: VCNLabelsGetResponse where
  "zero_VCNLabelsGetResponse = \<lparr>VCNLabelsGetResponse_Response = []\<rparr>"

definition zero_VCNGetAttachmentRequest :: VCNGetAttachmentRequest where
  "zero_VCNGetAttachmentRequest = \<lparr>VCNGetAttachmentRequest_SignerID = '''',
     VCNGetAttachmentRequest_ArtifactHash = '''',
     VCNGetAttachmentRequest_AttachmentHash = ''''\<rparr>"

definition zero_VCNGetAttachmentResponse :: VCNGetAttachmentResponse where
  "zero_VCNGetAttachmentResponse = \<lparr>VCNGetAttachmentResponse_Attachment = []\<rparr>"

definition zero_VCNGetClientSignatureRequest :: VCNGetClientSignatureRequest where
  "zero_VCNGetClientSignatureRequest = \<lparr>
     VCNGetClientSignatureRequest_ArtifactHash = '''',
     VCNGetClientSignatureRequest_SignerID = '''',
     VCNGetClientSignatureRequest_AtTx = 0\<rparr>"

definition zero_VCNGetClientSignatureResponse :: VCNGetClientSignatureResponse where
  "zero_VCNGetClientSignatureResponse = \<lparr>
     VCNGetClientSignatureResponse_SignatureJSON = []\<rparr>"

definition zero_VCNLabelsOp :: VCNLabelsOp where
  "zero_VCNLabelsOp = \<lparr>VCNLabelsOp_OpType = 0, VCNLabelsOp_Labels = []\<rparr>"

definition zero_VCNLabelsUpdateRequest :: VCNLabelsUpdateRequest where
  "zero_VCNLabelsUpdateRequest = \<lparr>VCNLabelsUpdateRequest_Hash = '''',
     VCNLabelsUpdateRequest_Ops = []\<rparr>"

end
