(* ===== verification/Lc_Getters.thy ===== *)
theory Lc_Getters
  imports Lc_Messages
begin

text \<open>
  The generated getters of the messages (\<open>schema/lc.pb.go\<close>). A getter takes the pointer and
  tolerates \<open>nil\<close>: it then returns the zero value of the field, where a plain field access
  would panic.
\<close>

definition TamperReport_GetIndex :: "TamperReport option \<Rightarrow> u64" where
  "TamperReport_GetIndex x = (case x of None \<Rightarrow> 0 | Some m \<Rightarrow> TamperReport_Index m)"

definition TamperReport_GetKey :: "TamperReport option \<Rightarrow> bytes" where
  "TamperReport_GetKey x = (case x of None \<Rightarrow> [] | Some m \<Rightarrow> TamperReport_Key m)"

definition TamperReport_GetRoot :: "TamperReport option \<Rightarrow> bytes" where
  "TamperReport_GetRoot x = (case x of None \<Rightarrow> [] | Some m \<Rightarrow> TamperReport_Root m)"

definition ReportOptions_GetPayload :: "ReportOptions option \<Rightarrow> TamperReport option" where
  "ReportOptions_GetPayload x = (case x of None \<Rightarrow> None | Some m \<Rightarrow> ReportOptions_Payload m)"

definition ReportOptions_GetSignature :: "ReportOptions option \<Rightarrow> wire option" where
  "ReportOptions_GetSignature x = (case x of None \<Rightarrow> None | Some m \<Rightarrow> ReportOptions_Signature m)"

definition DataValue_GetName :: "DataValue option \<Rightarrow> string" where
  "DataValue_GetName x = (case x of None \<Rightarrow> '''' | Some m \<Rightarrow> DataValue_Name m)"

definition DataValue_GetType :: "DataValue option \<Rightarrow> string" where
  "DataValue_GetType x = (case x of None \<Rightarrow> '''' | Some m \<Rightarrow> DataValue_Type m)"

definition DataValue_GetValue :: "DataValue option \<Rightarrow> bytes" where
  "DataValue_GetValue x = (case x of None \<Rightarrow> [] | Some m \<Rightarrow> DataValue_Value m)"

definition Data_GetKey :: "Data option \<Rightarrow> string" where
  "Data_GetKey x = (case x of None \<Rightarrow> '''' | Some m \<Rightarrow> Data_Key m)"

definition Data_GetMsgID :: "Data option \<Rightarrow> i64" where
  "Data_GetMsgID x = (case x of None \<Rightarrow> 0 | Some m \<Rightarrow> Data_MsgID m)"

definition Data_GetDbName :: "Data option \<Rightarrow> string" where
  "Data_GetDbName x = (case x of None \<Rightarrow> '''' | Some m \<Rightarrow> Data_DbName m)"

definition Data_GetTableName :: "Data option \<Rightarrow> string" where
  "Data_GetTableName x = (case x of None \<Rightarrow> '''' | Some m \<Rightarrow> Data_TableName m)"

definition Data_GetOperation :: "Data option \<Rightarrow> string" where
  "Data_GetOperation x = (case x of None \<Rightarrow> '''' | Some m \<Rightarrow> Data_Operation m)"

definition Data_GetData :: "Data option \<Rightarrow> bytes" where
  "Data_GetData x = (case x of None \<Rightarrow> [] | Some m \<Rightarrow> Data_Data m)"

definition Response_GetStatus :: "Response option \<Rightarrow> i32" where
  "Response_GetStatus x = (case x of None \<Rightarrow> 0 | Some m \<Rightarrow> Response_Status m)"

definition Response_GetMsg :: "Response option \<Rightarrow> string" where
  "Response_GetMsg x = (case x of None \<Rightarrow> '''' | Some m \<Rightarrow> Response_Msg m)"

definition Response_GetMsgID :: "Response option \<Rightarrow> i64" where
  "Response_GetMsgID x = (case x of None \<Rightarrow> 0 | Some m \<Rightarrow> Response_MsgID m)"

definition Response_GetVerifiableTx :: "Response option \<Rightarrow> VerifiableTx option" where
  "Response_GetVerifiableTx x = (case x of None \<Rightarrow> None | Some m \<Rightarrow> Response_VerifiableTx m)"

definition Response_GetState :: "Response option \<Rightarrow> ImmutableState option" where
  "Response_GetState x = (case x of None \<Rightarrow> None | Some m \<Rightarrow> Response_State m)"

definition VerifiableItemExt_GetItem :: "VerifiableItemExt option \<Rightarrow> VerifiableEntry option" where
  "VerifiableItemExt_GetItem x = (case x of None \<Rightarrow> None | Some m \<Rightarrow> VerifiableItemExt_Item m)"

definition VerifiableItemExt_GetTimestamp :: "VerifiableItemExt option \<Rightarrow> wire option" where
  "VerifiableItemExt_GetTimestamp x = (case x of None \<Rightarrow> None | Some m \<Rightarrow> VerifiableItemExt_Timestamp m)"

definition VerifiableItemExt_GetApikeyRevoked :: "VerifiableItemExt option \<Rightarrow> wire option" where
  "VerifiableItemExt_GetApikeyRevoked x = (case x of None \<Rightarrow> None | Some m \<Rightarrow> VerifiableItemExt_ApikeyRevoked m)"

definition VerifiableItemExt_GetLedgerName :: "VerifiableItemExt option \<Rightarrow> string" where
  "VerifiableItemExt_GetLedgerName x = (case x of None \<Rightarrow> '''' | Some m \<Rightarrow> VerifiableItemExt_LedgerName m)"

definition VerifiableItemExt_GetPublicKey :: "VerifiableItemExt option \<Rightarrow> string" where
  "VerifiableItemExt_GetPublicKey x = (case x of None \<Rightarrow> '''' | Some m \<Rightarrow> VerifiableItemExt_PublicKey m)"

definition VerifiableItemExt_GetUID :: "VerifiableItemExt option \<Rightarrow> string" where
  "VerifiableItemExt_GetUID x = (case x of None \<Rightarrow> '''' | Some m \<Rightarrow> VerifiableItemExt_UID m)"

definition ItemExt_GetItem :: "ItemExt option \<Rightarrow> Entry option" where
  "ItemExt_GetItem x = (case x of None \<Rightarrow> None | Some m \<Rightarrow> ItemExt_Item m)"

definition ItemExt_GetTimestamp :: "ItemExt option \<Rightarrow> wire option" where
  "ItemExt_GetTimestamp x = (case x of None \<Rightarrow> None | Some m \<Rightarrow> ItemExt_Timestamp m)"

definition ItemExt_GetApikeyRevoked :: "ItemExt option \<Rightarrow> wire option" where
  "ItemExt_GetApikeyRevoked x = (case x of None \<Rightarrow> None | Some m \<Rightarrow> ItemExt_ApikeyRevoked m)"

definition ItemExt_GetLedgerName :: "ItemExt option \<Rightarrow> string" where
  "ItemExt_GetLedgerName x = (case x of None \<Rightarrow> '''' | Some m \<Rightarrow> ItemExt_LedgerName m)"

definition ItemExt_GetPublicKey :: "ItemExt option \<Rightarrow> string" where
  "ItemExt_GetPublicKey x = (case x of None \<Rightarrow> '''' | Some m \<Rightarrow> ItemExt_PublicKey m)"

definition ItemExt_GetUID :: "ItemExt option \<Rightarrow> string" where
  "ItemExt_GetUID x = (case x of None \<Rightarrow> '''' | Some m \<Rightarrow> ItemExt_UID m)"

definition ItemExtList_GetItems :: "ItemExtList option \<Rightarrow> ItemExt option list" where
  "ItemExtList_GetItems x = (case x of None \<Rightarrow> [] | Some m \<Rightarrow> ItemExtList_Items m)"

definition ZItemExt_GetItem :: "ZItemExt option \<Rightarrow> ZEntry option" where
  "ZItemExt_GetItem x = (case x of None \<Rightarrow> None | Some m \<Rightarrow> ZItemExt_Item m)"

definition ZItemExt_GetTimestamp :: "ZItemExt option \<Rightarrow> wire option" where
  "ZItemExt_GetTimestamp x = (case x of None \<Rightarrow> None | Some m \<Rightarrow> ZItemExt_Timestamp m)"

definition ZItemExt_GetApikeyRevoked :: "ZItemExt option \<Rightarrow> wire option" where
  "ZItemExt_GetApikeyRevoked x = (case x of None \<Rightarrow> None | Some m \<Rightarrow> ZItemExt_ApikeyRevoked m)"

definition ZItemExt_GetLedgerName :: "ZItemExt option \<Rightarrow> string" where
  "ZItemExt_GetLedgerName x = (case x of None \<Rightarrow> '''' | Some m \<Rightarrow> ZItemExt_LedgerName m)"

definition ZItemExt_GetPublicKey :: "ZItemExt option \<Rightarrow> string" where
  "ZItemExt_GetPublicKey x = (case x of None \<Rightarrow> '''' | Some m \<Rightarrow> ZItemExt_PublicKey m)"

definition ZItemExt_GetUID :: "ZItemExt option \<Rightarrow> string" where
  "ZItemExt_GetUID x = (case x of None \<Rightarrow> '''' | Some m \<Rightarrow> ZItemExt_UID m)"

definition ZItemExtList_GetItems :: "ZItemExtList option \<Rightarrow> ZItemExt option list" where
  "ZItemExtList_GetItems x = (case x of None \<Rightarrow> [] | Some m \<Rightarrow> ZItemExtList_Items m)"

definition Features_GetFeat :: "Features option \<Rightarrow> string list" where
  "Features_GetFeat x = (case x of None \<Rightarrow> [] | Some m \<Rightarrow> Features_Feat m)"

definition Features_GetVersion :: "Features option \<Rightarrow> string" where
  "Features_GetVersion x = (case x of None \<Rightarrow> '''' | Some m \<Rightarrow> Features_Version m)"

definition Features_GetBuildTime :: "Features option \<Rightarrow> string" where
  "Features_GetBuildTime x = (case x of None \<Rightarrow> '''' | Some m \<Rightarrow> Features_BuildTime m)"

definition Features_GetComponent :: "Features option \<Rightarrow> string" where
  "Features_GetComponent x = (case x of None \<Rightarrow> '''' | Some m \<Rightarrow> Features_Component m)"

definition VerifiableGetExtMultiRequest_GetRequests :: "VerifiableGetExtMultiRequest option \<Rightarrow> VerifiableGetRequest option list" where
  "VerifiableGetExtMultiRequest_GetRequests x = (case x of None \<Rightarrow> [] | Some m \<Rightarrow> VerifiableGetExtMultiRequest_Requests m)"

definition VerifiableGetExtMultiResponse_GetItems :: "VerifiableGetExtMultiResponse option \<Rightarrow> VerifiableItemExt option list" where
  "VerifiableGetExtMultiResponse_GetItems x = (case x of None \<Rightarrow> [] | Some m \<Rightarrow> VerifiableGetExtMultiResponse_Items m)"

definition VerifiableGetExtMultiResponse_GetErrors :: "VerifiableGetExtMultiResponse option \<Rightarrow> string list" where
  "VerifiableGetExtMultiResponse_GetErrors x = (case x of None \<Rightarrow> [] | Some m \<Rightarrow> VerifiableGetExtMultiResponse_Errors m)"

definition SetMultiRequest_GetRequests :: "SetMultiRequest option \<Rightarrow> SetRequest option list" where
  "SetMultiRequest_GetRequests x = (case x of None \<Rightarrow> [] | Some m \<Rightarrow> SetMultiRequest_Requests m)"

definition SetMultiResponse_GetTransactions :: "SetMultiResponse option \<Rightarrow> TxHeader option list" where
  "SetMultiResponse_GetTransactions x = (case x of None \<Rightarrow> [] | Some m \<Rightarrow> SetMultiResponse_Transactions m)"

definition SetMultiResponse_GetErrors :: "SetMultiResponse option \<Rightarrow> string list" where
  "SetMultiResponse_GetErrors x = (case x of None \<Rightarrow> [] | Some m \<Rightarrow> SetMultiResponse_Errors m)"

definition VCNAttachment_GetContent :: "VCNAttachment option \<Rightarrow> bytes" where
  "VCNAttachment_GetContent x = (case x of None \<Rightarrow> [] | Some m \<Rightarrow> VCNAttachment_Content m)"

definition VCNAttachment_GetSignature :: "VCNAttachment option \<Rightarrow> bytes" where
  "VCNAttachment_GetSignature x = (case x of None \<Rightarrow> [] | Some m \<Rightarrow> VCNAttachment_Signature m)"

definition VCNDependency_GetHash :: "VCNDependency option \<Rightarrow> string" where
  "VCNDependency_GetHash x = (case x of None \<Rightarrow> '''' | Some m \<Rightarrow> VCNDependency_Hash m)"

definition VCNDependency_GetType :: "VCNDependency option \<Rightarrow> i32" where
  "VCNDependency_GetType x = (case x of None \<Rightarrow> VCNDependency_Direct | Some m \<Rightarrow> VCNDependency_Type m)"

definition VCNArtifact_GetArtifact :: "VCNArtifact option \<Rightarrow> bytes" where
  "VCNArtifact_GetArtifact x = (case x of None \<Rightarrow> [] | Some m \<Rightarrow> VCNArtifact_Artifact m)"

definition VCNArtifact_GetSignature :: "VCNArtifact option \<Rightarrow> bytes" where
  "VCNArtifact_GetSignature x = (case x of None \<Rightarrow> [] | Some m \<Rightarrow> VCNArtifact_Signature m)"

definition VCNArtifact_GetDependencies :: "VCNArtifact option \<Rightarrow> VCNDependency option list" where
  "VCNArtifact_GetDependencies x = (case x of None \<Rightarrow> [] | Some m \<Rightarrow> VCNArtifact_Dependencies m)"

definition VCNArtifact_GetAttachments :: "VCNArtifact option \<Rightarrow> VCNAttachment option list" where
  "VCNArtifact_GetAttachments x = (case x of None \<Rightarrow> [] | Some m \<Rightarrow> VCNArtifact_Attachments m)"

definition VCNArtifactsRequest_GetArtifacts :: "VCNArtifactsRequest option \<Rightarrow> VCNArtifact option list" where
  "VCNArtifactsRequest_GetArtifacts x = (case x of None \<Rightarrow> [] | Some m \<Rightarrow> VCNArtifactsRequest_Artifacts m)"

definition VCNArtifactsRequest_GetSignedAt :: "VCNArtifactsRequest option \<Rightarrow> wire option" where
  "VCNArtifactsRequest_GetSignedAt x = (case x of None \<Rightarrow> None | Some m \<Rightarrow> VCNArtifactsRequest_SignedAt m)"

definition VCNArtifactsGetRequest_GetHashes :: "VCNArtifactsGetRequest option \<Rightarrow> string list" where
  "VCNArtifactsGetRequest_GetHashes x = (case x of None \<Rightarrow> [] | Some m \<Rightarrow> VCNArtifactsGetRequest_Hashes m)"

definition VCNArtifactsGetRequest_GetVerify :: "VCNArtifactsGetRequest option \<Rightarrow> bool" where
  "VCNArtifactsGetRequest_GetVerify x = (case x of None \<Rightarrow> False | Some m \<Rightarrow> VCNArtifactsGetRequest_Verify m)"

definition VCNArtifactsGetRequest_GetProveSinceTx :: "VCNArtifactsGetRequest option \<Rightarrow> u64" where
  "VCNArtifactsGetRequest_GetProveSinceTx x = (case x of None \<Rightarrow> 0 | Some m \<Rightarrow> VCNArtifactsGetRequest_ProveSinceTx m)"

definition VCNArtifactsGetRequest_GetUID :: "VCNArtifactsGetRequest option \<Rightarrow> string" where
  "VCNArtifactsGetRequest_GetUID x = (case x of None \<Rightarrow> '''' | Some m \<Rightarrow> VCNArtifactsGetRequest_UID m)"

definition VCNArtifactsGetRequest_GetSignerID :: "VCNArtifactsGetRequest option \<Rightarrow> string" where
  "VCNArtifactsGetRequest_GetSignerID x = (case x of None \<Rightarrow> '''' | Some m \<Rightarrow> VCNArtifactsGetRequest_SignerID m)"

definition Proof_GetVerifiableTx :: "Proof option \<Rightarrow> VerifiableTx option" where
  "Proof_GetVerifiableTx x = (case x of None \<Rightarrow> None | Some m \<Rightarrow> Proof_VerifiableTx m)"

definition Proof_GetInclusionProof :: "Proof option \<Rightarrow> wire option" where
  "Proof_GetInclusionProof x = (case x of None \<Rightarrow> None | Some m \<Rightarrow> Proof_InclusionProof m)"

definition Proof_GetMetadata :: "Proof option \<Rightarrow> wire option" where
  "Proof_GetMetadata x = (case x of None \<Rightarrow> None | Some m \<Rightarrow> Proof_Metadata m)"

definition Proof_GetImmudbFullKey :: "Proof option \<Rightarrow> bytes" where
  "Proof_GetImmudbFullKey x = (case x of None \<Rightarrow> [] | Some m \<Rightarrow> Proof_ImmudbFullKey m)"

definition VCNArtifactsResponse_GetTransaction :: "VCNArtifactsResponse option \<Rightarrow> TxHeader option" where
  "VCNArtifactsResponse_GetTransaction x = (case x of None \<Rightarrow> None | Some m \<Rightarrow> VCNArtifactsResponse_Transaction m)"

definition VCNSearchRequest_GetHash :: "VCNSearchRequest option \<Rightarrow> string" where
  "VCNSearchRequest_GetHash x = (case x of None \<Rightarrow> '''' | Some m \<Rightarrow> VCNSearchRequest_Hash m)"

definition VCNSearchRequest_GetSignerID :: "VCNSearchRequest option \<Rightarrow> string" where
  "VCNSearchRequest_GetSignerID x = (case x of None \<Rightarrow> '''' | Some m \<Rightarrow> VCNSearchRequest_SignerID m)"

definition VCNSearchRequest_GetAType :: "VCNSearchRequest option \<Rightarrow> i32" where
  "VCNSearchRequest_GetAType x = (case x of None \<Rightarrow> VCNSearchRequest_Direct | Some m \<Rightarrow> VCNSearchRequest_AType m)"

definition VCNSearchRequest_GetType :: "VCNSearchRequest option \<Rightarrow> i32" where
  "VCNSearchRequest_GetType x = (case x of None \<Rightarrow> VCNSearchRequest_Artifact | Some m \<Rightarrow> VCNSearchRequest_Type m)"

definition VCNSearchRequest_GetLimit :: "VCNSearchRequest option \<Rightarrow> u64" where
  "VCNSearchRequest_GetLimit x = (case x of None \<Rightarrow> 0 | Some m \<Rightarrow> VCNSearchRequest_Limit m)"

definition VCNSearchRequest_GetDesc :: "VCNSearchRequest option \<Rightarrow> bool" where
  "VCNSearchRequest_GetDesc x = (case x of None \<Rightarrow> False | Some m \<Rightarrow> VCNSearchRequest_Desc m)"

definition VCNSearchRequest_GetStartTS :: "VCNSearchRequest option \<Rightarrow> i64" where
  "VCNSearchRequest_GetStartTS x = (case x of None \<Rightarrow> 0 | Some m \<Rightarrow> VCNSearchRequest_StartTS m)"

definition VCNSearchRequest_GetEndTS :: "VCNSearchRequest option \<Rightarrow> i64" where
  "VCNSearchRequest_GetEndTS x = (case x of None \<Rightarrow> 0 | Some m \<Rightarrow> VCNSearchRequest_EndTS m)"

definition VCNSearchRequest_GetAttachName :: "VCNSearchRequest option \<Rightarrow> string" where
  "VCNSearchRequest_GetAttachName x = (case x of None \<Rightarrow> '''' | Some m \<Rightarrow> VCNSearchRequest_AttachName m)"

definition VCNSearchRequest_GetArtifactName :: "VCNSearchRequest option \<Rightarrow> string" where
  "VCNSearchRequest_GetArtifactName x = (case x of None \<Rightarrow> '''' | Some m \<Rightarrow> VCNSearchRequest_ArtifactName m)"

definition VCNSearchRequest_GetUID :: "VCNSearchRequest option \<Rightarrow> string" where
  "VCNSearchRequest_GetUID x = (case x of None \<Rightarrow> '''' | Some m \<Rightarrow> VCNSearchRequest_UID m)"

definition VCNSearchRequest_GetContinuationToken :: "VCNSearchRequest option \<Rightarrow> bytes" where
  "VCNSearchRequest_GetContinuationToken x = (case x of None \<Rightarrow> [] | Some m \<Rightarrow> VCNSearchRequest_ContinuationToken m)"

definition LcEntry_GetKey :: "LcEntry option \<Rightarrow> bytes" where
  "LcEntry_GetKey x = (case x of None \<Rightarrow> [] | Some m \<Rightarrow> LcEntry_Key m)"

definition LcEntry_GetValue :: "LcEntry option \<Rightarrow> bytes" where
  "LcEntry_GetValue x = (case x of None \<Rightarrow> [] | Some m \<Rightarrow> LcEntry_Value m)"

definition LcEntry_GetTx :: "LcEntry option \<Rightarrow> u64" where
  "LcEntry_GetTx x = (case x of None \<Rightarrow> 0 | Some m \<Rightarrow> LcEntry_Tx m)"

definition LcEntry_GetTimestamp :: "LcEntry option \<Rightarrow> wire option" where
  "LcEntry_GetTimestamp x = (case x of None \<Rightarrow> None | Some m \<Rightarrow> LcEntry_Timestamp m)"

definition LcEntry_GetApikeyRevoked :: "LcEntry option \<Rightarrow> wire option" where
  "LcEntry_GetApikeyRevoked x = (case x of None \<Rightarrow> None | Some m \<Rightarrow> LcEntry_ApikeyRevoked m)"

definition LcEntry_GetLedgerName :: "LcEntry option \<Rightarrow> string" where
  "LcEntry_GetLedgerName x = (case x of None \<Rightarrow> '''' | Some m \<Rightarrow> LcEntry_LedgerName m)"

definition LcEntry_GetProof :: "LcEntry option \<Rightarrow> Proof option" where
  "LcEntry_GetProof x = (case x of None \<Rightarrow> None | Some m \<Rightarrow> LcEntry_Proof m)"

definition LcEntry_GetPublicKey :: "LcEntry option \<Rightarrow> string" where
  "LcEntry_GetPublicKey x = (case x of None \<Rightarrow> '''' | Some m \<Rightarrow> LcEntry_PublicKey m)"

definition LcEntry_GetUID :: "LcEntry option \<Rightarrow> string" where
  "LcEntry_GetUID x = (case x of None \<Rightarrow> '''' | Some m \<Rightarrow> LcEntry_UID m)"

definition EntryList_GetEntries :: "EntryList option \<Rightarrow> LcEntry option list" where
  "EntryList_GetEntries x = (case x of None \<Rightarrow> [] | Some m \<Rightarrow> EntryList_Entries m)"

definition EntryList_GetContinuationToken :: "EntryList option \<Rightarrow> bytes" where
  "EntryList_GetContinuationToken x = (case x of None \<Rightarrow> [] | Some m \<Rightarrow> EntryList_ContinuationToken m)"

definition VCNLabelsUpdateRequest_GetHash :: "VCNLabelsUpdateRequest option \<Rightarrow> string" where
  "VCNLabelsUpdateRequest_GetHash x = (case x of None \<Rightarrow> '''' | Some m \<Rightarrow> VCNLabelsUpdateRequest_Hash m)"

definition VCNLabelsUpdateRequest_GetOps :: "VCNLabelsUpdateRequest option \<Rightarrow> VCNLabelsOp option list" where
  "VCNLabelsUpdateRequest_GetOps x = (case x of None \<Rightarrow> [] | Some m \<Rightarrow> VCNLabelsUpdateRequest_Ops m)"

definition VCNLabelsUpdateResponse_GetTransaction :: "VCNLabelsUpdateResponse option \<Rightarrow> TxHeader option" where
  "VCNLabelsUpdateResponse_GetTransaction x = (case x of None \<Rightarrow> None | Some m \<Rightarrow> VCNLabelsUpdateResponse_Transaction m)"

definition LabelsSetRequest_GetHash :: "LabelsSetRequest option \<Rightarrow> string" where
  "LabelsSetRequest_GetHash x = (case x of None \<Rightarrow> '''' | Some m \<Rightarrow> LabelsSetRequest_Hash m)"

definition LabelsSetRequest_GetLabels :: "LabelsSetRequest option \<Rightarrow> string list" where
  "LabelsSetRequest_GetLabels x = (case x of None \<Rightarrow> [] | Some m \<Rightarrow> LabelsSetRequest_Labels m)"

definition VCNLabelsSetRequest_GetRequest :: "VCNLabelsSetRequest option \<Rightarrow> LabelsSetRequest option list" where
  "VCNLabelsSetRequest_GetRequest x = (case x of None \<Rightarrow> [] | Some m \<Rightarrow> VCNLabelsSetRequest_Request m)"

definition VCNLabelsSetResponse_GetTransaction :: "VCNLabelsSetResponse option \<Rightarrow> TxHeader option" where
  "VCNLabelsSetResponse_GetTransaction x = (case x of None \<Rightarrow> None | Some m \<Rightarrow> VCNLabelsSetResponse_Transaction m)"

definition LabelsGetRequest_GetHash :: "LabelsGetRequest option \<Rightarrow> string" where
  "LabelsGetRequest_GetHash x = (case x of None \<Rightarrow> '''' | Some m \<Rightarrow> LabelsGetRequest_Hash m)"

definition LabelsGetRequest_GetSignerID :: "LabelsGetRequest option \<Rightarrow> string" where
  "LabelsGetRequest_GetSignerID x = (case x of None \<Rightarrow> '''' | Some m \<Rightarrow> LabelsGetRequest_SignerID m)"

definition VCNLabelsGetRequest_GetRequest :: "VCNLabelsGetRequest option \<Rightarrow> LabelsGetRequest option list" where
  "VCNLabelsGetRequest_GetRequest x = (case x of None \<Rightarrow> [] | Some m \<Rightarrow> VCNLabelsGetRequest_Request m)"

definition LabelsGetResponse_GetHash :: "LabelsGetResponse option \<Rightarrow> string" where
  "LabelsGetResponse_GetHash x = (case x of None \<Rightarrow> '''' | Some m \<Rightarrow> LabelsGetResponse_Hash m)"

definition LabelsGetResponse_GetLabels :: "LabelsGetResponse option \<Rightarrow> string list" where
  "LabelsGetResponse_GetLabels x = (case x of None \<Rightarrow> [] | Some m \<Rightarrow> LabelsGetResponse_Labels m)"

definition VCNLabelsGetResponse_GetResponse :: "VCNLabelsGetResponse option \<Rightarrow> LabelsGetResponse option list" where
  "VCNLabelsGetResponse_GetResponse x = (case x of None \<Rightarrow> [] | Some m \<Rightarrow> VCNLabelsGetResponse_Response m)"

definition VCNGetAttachmentRequest_GetSignerID :: "VCNGetAttachmentRequest option \<Rightarrow> string" where
  "VCNGetAttachmentRequest_GetSignerID x = (case x of None \<Rightarrow> '''' | Some m \<Rightarrow> VCNGetAttachmentRequest_SignerID m)"

definition VCNGetAttachmentRequest_GetArtifactHash :: "VCNGetAttachmentRequest option \<Rightarrow> string" where
  "VCNGetAttachmentRequest_GetArtifactHash x = (case x of None \<Rightarrow> '''' | Some m \<Rightarrow> VCNGetAttachmentRequest_ArtifactHash m)"

definition VCNGetAttachmentRequest_GetAttachmentHash :: "VCNGetAttachmentRequest option \<Rightarrow> string" where
  "VCNGetAttachmentRequest_GetAttachmentHash x = (case x of None \<Rightarrow> '''' | Some m \<Rightarrow> VCNGetAttachmentRequest_AttachmentHash m)"

definition VCNGetAttachmentResponse_GetAttachment :: "VCNGetAttachmentResponse option \<Rightarrow> bytes" where
  "VCNGetAttachmentResponse_GetAttachment x = (case x of None \<Rightarrow> [] | Some m \<Rightarrow> VCNGetAttachmentResponse_Attachment m)"

definition VCNGetClientSignatureRequest_GetArtifactHash :: "VCNGetClientSignatureRequest option \<Rightarrow> string" where
  "VCNGetClientSignatureRequest_GetArtifactHash x = (case x of None \<Rightarrow> '''' | Some m \<Rightarrow> VCNGetClientSignatureRequest_ArtifactHash m)"

definition VCNGetClientSignatureRequest_GetSignerID :: "VCNGetClientSignatureRequest option \<Rightarrow> string" where
  "VCNGetClientSignatureRequest_GetSignerID x = (case x of None \<Rightarrow> '''' | Some m \<Rightarrow> VCNGetClientSignatureRequest_SignerID m)"

definition VCNGetClientSignatureRequest_GetAtTx :: "VCNGetClientSignatureRequest option \<Rightarrow> u64" where
  "VCNGetClientSignatureRequest_GetAtTx x = (case x of None \<Rightarrow> 0 | Some m \<Rightarrow> VCNGetClientSignatureRequest_AtTx m)"

definition VCNGetClientSignatureResponse_GetSignatureJSON :: "VCNGetClientSignatureResponse option \<Rightarrow> bytes" where
  "VCNGetClientSignatureResponse_GetSignatureJSON x = (case x of None \<Rightarrow> [] | Some m \<Rightarrow> VCNGetClientSignatureResponse_SignatureJSON m)"

definition VCNLabelsOp_GetOpType :: "VCNLabelsOp option \<Rightarrow> i32" where
  "VCNLabelsOp_GetOpType x = (case x of None \<Rightarrow> VCNLabelsUpdateRequest_ADD | Some m \<Rightarrow> VCNLabelsOp_OpType m)"

definition VCNLabelsOp_GetLabels :: "VCNLabelsOp option \<Rightarrow> string list" where
  "VCNLabelsOp_GetLabels x = (case x of None \<Rightarrow> [] | Some m \<Rightarrow> VCNLabelsOp_Labels m)"

end
