(* ===== verification/Cache_Keys.thy ===== *)
theory Cache_Keys
  imports Lc_Getters
begin

text \<open>
  Cache keys of the read requests (\<open>schema/cache.go\<close>) and the small helpers of the schema
  package (\<open>features.go\<close>, \<open>meta.go\<close>, \<open>signature.go\<close>).

  Each \<open>GetKey\<close> joins text pieces of the request with newlines and returns the SHA-256 of the
  text in hexadecimal. The locale \<open>keyed_request\<close> is that contract; its lemmas say what two
  equal keys mean, and each of the three request types interprets it. \<open>sha\<close> is the hash
  function and \<open>ES d n\<close> is \<open>protoimpl.X.EnumStringOf\<close> for the enum with table
  \<open>d\<close>.
\<close>

section \<open>Features\<close>

definition FeatBoM :: string where
  "FeatBoM = ''bom''"

definition FeatAllowDownload :: string where
  "FeatAllowDownload = ''allowdownload''"

definition FeatDeepContainerInspection :: string where
  "FeatDeepContainerInspection = ''dci''"

definition FeatUseVCNSearchArtifact :: string where
  "FeatUseVCNSearchArtifact = ''useSearchArtifact''"

definition VCNArtifactSignaturesKeySuffix :: string where
  "VCNArtifactSignaturesKeySuffix = ''.signatures''"

record VCNArtifactSignatures =
  VCNArtifactSignatures_Artifact :: bytes
  VCNArtifactSignatures_Attachments :: "string \<rightharpoonup> bytes"
  VCNArtifactSignatures_SignedAt :: bytes

text \<open>\<open>Features.Map\<close>: a set as a map to \<open>true\<close>.\<close>

definition Features_Map :: "Features option \<Rightarrow> (string \<rightharpoonup> bool) go" where
  "Features_Map x = deref x (\<lambda>m.
     Ok (foldl (\<lambda>elementMap v. elementMap(v \<mapsto> True)) (\<lambda>_. None) (Features_Feat m)))"

lemma foldl_update_True:
  "foldl (\<lambda>m v. m(v \<mapsto> True)) m0 vs k = (if k \<in> set vs then Some True else m0 k)"
  by (induction vs arbitrary: m0) auto

section \<open>The three key functions\<close>

abbreviation newline :: char where
  "newline \<equiv> CHR 0x0A"

definition VCNArtifactsGetRequest_GetKey ::
    "(bytes \<Rightarrow> bytes) \<Rightarrow> VCNArtifactsGetRequest option \<Rightarrow> string list \<Rightarrow> string go" where
  "VCNArtifactsGetRequest_GetKey sha r pre = deref r (\<lambda>m.
     let pieces = VCNArtifactsGetRequest_Hashes m;
         pieces = pieces @ pre;
         pieces = pieces @ [fmt_u (unat (VCNArtifactsGetRequest_GetProveSinceTx r))];
         fullKey = join [newline] pieces
     in Ok (fmt_x (sha (string_bytes fullKey))))"

definition VCNSearchRequest_GetKey ::
    "(bytes \<Rightarrow> bytes) \<Rightarrow> ((i32 \<times> string) list \<Rightarrow> i32 \<Rightarrow> string) \<Rightarrow>
     VCNSearchRequest option \<Rightarrow> string list \<Rightarrow> string go" where
  "VCNSearchRequest_GetKey sha ES r pre = deref r (\<lambda>m.
     let pieces = [];
         pieces = pieces @ pre;
         pieces = pieces @ [VCNSearchRequest_Hash m];
         pieces = pieces @ [VCNSearchRequest_SignerID m];
         pieces = pieces @ [ES VCNSearchRequest_ArtifactType_name (VCNSearchRequest_AType m)];
         pieces = pieces @ [ES VCNSearchRequest_Type_name (VCNSearchRequest_Type m)];
         pieces = pieces @ [fmt_u (unat (VCNSearchRequest_Limit m))];
         pieces = pieces @ [fmt_t (VCNSearchRequest_Desc m)];
         pieces = pieces @ [fmt_d (sint (VCNSearchRequest_StartTS m))];
         pieces = pieces @ [fmt_d (sint (VCNSearchRequest_EndTS m))];
         pieces = pieces @ [VCNSearchRequest_AttachName m];
         pieces = pieces @ [VCNSearchRequest_ArtifactName m];
         pieces = pieces @ [VCNSearchRequest_UID m];
         fullKey = join [newline] pieces
     in Ok (fmt_x (sha (string_bytes fullKey))))"

text \<open>The loop over \<open>r.Request\<close> panics at a nil element.\<close>

fun labels_hashes :: "LabelsGetRequest option list \<Rightarrow> string list go" where
  "labels_hashes [] = Ok []"
| "labels_hashes (v # vs) = deref v (\<lambda>m.
     tryG (labels_hashes vs) (\<lambda>hs. Ok (LabelsGetRequest_Hash m # hs)))"

definition VCNLabelsGetRequest_GetKey ::
    "(bytes \<Rightarrow> bytes) \<Rightarrow> VCNLabelsGetRequest option \<Rightarrow> string list \<Rightarrow> string go" where
  "VCNLabelsGetRequest_GetKey sha r pre = deref r (\<lambda>m.
     tryG (labels_hashes (VCNLabelsGetRequest_Request m)) (\<lambda>hashes.
       let pieces = pre @ hashes;
           fullKey = join [newline] pieces
       in Ok (fmt_x (sha (string_bytes fullKey)))))"

section \<open>What a key identifies\<close>

lemma of_char_word: "unat (of_char c :: 8 word) = of_char c"
proof -
  have lt: "(of_char c :: nat) < 256" by simp
  have "(of_char c :: 8 word) = of_nat (of_char c)"
    by (simp only: of_nat_of_char)
  with lt show ?thesis by (simp add: unat_of_nat take_bit_nat_eq_self)
qed

lemma string_bytes_inject [simp]: "(string_bytes s = string_bytes t) = (s = t)"
proof -
  have "inj (of_char :: char \<Rightarrow> 8 word)"
    by (rule injI) (metis of_char_word of_char_eq_iff)
  then show ?thesis by (simp add: string_bytes_def inj_map_eq_map)
qed

text \<open>The bytes that are hashed, and a pair of them that the hash tells apart.\<close>

definition key_text :: "string list \<Rightarrow> bytes" where
  "key_text ps = string_bytes (join [newline] ps)"

definition no_collision :: "(bytes \<Rightarrow> bytes) \<Rightarrow> bytes \<Rightarrow> bytes \<Rightarrow> bool" where
  "no_collision sha a b = (sha a = sha b \<longrightarrow> a = b)"

locale keyed_request =
  fixes sha :: "bytes \<Rightarrow> bytes"
    and GetKey :: "'r \<Rightarrow> string list \<Rightarrow> string go"
    and pieces :: "'r \<Rightarrow> string list \<Rightarrow> string list"
    and wf :: "'r \<Rightarrow> bool"
  assumes GetKey_text:
    "wf r \<Longrightarrow> GetKey r p = Ok (fmt_x (sha (string_bytes (join [newline] (pieces r p)))))"
begin

lemma same_pieces_same_key:
  "wf r \<Longrightarrow> wf r' \<Longrightarrow> pieces r p = pieces r' p' \<Longrightarrow> GetKey r p = GetKey r' p'"
  by (simp add: GetKey_text)

text \<open>
  Equal keys mean equal pieces, as long as the two texts are not a collision of the hash.
\<close>

lemma key_identifies:
  assumes "wf r" and "wf r'" and "GetKey r p = GetKey r' p'"
    and "no_collision sha (key_text (pieces r p)) (key_text (pieces r' p'))"
    and "pieces r p \<noteq> []" and "pieces r' p' \<noteq> []"
    and "free_of newline (pieces r p)" and "free_of newline (pieces r' p')"
  shows "pieces r p = pieces r' p'"
proof -
  have "sha (key_text (pieces r p)) = sha (key_text (pieces r' p'))"
    using assms(1-3) by (simp add: GetKey_text key_text_def)
  with assms(4) have "join [newline] (pieces r p) = join [newline] (pieces r' p')"
    by (simp add: no_collision_def key_text_def)
  with assms(5-8) show ?thesis by (simp add: join_inject)
qed

end
definition artifacts_pieces :: "VCNArtifactsGetRequest \<Rightarrow> string list \<Rightarrow> string list" where
  "artifacts_pieces r p =
     VCNArtifactsGetRequest_Hashes r @ p @ [fmt_u (unat (VCNArtifactsGetRequest_ProveSinceTx r))]"

definition search_pieces ::
    "((i32 \<times> string) list \<Rightarrow> i32 \<Rightarrow> string) \<Rightarrow> VCNSearchRequest \<Rightarrow> string list \<Rightarrow> string list" where
  "search_pieces ES r p = p @
     [VCNSearchRequest_Hash r, VCNSearchRequest_SignerID r,
      ES VCNSearchRequest_ArtifactType_name (VCNSearchRequest_AType r),
      ES VCNSearchRequest_Type_name (VCNSearchRequest_Type r),
      fmt_u (unat (VCNSearchRequest_Limit r)), fmt_t (VCNSearchRequest_Desc r),
      fmt_d (sint (VCNSearchRequest_StartTS r)), fmt_d (sint (VCNSearchRequest_EndTS r)),
      VCNSearchRequest_AttachName r, VCNSearchRequest_ArtifactName r, VCNSearchRequest_UID r]"

definition labels_pieces :: "VCNLabelsGetRequest \<Rightarrow> string list \<Rightarrow> string list" where
  "labels_pieces r p =
     p @ map (\<lambda>v. case v of None \<Rightarrow> '''' | Some m \<Rightarrow> LabelsGetRequest_Hash m) (VCNLabelsGetRequest_Request r)"

definition labels_wf :: "VCNLabelsGetRequest \<Rightarrow> bool" where
  "labels_wf r = list_all (\<lambda>v. v \<noteq> None) (VCNLabelsGetRequest_Request r)"

lemma labels_hashes_wf:
  "list_all (\<lambda>v. v \<noteq> None) vs \<Longrightarrow>
   labels_hashes vs = Ok (map (\<lambda>v. case v of None \<Rightarrow> '''' | Some m \<Rightarrow> LabelsGetRequest_Hash m) vs)"
  by (induction vs) auto

interpretation artifacts: keyed_request sha "\<lambda>r. VCNArtifactsGetRequest_GetKey sha (Some r)"
    artifacts_pieces "\<lambda>_. True" for sha
  by unfold_locales
    (simp add: VCNArtifactsGetRequest_GetKey_def artifacts_pieces_def
      VCNArtifactsGetRequest_GetProveSinceTx_def Let_def)

interpretation search: keyed_request sha "\<lambda>r. VCNSearchRequest_GetKey sha ES (Some r)"
    "search_pieces ES" "\<lambda>_. True" for sha ES
  by unfold_locales (simp add: VCNSearchRequest_GetKey_def search_pieces_def Let_def)

interpretation labels: keyed_request sha "\<lambda>r. VCNLabelsGetRequest_GetKey sha (Some r)"
    labels_pieces labels_wf for sha
  by unfold_locales
    (simp add: VCNLabelsGetRequest_GetKey_def labels_pieces_def labels_wf_def labels_hashes_wf Let_def)

text \<open>
  Documented behaviour of \<open>EnumStringOf\<close>: the declared name of a value, or its number in
  decimal when it has none.
\<close>

definition enum_names_or_numbers :: "((i32 \<times> string) list \<Rightarrow> i32 \<Rightarrow> string) \<Rightarrow> bool" where
  "enum_names_or_numbers ES =
     (\<forall>d n. ES d n = (case map_of d n of Some s \<Rightarrow> s | None \<Rightarrow> fmt_d (sint n)))"

definition named_enum :: "(i32 \<times> string) list \<Rightarrow> bool" where
  "named_enum d = (distinct (map fst d) \<and> distinct (map snd d) \<and>
     list_all (\<lambda>s. s \<noteq> [] \<and> newline \<notin> set s \<and> 64 < (of_char (hd s) :: nat)) (map snd d))"

lemma named_enum_tables:
  "named_enum VCNSearchRequest_ArtifactType_name" "named_enum VCNSearchRequest_Type_name"
  by code_simp+

lemma fmt_u_head: "(of_char (hd (fmt_u n)) :: nat) < 58"
proof -
  have "fmt_u n \<noteq> []" by (subst fmt_u.simps) simp
  then show ?thesis using fmt_u_digits [of "hd (fmt_u n)" n] by simp
qed

lemma fmt_d_head: "(of_char (hd (fmt_d i)) :: nat) < 58"
  by (simp add: fmt_d_def fmt_u_head)

lemma named_enum_name:
  assumes "named_enum d" and "map_of d n = Some s"
  shows "newline \<notin> set s" and "64 < (of_char (hd s) :: nat)"
proof -
  from map_of_SomeD [OF assms(2)] have "s \<in> set (map snd d)" by force
  with assms(1) show "newline \<notin> set s" and "64 < (of_char (hd s) :: nat)"
    unfolding named_enum_def list_all_iff by blast+
qed

lemma enum_string_free:
  assumes "enum_names_or_numbers ES" and "named_enum d"
  shows "newline \<notin> set (ES d n)"
  using assms named_enum_name(1) [OF assms(2)]
  by (simp add: enum_names_or_numbers_def split: option.splits)

lemma enum_string_inject:
  assumes ES: "enum_names_or_numbers ES" and d: "named_enum d"
  shows "(ES d m = ES d n) = (m = n)"
proof
  have ES_eq: "ES d k = (case map_of d k of Some s \<Rightarrow> s | None \<Rightarrow> fmt_d (sint k))" for k
    using ES by (simp add: enum_names_or_numbers_def)
  have mix: "s \<noteq> fmt_d i" "fmt_d i \<noteq> s" if "map_of d k = Some s" for k s i
    using named_enum_name(2) [OF d that] fmt_d_head [of i] by auto
  have uniq: "k = l" if "map_of d k = Some s" and "map_of d l = Some s" for k l s
    using d map_of_SomeD [OF that(1)] map_of_SomeD [OF that(2)]
    by (auto simp: named_enum_def distinct_map dest: inj_onD [of snd "set d" "(k, s)" "(l, s)"])
  assume "ES d m = ES d n"
  then show "m = n"
    by (cases "map_of d m"; cases "map_of d n")
      (auto simp: ES_eq mix uniq signed_word_eqI)
qed simp

end
