(* ===== verification/Grpc_Types.thy ===== *)
theory Grpc_Types
  imports Cache_Keys
begin

text \<open>
  What the client uses of gRPC (\<open>google.golang.org/grpc\<close>), which is not in this repository:
  the types of a connection, of call options and of the messages that travel as
  \<open>interface{}\<close>. A connection is a record of functions over the world \<open>'w\<close>; contexts
  are of a type \<open>'ctx\<close> that stays a variable.

  \<open>Invoke cc ctx method req reply opts w\<close> gives the error result of \<^verbatim>\<open>cc.Invoke\<close>, the
  contents of the message \<open>reply\<close> after the call, and the header metadata received, read as
  \<^verbatim>\<open>md.Get\<close> reads it, which is what the option \<open>grpc.Header(&md)\<close> hands to the caller.
\<close>

text \<open>
  \<open>ApiKeyAuth\<close> is the client's own credential type (\<open>apikey_setter_interceptor.go\<close>); it is
  declared here because call options carry it.
\<close>

record ApiKeyAuth =
  ApiKeyAuth_ApiKey :: string

datatype CallOption =
    PerRPCCredentials ApiKeyAuth
  | HeaderOption
  | TrailerOption
  | OtherCallOption wire

type_synonym MD = "string \<Rightarrow> string list"
type_synonym stream = nat

record StreamDesc =
  StreamName :: string
  ServerStreams :: bool
  ClientStreams :: bool

text \<open>The messages a call sends and receives.\<close>

datatype request =
    ReqArtifacts VCNArtifactsRequest
  | ReqSearch VCNSearchRequest
  | ReqArtifactsGet VCNArtifactsGetRequest
  | ReqLabelsGet VCNLabelsGetRequest
  | ReqLabelsSet VCNLabelsSetRequest
  | ReqLabelsUpdate VCNLabelsUpdateRequest
  | ReqAttachment VCNGetAttachmentRequest
  | ReqClientSignature VCNGetClientSignatureRequest
  | ReqEmpty
  | ReqReport ReportOptions
  | ReqSet SetRequest
  | ReqSetMulti SetMultiRequest
  | ReqKey KeyRequest
  | ReqVerifiableSet VerifiableSetRequest
  | ReqVerifiableGet VerifiableGetRequest
  | ReqGetExtMulti VerifiableGetExtMultiRequest
  | ReqData Data
  | ReqImmudb immudb_message wire

datatype reply =
    RepArtifacts VCNArtifactsResponse
  | RepEntryList EntryList
  | RepLabelsGet VCNLabelsGetResponse
  | RepLabelsSet VCNLabelsSetResponse
  | RepLabelsUpdate VCNLabelsUpdateResponse
  | RepAttachment VCNGetAttachmentResponse
  | RepClientSignature VCNGetClientSignatureResponse
  | RepState ImmutableState
  | RepImmudb immudb_message wire
  | RepEmpty
  | RepFeatures Features
  | RepTxHeader TxHeader
  | RepSetMulti SetMultiResponse
  | RepEntry Entry
  | RepVerifiableTx VerifiableTx
  | RepVerifiableEntry VerifiableEntry
  | RepEntries Entries
  | RepZEntries ZEntries
  | RepItemExt VerifiableItemExt
  | RepGetExtMulti VerifiableGetExtMultiResponse
  | RepZItemExtList ZItemExtList
  | RepItemExtList ItemExtList
  | RepResponse Response

type_synonym ('w, 'ctx) invoker =
  "'ctx \<Rightarrow> string \<Rightarrow> request \<Rightarrow> reply \<Rightarrow> CallOption list \<Rightarrow> 'w \<Rightarrow> (unit go \<times> reply \<times> MD) \<times> 'w"

type_synonym ('w, 'ctx) streamer =
  "'ctx \<Rightarrow> StreamDesc \<Rightarrow> string \<Rightarrow> CallOption list \<Rightarrow> ('w, stream) io"

record ('w, 'ctx) ClientConn =
  Invoke :: "('w, 'ctx) invoker"
  NewStream :: "('w, 'ctx) streamer"
  SendMsg :: "stream \<Rightarrow> request \<Rightarrow> ('w, unit) io"
  CloseSend :: "stream \<Rightarrow> ('w, unit) io"
  RecvMsg :: "stream \<Rightarrow> reply \<Rightarrow> ('w, reply) io"
  CloseConn :: "('w, unit) io"

end
