(* ===== verification/Lc_Service.thy ===== *)
theory Lc_Service
  imports Grpc_Types
begin

text \<open>
  The client side of the service \<open>lc.schema.LcService\<close> (\<open>schema/lc_grpc.pb.go\<close>).
  \<open>lcServiceClient{cc}\<close> is represented by its connection \<open>cc\<close>; each method of it is a
  definition \<open>lcServiceClient_M\<close>. A unary method allocates the reply, invokes the full method
  name and returns the reply or the error; a method with a response stream opens it, sends the
  request and closes the sending side; the others only open the stream. The two tables of
  \<open>LcService_ServiceDesc\<close> give the names the server answers to.
\<close>

section \<open>The service descriptor\<close>

definition LcService_ServiceName :: string where
  "LcService_ServiceName = ''lc.schema.LcService''"

definition LcService_ServiceDesc_Methods :: "string list" where
  "LcService_ServiceDesc_Methods = [''VCNSetArtifacts'', ''VCNSearchArtifacts'',
     ''VCNGetArtifacts'', ''VCNLabelsGet'', ''VCNLabelsSet'', ''VCNLabelsUpdate'',
     ''VCNGetAttachment'', ''VCNGetClientSignature'', ''CurrentState'', ''Health'',
     ''ReportTamper'', ''Feats'', ''Set'', ''SetMulti'', ''Get'', ''VerifiableSet'',
     ''VerifiableGet'', ''GetAll'', ''ExecAll'', ''Scan'', ''History'', ''ZAdd'',
     ''VerifiableZAdd'', ''ZScan'', ''VerifiableGetExt'', ''VerifiableGetExtMulti'',
     ''ZScanExt'', ''HistoryExt'']"

definition LcService_ServiceDesc_Streams :: "StreamDesc list" where
  "LcService_ServiceDesc_Streams =
    [\<lparr>StreamName = ''SendData'', ServerStreams = True, ClientStreams = True\<rparr>,
     \<lparr>StreamName = ''streamGet'', ServerStreams = True, ClientStreams = False\<rparr>,
     \<lparr>StreamName = ''streamSet'', ServerStreams = False, ClientStreams = True\<rparr>,
     \<lparr>StreamName = ''streamVerifiableGet'', ServerStreams = True, ClientStreams = False\<rparr>,
     \<lparr>StreamName = ''streamVerifiableSet'', ServerStreams = False, ClientStreams = True\<rparr>,
     \<lparr>StreamName = ''streamScan'', ServerStreams = True, ClientStreams = False\<rparr>,
     \<lparr>StreamName = ''streamZScan'', ServerStreams = True, ClientStreams = False\<rparr>,
     \<lparr>StreamName = ''streamHistory'', ServerStreams = True, ClientStreams = False\<rparr>,
     \<lparr>StreamName = ''streamExecAll'', ServerStreams = False, ClientStreams = True\<rparr>]"

section \<open>Replies\<close>

text \<open>
  The generated code reads the reply at its static type. The model's \<open>reply\<close> is a sum, and a
  message of another type is a decoding error of the call.
\<close>

definition other_type :: go_error where
  "other_type = Foreign ''grpc: reply of another type''"

definition as_RepArtifacts :: "reply \<Rightarrow> VCNArtifactsResponse go" where
  [service_defs]: "as_RepArtifacts r = (case r of RepArtifacts m \<Rightarrow> Ok m | _ \<Rightarrow> Fail other_type)"

definition as_RepEntryList :: "reply \<Rightarrow> EntryList go" where
  [service_defs]: "as_RepEntryList r = (case r of RepEntryList m \<Rightarrow> Ok m | _ \<Rightarrow> Fail other_type)"

definition as_RepLabelsGet :: "reply \<Rightarrow> VCNLabelsGetResponse go" where
  [service_defs]: "as_RepLabelsGet r = (case r of RepLabelsGet m \<Rightarrow> Ok m | _ \<Rightarrow> Fail other_type)"

definition as_RepLabelsSet :: "reply \<Rightarrow> VCNLabelsSetResponse go" where
  [service_defs]: "as_RepLabelsSet r = (case r of RepLabelsSet m \<Rightarrow> Ok m | _ \<Rightarrow> Fail other_type)"

definition as_RepLabelsUpdate :: "reply \<Rightarrow> VCNLabelsUpdateResponse go" where
  [service_defs]: "as_RepLabelsUpdate r = (case r of RepLabelsUpdate m \<Rightarrow> Ok m | _ \<Rightarrow> Fail other_type)"

definition as_RepAttachment :: "reply \<Rightarrow> VCNGetAttachmentResponse go" where
  [service_defs]: "as_RepAttachment r = (case r of RepAttachment m \<Rightarrow> Ok m | _ \<Rightarrow> Fail other_type)"

definition as_RepClientSignature :: "reply \<Rightarrow> VCNGetClientSignatureResponse go" where
  [service_defs]: "as_RepClientSignature r = (case r of RepClientSignature m \<Rightarrow> Ok m | _ \<Rightarrow> Fail other_type)"

definition as_RepState :: "reply \<Rightarrow> ImmutableState go" where
  [service_defs]: "as_RepState r = (case r of RepState m \<Rightarrow> Ok m | _ \<Rightarrow> Fail other_type)"

definition as_RepImmudb :: "reply \<Rightarrow> wire go" where
  [service_defs]: "as_RepImmudb r = (case r of RepImmudb k m \<Rightarrow> Ok m | _ \<Rightarrow> Fail other_type)"

definition as_RepEmpty :: "reply \<Rightarrow> unit go" where
  [service_defs]: "as_RepEmpty r = (case r of RepEmpty \<Rightarrow> Ok () | _ \<Rightarrow> Fail other_type)"

definition as_RepFeatures :: "reply \<Rightarrow> Features go" where
  [service_defs]: "as_RepFeatures r = (case r of RepFeatures m \<Rightarrow> Ok m | _ \<Rightarrow> Fail other_type)"

definition as_RepTxHeader :: "reply \<Rightarrow> TxHeader go" where
  [service_defs]: "as_RepTxHeader r = (case r of RepTxHeader m \<Rightarrow> Ok m | _ \<Rightarrow> Fail other_type)"

definition as_RepSetMulti :: "reply \<Rightarrow> SetMultiResponse go" where
  [service_defs]: "as_RepSetMulti r = (case r of RepSetMulti m \<Rightarrow> Ok m | _ \<Rightarrow> Fail other_type)"

definition as_RepEntry :: "reply \<Rightarrow> Entry go" where
  [service_defs]: "as_RepEntry r = (case r of RepEntry m \<Rightarrow> Ok m | _ \<Rightarrow> Fail other_type)"

definition as_RepVerifiableTx :: "reply \<Rightarrow> VerifiableTx go" where
  [service_defs]: "as_RepVerifiableTx r = (case r of RepVerifiableTx m \<Rightarrow> Ok m | _ \<Rightarrow> Fail other_type)"

definition as_RepVerifiableEntry :: "reply \<Rightarrow> VerifiableEntry go" where
  [service_defs]: "as_RepVerifiableEntry r = (case r of RepVerifiableEntry m \<Rightarrow> Ok m | _ \<Rightarrow> Fail other_type)"

definition as_RepEntries :: "reply \<Rightarrow> Entries go" where
  [service_defs]: "as_RepEntries r = (case r of RepEntries m \<Rightarrow> Ok m | _ \<Rightarrow> Fail other_type)"

definition as_RepZEntries :: "reply \<Rightarrow> ZEntries go" where
  [service_defs]: "as_RepZEntries r = (case r of RepZEntries m \<Rightarrow> Ok m | _ \<Rightarrow> Fail other_type)"

definition as_RepItemExt :: "reply \<Rightarrow> VerifiableItemExt go" where
  [service_defs]: "as_RepItemExt r = (case r of RepItemExt m \<Rightarrow> Ok m | _ \<Rightarrow> Fail other_type)"

definition as_RepGetExtMulti :: "reply \<Rightarrow> VerifiableGetExtMultiResponse go" where
  [service_defs]: "as_RepGetExtMulti r = (case r of RepGetExtMulti m \<Rightarrow> Ok m | _ \<Rightarrow> Fail other_type)"

definition as_RepZItemExtList :: "reply \<Rightarrow> ZItemExtList go" where
  [service_defs]: "as_RepZItemExtList r = (case r of RepZItemExtList m \<Rightarrow> Ok m | _ \<Rightarrow> Fail other_type)"

definition as_RepItemExtList :: "reply \<Rightarrow> ItemExtList go" where
  [service_defs]: "as_RepItemExtList r = (case r of RepItemExtList m \<Rightarrow> Ok m | _ \<Rightarrow> Fail other_type)"

definition as_RepResponse :: "reply \<Rightarrow> Response go" where
  [service_defs]: "as_RepResponse r = (case r of RepResponse m \<Rightarrow> Ok m | _ \<Rightarrow> Fail other_type)"

section \<open>Calls\<close>

text \<open>
  The shape all unary stubs share: \<^verbatim>\<open>out := new(T); err := c.cc.Invoke(ctx, method, in, out, opts...)\<close>,
  then the error or \<open>out\<close>.
\<close>

definition unary_hdr ::
    "('w, 'ctx) ClientConn \<Rightarrow> 'ctx \<Rightarrow> string \<Rightarrow> request \<Rightarrow> reply \<Rightarrow> (reply \<Rightarrow> 'r go) \<Rightarrow>
     CallOption list \<Rightarrow> ('w, 'r \<times> MD) io" where
  "unary_hdr cc ctx method inp out proj opts = (\<lambda>w.
     case Invoke cc ctx method inp out opts w of
       ((Ok _, out', md), w') \<Rightarrow> (tryG (proj out') (\<lambda>r. Ok (r, md)), w')
     | ((Fail e, _, _), w') \<Rightarrow> (Fail e, w')
     | ((Panic p, _, _), w') \<Rightarrow> (Panic p, w'))"

definition unary ::
    "('w, 'ctx) ClientConn \<Rightarrow> 'ctx \<Rightarrow> string \<Rightarrow> request \<Rightarrow> reply \<Rightarrow> (reply \<Rightarrow> 'r go) \<Rightarrow>
     CallOption list \<Rightarrow> ('w, 'r) io" where
  "unary cc ctx method inp out proj opts =
     tryE (unary_hdr cc ctx method inp out proj opts) (\<lambda>(r, md). ret r)"

definition recv_reply ::
    "('w, 'ctx) ClientConn \<Rightarrow> stream \<Rightarrow> reply \<Rightarrow> (reply \<Rightarrow> 'r go) \<Rightarrow> ('w, 'r) io" where
  "recv_reply cc x m proj = tryE (RecvMsg cc x m) (\<lambda>m'. lift (proj m'))"

definition lcServiceClient_VCNSetArtifacts ::
    "('w, 'ctx) ClientConn \<Rightarrow> 'ctx \<Rightarrow> VCNArtifactsRequest \<Rightarrow> CallOption list \<Rightarrow> ('w, VCNArtifactsResponse) io" where
  [service_defs]: "lcServiceClient_VCNSetArtifacts cc ctx inp opts =
     unary cc ctx ''/lc.schema.LcService/VCNSetArtifacts'' (ReqArtifacts inp)
       (RepArtifacts zero_VCNArtifactsResponse) as_RepArtifacts opts"

definition lcServiceClient_VCNSearchArtifacts ::
    "('w, 'ctx) ClientConn \<Rightarrow> 'ctx \<Rightarrow> VCNSearchRequest \<Rightarrow> CallOption list \<Rightarrow> ('w, EntryList) io" where
  [service_defs]: "lcServiceClient_VCNSearchArtifacts cc ctx inp opts =
     unary cc ctx ''/lc.schema.LcService/VCNSearchArtifacts'' (ReqSearch inp)
       (RepEntryList zero_EntryList) as_RepEntryList opts"

definition lcServiceClient_VCNGetArtifacts ::
    "('w, 'ctx) ClientConn \<Rightarrow> 'ctx \<Rightarrow> VCNArtifactsGetRequest \<Rightarrow> CallOption list \<Rightarrow> ('w, EntryList) io" where
  [service_defs]: "lcServiceClient_VCNGetArtifacts cc ctx inp opts =
     unary cc ctx ''/lc.schema.LcService/VCNGetArtifacts'' (ReqArtifactsGet inp)
       (RepEntryList zero_EntryList) as_RepEntryList opts"

definition lcServiceClient_VCNLabelsGet ::
    "('w, 'ctx) ClientConn \<Rightarrow> 'ctx \<Rightarrow> VCNLabelsGetRequest \<Rightarrow> CallOption list \<Rightarrow> ('w, VCNLabelsGetResponse) io" where
  [service_defs]: "lcServiceClient_VCNLabelsGet cc ctx inp opts =
     unary cc ctx ''/lc.schema.LcService/VCNLabelsGet'' (ReqLabelsGet inp)
       (RepLabelsGet zero_VCNLabelsGetResponse) as_RepLabelsGet opts"

definition lcServiceClient_VCNLabelsSet ::
    "('w, 'ctx) ClientConn \<Rightarrow> 'ctx \<Rightarrow> VCNLabelsSetRequest \<Rightarrow> CallOption list \<Rightarrow> ('w, VCNLabelsSetResponse) io" where
  [service_defs]: "lcServiceClient_VCNLabelsSet cc ctx inp opts =
     unary cc ctx ''/lc.schema.LcService/VCNLabelsSet'' (ReqLabelsSet inp)
       (RepLabelsSet zero_VCNLabelsSetResponse) as_RepLabelsSet opts"

definition lcServiceClient_VCNLabelsUpdate ::
    "('w, 'ctx) ClientConn \<Rightarrow> 'ctx \<Rightarrow> VCNLabelsUpdateRequest \<Rightarrow> CallOption list \<Rightarrow> ('w, VCNLabelsUpdateResponse) io" where
  [service_defs]: "lcServiceClient_VCNLabelsUpdate cc ctx inp opts =
     unary cc ctx ''/lc.schema.LcService/VCNLabelsUpdate'' (ReqLabelsUpdate inp)
       (RepLabelsUpdate zero_VCNLabelsUpdateResponse) as_RepLabelsUpdate opts"

definition lcServiceClient_VCNGetAttachment ::
    "('w, 'ctx) ClientConn \<Rightarrow> 'ctx \<Rightarrow> VCNGetAttachmentRequest \<Rightarrow> CallOption list \<Rightarrow> ('w, VCNGetAttachmentResponse) io" where
  [service_defs]: "lcServiceClient_VCNGetAttachment cc ctx inp opts =
     unary cc ctx ''/lc.schema.LcService/VCNGetAttachment'' (ReqAttachment inp)
       (RepAttachment zero_VCNGetAttachmentResponse) as_RepAttachment opts"

definition lcServiceClient_VCNGetClientSignature ::
    "('w, 'ctx) ClientConn \<Rightarrow> 'ctx \<Rightarrow> VCNGetClientSignatureRequest \<Rightarrow> CallOption list \<Rightarrow> ('w, VCNGetClientSignatureResponse) io" where
  [service_defs]: "lcServiceClient_VCNGetClientSignature cc ctx inp opts =
     unary cc ctx ''/lc.schema.LcService/VCNGetClientSignature'' (ReqClientSignature inp)
       (RepClientSignature zero_VCNGetClientSignatureResponse) as_RepClientSignature opts"

definition lcServiceClient_CurrentState ::
    "('w, 'ctx) ClientConn \<Rightarrow> 'ctx \<Rightarrow> unit \<Rightarrow> CallOption list \<Rightarrow> ('w, ImmutableState) io" where
  [service_defs]: "lcServiceClient_CurrentState cc ctx inp opts =
     unary cc ctx ''/lc.schema.LcService/CurrentState'' ReqEmpty
       (RepState zero_ImmutableState) as_RepState opts"

text \<open>\<open>Health\<close> with the header metadata that \<open>grpc.Header(&md)\<close> collects.\<close>

definition lcServiceClient_Health_hdr ::
    "('w, 'ctx) ClientConn \<Rightarrow> 'ctx \<Rightarrow> unit \<Rightarrow> CallOption list \<Rightarrow> ('w, wire \<times> MD) io" where
  [service_defs]: "lcServiceClient_Health_hdr cc ctx inp opts =
     unary_hdr cc ctx ''/lc.schema.LcService/Health'' ReqEmpty
       (RepImmudb HealthResponse []) as_RepImmudb opts"

definition lcServiceClient_Health ::
    "('w, 'ctx) ClientConn \<Rightarrow> 'ctx \<Rightarrow> unit \<Rightarrow> CallOption list \<Rightarrow> ('w, wire) io" where
  [service_defs]: "lcServiceClient_Health cc ctx inp opts =
     unary cc ctx ''/lc.schema.LcService/Health'' ReqEmpty
       (RepImmudb HealthResponse []) as_RepImmudb opts"

definition lcServiceClient_ReportTamper ::
    "('w, 'ctx) ClientConn \<Rightarrow> 'ctx \<Rightarrow> ReportOptions \<Rightarrow> CallOption list \<Rightarrow> ('w, unit) io" where
  [service_defs]: "lcServiceClient_ReportTamper cc ctx inp opts =
     unary cc ctx ''/lc.schema.LcService/ReportTamper'' (ReqReport inp)
       RepEmpty as_RepEmpty opts"

definition lcServiceClient_Feats ::
    "('w, 'ctx) ClientConn \<Rightarrow> 'ctx \<Rightarrow> unit \<Rightarrow> CallOption list \<Rightarrow> ('w, Features) io" where
  [service_defs]: "lcServiceClient_Feats cc ctx inp opts =
     unary cc ctx ''/lc.schema.LcService/Feats'' ReqEmpty
       (RepFeatures zero_Features) as_RepFeatures opts"

definition lcServiceClient_Set ::
    "('w, 'ctx) ClientConn \<Rightarrow> 'ctx \<Rightarrow> SetRequest \<Rightarrow> CallOption list \<Rightarrow> ('w, TxHeader) io" where
  [service_defs]: "lcServiceClient_Set cc ctx inp opts =
     unary cc ctx ''/lc.schema.LcService/Set'' (ReqSet inp)
       (RepTxHeader zero_TxHeader) as_RepTxHeader opts"

definition lcServiceClient_SetMulti ::
    "('w, 'ctx) ClientConn \<Rightarrow> 'ctx \<Rightarrow> SetMultiRequest \<Rightarrow> CallOption list \<Rightarrow> ('w, SetMultiResponse) io" where
  [service_defs]: "lcServiceClient_SetMulti cc ctx inp opts =
     unary cc ctx ''/lc.schema.LcService/SetMulti'' (ReqSetMulti inp)
       (RepSetMulti zero_SetMultiResponse) as_RepSetMulti opts"

definition lcServiceClient_Get ::
    "('w, 'ctx) ClientConn \<Rightarrow> 'ctx \<Rightarrow> KeyRequest \<Rightarrow> CallOption list \<Rightarrow> ('w, Entry) io" where
  [service_defs]: "lcServiceClient_Get cc ctx inp opts =
     unary cc ctx ''/lc.schema.LcService/Get'' (ReqKey inp)
       (RepEntry zero_Entry) as_RepEntry opts"

definition lcServiceClient_VerifiableSet ::
    "('w, 'ctx) ClientConn \<Rightarrow> 'ctx \<Rightarrow> VerifiableSetRequest \<Rightarrow> CallOption list \<Rightarrow> ('w, VerifiableTx) io" where
  [service_defs]: "lcServiceClient_VerifiableSet cc ctx inp opts =
     unary cc ctx ''/lc.schema.LcService/VerifiableSet'' (ReqVerifiableSet inp)
       (RepVerifiableTx zero_VerifiableTx) as_RepVerifiableTx opts"

definition lcServiceClient_VerifiableGet ::
    "('w, 'ctx) ClientConn \<Rightarrow> 'ctx \<Rightarrow> VerifiableGetRequest \<Rightarrow> CallOption list \<Rightarrow> ('w, VerifiableEntry) io" where
  [service_defs]: "lcServiceClient_VerifiableGet cc ctx inp opts =
     unary cc ctx ''/lc.schema.LcService/VerifiableGet'' (ReqVerifiableGet inp)
       (RepVerifiableEntry zero_VerifiableEntry) as_RepVerifiableEntry opts"

definition lcServiceClient_GetAll ::
    "('w, 'ctx) ClientConn \<Rightarrow> 'ctx \<Rightarrow> wire \<Rightarrow> CallOption list \<Rightarrow> ('w, Entries) io" where
  [service_defs]: "lcServiceClient_GetAll cc ctx inp opts =
     unary cc ctx ''/lc.schema.LcService/GetAll'' (ReqImmudb KeyListRequest inp)
       (RepEntries zero_Entries) as_RepEntries opts"

definition lcServiceClient_ExecAll ::
    "('w, 'ctx) ClientConn \<Rightarrow> 'ctx \<Rightarrow> wire \<Rightarrow> CallOption list \<Rightarrow> ('w, TxHeader) io" where
  [service_defs]: "lcServiceClient_ExecAll cc ctx inp opts =
     unary cc ctx ''/lc.schema.LcService/ExecAll'' (ReqImmudb ExecAllRequest inp)
       (RepTxHeader zero_TxHeader) as_RepTxHeader opts"

definition lcServiceClient_Scan ::
    "('w, 'ctx) ClientConn \<Rightarrow> 'ctx \<Rightarrow> wire \<Rightarrow> CallOption list \<Rightarrow> ('w, Entries) io" where
  [service_defs]: "lcServiceClient_Scan cc ctx inp opts =
     unary cc ctx ''/lc.schema.LcService/Scan'' (ReqImmudb ScanRequest inp)
       (RepEntries zero_Entries) as_RepEntries opts"

definition lcServiceClient_History ::
    "('w, 'ctx) ClientConn \<Rightarrow> 'ctx \<Rightarrow> wire \<Rightarrow> CallOption list \<Rightarrow> ('w, Entries) io" where
  [service_defs]: "lcServiceClient_History cc ctx inp opts =
     unary cc ctx ''/lc.schema.LcService/History'' (ReqImmudb HistoryRequest inp)
       (RepEntries zero_Entries) as_RepEntries opts"

definition lcServiceClient_ZAdd ::
    "('w, 'ctx) ClientConn \<Rightarrow> 'ctx \<Rightarrow> wire \<Rightarrow> CallOption list \<Rightarrow> ('w, TxHeader) io" where
  [service_defs]: "lcServiceClient_ZAdd cc ctx inp opts =
     unary cc ctx ''/lc.schema.LcService/ZAdd'' (ReqImmudb ZAddRequest inp)
       (RepTxHeader zero_TxHeader) as_RepTxHeader opts"

definition lcServiceClient_VerifiableZAdd ::
    "('w, 'ctx) ClientConn \<Rightarrow> 'ctx \<Rightarrow> wire \<Rightarrow> CallOption list \<Rightarrow> ('w, VerifiableTx) io" where
  [service_defs]: "lcServiceClient_VerifiableZAdd cc ctx inp opts =
     unary cc ctx ''/lc.schema.LcService/VerifiableZAdd'' (ReqImmudb VerifiableZAddRequest inp)
       (RepVerifiableTx zero_VerifiableTx) as_RepVerifiableTx opts"

definition lcServiceClient_ZScan ::
    "('w, 'ctx) ClientConn \<Rightarrow> 'ctx \<Rightarrow> wire \<Rightarrow> CallOption list \<Rightarrow> ('w, ZEntries) io" where
  [service_defs]: "lcServiceClient_ZScan cc ctx inp opts =
     unary cc ctx ''/lc.schema.LcService/ZScan'' (ReqImmudb ZScanRequest inp)
       (RepZEntries zero_ZEntries) as_RepZEntries opts"

definition lcServiceClient_SendData ::
    "('w, 'ctx) ClientConn \<Rightarrow> 'ctx \<Rightarrow> CallOption list \<Rightarrow> ('w, stream) io" where
  [service_defs]: "lcServiceClient_SendData cc ctx opts =
     NewStream cc ctx (LcService_ServiceDesc_Streams ! 0) ''/lc.schema.LcService/SendData'' opts"

definition lcServiceSendDataClient_Send :: "('w, 'ctx) ClientConn \<Rightarrow> stream \<Rightarrow> Data \<Rightarrow> ('w, unit) io" where
  [service_defs]: "lcServiceSendDataClient_Send cc x m = SendMsg cc x (ReqData m)"

definition lcServiceSendDataClient_Recv :: "('w, 'ctx) ClientConn \<Rightarrow> stream \<Rightarrow> ('w, Response) io" where
  [service_defs]: "lcServiceSendDataClient_Recv cc x = recv_reply cc x (RepResponse zero_Response) as_RepResponse"

definition lcServiceClient_VerifiableGetExt ::
    "('w, 'ctx) ClientConn \<Rightarrow> 'ctx \<Rightarrow> VerifiableGetRequest \<Rightarrow> CallOption list \<Rightarrow> ('w, VerifiableItemExt) io" where
  [service_defs]: "lcServiceClient_VerifiableGetExt cc ctx inp opts =
     unary cc ctx ''/lc.schema.LcService/VerifiableGetExt'' (ReqVerifiableGet inp)
       (RepItemExt zero_VerifiableItemExt) as_RepItemExt opts"

definition lcServiceClient_VerifiableGetExtMulti ::
    "('w, 'ctx) ClientConn \<Rightarrow> 'ctx \<Rightarrow> VerifiableGetExtMultiRequest \<Rightarrow> CallOption list \<Rightarrow> ('w, VerifiableGetExtMultiResponse) io" where
  [service_defs]: "lcServiceClient_VerifiableGetExtMulti cc ctx inp opts =
     unary cc ctx ''/lc.schema.LcService/VerifiableGetExtMulti'' (ReqGetExtMulti inp)
       (RepGetExtMulti zero_VerifiableGetExtMultiResponse) as_RepGetExtMulti opts"

definition lcServiceClient_ZScanExt ::
    "('w, 'ctx) ClientConn \<Rightarrow> 'ctx \<Rightarrow> wire \<Rightarrow> CallOption list \<Rightarrow> ('w, ZItemExtList) io" where
  [service_defs]: "lcServiceClient_ZScanExt cc ctx inp opts =
     unary cc ctx ''/lc.schema.LcService/ZScanExt'' (ReqImmudb ZScanRequest inp)
       (RepZItemExtList zero_ZItemExtList) as_RepZItemExtList opts"

definition lcServiceClient_HistoryExt ::
    "('w, 'ctx) ClientConn \<Rightarrow> 'ctx \<Rightarrow> wire \<Rightarrow> CallOption list \<Rightarrow> ('w, ItemExtList) io" where
  [service_defs]: "lcServiceClient_HistoryExt cc ctx inp opts =
     unary cc ctx ''/lc.schema.LcService/HistoryExt'' (ReqImmudb HistoryRequest inp)
       (RepItemExtList zero_ItemExtList) as_RepItemExtList opts"

definition lcServiceClient_StreamGet ::
    "('w, 'ctx) ClientConn \<Rightarrow> 'ctx \<Rightarrow> KeyRequest \<Rightarrow> CallOption list \<Rightarrow> ('w, stream) io" where
  [service_defs]: "lcServiceClient_StreamGet cc ctx inp opts =
     tryE (NewStream cc ctx (LcService_ServiceDesc_Streams ! 1) ''/lc.schema.LcService/streamGet'' opts) (\<lambda>stream.
     tryE (SendMsg cc stream (ReqKey inp)) (\<lambda>_.
     tryE (CloseSend cc stream) (\<lambda>_. ret stream)))"

definition lcServiceStreamGetClient_Recv :: "('w, 'ctx) ClientConn \<Rightarrow> stream \<Rightarrow> ('w, wire) io" where
  [service_defs]: "lcServiceStreamGetClient_Recv cc x = recv_reply cc x (RepImmudb Chunk []) as_RepImmudb"

definition lcServiceClient_StreamSet ::
    "('w, 'ctx) ClientConn \<Rightarrow> 'ctx \<Rightarrow> CallOption list \<Rightarrow> ('w, stream) io" where
  [service_defs]: "lcServiceClient_StreamSet cc ctx opts =
     NewStream cc ctx (LcService_ServiceDesc_Streams ! 2) ''/lc.schema.LcService/streamSet'' opts"

definition lcServiceStreamSetClient_Send :: "('w, 'ctx) ClientConn \<Rightarrow> stream \<Rightarrow> wire \<Rightarrow> ('w, unit) io" where
  [service_defs]: "lcServiceStreamSetClient_Send cc x m = SendMsg cc x (ReqImmudb Chunk m)"

definition lcServiceStreamSetClient_CloseAndRecv :: "('w, 'ctx) ClientConn \<Rightarrow> stream \<Rightarrow> ('w, TxHeader) io" where
  [service_defs]: "lcServiceStreamSetClient_CloseAndRecv cc x = 
     tryE (CloseSend cc x) (\<lambda>_.
     recv_reply cc x (RepTxHeader zero_TxHeader) as_RepTxHeader)"

definition lcServiceClient_StreamVerifiableGet ::
    "('w, 'ctx) ClientConn \<Rightarrow> 'ctx \<Rightarrow> VerifiableGetRequest \<Rightarrow> CallOption list \<Rightarrow> ('w, stream) io" where
  [service_defs]: "lcServiceClient_StreamVerifiableGet cc ctx inp opts =
     tryE (NewStream cc ctx (LcService_ServiceDesc_Streams ! 3) ''/lc.schema.LcService/streamVerifiableGet'' opts) (\<lambda>stream.
     tryE (SendMsg cc stream (ReqVerifiableGet inp)) (\<lambda>_.
     tryE (CloseSend cc stream) (\<lambda>_. ret stream)))"

definition lcServiceStreamVerifiableGetClient_Recv :: "('w, 'ctx) ClientConn \<Rightarrow> stream \<Rightarrow> ('w, wire) io" where
  [service_defs]: "lcServiceStreamVerifiableGetClient_Recv cc x = recv_reply cc x (RepImmudb Chunk []) as_RepImmudb"

definition lcServiceClient_StreamVerifiableSet ::
    "('w, 'ctx) ClientConn \<Rightarrow> 'ctx \<Rightarrow> CallOption list \<Rightarrow> ('w, stream) io" where
  [service_defs]: "lcServiceClient_StreamVerifiableSet cc ctx opts =
     NewStream cc ctx (LcService_ServiceDesc_Streams ! 4) ''/lc.schema.LcService/streamVerifiableSet'' opts"

definition lcServiceStreamVerifiableSetClient_Send :: "('w, 'ctx) ClientConn \<Rightarrow> stream \<Rightarrow> wire \<Rightarrow> ('w, unit) io" where
  [service_defs]: "lcServiceStreamVerifiableSetClient_Send cc x m = SendMsg cc x (ReqImmudb Chunk m)"

definition lcServiceStreamVerifiableSetClient_CloseAndRecv :: "('w, 'ctx) ClientConn \<Rightarrow> stream \<Rightarrow> ('w, VerifiableTx) io" where
  [service_defs]: "lcServiceStreamVerifiableSetClient_CloseAndRecv cc x = 
     tryE (CloseSend cc x) (\<lambda>_.
     recv_reply cc x (RepVerifiableTx zero_VerifiableTx) as_RepVerifiableTx)"

definition lcServiceClient_StreamScan ::
    "('w, 'ctx) ClientConn \<Rightarrow> 'ctx \<Rightarrow> wire \<Rightarrow> CallOption list \<Rightarrow> ('w, stream) io" where
  [service_defs]: "lcServiceClient_StreamScan cc ctx inp opts =
     tryE (NewStream cc ctx (LcService_ServiceDesc_Streams ! 5) ''/lc.schema.LcService/streamScan'' opts) (\<lambda>stream.
     tryE (SendMsg cc stream (ReqImmudb ScanRequest inp)) (\<lambda>_.
     tryE (CloseSend cc stream) (\<lambda>_. ret stream)))"

definition lcServiceStreamScanClient_Recv :: "('w, 'ctx) ClientConn \<Rightarrow> stream \<Rightarrow> ('w, wire) io" where
  [service_defs]: "lcServiceStreamScanClient_Recv cc x = recv_reply cc x (RepImmudb Chunk []) as_RepImmudb"

definition lcServiceClient_StreamZScan ::
    "('w, 'ctx) ClientConn \<Rightarrow> 'ctx \<Rightarrow> wire \<Rightarrow> CallOption list \<Rightarrow> ('w, stream) io" where
  [service_defs]: "lcServiceClient_StreamZScan cc ctx inp opts =
     tryE (NewStream cc ctx (LcService_ServiceDesc_Streams ! 6) ''/lc.schema.LcService/streamZScan'' opts) (\<lambda>stream.
     tryE (SendMsg cc stream (ReqImmudb ZScanRequest inp)) (\<lambda>_.
     tryE (CloseSend cc stream) (\<lambda>_. ret stream)))"

definition lcServiceStreamZScanClient_Recv :: "('w, 'ctx) ClientConn \<Rightarrow> stream \<Rightarrow> ('w, wire) io" where
  [service_defs]: "lcServiceStreamZScanClient_Recv cc x = recv_reply cc x (RepImmudb Chunk []) as_RepImmudb"

definition lcServiceClient_StreamHistory ::
    "('w, 'ctx) ClientConn \<Rightarrow> 'ctx \<Rightarrow> wire \<Rightarrow> CallOption list \<Rightarrow> ('w, stream) io" where
  [service_defs]: "lcServiceClient_StreamHistory cc ctx inp opts =
     tryE (NewStream cc ctx (LcService_ServiceDesc_Streams ! 7) ''/lc.schema.LcService/streamHistory'' opts) (\<lambda>stream.
     tryE (SendMsg cc stream (ReqImmudb HistoryRequest inp)) (\<lambda>_.
     tryE (CloseSend cc stream) (\<lambda>_. ret stream)))"

definition lcServiceStreamHistoryClient_Recv :: "('w, 'ctx) ClientConn \<Rightarrow> stream \<Rightarrow> ('w, wire) io" where
  [service_defs]: "lcServiceStreamHistoryClient_Recv cc x = recv_reply cc x (RepImmudb Chunk []) as_RepImmudb"

definition lcServiceClient_StreamExecAll ::
    "('w, 'ctx) ClientConn \<Rightarrow> 'ctx \<Rightarrow> CallOption list \<Rightarrow> ('w, stream) io" where
  [service_defs]: "lcServiceClient_StreamExecAll cc ctx opts =
     NewStream cc ctx (LcService_ServiceDesc_Streams ! 8) ''/lc.schema.LcService/streamExecAll'' opts"

definition lcServiceStreamExecAllClient_Send :: "('w, 'ctx) ClientConn \<Rightarrow> stream \<Rightarrow> wire \<Rightarrow> ('w, unit) io" where
  [service_defs]: "lcServiceStreamExecAllClient_Send cc x m = SendMsg cc x (ReqImmudb Chunk m)"

definition lcServiceStreamExecAllClient_CloseAndRecv :: "('w, 'ctx) ClientConn \<Rightarrow> stream \<Rightarrow> ('w, TxHeader) io" where
  [service_defs]: "lcServiceStreamExecAllClient_CloseAndRecv cc x = 
     tryE (CloseSend cc x) (\<lambda>_.
     recv_reply cc x (RepTxHeader zero_TxHeader) as_RepTxHeader)"

end
