(* ===== verification/State_Service.thy ===== *)
theory State_Service
  imports Lc_Service
begin

text \<open>
  The local cache of the last trusted ledger state and its providers
  (\<open>lc_state_service.go\<close>, \<open>lc_state_provider.go\<close>, \<open>lc_uuid_provider.go\<close>).

  \<open>StateServiceIf\<close> is immudb's interface \<open>state.StateService\<close> as a record of its methods.
  The repository's own implementation \<open>lcStateService\<close> wraps another one and stores every state
  under an obfuscated API key. The locale \<open>trusted_state\<close> states what a client relies on, for
  any implementation: which calls may change the cached states and how the cache lock moves. The
  lemma \<open>wrapper_trusted\<close> of \<open>wrapped_state\<close> shows that the wrapper keeps the contract.
\<close>

section \<open>The interface\<close>

record ('w, 'ctx) StateServiceIf =
  GetState :: "'ctx \<Rightarrow> string \<Rightarrow> ('w, ImmutableState) io"
  SetState :: "string \<Rightarrow> ImmutableState \<Rightarrow> ('w, unit) io"
  CacheLock :: "('w, unit) io"
  CacheUnlock :: "('w, unit) io"
  SetServerIdentity :: "string \<Rightarrow> ('w, unit) io"

section \<open>The repository's implementation\<close>

definition obfuscateApiKey :: "(bytes \<Rightarrow> bytes) \<Rightarrow> string \<Rightarrow> string" where
  "obfuscateApiKey sha apiKey = StdEncoding (sha (string_bytes apiKey))"

definition lcStateService_GetState ::
    "(bytes \<Rightarrow> bytes) \<Rightarrow> ('w, 'ctx) StateServiceIf \<Rightarrow> 'ctx \<Rightarrow> string \<Rightarrow> ('w, ImmutableState) io" where
  "lcStateService_GetState sha ss ctx apiKey = GetState ss ctx (obfuscateApiKey sha apiKey)"

definition lcStateService_SetState ::
    "(bytes \<Rightarrow> bytes) \<Rightarrow> ('w, 'ctx) StateServiceIf \<Rightarrow> string \<Rightarrow> ImmutableState \<Rightarrow> ('w, unit) io" where
  "lcStateService_SetState sha ss apiKey state = SetState ss (obfuscateApiKey sha apiKey) state"

definition lcStateService_CacheLock :: "('w, 'ctx) StateServiceIf \<Rightarrow> ('w, unit) io" where
  "lcStateService_CacheLock ss = CacheLock ss"

definition lcStateService_CacheUnlock :: "('w, 'ctx) StateServiceIf \<Rightarrow> ('w, unit) io" where
  "lcStateService_CacheUnlock ss = CacheUnlock ss"

definition lcStateService_SetServerIdentity ::
    "('w, 'ctx) StateServiceIf \<Rightarrow> string \<Rightarrow> ('w, unit) io" where
  "lcStateService_SetServerIdentity ss identity = SetServerIdentity ss identity"

text \<open>The struct \<open>lcStateService{ss}\<close> seen through the interface.\<close>

definition lcStateService ::
    "(bytes \<Rightarrow> bytes) \<Rightarrow> ('w, 'ctx) StateServiceIf \<Rightarrow> ('w, 'ctx) StateServiceIf" where
  "lcStateService sha ss =
    \<lparr>GetState = lcStateService_GetState sha ss,
     SetState = lcStateService_SetState sha ss,
     CacheLock = lcStateService_CacheLock ss,
     CacheUnlock = lcStateService_CacheUnlock ss,
     SetServerIdentity = lcStateService_SetServerIdentity ss\<rparr>"

text \<open>
  \<open>NewLcStateService\<close>: \<open>new\<close> is immudb's \<open>state.NewStateService\<close> applied to the
  cache, the logger and the two providers.
\<close>

definition NewLcStateService ::
    "(bytes \<Rightarrow> bytes) \<Rightarrow> ('w, ('w, 'ctx) StateServiceIf) io \<Rightarrow> ('w, ('w, 'ctx) StateServiceIf) io" where
  "NewLcStateService sha new = tryE new (\<lambda>ss. ret (lcStateService sha ss))"

section \<open>Error values\<close>

text \<open>
  The texts of the error values the package exports (\<open>errors.go\<close> and \<open>lc_uuid_provider.go\<close>). Two of
  them read the same; as in Go, where an error is compared as a pointer, the values differ all the same.
  Only \<open>ErrNoServerUuid\<close> is ever returned by the package.
\<close>

definition ErrNoServerUuid_text :: "string \<Rightarrow> string" where
  "ErrNoServerUuid_text SERVER_UUID_HEADER = ''!IMPORTANT WARNING: '' @ SERVER_UUID_HEADER @
     '' header is not published by the immudb server; '' @
     ''this client MUST NOT be used to connect to different immudb servers!''"

fun sentinel_text :: "string \<Rightarrow> go_error \<Rightarrow> string option" where
  "sentinel_text SERVER_UUID_HEADER ErrNoServerUuid = Some (ErrNoServerUuid_text SERVER_UUID_HEADER)"
| "sentinel_text SERVER_UUID_HEADER ErrStateNotFound = Some ''could not find previous state''"
| "sentinel_text SERVER_UUID_HEADER ErrCacheNotLocked = Some ''cache is not locked''"
| "sentinel_text SERVER_UUID_HEADER ErrCacheAlreadyLocked = Some ''cache is already locked''"
| "sentinel_text SERVER_UUID_HEADER ErrPrevStateNotFound = Some ''could not find previous state''"
| "sentinel_text SERVER_UUID_HEADER ErrLocalStateCorrupted = Some ''local state is corrupted''"
| "sentinel_text SERVER_UUID_HEADER e = None"

section \<open>Providers\<close>

text \<open>
  The two structs hold a service client, which is represented by its connection.
  \<open>SERVER_UUID_HEADER\<close> is a constant of immudb's server package.
\<close>

datatype ('w, 'ctx) LcStateProvider = LcStateProvider (state_client: "('w, 'ctx) ClientConn")

definition NewLcStateProvider :: "('w, 'ctx) ClientConn \<Rightarrow> ('w, 'ctx) LcStateProvider" where
  "NewLcStateProvider client = LcStateProvider client"

definition LcStateProvider_CurrentState ::
    "('w, 'ctx) LcStateProvider \<Rightarrow> 'ctx \<Rightarrow> ('w, ImmutableState) io" where
  "LcStateProvider_CurrentState r ctx =
     lcServiceClient_CurrentState (state_client r) ctx () [HeaderOption, TrailerOption]"

datatype ('w, 'ctx) LcUuidProvider = LcUuidProvider (uuid_client: "('w, 'ctx) ClientConn")

definition NewLcUUIDProvider :: "('w, 'ctx) ClientConn \<Rightarrow> ('w, 'ctx) LcUuidProvider" where
  "NewLcUUIDProvider client = LcUuidProvider client"

definition LcUuidProvider_CurrentUUID ::
    "string \<Rightarrow> ('w, 'ctx) LcUuidProvider \<Rightarrow> 'ctx \<Rightarrow> ('w, string) io" where
  "LcUuidProvider_CurrentUUID SERVER_UUID_HEADER r ctx =
     tryE (lcServiceClient_Health_hdr (uuid_client r) ctx () [HeaderOption, TrailerOption]) (\<lambda>(_, headerMD).
       let serverUuid = (if 0 < length (headerMD SERVER_UUID_HEADER)
                         then headerMD SERVER_UUID_HEADER ! 0 else '''')
       in if serverUuid = '''' then fail ErrNoServerUuid else ret serverUuid)"

section \<open>The contract\<close>

text \<open>
  \<open>cached w k\<close> is the state stored for key \<open>k\<close> and \<open>locked w\<close> says whether the cache
  lock is held. Keys with the same \<open>slot\<close> share their entry. \<open>GetState\<close> returns the stored
  state or, when there is none, fetches one and stores it.
\<close>

locale trusted_state =
  fixes ss :: "('w, 'ctx) StateServiceIf"
    and locked :: "'w \<Rightarrow> bool"
    and cached :: "'w \<Rightarrow> string \<Rightarrow> ImmutableState option"
    and slot :: "string \<Rightarrow> string"
  assumes lock_law: "CacheLock ss w = (r, w') \<Longrightarrow>
        cached w' = cached w \<and> (if r = Ok () then locked w' else locked w' = locked w)"
    and unlock_law: "locked w \<Longrightarrow>
        \<exists>w'. CacheUnlock ss w = (Ok (), w') \<and> \<not> locked w' \<and> cached w' = cached w"
    and get_locked: "GetState ss ctx k w = (q, w') \<Longrightarrow> locked w' = locked w"
    and get_law: "GetState ss ctx k w = (Ok s, w') \<Longrightarrow>
        cached w' k = Some s \<and> (cached w k = None \<or> cached w k = Some s) \<and>
        (\<forall>k'. slot k' \<noteq> slot k \<longrightarrow> cached w' k' = cached w k')"
    and get_error: "GetState ss ctx k w = (q, w') \<Longrightarrow> (\<forall>s. q \<noteq> Ok s) \<Longrightarrow> cached w' = cached w"
    and set_locked: "SetState ss k s w = (r, w') \<Longrightarrow> locked w' = locked w"
    and set_law: "SetState ss k s w = (Ok (), w') \<Longrightarrow>
        cached w' k = Some s \<and> (\<forall>k'. slot k' \<noteq> slot k \<longrightarrow> cached w' k' = cached w k')"
    and set_error: "SetState ss k s w = (r, w') \<Longrightarrow> r \<noteq> Ok () \<Longrightarrow> cached w' = cached w"
begin

lemma get_preserves_locked: "preserves locked (GetState ss ctx k)"
  by (rule tripleI) (auto dest: get_locked)

lemma set_preserves_locked: "preserves locked (SetState ss k s)"
  by (rule tripleI) (auto dest: set_locked)

text \<open>A section between \<open>CacheLock\<close> and a deferred \<open>CacheUnlock\<close> leaves the lock free.\<close>

lemma locked_section:
  assumes body: "preserves locked body"
  shows "preserves (\<lambda>w. \<not> locked w) (tryE (CacheLock ss) (\<lambda>_. deferE (CacheUnlock ss) body))"
proof (rule tripleI)
  fix w r w''
  assume free: "\<not> locked w"
    and run: "tryE (CacheLock ss) (\<lambda>_. deferE (CacheUnlock ss) body) w = (r, w'')"
  obtain l w1 where l: "CacheLock ss w = (l, w1)" by (cases "CacheLock ss w")
  show "\<not> locked w''"
  proof (cases "l = Ok ()")
    case True
    obtain b w2 where b: "body w1 = (b, w2)" by (cases "body w1")
    have "locked w1" using lock_law [OF l] True by simp
    from tripleD [OF body this b] have "locked w2" .
    then obtain w3 where u: "CacheUnlock ss w2 = (Ok (), w3)" and "\<not> locked w3"
      using unlock_law by blast
    from l True run deferE_step [where m = body and c = "CacheUnlock ss", OF b u] have "w'' = w3"
      by (simp add: tryE_def)
    with \<open>\<not> locked w3\<close> show ?thesis by simp
  next
    case False
    with l run have "w'' = w1" by (cases l) (auto simp: tryE_def)
    moreover have "locked w1 = locked w" using lock_law [OF l] False by simp
    ultimately show ?thesis using free by simp
  qed
qed

text \<open>What the section returns and leaves in the cache is what its body does.\<close>

lemma locked_section_run:
  assumes run: "tryE (CacheLock ss) (\<lambda>_. deferE (CacheUnlock ss) body) w = (r, w'')"
    and body: "preserves locked body"
  shows "cached w'' = cached w \<and> (\<forall>x. r \<noteq> Ok x) \<or>
     (\<exists>w1 w2. CacheLock ss w = (Ok (), w1) \<and> cached w1 = cached w \<and>
        body w1 = (r, w2) \<and> cached w'' = cached w2)"
proof -
  obtain l w1 where l: "CacheLock ss w = (l, w1)" by (cases "CacheLock ss w")
  note law = lock_law [OF l]
  show "cached w'' = cached w \<and> (\<forall>x. r \<noteq> Ok x) \<or>
     (\<exists>w1 w2. CacheLock ss w = (Ok (), w1) \<and> cached w1 = cached w \<and>
        body w1 = (r, w2) \<and> cached w'' = cached w2)"
  proof (cases "l = Ok ()")
    case True
    obtain b w2 where b: "body w1 = (b, w2)" by (cases "body w1")
    have "locked w1" using law True by simp
    from tripleD [OF body this b] have "locked w2" .
    then obtain w3 where u: "CacheUnlock ss w2 = (Ok (), w3)" and "cached w3 = cached w2"
      using unlock_law by blast
    with l True run deferE_step [where m = body and c = "CacheUnlock ss", OF b u] law b show ?thesis
      by (auto simp: tryE_def)
  next
    case False
    with l run law show ?thesis by (cases l) (auto simp: tryE_def)
  qed
qed

end

locale wrapped_state = trusted_state ss locked cached slot
  for ss :: "('w, 'ctx) StateServiceIf" and locked cached slot +
  fixes sha :: "bytes \<Rightarrow> bytes"
begin

lemma wrapper_trusted:
  "trusted_state (lcStateService sha ss) locked
     (\<lambda>w k. cached w (obfuscateApiKey sha k)) (\<lambda>k. slot (obfuscateApiKey sha k))"
proof unfold_locales
  fix w r w'
  assume "CacheLock (lcStateService sha ss) w = (r, w')"
  then show "(\<lambda>k. cached w' (obfuscateApiKey sha k)) = (\<lambda>k. cached w (obfuscateApiKey sha k)) \<and>
      (if r = Ok () then locked w' else locked w' = locked w)"
    using lock_law by (simp add: lcStateService_def lcStateService_CacheLock_def)
next
  fix w
  assume "locked w"
  then show "\<exists>w'. CacheUnlock (lcStateService sha ss) w = (Ok (), w') \<and> \<not> locked w' \<and>
      (\<lambda>k. cached w' (obfuscateApiKey sha k)) = (\<lambda>k. cached w (obfuscateApiKey sha k))"
    using unlock_law by (fastforce simp: lcStateService_def lcStateService_CacheUnlock_def)
qed (auto simp: lcStateService_def lcStateService_GetState_def lcStateService_SetState_def
      dest: get_locked get_law get_error set_locked set_law set_error)

end

sublocale wrapped_state \<subseteq> wrapper: trusted_state "lcStateService sha ss" locked
  "\<lambda>w k. cached w (obfuscateApiKey sha k)" "\<lambda>k. slot (obfuscateApiKey sha k)"
  by (rule wrapper_trusted)

section \<open>Progress\<close>

text \<open>What a state service does when nothing is in the way: a free lock is granted, a stored state is
  found, and a state can be stored.\<close>

locale live_state = trusted_state ss locked cached slot
  for ss :: "('w, 'ctx) StateServiceIf" and locked cached slot +
  assumes lock_granted: "\<not> locked w \<Longrightarrow> \<exists>w'. CacheLock ss w = (Ok (), w')"
    and get_found: "cached w k = Some st \<Longrightarrow> \<exists>w'. GetState ss ctx k w = (Ok st, w')"
    and set_stored: "\<exists>w'. SetState ss k st w = (Ok (), w')"
begin

lemma wrapper_live:
  "live_state (lcStateService sha ss) locked (\<lambda>w k. cached w (obfuscateApiKey sha k))
     (\<lambda>k. slot (obfuscateApiKey sha k))"
proof (intro live_state.intro live_state_axioms.intro wrapped_state.wrapper_trusted wrapped_state.intro
    trusted_state_axioms)
qed (use lock_granted get_found set_stored in \<open>auto simp: lcStateService_def lcStateService_CacheLock_def
      lcStateService_GetState_def lcStateService_SetState_def\<close>)

text \<open>So a section under the lock runs its body.\<close>

lemma locked_section_runs:
  assumes free: "\<not> locked w" and body: "preserves locked body"
    and runs: "\<And>v. CacheLock ss w = (Ok (), v) \<Longrightarrow> \<exists>x v'. body v = (Ok x, v')"
  shows "\<exists>x w'. tryE (CacheLock ss) (\<lambda>_. deferE (CacheUnlock ss) body) w = (Ok x, w')"
proof -
  from lock_granted [OF free] obtain w1 where l: "CacheLock ss w = (Ok (), w1)" by blast
  from lock_law [OF l] have w1: "locked w1" by simp
  from runs [OF l] obtain x w2 where b: "body w1 = (Ok x, w2)" by blast
  from unlock_law [OF tripleD [OF body w1 b]] obtain w3 where u: "CacheUnlock ss w2 = (Ok (), w3)" by blast
  from deferE_step [where m = body and c = "CacheUnlock ss", OF b u] l show ?thesis
    by (simp add: tryE_def)
qed

end

end
