(* ===== verification/Lc_Client.thy ===== *)
theory Lc_Client
  imports State_Service
begin

text \<open>
  The client object and its life cycle (\<open>lc_client.go\<close>, \<open>lc_client_options.go\<close>,
  \<open>constant.go\<close>, \<open>meta.go\<close>, \<open>lc_logger.go\<close>): the struct \<open>LcClient\<close>, the option
  setters, \<open>NewLcClient\<close>, \<open>Connect\<close>, \<open>Disconnect\<close> and the key setter.

  A nil interface or pointer field is \<open>None\<close>. \<open>ServiceClient\<close> holds the connection that
  \<open>lcServiceClient{cc}\<close> wraps. Interceptors appear in the dial options by name; what they do is in
  \<open>Interceptors\<close>. The embedded \<open>sync.RWMutex\<close> only orders concurrent writers of the signing
  key and has no field here. The type variables: \<open>'w\<close> the
  world, \<open>'ctx\<close> contexts, \<open>'k\<close> public keys, \<open>'sf\<close> stream service factories.
\<close>

section \<open>Constants\<close>

definition ApiKeySeparator :: string where
  "ApiKeySeparator = ''.''"

definition MaxCallRecvMsgSize :: int where
  "MaxCallRecvMsgSize = push_bit 20 32"

section \<open>Loggers\<close>

text \<open>
  \<open>log.Printf\<close> is called with a format and its variadic arguments. \<open>defaultLogger.Errorf\<close>
  passes its own argument slice as one argument; the other methods print nothing. The result is
  the list of calls of \<open>log.Printf\<close>. The interface \<open>LcLogger\<close> is the record of its methods.
\<close>

datatype log_arg = Arg string | ArgSlice "log_arg list"

record LcLogger =
  logger_Errorf :: "string \<Rightarrow> log_arg list \<Rightarrow> (string \<times> log_arg list) list"
  logger_Warningf :: "string \<Rightarrow> log_arg list \<Rightarrow> (string \<times> log_arg list) list"
  logger_Infof :: "string \<Rightarrow> log_arg list \<Rightarrow> (string \<times> log_arg list) list"
  logger_Debugf :: "string \<Rightarrow> log_arg list \<Rightarrow> (string \<times> log_arg list) list"
  logger_Close :: "unit go"

definition defaultLogger_Errorf :: "string \<Rightarrow> log_arg list \<Rightarrow> (string \<times> log_arg list) list" where
  "defaultLogger_Errorf f args = [(''ERROR: '' @ f, [ArgSlice args])]"

definition defaultLogger_Warningf :: "string \<Rightarrow> log_arg list \<Rightarrow> (string \<times> log_arg list) list" where
  "defaultLogger_Warningf f args = []"

definition defaultLogger_Infof :: "string \<Rightarrow> log_arg list \<Rightarrow> (string \<times> log_arg list) list" where
  "defaultLogger_Infof f args = []"

definition defaultLogger_Debugf :: "string \<Rightarrow> log_arg list \<Rightarrow> (string \<times> log_arg list) list" where
  "defaultLogger_Debugf f args = []"

definition defaultLogger_Close :: "unit go" where
  "defaultLogger_Close = Ok ()"

definition defaultLogger :: LcLogger where
  "defaultLogger = \<lparr>logger_Errorf = defaultLogger_Errorf, logger_Warningf = defaultLogger_Warningf,
     logger_Infof = defaultLogger_Infof, logger_Debugf = defaultLogger_Debugf,
     logger_Close = defaultLogger_Close\<rparr>"

section \<open>The client\<close>

text \<open>
  Durations are in nanoseconds; the jitter of the retry back-off is a fraction.
\<close>

datatype RetryOption =
    WithMax nat
  | WithBackoffExponentialWithJitter int "nat \<times> nat"
  | WithCodes "string list"
  | OtherRetryOption wire

datatype unary_interceptor =
    SignatureVerifierInterceptor
  | ConnectionCheckerInterceptor
  | ApiKeySetterInterceptor
  | RetryUnaryInterceptor "RetryOption list"

datatype stream_interceptor =
    ApiKeySetterInterceptorStream
  | RetryStreamInterceptor "RetryOption list"

datatype DialOption =
    WithInsecure
  | WithKeepaliveParams int int bool
  | WithMaxCallRecvMsgSize int
  | WithChainUnaryClient "unary_interceptor list"
  | WithChainStreamClient "stream_interceptor list"
  | OtherDialOption wire

record ('w, 'ctx, 'k, 'sf) LcClient =
  Dir :: string
  Host :: string
  Port :: int
  ApiKey :: string
  ApiKeyHash :: string
  MetadataPairs :: "string list"
  DialOptions :: "DialOption list"
  clientConn :: "('w, 'ctx) ClientConn option"
  ServiceClient :: "('w, 'ctx) ClientConn option"
  StateService :: "('w, 'ctx) StateServiceIf option"
  TimestampService :: wire
  StreamChunkSize :: int
  StreamServiceFactory :: 'sf
  serverSigningPubKey :: "'k option"
  RetryOptions :: "RetryOption list"
  logger :: LcLogger

type_synonym ('w, 'ctx, 'k, 'sf) LcClientOption =
  "('w, 'ctx, 'k, 'sf) LcClient \<Rightarrow> ('w, 'ctx, 'k, 'sf) LcClient"

section \<open>Options\<close>

definition Option_Dir :: "string \<Rightarrow> ('w, 'ctx, 'k, 'sf) LcClientOption" where
  "Option_Dir c = (\<lambda>args. args\<lparr>Dir := c\<rparr>)"

definition Option_Host :: "string \<Rightarrow> ('w, 'ctx, 'k, 'sf) LcClientOption" where
  "Option_Host c = (\<lambda>args. args\<lparr>Host := c\<rparr>)"

definition Option_Port :: "int \<Rightarrow> ('w, 'ctx, 'k, 'sf) LcClientOption" where
  "Option_Port port = (\<lambda>args. args\<lparr>Port := port\<rparr>)"

definition Option_ApiKey :: "string \<Rightarrow> ('w, 'ctx, 'k, 'sf) LcClientOption" where
  "Option_ApiKey apiKey = (\<lambda>args. args\<lparr>ApiKey := apiKey\<rparr>)"

definition Option_MetadataPairs :: "string list \<Rightarrow> ('w, 'ctx, 'k, 'sf) LcClientOption" where
  "Option_MetadataPairs metadataPairs = (\<lambda>args. args\<lparr>MetadataPairs := metadataPairs\<rparr>)"

definition Option_DialOptions :: "DialOption list \<Rightarrow> ('w, 'ctx, 'k, 'sf) LcClientOption" where
  "Option_DialOptions dopts = (\<lambda>args. args\<lparr>DialOptions := dopts\<rparr>)"

definition Option_RetryOptions :: "RetryOption list \<Rightarrow> ('w, 'ctx, 'k, 'sf) LcClientOption" where
  "Option_RetryOptions opts = (\<lambda>args. args\<lparr>RetryOptions := opts\<rparr>)"

definition Option_ClientConn :: "('w, 'ctx) ClientConn option \<Rightarrow> ('w, 'ctx, 'k, 'sf) LcClientOption" where
  "Option_ClientConn conn = (\<lambda>args. args\<lparr>clientConn := conn\<rparr>)"

definition Option_ServiceClient :: "('w, 'ctx) ClientConn option \<Rightarrow> ('w, 'ctx, 'k, 'sf) LcClientOption" where
  "Option_ServiceClient service = (\<lambda>args. args\<lparr>ServiceClient := service\<rparr>)"

definition Option_StateService :: "('w, 'ctx) StateServiceIf option \<Rightarrow> ('w, 'ctx, 'k, 'sf) LcClientOption" where
  "Option_StateService rootservice = (\<lambda>args. args\<lparr>StateService := rootservice\<rparr>)"

definition Option_TimestampService :: "wire \<Rightarrow> ('w, 'ctx, 'k, 'sf) LcClientOption" where
  "Option_TimestampService timestampService = (\<lambda>args. args\<lparr>TimestampService := timestampService\<rparr>)"

definition Option_ServerSigningPubKey :: "'k option \<Rightarrow> ('w, 'ctx, 'k, 'sf) LcClientOption" where
  "Option_ServerSigningPubKey key = (\<lambda>args. args\<lparr>serverSigningPubKey := key\<rparr>)"

definition Option_Logger :: "LcLogger \<Rightarrow> ('w, 'ctx, 'k, 'sf) LcClientOption" where
  "Option_Logger l = (\<lambda>args. args\<lparr>logger := l\<rparr>)"

lemmas option_defs =
  Option_Dir_def Option_Host_def Option_Port_def Option_ApiKey_def Option_MetadataPairs_def
  Option_DialOptions_def Option_RetryOptions_def Option_ClientConn_def Option_ServiceClient_def
  Option_StateService_def Option_TimestampService_def Option_ServerSigningPubKey_def
  Option_Logger_def

section \<open>Construction\<close>

text \<open>
  What construction takes from outside the repository: immudb's default stream chunk size, its
  stream service factory and timestamp service.
\<close>

definition default_LcClient ::
    "wire \<Rightarrow> int \<Rightarrow> (int \<Rightarrow> 'sf) \<Rightarrow> ('w, 'ctx, 'k, 'sf) LcClient" where
  "default_LcClient ts chunk mkFactory =
    \<lparr>Dir = '''', Host = ''localhost'', Port = 3324, ApiKey = '''', ApiKeyHash = '''',
     MetadataPairs = [],
     DialOptions =
       [WithInsecure,
        WithKeepaliveParams (20 * 1000000000) (10 * 1000000000) True,
        WithMaxCallRecvMsgSize MaxCallRecvMsgSize],
     clientConn = None, ServiceClient = None, StateService = None, TimestampService = ts,
     StreamChunkSize = chunk, StreamServiceFactory = mkFactory chunk,
     serverSigningPubKey = None,
     RetryOptions =
       [WithMax 0,
        WithBackoffExponentialWithJitter (1500 * 1000000) (1, 10),
        WithCodes [''Aborted'', ''Unavailable'', ''Unknown'']],
     logger = defaultLogger\<rparr>"

definition unary_interceptors :: "('w, 'ctx, 'k, 'sf) LcClient \<Rightarrow> unary_interceptor list" where
  "unary_interceptors cli =
     (let uic = [];
          uic = (if serverSigningPubKey cli \<noteq> None then uic @ [SignatureVerifierInterceptor] else uic)
      in uic @ [ConnectionCheckerInterceptor, ApiKeySetterInterceptor,
                RetryUnaryInterceptor (RetryOptions cli)])"

definition stream_interceptors :: "('w, 'ctx, 'k, 'sf) LcClient \<Rightarrow> stream_interceptor list" where
  "stream_interceptors cli =
     (let sic = []
      in sic @ [ApiKeySetterInterceptorStream, RetryStreamInterceptor (RetryOptions cli)])"

definition NewLcClient ::
    "wire \<Rightarrow> int \<Rightarrow> (int \<Rightarrow> 'sf) \<Rightarrow> ('w, 'ctx, 'k, 'sf) LcClientOption list \<Rightarrow>
     ('w, 'ctx, 'k, 'sf) LcClient" where
  "NewLcClient ts chunk mkFactory setters =
     (let cli = default_LcClient ts chunk mkFactory;
          cli = foldl (\<lambda>cli setter. setter cli) cli setters;
          uic = unary_interceptors cli;
          sic = stream_interceptors cli
      in cli\<lparr>DialOptions := DialOptions cli @ [WithChainUnaryClient uic, WithChainStreamClient sic]\<rparr>)"

section \<open>Connecting\<close>

datatype Cache = FileCache string

text \<open>
  The parts of the platform \<open>Connect\<close> calls: SHA-256, \<open>grpc.Dial\<close>, immudb's
  \<open>state.NewStateService\<close> (from a cache, a logger, a state provider and a UUID provider) and the
  name of the server's UUID header.
\<close>

record ('w, 'ctx) Platform =
  sha256 :: "bytes \<Rightarrow> bytes"
  grpc_Dial :: "string \<Rightarrow> DialOption list \<Rightarrow> ('w, ('w, 'ctx) ClientConn) io"
  NewStateService :: "Cache \<Rightarrow> LcLogger \<Rightarrow> ('ctx \<Rightarrow> ('w, ImmutableState) io) \<Rightarrow>
    ('ctx \<Rightarrow> ('w, string) io) \<Rightarrow> ('w, ('w, 'ctx) StateServiceIf) io"
  SERVER_UUID_HEADER :: string

text \<open>The first part of \<open>Connect\<close>: the hash of the API key's secret piece, next to its signer.\<close>

definition connect_ApiKeyHash :: "(bytes \<Rightarrow> bytes) \<Rightarrow> string \<Rightarrow> string \<Rightarrow> string" where
  "connect_ApiKeyHash sha apiKey old =
     (if apiKey \<noteq> '''' then
        let apiKeyPieces = split_on (hd ApiKeySeparator) apiKey in
        if 2 \<le> length apiKeyPieces then
          let signerID = join ApiKeySeparator (take (length apiKeyPieces - 1) apiKeyPieces);
              hashed = sha (string_bytes (apiKeyPieces ! (length apiKeyPieces - 1)))
          in signerID @ ApiKeySeparator @ RawURLEncoding hashed
        else old
      else old)"

text \<open>
  \<open>Connect\<close> updates the client in place, so the result carries the client as it is left, also
  when an error is returned.
\<close>

definition Connect ::
    "('w, 'ctx) Platform \<Rightarrow> ('w, 'ctx, 'k, 'sf) LcClient \<Rightarrow> 'w \<Rightarrow>
     (unit go \<times> ('w, 'ctx, 'k, 'sf) LcClient) \<times> 'w" where
  "Connect P c w =
     (let c = c\<lparr>ApiKeyHash := connect_ApiKeyHash (sha256 P) (ApiKey c) (ApiKeyHash c)\<rparr> in
      case grpc_Dial P (Host c @ '':'' @ fmt_d (Port c)) (DialOptions c) w of
        (Panic p, w) \<Rightarrow> ((Panic p, c), w)
      | (Fail e, w) \<Rightarrow> ((Fail e, c\<lparr>clientConn := None\<rparr>), w)
      | (Ok cc, w) \<Rightarrow>
          let c = c\<lparr>clientConn := Some cc\<rparr>;
              c = c\<lparr>ServiceClient := Some cc\<rparr>;
              uuidPrv = LcUuidProvider_CurrentUUID (SERVER_UUID_HEADER P) (NewLcUUIDProvider cc);
              stateProvider = LcStateProvider_CurrentState (NewLcStateProvider cc)
          in (case NewLcStateService (sha256 P)
                     (NewStateService P (FileCache (Dir c)) (logger c) stateProvider uuidPrv) w of
                (Panic p, w) \<Rightarrow> ((Panic p, c), w)
              | (Fail e, w) \<Rightarrow> ((Fail e, c\<lparr>StateService := None\<rparr>), w)
              | (Ok ss, w) \<Rightarrow> ((Ok (), c\<lparr>StateService := Some ss\<rparr>), w)))"

text \<open>A method called on a nil \<open>*grpc.ClientConn\<close> dereferences it.\<close>

definition Disconnect ::
    "('w, 'ctx, 'k, 'sf) LcClient \<Rightarrow> 'w \<Rightarrow> (unit go \<times> ('w, 'ctx, 'k, 'sf) LcClient) \<times> 'w" where
  "Disconnect c w =
     (let c = c\<lparr>ServiceClient := None\<rparr>
      in case derefE (clientConn c) (\<lambda>cc. CloseConn cc) w of (r, w) \<Rightarrow> ((r, c), w))"

definition SetServerSigningPubKey ::
    "('w, 'ctx, 'k, 'sf) LcClient \<Rightarrow> 'k option \<Rightarrow> ('w, 'ctx, 'k, 'sf) LcClient" where
  "SetServerSigningPubKey c k = c\<lparr>serverSigningPubKey := k\<rparr>"

definition GetApiKey :: "('w, 'ctx, 'k, 'sf) LcClient \<Rightarrow> string" where
  "GetApiKey c = ApiKey c"

section \<open>Facts about the life cycle\<close>

lemma ApiKeySeparator_dot [simp]: "hd ApiKeySeparator = CHR ''.''"
  by (simp add: ApiKeySeparator_def)

lemma connect_ApiKeyHash_pieces:
  assumes "2 \<le> length (split_on CHR ''.'' apiKey)"
  shows "split_on CHR ''.'' (connect_ApiKeyHash sha apiKey old) =
     butlast (split_on CHR ''.'' apiKey) @
       [RawURLEncoding (sha (string_bytes (last (split_on CHR ''.'' apiKey))))]"
proof -
  let ?ps = "split_on CHR ''.'' apiKey"
  have ne: "butlast ?ps \<noteq> []" using assms by (cases ?ps) auto
  have "apiKey \<noteq> ''''" using assms by auto
  then have "connect_ApiKeyHash sha apiKey old =
      join ApiKeySeparator (butlast ?ps) @ ApiKeySeparator @ RawURLEncoding (sha (string_bytes (last ?ps)))"
    using assms by (simp add: connect_ApiKeyHash_def Let_def butlast_conv_take last_conv_nth)
  also have "\<dots> = join [CHR ''.''] (butlast ?ps @ [RawURLEncoding (sha (string_bytes (last ?ps)))])"
    using ne by (simp add: join_snoc ApiKeySeparator_def)
  finally have hash: "connect_ApiKeyHash sha apiKey old = \<dots>" .
  have "free_of CHR ''.'' (butlast ?ps)"
    using split_on_free [of "CHR ''.''" apiKey] by (auto simp: free_of_def list_all_iff dest: in_set_butlastD)
  then show ?thesis unfolding hash by (intro split_on_join) auto
qed

lemma NewLcClient_dial:
  "DialOptions (NewLcClient ts chunk mk setters) =
     (let cli = foldl (\<lambda>cli setter. setter cli) (default_LcClient ts chunk mk) setters
      in DialOptions cli @
           [WithChainUnaryClient (unary_interceptors cli), WithChainStreamClient (stream_interceptors cli)])"
  by (simp add: NewLcClient_def Let_def)

lemma foldl_setters_snoc:
  "foldl (\<lambda>cli setter. setter cli) c (setters @ [s]) = s (foldl (\<lambda>cli setter. setter cli) c setters)"
  by simp

end
