(* ===== verification/Verification.thy ===== *)
theory Verification
  imports Lc_Client
begin

text \<open>
  The cryptographic checks of the client: \<open>verifyGet\<close> (\<open>lc_api.go\<close>) and the three checks
  written out inside \<open>VerifiedSet\<close>, \<open>StreamVerifiedSet\<close> and \<open>StreamVerifiedGet\<close>.
  Each takes the trusted state and an answer of the server and computes the state to trust next, or
  an error. \<open>F\<close> is immudb.

  The relation \<open>advances\<close> says what a check promises: the next state is vouched for by a dual proof
  from the trusted one, or repeats it, or there was nothing to trust yet (transaction 0).
  \<open>trust_path\<close> is its closure over any number of checks, and the locale \<open>state_verifier\<close> is the
  contract all four checks interpret.
\<close>

section \<open>verifyGet\<close>

text \<open>The entry an answer is about: its transaction and its specification.\<close>

definition get_entry_spec ::
    "('ip, 'dp, 'tx, 'md, 'es, 'k) immudb \<Rightarrow> Entry \<Rightarrow> bytes go \<Rightarrow> (u64 \<times> 'es) go" where
  "get_entry_spec F entry reqKey =
     (case Entry_ReferencedBy entry of
        None \<Rightarrow> tryG reqKey (\<lambda>key.
          Ok (Entry_Tx entry,
            EncodeEntrySpec F key (KVMetadataFromProto F (Entry_Metadata entry)) (Entry_Value entry)))
      | Some ref \<Rightarrow>
          Ok (Reference_Tx ref,
            EncodeReference F (Reference_Key ref) (KVMetadataFromProto F (Reference_Metadata ref))
              (Entry_Key entry) (Reference_AtTx ref)))"

text \<open>
  Which side of the dual proof the trusted state is on: the digest of the entries, then source and
  target of the proof.
\<close>

definition get_proof_ends ::
    "('ip, 'dp, 'tx, 'md, 'es, 'k) immudb \<Rightarrow> ImmutableState \<Rightarrow> DualProof option \<Rightarrow> 'dp \<Rightarrow> u64 \<Rightarrow>
     (bytes \<times> u64 \<times> bytes \<times> u64 \<times> bytes) go" where
  "get_proof_ends F state dproof dualProof vTx =
     (if ImmutableState_TxId state \<le> vTx then
        deref dproof (\<lambda>dp. deref (DualProof_TargetTxHeader dp) (\<lambda>h.
        let eh = DigestFromProto F (TxHeader_EH h);
            sourceID = ImmutableState_TxId state;
            sourceAlh = DigestFromProto F (ImmutableState_TxHash state);
            targetID = vTx
        in tryG (dual_target_alh F dualProof) (\<lambda>targetAlh.
           Ok (eh, sourceID, sourceAlh, targetID, targetAlh))))
      else
        deref dproof (\<lambda>dp. deref (DualProof_SourceTxHeader dp) (\<lambda>h.
        let eh = DigestFromProto F (TxHeader_EH h);
            sourceID = vTx
        in tryG (dual_source_alh F dualProof) (\<lambda>sourceAlh.
           let targetID = ImmutableState_TxId state;
               targetAlh = DigestFromProto F (ImmutableState_TxHash state)
           in Ok (eh, sourceID, sourceAlh, targetID, targetAlh)))))"

definition verifyGet ::
    "('ip, 'dp, 'tx, 'md, 'es, 'k) immudb \<Rightarrow> ImmutableState \<Rightarrow> VerifiableEntry option \<Rightarrow> KeyRequest \<Rightarrow>
     string \<Rightarrow> ImmutableState go" where
  "verifyGet F state vEntry kReq apiKeyHash =
     deref vEntry (\<lambda>ve. deref (VerifiableEntry_VerifiableTx ve) (\<lambda>vtx.
     deref (VerifiableTx_Tx vtx) (\<lambda>tx. deref (Tx_Header tx) (\<lambda>hdr.
     tryG (EntrySpecDigestFor F (sint (TxHeader_Version hdr))) (\<lambda>entrySpecDigest.
     tryG (InclusionProofFromProto F (VerifiableEntry_InclusionProof ve)) (\<lambda>inclusionProof.
     tryG (DualProofFromProto F (VerifiableTx_DualProof vtx)) (\<lambda>dualProof.
     deref (VerifiableEntry_Entry ve) (\<lambda>entry.
     tryG (get_entry_spec F entry (Ok (KeyRequest_Key kReq))) (\<lambda>(vTx, e).
     tryG (get_proof_ends F state (VerifiableTx_DualProof vtx) dualProof vTx)
       (\<lambda>(eh, sourceID, sourceAlh, targetID, targetAlh).
     if \<not> VerifyInclusion F inclusionProof (entrySpecDigest e) eh then Fail ErrCorruptedData
     else if 0 < ImmutableState_TxId state \<and>
             \<not> VerifyDualProof F dualProof sourceID targetID sourceAlh targetAlh
     then Fail ErrCorruptedData
     else Ok \<lparr>ImmutableState_Db = apiKeyHash, ImmutableState_TxId = targetID,
              ImmutableState_TxHash = targetAlh,
              ImmutableState_Signature = VerifiableTx_Signature vtx\<rparr>))))))))))"

section \<open>The check inside StreamVerifiedGet\<close>

text \<open>
  The streaming operation repeats the steps of \<open>verifyGet\<close> on the parsed entry; the key comes
  through the caller's request, whose \<open>KeyRequest\<close> may be nil.
\<close>

definition streamVerifiedGet_check ::
    "('ip, 'dp, 'tx, 'md, 'es, 'k) immudb \<Rightarrow> ImmutableState \<Rightarrow> VerifiableEntry \<Rightarrow> VerifiableGetRequest \<Rightarrow>
     string \<Rightarrow> ImmutableState go" where
  "streamVerifiedGet_check F state ve req apiKey =
     deref (VerifiableEntry_VerifiableTx ve) (\<lambda>vtx.
     deref (VerifiableTx_Tx vtx) (\<lambda>tx. deref (Tx_Header tx) (\<lambda>hdr.
     tryG (EntrySpecDigestFor F (sint (TxHeader_Version hdr))) (\<lambda>entrySpecDigest.
     tryG (InclusionProofFromProto F (VerifiableEntry_InclusionProof ve)) (\<lambda>inclusionProof.
     tryG (DualProofFromProto F (VerifiableTx_DualProof vtx)) (\<lambda>dualProof.
     deref (VerifiableEntry_Entry ve) (\<lambda>entry.
     tryG (get_entry_spec F entry
         (deref (VerifiableGetRequest_KeyRequest req) (\<lambda>kr. Ok (KeyRequest_Key kr)))) (\<lambda>(vTx, e).
     tryG (get_proof_ends F state (VerifiableTx_DualProof vtx) dualProof vTx)
       (\<lambda>(eh, sourceID, sourceAlh, targetID, targetAlh).
     if \<not> VerifyInclusion F inclusionProof (entrySpecDigest e) eh then Fail ErrCorruptedData
     else if 0 < ImmutableState_TxId state \<and>
             \<not> VerifyDualProof F dualProof sourceID targetID sourceAlh targetAlh
     then Fail ErrCorruptedData
     else Ok \<lparr>ImmutableState_Db = apiKey, ImmutableState_TxId = targetID,
              ImmutableState_TxHash = targetAlh,
              ImmutableState_Signature = VerifiableTx_Signature vtx\<rparr>)))))))))"

section \<open>The check inside VerifiedSet\<close>

text \<open>The steps shared by both setters from the digest of the target header on.\<close>

definition set_target_check ::
    "('ip, 'dp, 'tx, 'md, 'es, 'k) immudb \<Rightarrow> ImmutableState \<Rightarrow> string \<Rightarrow> VerifiableTx \<Rightarrow> 'tx \<Rightarrow>
     ImmutableState go" where
  "set_target_check F state apiKey vtx tx =
     deref (VerifiableTx_DualProof vtx) (\<lambda>dp. deref (DualProof_TargetTxHeader dp) (\<lambda>th.
     if tx_header_eh F tx \<noteq> DigestFromProto F (TxHeader_EH th) then Fail ErrCorruptedData else
     let sourceID = ImmutableState_TxId state;
         sourceAlh = DigestFromProto F (ImmutableState_TxHash state);
         targetID = tx_header_id F tx
     in tryG (tx_header_alh F tx) (\<lambda>targetAlh.
        tryG (if 0 < ImmutableState_TxId state
              then tryG (DualProofFromProto F (VerifiableTx_DualProof vtx)) (\<lambda>dualProof.
                   if VerifyDualProof F dualProof sourceID targetID sourceAlh targetAlh
                   then Ok () else Fail ErrCorruptedData)
              else Ok ()) (\<lambda>_.
        Ok \<lparr>ImmutableState_Db = apiKey, ImmutableState_TxId = targetID,
            ImmutableState_TxHash = targetAlh,
            ImmutableState_Signature = VerifiableTx_Signature vtx\<rparr>))))"

definition verifiedSet_check ::
    "('ip, 'dp, 'tx, 'md, 'es, 'k) immudb \<Rightarrow> ImmutableState \<Rightarrow> string \<Rightarrow> bytes \<Rightarrow> bytes \<Rightarrow> VerifiableTx \<Rightarrow>
     ImmutableState go" where
  "verifiedSet_check F state apiKey key val vtx =
     deref (VerifiableTx_Tx vtx) (\<lambda>ptx. deref (Tx_Header ptx) (\<lambda>hdr.
     if TxHeader_Nentries hdr \<noteq> 1 \<or> length (Tx_Entries ptx) \<noteq> 1 then Fail ErrCorruptedData else
     tryG (TxFromProto F (VerifiableTx_Tx vtx)) (\<lambda>tx.
     tryG (EntrySpecDigestFor F (tx_header_version F tx)) (\<lambda>entrySpecDigest.
     tryG (tx_proof F tx (EncodeKey F key)) (\<lambda>inclusionProof.
     tryG (index (tx_entries_md F tx) 0) (\<lambda>md.
     if (case md of None \<Rightarrow> False | Some m \<Rightarrow> md_deleted F m) then Fail ErrCorruptedData else
     let e = EncodeEntrySpec F key md val in
     if \<not> VerifyInclusion F inclusionProof (entrySpecDigest e) (tx_header_eh F tx)
     then Fail ErrCorruptedData else
     set_target_check F state apiKey vtx tx))))))"

section \<open>The check inside StreamVerifiedSet\<close>

fun streamSet_entries ::
    "('ip, 'dp, 'tx, 'md, 'es, 'k) immudb \<Rightarrow> 'tx \<Rightarrow> ('es \<Rightarrow> bytes) \<Rightarrow> nat \<Rightarrow> KeyValue list \<Rightarrow> unit go" where
  "streamSet_entries F tx entrySpecDigest i [] = Ok ()"
| "streamSet_entries F tx entrySpecDigest i (kv # kvs) =
     tryG (tx_proof F tx (EncodeKey F (KeyValue_Key kv))) (\<lambda>inclusionProof.
     tryG (index (tx_entries_md F tx) i) (\<lambda>md.
     let e = EncodeEntrySpec F (KeyValue_Key kv) md (KeyValue_Value kv) in
     if \<not> VerifyInclusion F inclusionProof (entrySpecDigest e) (tx_header_eh F tx)
     then Fail ErrCorruptedData
     else streamSet_entries F tx entrySpecDigest (Suc i) kvs))"

text \<open>\<open>int32(len(kvs))\<close> keeps the low 32 bits of the length.\<close>

definition streamVerifiedSet_check ::
    "('ip, 'dp, 'tx, 'md, 'es, 'k) immudb \<Rightarrow> ImmutableState \<Rightarrow> string \<Rightarrow> KeyValue list \<Rightarrow> VerifiableTx \<Rightarrow>
     ImmutableState go" where
  "streamVerifiedSet_check F state apiKey stdKVs vtx =
     deref (VerifiableTx_Tx vtx) (\<lambda>ptx. deref (Tx_Header ptx) (\<lambda>hdr.
     if TxHeader_Nentries hdr \<noteq> of_nat (length stdKVs) \<or> length (Tx_Entries ptx) \<noteq> length stdKVs
     then Fail ErrCorruptedData else
     tryG (TxFromProto F (VerifiableTx_Tx vtx)) (\<lambda>tx.
     tryG (EntrySpecDigestFor F (tx_header_version F tx)) (\<lambda>entrySpecDigest.
     tryG (streamSet_entries F tx entrySpecDigest 0 stdKVs) (\<lambda>_.
     set_target_check F state apiKey vtx tx)))))"

section \<open>What a check promises\<close>

inductive advances ::
    "('ip, 'dp, 'tx, 'md, 'es, 'k) immudb \<Rightarrow> ImmutableState \<Rightarrow> ImmutableState \<Rightarrow> bool" for F where
  first: "ImmutableState_TxId st = 0 \<Longrightarrow> advances F st ns"
| same: "ImmutableState_TxId ns = ImmutableState_TxId st \<Longrightarrow>
     ImmutableState_TxHash ns = DigestFromProto F (ImmutableState_TxHash st) \<Longrightarrow> advances F st ns"
| proved: "VerifyDualProof F dp (ImmutableState_TxId st) (ImmutableState_TxId ns)
       (DigestFromProto F (ImmutableState_TxHash st)) (ImmutableState_TxHash ns) \<Longrightarrow> advances F st ns"

inductive_cases advancesE: "advances F st ns"

definition trust_path ::
    "('ip, 'dp, 'tx, 'md, 'es, 'k) immudb \<Rightarrow> ImmutableState \<Rightarrow> ImmutableState \<Rightarrow> bool" where
  "trust_path F = (advances F)\<^sup>*\<^sup>*"

lemma trust_path_refl [simp, intro]: "trust_path F st st"
  by (simp add: trust_path_def)

lemma trust_path_step: "trust_path F a b \<Longrightarrow> advances F b c \<Longrightarrow> trust_path F a c"
  by (simp add: trust_path_def)

lemma trust_path_trans: "trust_path F a b \<Longrightarrow> trust_path F b c \<Longrightarrow> trust_path F a c"
  by (simp add: trust_path_def)

lemma advances_trust_path: "advances F a b \<Longrightarrow> trust_path F a b"
  by (auto simp: trust_path_def)

lemma advances_mono:
  assumes "dual_proof_ordered F" and "advances F st ns"
  shows "st \<le> ns"
  using assms(2)
proof cases
  case (proved dp)
  with assms(1) show ?thesis unfolding dual_proof_ordered_def state_le by blast
qed simp_all

lemma trust_path_mono:
  assumes ord: "dual_proof_ordered F" and "trust_path F st ns"
  shows "st \<le> ns"
  using assms(2) unfolding trust_path_def
  by (induction rule: rtranclp_induct) (auto simp del: state_le intro: order_trans advances_mono [OF ord])

text \<open>Along a path of proofs from a transaction on, every state continues the history of the first.\<close>

lemma advances_extends:
  assumes "dual_proof_extends F extends" and "\<And>h. DigestFromProto F (DigestFromProto F h) = DigestFromProto F h"
    and "advances F st ns" and "0 < ImmutableState_TxId st"
  shows "extends (history_of F st) (history_of F ns)"
  using assms(3)
proof cases
  case same
  then have "history_of F ns = history_of F st" by (simp add: history_of_def assms(2))
  with assms(1) show ?thesis unfolding dual_proof_extends_def by (metis reflpD)
next
  case (proved dp)
  with assms(1) show ?thesis by (simp add: history_of_def dual_proof_extends_def)
qed (use assms(4) in simp)

lemma trust_path_extends:
  assumes ext: "dual_proof_extends F extends" and ord: "dual_proof_ordered F"
    and idem: "\<And>h. DigestFromProto F (DigestFromProto F h) = DigestFromProto F h"
    and "trust_path F st ns" and pos: "0 < ImmutableState_TxId st"
  shows "extends (history_of F st) (history_of F ns)"
  using assms(4) unfolding trust_path_def
proof (induction rule: rtranclp_induct)
  case base
  from ext show ?case unfolding dual_proof_extends_def by (blast dest: reflpD)
next
  case (step b c)
  have "st \<le> b" using step(1) by (intro trust_path_mono [OF ord]) (simp add: trust_path_def)
  with pos have "0 < ImmutableState_TxId b" by simp
  from advances_extends [OF ext idem step(2) this] step(3) ext show ?case
    unfolding dual_proof_extends_def by (blast dest: transpD)
qed

locale state_verifier =
  fixes F :: "('ip, 'dp, 'tx, 'md, 'es, 'k) immudb"
    and verify :: "ImmutableState \<Rightarrow> 'a \<Rightarrow> ImmutableState go"
  assumes verified_advances: "verify st a = Ok ns \<Longrightarrow> advances F st ns"
begin

lemma verified_path: "trust_path F st0 st \<Longrightarrow> verify st a = Ok ns \<Longrightarrow> trust_path F st0 ns"
  by (blast intro: trust_path_step verified_advances)

lemma verified_mono:
  "dual_proof_ordered F \<Longrightarrow> verify st a = Ok ns \<Longrightarrow> st \<le> ns"
  by (blast intro: advances_mono verified_advances)

end

lemma get_proof_ends_advances:
  assumes "get_proof_ends F st dp d vTx = Ok (eh, s, sa, t, ta)"
    and "0 < ImmutableState_TxId st \<Longrightarrow> VerifyDualProof F d s t sa ta"
    and "ImmutableState_TxId ns = t" and "ImmutableState_TxHash ns = ta"
  shows "advances F st ns"
proof -
  consider "ImmutableState_TxId st = 0" | "\<not> ImmutableState_TxId st \<le> vTx"
    | "0 < ImmutableState_TxId st" "ImmutableState_TxId st \<le> vTx"
    by (auto simp: word_neq_0_conv [symmetric])
  then show ?thesis
  proof cases
    case 1
    then show ?thesis by (rule first)
  next
    case 2
    with assms(1,3,4) have "ImmutableState_TxId ns = ImmutableState_TxId st \<and>
        ImmutableState_TxHash ns = DigestFromProto F (ImmutableState_TxHash st)"
      by (auto simp: get_proof_ends_def Let_def ok_simps)
    then show ?thesis by (auto intro: same)
  next
    case 3
    then have "VerifyDualProof F d s t sa ta" using assms(2) by simp
    with 3 assms(1,3,4) show ?thesis
      by (auto simp: get_proof_ends_def Let_def ok_simps intro: proved)
  qed
qed

lemma verifyGet_advances: "verifyGet F st ve kr h = Ok ns \<Longrightarrow> advances F st ns"
  by (auto simp: verifyGet_def ok_simps split: if_splits elim!: get_proof_ends_advances)

lemma streamVerifiedGet_advances:
  "streamVerifiedGet_check F st ve req k = Ok ns \<Longrightarrow> advances F st ns"
  by (auto simp: streamVerifiedGet_check_def ok_simps split: if_splits elim!: get_proof_ends_advances)

lemma set_target_check_advances: "set_target_check F st k vtx tx = Ok ns \<Longrightarrow> advances F st ns"
proof (cases "ImmutableState_TxId st = 0")
  case False
  assume "set_target_check F st k vtx tx = Ok ns"
  with False show ?thesis
    by (auto simp: set_target_check_def Let_def ok_simps word_neq_0_conv split: if_splits intro: proved)
qed (rule first)

lemma verifiedSet_advances: "verifiedSet_check F st k key v vtx = Ok ns \<Longrightarrow> advances F st ns"
  by (auto simp: verifiedSet_check_def Let_def ok_simps split: if_splits
      dest: set_target_check_advances)

lemma streamVerifiedSet_advances: "streamVerifiedSet_check F st k kvs vtx = Ok ns \<Longrightarrow> advances F st ns"
  by (auto simp: streamVerifiedSet_check_def ok_simps split: if_splits
      dest: set_target_check_advances)

interpretation get: state_verifier F "\<lambda>st (ve, kr, h). verifyGet F st ve kr h" for F
  by unfold_locales (auto dest: verifyGet_advances)

interpretation stream_get: state_verifier F "\<lambda>st (ve, req, k). streamVerifiedGet_check F st ve req k" for F
  by unfold_locales (auto dest: streamVerifiedGet_advances)

interpretation set: state_verifier F "\<lambda>st (k, key, v, vtx). verifiedSet_check F st k key v vtx" for F
  by unfold_locales (auto dest: verifiedSet_advances)

interpretation stream_set: state_verifier F "\<lambda>st (k, kvs, vtx). streamVerifiedSet_check F st k kvs vtx" for F
  by unfold_locales (auto dest: streamVerifiedSet_advances)

end
