(* ===== verification/Client_Session.thy ===== *)
theory Client_Session
  imports Verification
begin

text \<open>
  The protocol every verified operation follows (\<open>lc_api.go\<close>, \<open>lc_streams_api.go\<close>): take the
  cache lock, read the trusted state, ask the server, check the answer, store the new state, check
  its signature, release the lock on every way out. The operations differ in what they ask and
  check (the \<open>fetch\<close> argument here) and in the order of the last two steps:
  \<open>store_then_check\<close> is that of the getters, \<open>check_then_store\<close> that of the setters and of
  the streams.

  The locale \<open>quiet_connection\<close> says that calls over the network do not touch the local cache; the
  locale \<open>client_session\<close> is a client whose state service keeps the contract \<open>trusted_state\<close> and
  whose connection, if there is one, is quiet. The lemmas about the protocol are proved once in it.
\<close>

section \<open>The protocol\<close>

text \<open>
  \<^verbatim>\<open>CacheLock(); defer CacheUnlock(); state := GetState(ctx, c.ApiKey); rest\<close>. The state
  service is an interface: a method call on a nil one panics.
\<close>

definition with_trusted_state ::
    "('w, 'ctx, 'k, 'sf) LcClient \<Rightarrow> 'ctx \<Rightarrow>
     (('w, 'ctx) StateServiceIf \<Rightarrow> ImmutableState \<Rightarrow> ('w, 'a) io) \<Rightarrow> ('w, 'a) io" where
  "with_trusted_state c ctx rest =
     derefE (StateService c) (\<lambda>ss.
     tryE (CacheLock ss) (\<lambda>_.
     deferE (CacheUnlock ss) (
     tryE (GetState ss ctx (ApiKey c)) (\<lambda>state. rest ss state))))"

text \<open>
  \<^verbatim>\<open>if c.serverSigningPubKey != nil { err := newState.CheckSignature(c.serverSigningPubKey) ... }\<close>
\<close>

definition check_signature ::
    "('ip, 'dp, 'tx, 'md, 'es, 'k) immudb \<Rightarrow> ('w, 'ctx, 'k, 'sf) LcClient \<Rightarrow> ImmutableState \<Rightarrow> unit go" where
  "check_signature F c newState =
     (case serverSigningPubKey c of None \<Rightarrow> Ok () | Some k \<Rightarrow> CheckSignature F newState k)"

definition store_then_check ::
    "('ip, 'dp, 'tx, 'md, 'es, 'k) immudb \<Rightarrow> ('w, 'ctx, 'k, 'sf) LcClient \<Rightarrow> 'ctx \<Rightarrow>
     (ImmutableState \<Rightarrow> ('w, 'a \<times> ImmutableState) io) \<Rightarrow> ('w, 'a) io" where
  "store_then_check F c ctx fetch =
     with_trusted_state c ctx (\<lambda>ss state.
       tryE (fetch state) (\<lambda>(x, newState).
       tryE (SetState ss (ApiKey c) newState) (\<lambda>_.
       tryE (lift (check_signature F c newState)) (\<lambda>_.
       ret x))))"

definition check_then_store ::
    "('ip, 'dp, 'tx, 'md, 'es, 'k) immudb \<Rightarrow> ('w, 'ctx, 'k, 'sf) LcClient \<Rightarrow> 'ctx \<Rightarrow>
     (ImmutableState \<Rightarrow> ('w, 'a \<times> ImmutableState) io) \<Rightarrow> ('w, 'a) io" where
  "check_then_store F c ctx fetch =
     with_trusted_state c ctx (\<lambda>ss state.
       tryE (fetch state) (\<lambda>(x, newState).
       tryE (lift (check_signature F c newState)) (\<lambda>_.
       tryE (SetState ss (ApiKey c) newState) (\<lambda>_.
       ret x))))"

section \<open>Computations that leave an observation alone\<close>

named_theorems quiet_rules \<open>compositional rules for quiet computations\<close>

definition quiet :: "('w \<Rightarrow> 'o) \<Rightarrow> ('w, 'a) io \<Rightarrow> bool" where
  "quiet obs m = (\<forall>w. obs (snd (m w)) = obs w)"

lemma quietI: "(\<And>w r w'. m w = (r, w') \<Longrightarrow> obs w' = obs w) \<Longrightarrow> quiet obs m"
  by (simp add: quiet_def prod_eq_iff)

lemma quietD: "quiet obs m \<Longrightarrow> m w = (r, w') \<Longrightarrow> obs w' = obs w"
  by (metis quiet_def snd_conv)

lemma quiet_preserves: "quiet obs m \<Longrightarrow> preserves (\<lambda>w. P (obs w)) m"
  by (simp add: quiet_def triple_def)

lemma quiet_comp: "quiet obs m \<Longrightarrow> quiet (\<lambda>w. f (obs w)) m"
  by (simp add: quiet_def)

lemma quiet_lift [quiet_rules]: "quiet obs (lift r)"
  by (simp add: quiet_def)

lemma quiet_tryE [quiet_rules]:
  "quiet obs m \<Longrightarrow> (\<And>x. quiet obs (f x)) \<Longrightarrow> quiet obs (tryE m f)"
proof (rule quietI)
  fix w r w'
  assume m: "quiet obs m" and f: "\<And>x. quiet obs (f x)" and run: "tryE m f w = (r, w')"
  obtain s v where s: "m w = (s, v)" by (cases "m w")
  from quietD [OF m s] run s show "obs w' = obs w"
    by (cases s) (auto simp: tryE_def dest: quietD [OF f])
qed

lemma quiet_derefE [quiet_rules]: "(\<And>x. p = Some x \<Longrightarrow> quiet obs (f x)) \<Longrightarrow> quiet obs (derefE p f)"
  by (cases p) (auto simp: quiet_def)

lemma quiet_if [quiet_rules]:
  "(b \<Longrightarrow> quiet obs m) \<Longrightarrow> (\<not> b \<Longrightarrow> quiet obs n) \<Longrightarrow> quiet obs (if b then m else n)"
  by simp

lemma quiet_split [quiet_rules]:
  "(\<And>a b. p = (a, b) \<Longrightarrow> quiet obs (f a b)) \<Longrightarrow> quiet obs (case p of (a, b) \<Rightarrow> f a b)"
  by (cases p) auto

section \<open>A connection that does not touch the cache\<close>

locale quiet_connection =
  fixes obs :: "'w \<Rightarrow> 'o" and cc :: "('w, 'ctx) ClientConn"
  assumes invoke_quiet: "obs (snd (Invoke cc ctx method req reply opts w)) = obs w"
    and new_stream_quiet [quiet_rules]: "quiet obs (NewStream cc ctx desc method opts)"
    and send_quiet [quiet_rules]: "quiet obs (SendMsg cc x req)"
    and close_send_quiet [quiet_rules]: "quiet obs (CloseSend cc x)"
    and recv_quiet [quiet_rules]: "quiet obs (RecvMsg cc x reply)"
    and close_quiet: "quiet obs (CloseConn cc)"
begin

lemma unary_hdr_quiet: "quiet obs (unary_hdr cc ctx mth inp out proj opts)"
proof (rule quietI)
  fix w r w'
  assume run: "unary_hdr cc ctx mth inp out proj opts w = (r, w')"
  obtain x v where "Invoke cc ctx mth inp out opts w = (x, v)"
    by (cases "Invoke cc ctx mth inp out opts w")
  with run invoke_quiet [of ctx mth inp out opts w] show "obs w' = obs w"
    by (auto simp: unary_hdr_def split: prod.splits go.splits)
qed

lemma unary_quiet: "quiet obs (unary cc ctx method inp out proj opts)"
  unfolding unary_def by (intro quiet_rules unary_hdr_quiet)

lemma recv_reply_quiet: "quiet obs (recv_reply cc x m proj)"
  unfolding recv_reply_def by (intro quiet_rules recv_quiet)

lemmas stub_quiet = unary_quiet unary_hdr_quiet recv_reply_quiet
  new_stream_quiet send_quiet close_send_quiet

lemma verified_stubs_quiet:
  "quiet obs (lcServiceClient_VerifiableGet cc ctx greq opts)"
  "quiet obs (lcServiceClient_VerifiableGetExt cc ctx greq opts)"
  "quiet obs (lcServiceClient_VerifiableGetExtMulti cc ctx mreq opts)"
  "quiet obs (lcServiceClient_VerifiableSet cc ctx sreq opts)"
  "quiet obs (lcServiceClient_VCNGetArtifacts cc ctx areq opts)"
  unfolding service_defs by (rule unary_quiet)+

lemma stream_stubs_quiet:
  "quiet obs (lcServiceClient_StreamVerifiableSet cc ctx opts)"
  "quiet obs (lcServiceClient_StreamVerifiableGet cc ctx greq opts)"
  "quiet obs (lcServiceStreamVerifiableSetClient_CloseAndRecv cc x)"
  "quiet obs (lcServiceClient_StreamSet cc ctx opts)"
  "quiet obs (lcServiceStreamSetClient_CloseAndRecv cc x)"
  "quiet obs (lcServiceClient_StreamExecAll cc ctx opts)"
  "quiet obs (lcServiceStreamExecAllClient_CloseAndRecv cc x)"
  "quiet obs (lcServiceClient_StreamGet cc ctx kreq opts)"
  "quiet obs (lcServiceClient_StreamScan cc ctx b opts)"
  "quiet obs (lcServiceClient_StreamHistory cc ctx b opts)"
  "quiet obs (lcServiceClient_StreamZScan cc ctx b opts)"
  unfolding service_defs by (intro quiet_rules stub_quiet)+

end

section \<open>A client and its cache\<close>

text \<open>What a verified operation may do to the cached states, seen from before to after.\<close>

definition trust_kept ::
    "('ip, 'dp, 'tx, 'md, 'es, 'k) immudb \<Rightarrow> (string \<Rightarrow> string) \<Rightarrow> string \<Rightarrow>
     (string \<Rightarrow> ImmutableState option) \<Rightarrow> (string \<Rightarrow> ImmutableState option) \<Rightarrow> bool" where
  "trust_kept F slot k before after =
     ((\<forall>k'. slot k' \<noteq> slot k \<longrightarrow> after k' = before k') \<and>
      (\<forall>st. before k = Some st \<longrightarrow> (\<exists>st'. after k = Some st' \<and> trust_path F st st')))"

lemma trust_kept_refl [simp, intro]: "trust_kept F slot k m m"
  by (auto simp: trust_kept_def)

lemma trust_kept_trans: "trust_kept F slot k a b \<Longrightarrow> trust_kept F slot k b c \<Longrightarrow> trust_kept F slot k a c"
  unfolding trust_kept_def by (metis trust_path_trans)

text \<open>
  \<open>answered\<close>: a result was fetched and checked from the trusted state, and the state it leads to
  is stored and carries a valid signature.
\<close>

definition answered ::
    "('w \<Rightarrow> string \<Rightarrow> ImmutableState option) \<Rightarrow> ('ip, 'dp, 'tx, 'md, 'es, 'k) immudb \<Rightarrow>
     ('w, 'ctx, 'k, 'sf) LcClient \<Rightarrow> (ImmutableState \<Rightarrow> ('w, 'a \<times> ImmutableState) io) \<Rightarrow>
     'a \<Rightarrow> 'w \<Rightarrow> 'w \<Rightarrow> bool" where
  "answered cached F c fetch x w w'' =
     (\<exists>st ns w1 w2. (cached w (ApiKey c) = None \<or> cached w (ApiKey c) = Some st) \<and>
        fetch st w1 = (Ok (x, ns), w2) \<and> check_signature F c ns = Ok () \<and>
        cached w'' (ApiKey c) = Some ns)"

text \<open>
  \<open>client_network\<close>: whatever connections a client holds are quiet. \<open>client_session\<close>: it holds a state
  service as well, one that keeps the contract.
\<close>

locale client_network =
  fixes obs :: "'w \<Rightarrow> 'o" and c :: "('w, 'ctx, 'k, 'sf) LcClient"
  assumes network: "ServiceClient c = Some cc \<Longrightarrow> quiet_connection obs cc"
    and conn: "clientConn c = Some cc \<Longrightarrow> quiet_connection obs cc"

locale client_session = trusted_state ss locked cached slot + client_network "\<lambda>w. (locked w, cached w)" c
  for ss :: "('w, 'ctx) StateServiceIf" and locked cached slot and c :: "('w, 'ctx, 'k, 'sf) LcClient" +
  assumes session: "StateService c = Some ss"
begin

abbreviation obs :: "'w \<Rightarrow> bool \<times> (string \<Rightarrow> ImmutableState option)" where
  "obs \<equiv> \<lambda>w. (locked w, cached w)"

lemma quiet_locked: "quiet obs m \<Longrightarrow> preserves locked m"
  by (drule quiet_preserves [where P = fst]) simp

lemma with_trusted_state_eq:
  "with_trusted_state c ctx rest =
     tryE (CacheLock ss) (\<lambda>_. deferE (CacheUnlock ss) (tryE (GetState ss ctx (ApiKey c)) (rest ss)))"
  by (simp add: with_trusted_state_def session)

lemma body_locked:
  "(\<And>st. preserves locked (rest ss st)) \<Longrightarrow>
     preserves locked (tryE (GetState ss ctx (ApiKey c)) (rest ss))"
  by (intro triple_rules get_preserves_locked)

text \<open>The lock is free again after the operation, however it ends.\<close>

lemma with_trusted_state_unlocks:
  "(\<And>st. preserves locked (rest ss st)) \<Longrightarrow> preserves (\<lambda>w. \<not> locked w) (with_trusted_state c ctx rest)"
  unfolding with_trusted_state_eq by (intro locked_section body_locked)

text \<open>
  The two ways an operation can end: nothing was done to the cache, or \<open>rest\<close> ran from the
  trusted state, which the cache then held.
\<close>

lemma with_trusted_state_run:
  assumes run: "with_trusted_state c ctx rest w = (r, w'')"
    and lockd: "\<And>st. preserves locked (rest ss st)"
  shows "cached w'' = cached w \<and> (\<forall>x. r \<noteq> Ok x) \<or>
     (\<exists>st w1 w2. cached w1 (ApiKey c) = Some st \<and>
        (cached w (ApiKey c) = None \<or> cached w (ApiKey c) = Some st) \<and>
        (\<forall>k'. slot k' \<noteq> slot (ApiKey c) \<longrightarrow> cached w1 k' = cached w k') \<and>
        rest ss st w1 = (r, w2) \<and> cached w'' = cached w2)"
proof -
  let ?body = "tryE (GetState ss ctx (ApiKey c)) (rest ss)"
  have body: "preserves locked ?body" by (rule body_locked) (rule lockd)
  from locked_section_run [OF run [unfolded with_trusted_state_eq] body]
  consider "cached w'' = cached w \<and> (\<forall>x. r \<noteq> Ok x)"
    | w0 w2 where "cached w0 = cached w" "?body w0 = (r, w2)" "cached w'' = cached w2"
    by blast
  then show ?thesis
  proof cases
    case 2
    obtain q w1 where q: "GetState ss ctx (ApiKey c) w0 = (q, w1)"
      by (cases "GetState ss ctx (ApiKey c) w0")
    show ?thesis
    proof (cases q)
      case (Ok st)
      from 2(2) q Ok have "rest ss st w1 = (r, w2)" by (simp add: tryE_def)
      with get_law [OF q [unfolded Ok]] 2 show ?thesis by metis
    next
      case (Fail e)
      from 2(2) q Fail have "w2 = w1" "r = Fail e" by (auto simp: tryE_def)
      with get_error [OF q] Fail 2 show ?thesis by simp
    next
      case (Panic p)
      from 2(2) q Panic have "w2 = w1" "r = Panic p" by (auto simp: tryE_def)
      with get_error [OF q] Panic 2 show ?thesis by simp
    qed
  qed simp
qed

lemma store_then_check_unlocks:
  assumes "\<And>st. quiet obs (fetch st)"
  shows "preserves (\<lambda>w. \<not> locked w) (store_then_check F c ctx fetch)"
  unfolding store_then_check_def
  by (intro with_trusted_state_unlocks triple_rules quiet_locked [OF assms] set_preserves_locked)

lemma check_then_store_unlocks:
  assumes "\<And>st. quiet obs (fetch st)"
  shows "preserves (\<lambda>w. \<not> locked w) (check_then_store F c ctx fetch)"
  unfolding check_then_store_def
  by (intro with_trusted_state_unlocks triple_rules quiet_locked [OF assms] set_preserves_locked)

lemma set_state_cases:
  assumes "SetState ss (ApiKey c) ns w = (r, w')"
  obtains "r = Ok ()" and "cached w' (ApiKey c) = Some ns"
      and "\<forall>k'. slot k' \<noteq> slot (ApiKey c) \<longrightarrow> cached w' k' = cached w k'"
    | "r \<noteq> Ok ()" and "cached w' = cached w"
  using set_law set_error assms by (metis)

text \<open>
  The getters' order: whatever a failed check of the signature leaves behind was vouched for by a
  proof, and a success returns an answer whose state is stored and signed.
\<close>

lemma store_then_check_rest:
  assumes rest: "tryE m (\<lambda>(x, ns). tryE (SetState ss (ApiKey c) ns) (\<lambda>_.
      tryE (lift (check_signature F c ns)) (\<lambda>_. ret x))) w = (r, w'')"
    and q: "quiet obs m"
  shows "cached w'' = cached w \<and> (\<forall>x. r \<noteq> Ok x) \<or>
    (\<exists>x ns w1. m w = (Ok (x, ns), w1) \<and> cached w'' (ApiKey c) = Some ns \<and>
       (\<forall>k'. slot k' \<noteq> slot (ApiKey c) \<longrightarrow> cached w'' k' = cached w k') \<and>
       r = tryG (check_signature F c ns) (\<lambda>_. Ok x))"
proof -
  obtain f w1 where f: "m w = (f, w1)" by (cases "m w")
  have same: "cached w1 = cached w" using quietD [OF q f] by simp
  show ?thesis
  proof (cases f)
    case (Ok p)
    then obtain x ns where p: "f = Ok (x, ns)" by (cases p) simp
    obtain s w2 where s: "SetState ss (ApiKey c) ns w1 = (s, w2)"
      by (cases "SetState ss (ApiKey c) ns w1")
    show ?thesis
    proof (cases rule: set_state_cases [OF s])
      case 1
      with rest f p s have "w'' = w2" "r = tryG (check_signature F c ns) (\<lambda>_. Ok x)"
        by (cases "check_signature F c ns"; auto simp: tryE_def)+
      with 1 f p same show ?thesis by auto
    next
      case 2
      with rest f p s same show ?thesis by (cases s) (auto simp: tryE_def)
    qed
  qed (use rest f same in \<open>auto simp: tryE_def\<close>)
qed

text \<open>The setters' order: nothing is stored unless the signature was checked.\<close>

lemma check_then_store_rest:
  assumes rest: "tryE m (\<lambda>(x, ns). tryE (lift (check_signature F c ns)) (\<lambda>_.
      tryE (SetState ss (ApiKey c) ns) (\<lambda>_. ret x))) w = (r, w'')"
    and q: "quiet obs m"
  shows "cached w'' = cached w \<and> (\<forall>x. r \<noteq> Ok x) \<or>
    (\<exists>x ns w1. m w = (Ok (x, ns), w1) \<and> cached w'' (ApiKey c) = Some ns \<and>
       (\<forall>k'. slot k' \<noteq> slot (ApiKey c) \<longrightarrow> cached w'' k' = cached w k') \<and>
       check_signature F c ns = Ok () \<and> r = Ok x)"
proof -
  obtain f w1 where f: "m w = (f, w1)" by (cases "m w")
  have same: "cached w1 = cached w" using quietD [OF q f] by simp
  show ?thesis
  proof (cases f)
    case (Ok p)
    then obtain x ns where p: "f = Ok (x, ns)" by (cases p) simp
    show ?thesis
    proof (cases "check_signature F c ns = Ok ()")
      case True
      obtain s w2 where s: "SetState ss (ApiKey c) ns w1 = (s, w2)"
        by (cases "SetState ss (ApiKey c) ns w1")
      show ?thesis
      proof (cases rule: set_state_cases [OF s])
        case 1
        with rest f p s True same show ?thesis by (auto simp: tryE_def)
      next
        case 2
        with rest f p s True same show ?thesis by (cases s) (auto simp: tryE_def)
      qed
    next
      case False
      with rest f p same show ?thesis
        by (cases "check_signature F c ns") (auto simp: tryE_def)
    qed
  qed (use rest f same in \<open>auto simp: tryE_def\<close>)
qed

lemma trust_kept_step:
  assumes adv: "advances F st ns"
    and w1: "cached w (ApiKey c) = None \<or> cached w (ApiKey c) = Some st"
      "\<forall>k'. slot k' \<noteq> slot (ApiKey c) \<longrightarrow> cached w1 k' = cached w k'"
    and w2: "cached w2 (ApiKey c) = Some ns"
      "\<forall>k'. slot k' \<noteq> slot (ApiKey c) \<longrightarrow> cached w2 k' = cached w1 k'"
  shows "trust_kept F slot (ApiKey c) (cached w) (cached w2)"
  using assms advances_trust_path [OF adv] by (auto simp: trust_kept_def)

lemma store_then_check_run:
  assumes run: "store_then_check F c ctx fetch w = (r, w'')"
    and q: "\<And>st. quiet obs (fetch st)"
    and adv: "\<And>st w x ns w'. fetch st w = (Ok (x, ns), w') \<Longrightarrow> advances F st ns"
  shows "trust_kept F slot (ApiKey c) (cached w) (cached w'')"
    and "r = Ok x \<Longrightarrow> answered cached F c fetch x w w''"
proof -
  have "preserves locked (tryE (fetch st) (\<lambda>(x, ns). tryE (SetState ss (ApiKey c) ns) (\<lambda>_.
      tryE (lift (check_signature F c ns)) (\<lambda>_. ret x))))" for st
    by (intro triple_rules quiet_locked [OF q] set_preserves_locked)
  from with_trusted_state_run [OF run [unfolded store_then_check_def] this]
  consider "cached w'' = cached w" "\<forall>x. r \<noteq> Ok x"
    | st w1 w2 where "cached w1 (ApiKey c) = Some st"
      "cached w (ApiKey c) = None \<or> cached w (ApiKey c) = Some st"
      "\<forall>k'. slot k' \<noteq> slot (ApiKey c) \<longrightarrow> cached w1 k' = cached w k'"
      "tryE (fetch st) (\<lambda>(x, ns). tryE (SetState ss (ApiKey c) ns) (\<lambda>_.
         tryE (lift (check_signature F c ns)) (\<lambda>_. ret x))) w1 = (r, w2)"
      "cached w'' = cached w2"
    by blast
  then have "trust_kept F slot (ApiKey c) (cached w) (cached w'') \<and> (r = Ok x \<longrightarrow> answered cached F c fetch x w w'')"
  proof cases
    case 2
    from store_then_check_rest [OF 2(4) q [of st]] show ?thesis
    proof (elim disjE conjE exE)
      assume "cached w2 = cached w1" "\<forall>x. r \<noteq> Ok x"
      with 2 show ?thesis by (auto simp: trust_kept_def)
    next
      fix y ns w3
      assume f: "fetch st w1 = (Ok (y, ns), w3)" and c: "cached w2 (ApiKey c) = Some ns"
        "\<forall>k'. slot k' \<noteq> slot (ApiKey c) \<longrightarrow> cached w2 k' = cached w1 k'"
        "r = tryG (check_signature F c ns) (\<lambda>_. Ok y)"
      show ?thesis
        using trust_kept_step [OF adv [OF f] 2(2,3) c(1,2)] f c 2
        by (cases "check_signature F c ns") (auto simp: answered_def)
    qed
  qed auto
  then show "trust_kept F slot (ApiKey c) (cached w) (cached w'')"
    and "r = Ok x \<Longrightarrow> answered cached F c fetch x w w''" by auto
qed

lemma check_then_store_run:
  assumes run: "check_then_store F c ctx fetch w = (r, w'')"
    and q: "\<And>st. quiet obs (fetch st)"
    and adv: "\<And>st w x ns w'. fetch st w = (Ok (x, ns), w') \<Longrightarrow> advances F st ns"
  shows "trust_kept F slot (ApiKey c) (cached w) (cached w'')"
    and "r = Ok x \<Longrightarrow> answered cached F c fetch x w w''"
    and "(\<And>x. r \<noteq> Ok x) \<Longrightarrow> cached w (ApiKey c) = Some st0 \<Longrightarrow> cached w'' (ApiKey c) = Some st0"
proof -
  have "preserves locked (tryE (fetch st) (\<lambda>(x, ns). tryE (lift (check_signature F c ns)) (\<lambda>_.
      tryE (SetState ss (ApiKey c) ns) (\<lambda>_. ret x))))" for st
    by (intro triple_rules quiet_locked [OF q] set_preserves_locked)
  from with_trusted_state_run [OF run [unfolded check_then_store_def] this]
  consider "cached w'' = cached w" "\<forall>x. r \<noteq> Ok x"
    | st w1 w2 where "cached w1 (ApiKey c) = Some st"
      "cached w (ApiKey c) = None \<or> cached w (ApiKey c) = Some st"
      "\<forall>k'. slot k' \<noteq> slot (ApiKey c) \<longrightarrow> cached w1 k' = cached w k'"
      "tryE (fetch st) (\<lambda>(x, ns). tryE (lift (check_signature F c ns)) (\<lambda>_.
         tryE (SetState ss (ApiKey c) ns) (\<lambda>_. ret x))) w1 = (r, w2)"
      "cached w'' = cached w2"
    by blast
  then have "trust_kept F slot (ApiKey c) (cached w) (cached w'') \<and> (r = Ok x \<longrightarrow> answered cached F c fetch x w w'')
      \<and> ((\<forall>x. r \<noteq> Ok x) \<longrightarrow> cached w (ApiKey c) = Some st0 \<longrightarrow> cached w'' (ApiKey c) = Some st0)"
  proof cases
    case 2
    from check_then_store_rest [OF 2(4) q [of st]] show ?thesis
    proof (elim disjE conjE exE)
      assume "cached w2 = cached w1" "\<forall>x. r \<noteq> Ok x"
      with 2 show ?thesis by (auto simp: trust_kept_def)
    next
      fix y ns w3
      assume f: "fetch st w1 = (Ok (y, ns), w3)" and c: "cached w2 (ApiKey c) = Some ns"
        "\<forall>k'. slot k' \<noteq> slot (ApiKey c) \<longrightarrow> cached w2 k' = cached w1 k'"
        "check_signature F c ns = Ok ()" "r = Ok y"
      show ?thesis
        using trust_kept_step [OF adv [OF f] 2(2,3) c(1,2)] f c 2 by (auto simp: answered_def)
    qed
  qed auto
  then show "trust_kept F slot (ApiKey c) (cached w) (cached w'')"
    and "r = Ok x \<Longrightarrow> answered cached F c fetch x w w''"
    and "(\<And>x. r \<noteq> Ok x) \<Longrightarrow> cached w (ApiKey c) = Some st0 \<Longrightarrow> cached w'' (ApiKey c) = Some st0"
    by auto
qed

text \<open>From a cached state, the outcomes of the two orders.\<close>

lemma store_then_check_outcome:
  assumes run: "store_then_check F c ctx fetch w = (r, w'')"
    and q: "\<And>st. quiet obs (fetch st)" and st: "cached w (ApiKey c) = Some st"
  shows "cached w'' (ApiKey c) = Some st \<and> (\<forall>x. r \<noteq> Ok x) \<or>
    (\<exists>x ns w1 w2. fetch st w1 = (Ok (x, ns), w2) \<and> cached w'' (ApiKey c) = Some ns \<and>
       r = tryG (check_signature F c ns) (\<lambda>_. Ok x))"
proof -
  have "preserves locked (tryE (fetch st) (\<lambda>(x, ns). tryE (SetState ss (ApiKey c) ns) (\<lambda>_.
      tryE (lift (check_signature F c ns)) (\<lambda>_. ret x))))" for st
    by (intro triple_rules quiet_locked [OF q] set_preserves_locked)
  from with_trusted_state_run [OF run [unfolded store_then_check_def] this]
  consider "cached w'' = cached w" "\<forall>x. r \<noteq> Ok x"
    | st' w1 w2 where "cached w1 (ApiKey c) = Some st'"
      "cached w (ApiKey c) = None \<or> cached w (ApiKey c) = Some st'" "cached w'' = cached w2"
      "tryE (fetch st') (\<lambda>(x, ns). tryE (SetState ss (ApiKey c) ns) (\<lambda>_.
         tryE (lift (check_signature F c ns)) (\<lambda>_. ret x))) w1 = (r, w2)"
    by blast
  then show ?thesis
  proof cases
    case 2
    then have "st' = st" using st by simp
    with store_then_check_rest [OF 2(4) q [of st']] 2(1,3) show ?thesis by auto
  qed (use st in auto)
qed

lemma check_then_store_outcome:
  assumes run: "check_then_store F c ctx fetch w = (r, w'')"
    and q: "\<And>st. quiet obs (fetch st)" and st: "cached w (ApiKey c) = Some st"
  shows "cached w'' (ApiKey c) = Some st \<and> (\<forall>x. r \<noteq> Ok x) \<or>
    (\<exists>x ns w1 w2. fetch st w1 = (Ok (x, ns), w2) \<and> cached w'' (ApiKey c) = Some ns \<and>
       check_signature F c ns = Ok () \<and> r = Ok x)"
proof -
  have "preserves locked (tryE (fetch st) (\<lambda>(x, ns). tryE (lift (check_signature F c ns)) (\<lambda>_.
      tryE (SetState ss (ApiKey c) ns) (\<lambda>_. ret x))))" for st
    by (intro triple_rules quiet_locked [OF q] set_preserves_locked)
  from with_trusted_state_run [OF run [unfolded check_then_store_def] this]
  consider "cached w'' = cached w" "\<forall>x. r \<noteq> Ok x"
    | st' w1 w2 where "cached w1 (ApiKey c) = Some st'"
      "cached w (ApiKey c) = None \<or> cached w (ApiKey c) = Some st'" "cached w'' = cached w2"
      "tryE (fetch st') (\<lambda>(x, ns). tryE (lift (check_signature F c ns)) (\<lambda>_.
         tryE (SetState ss (ApiKey c) ns) (\<lambda>_. ret x))) w1 = (r, w2)"
    by blast
  then show ?thesis
  proof cases
    case 2
    then have "st' = st" using st by simp
    with check_then_store_rest [OF 2(4) q [of st']] 2(1,3) show ?thesis by auto
  qed (use st in auto)
qed

end

section \<open>Progress\<close>

text \<open>A session whose state service makes progress: an operation whose request is answered well returns.\<close>

locale live_session = client_session ss locked cached slot c + live_state ss locked cached slot
  for ss :: "('w, 'ctx) StateServiceIf" and locked cached slot and c :: "('w, 'ctx, 'k, 'sf) LcClient"
begin

lemma with_trusted_state_runs:
  assumes free: "\<not> locked w" and st: "cached w (ApiKey c) = Some st"
    and rest: "\<And>st. preserves locked (rest ss st)"
    and runs: "\<And>v1 v. CacheLock ss w = (Ok (), v1) \<Longrightarrow> GetState ss ctx (ApiKey c) v1 = (Ok st, v) \<Longrightarrow>
      \<exists>x v'. rest ss st v = (Ok x, v')"
  shows "\<exists>x w'. with_trusted_state c ctx rest w = (Ok x, w')"
  unfolding with_trusted_state_eq
proof (rule locked_section_runs [OF free])
  show "preserves locked (tryE (GetState ss ctx (ApiKey c)) (rest ss))" by (rule body_locked) (rule rest)
  fix v1
  assume v: "CacheLock ss w = (Ok (), v1)"
  with lock_law [OF v] st get_found obtain v2 where g: "GetState ss ctx (ApiKey c) v1 = (Ok st, v2)" by metis
  with runs [OF v g]
  show "\<exists>x v'. tryE (GetState ss ctx (ApiKey c)) (rest ss) v1 = (Ok x, v')" by (simp add: tryE_def)
qed

lemma store_then_check_runs:
  assumes "\<not> locked w" and "cached w (ApiKey c) = Some st" and q: "\<And>st. quiet obs (fetch st)"
    and answered: "\<And>v1 v. CacheLock ss w = (Ok (), v1) \<Longrightarrow> GetState ss ctx (ApiKey c) v1 = (Ok st, v) \<Longrightarrow>
      \<exists>x ns v'. fetch st v = (Ok (x, ns), v') \<and> check_signature F c ns = Ok ()"
  shows "\<exists>x w'. store_then_check F c ctx fetch w = (Ok x, w')"
  unfolding store_then_check_def
proof (rule with_trusted_state_runs [OF assms(1,2)])
  fix v1 v
  assume "CacheLock ss w = (Ok (), v1)" "GetState ss ctx (ApiKey c) v1 = (Ok st, v)"
  from answered [OF this] obtain x ns v2 where "fetch st v = (Ok (x, ns), v2)" "check_signature F c ns = Ok ()"
    by blast
  moreover obtain v3 where "SetState ss (ApiKey c) ns v2 = (Ok (), v3)" using set_stored by blast
  ultimately show "\<exists>x v'. tryE (fetch st) (\<lambda>(x, newState). tryE (SetState ss (ApiKey c) newState) (\<lambda>_.
      tryE (lift (check_signature F c newState)) (\<lambda>_. ret x))) v = (Ok x, v')"
    by (simp add: tryE_def)
qed (intro triple_rules quiet_locked q set_preserves_locked)

lemma check_then_store_runs:
  assumes "\<not> locked w" and "cached w (ApiKey c) = Some st" and q: "\<And>st. quiet obs (fetch st)"
    and answered: "\<And>v1 v. CacheLock ss w = (Ok (), v1) \<Longrightarrow> GetState ss ctx (ApiKey c) v1 = (Ok st, v) \<Longrightarrow>
      \<exists>x ns v'. fetch st v = (Ok (x, ns), v') \<and> check_signature F c ns = Ok ()"
  shows "\<exists>x w'. check_then_store F c ctx fetch w = (Ok x, w')"
  unfolding check_then_store_def
proof (rule with_trusted_state_runs [OF assms(1,2)])
  fix v1 v
  assume "CacheLock ss w = (Ok (), v1)" "GetState ss ctx (ApiKey c) v1 = (Ok st, v)"
  from answered [OF this] obtain x ns v2 where "fetch st v = (Ok (x, ns), v2)" "check_signature F c ns = Ok ()"
    by blast
  moreover obtain v3 where "SetState ss (ApiKey c) ns v2 = (Ok (), v3)" using set_stored by blast
  ultimately show "\<exists>x v'. tryE (fetch st) (\<lambda>(x, newState). tryE (lift (check_signature F c newState)) (\<lambda>_.
      tryE (SetState ss (ApiKey c) newState) (\<lambda>_. ret x))) v = (Ok x, v')"
    by (simp add: tryE_def)
qed (intro triple_rules quiet_locked q set_preserves_locked)

end

end
