(* ===== verification/Verified_Ops.thy ===== *)
theory Verified_Ops
  imports Client_Session
begin

text \<open>
  The verified operations of \<open>lc_api.go\<close>: \<open>VerifiedSet\<close>, the family around \<open>verifiedGet\<close>,
  \<open>verifiedGetExt\<close> and \<open>verifiedGetExtMulti\<close>, and \<open>VCNGetArtifacts\<close>. Each is the protocol of
  \<open>Client_Session\<close> around a \<open>_fetch\<close>: the request, the call and the check of its answer.

  A method call on a nil \<open>ServiceClient\<close> panics, after the lock was taken and the state was read,
  as in the code. The mutation of the caller's \<open>req.ProveSinceTx\<close> by \<open>VCNGetArtifacts\<close> is modelled
  in the request it sends, not in the caller's object.
\<close>

section \<open>VerifiedSet\<close>

definition VerifiedSet_fetch ::
    "('ip, 'dp, 'tx, 'md, 'es, 'k) immudb \<Rightarrow> ('w, 'ctx, 'k, 'sf) LcClient \<Rightarrow> 'ctx \<Rightarrow> bytes \<Rightarrow> bytes \<Rightarrow>
     ImmutableState \<Rightarrow> ('w, TxHeader option \<times> ImmutableState) io" where
  "VerifiedSet_fetch F c ctx key val state =
     (let req = \<lparr>VerifiableSetRequest_SetRequest =
                   \<lparr>SetRequest_KVs = [\<lparr>KeyValue_Key = key, KeyValue_Value = val\<rparr>]\<rparr>,
                 VerifiableSetRequest_ProveSinceTx = ImmutableState_TxId state\<rparr>
      in derefE (ServiceClient c) (\<lambda>cc.
         tryE (lcServiceClient_VerifiableSet cc ctx req [HeaderOption, TrailerOption]) (\<lambda>verifiableTx.
         tryE (lift (verifiedSet_check F state (ApiKey c) key val verifiableTx)) (\<lambda>newState.
         lift (deref (VerifiableTx_Tx verifiableTx) (\<lambda>tx. Ok (Tx_Header tx, newState)))))))"

definition VerifiedSet ::
    "('ip, 'dp, 'tx, 'md, 'es, 'k) immudb \<Rightarrow> ('w, 'ctx, 'k, 'sf) LcClient \<Rightarrow> 'ctx \<Rightarrow> bytes \<Rightarrow> bytes \<Rightarrow>
     ('w, TxHeader option) io" where
  "VerifiedSet F c ctx key val = check_then_store F c ctx (VerifiedSet_fetch F c ctx key val)"

section \<open>verifiedGet\<close>

definition verifiedGet_fetch ::
    "('ip, 'dp, 'tx, 'md, 'es, 'k) immudb \<Rightarrow> ('w, 'ctx, 'k, 'sf) LcClient \<Rightarrow> 'ctx \<Rightarrow> KeyRequest \<Rightarrow>
     ImmutableState \<Rightarrow> ('w, Entry option \<times> ImmutableState) io" where
  "verifiedGet_fetch F c ctx kReq state =
     (let req = \<lparr>VerifiableGetRequest_KeyRequest = Some kReq,
                 VerifiableGetRequest_ProveSinceTx = ImmutableState_TxId state\<rparr>
      in derefE (ServiceClient c) (\<lambda>cc.
         tryE (lcServiceClient_VerifiableGet cc ctx req []) (\<lambda>vEntry.
         tryE (lift (verifyGet F state (Some vEntry) kReq (ApiKeyHash c))) (\<lambda>newState.
         ret (VerifiableEntry_Entry vEntry, newState)))))"

definition verifiedGet ::
    "('ip, 'dp, 'tx, 'md, 'es, 'k) immudb \<Rightarrow> ('w, 'ctx, 'k, 'sf) LcClient \<Rightarrow> 'ctx \<Rightarrow> KeyRequest \<Rightarrow>
     ('w, Entry option) io" where
  "verifiedGet F c ctx kReq = store_then_check F c ctx (verifiedGet_fetch F c ctx kReq)"

definition VerifiedGet ::
    "('ip, 'dp, 'tx, 'md, 'es, 'k) immudb \<Rightarrow> ('w, 'ctx, 'k, 'sf) LcClient \<Rightarrow> 'ctx \<Rightarrow> bytes \<Rightarrow>
     ('w, Entry option) io" where
  "VerifiedGet F c ctx key =
     verifiedGet F c ctx \<lparr>KeyRequest_Key = key, KeyRequest_AtTx = 0, KeyRequest_SinceTx = 0\<rparr>"

definition VerifiedGetAt ::
    "('ip, 'dp, 'tx, 'md, 'es, 'k) immudb \<Rightarrow> ('w, 'ctx, 'k, 'sf) LcClient \<Rightarrow> 'ctx \<Rightarrow> bytes \<Rightarrow> u64 \<Rightarrow>
     ('w, Entry option) io" where
  "VerifiedGetAt F c ctx key tx =
     verifiedGet F c ctx \<lparr>KeyRequest_Key = key, KeyRequest_AtTx = tx, KeyRequest_SinceTx = 0\<rparr>"

definition VerifiedGetSince ::
    "('ip, 'dp, 'tx, 'md, 'es, 'k) immudb \<Rightarrow> ('w, 'ctx, 'k, 'sf) LcClient \<Rightarrow> 'ctx \<Rightarrow> bytes \<Rightarrow> u64 \<Rightarrow>
     ('w, Entry option) io" where
  "VerifiedGetSince F c ctx key tx =
     verifiedGet F c ctx \<lparr>KeyRequest_Key = key, KeyRequest_AtTx = 0, KeyRequest_SinceTx = tx\<rparr>"

section \<open>verifiedGetExt\<close>

definition verifiedGetExt_fetch ::
    "('ip, 'dp, 'tx, 'md, 'es, 'k) immudb \<Rightarrow> ('w, 'ctx, 'k, 'sf) LcClient \<Rightarrow> 'ctx \<Rightarrow> KeyRequest \<Rightarrow>
     ImmutableState \<Rightarrow> ('w, VerifiableItemExt \<times> ImmutableState) io" where
  "verifiedGetExt_fetch F c ctx kReq state =
     (let req = \<lparr>VerifiableGetRequest_KeyRequest = Some kReq,
                 VerifiableGetRequest_ProveSinceTx = ImmutableState_TxId state\<rparr>
      in derefE (ServiceClient c) (\<lambda>cc.
         tryE (lcServiceClient_VerifiableGetExt cc ctx req []) (\<lambda>vEntryExt.
         tryE (lift (verifyGet F state (VerifiableItemExt_Item vEntryExt) kReq (ApiKeyHash c))) (\<lambda>newState.
         ret (vEntryExt, newState)))))"

definition verifiedGetExt ::
    "('ip, 'dp, 'tx, 'md, 'es, 'k) immudb \<Rightarrow> ('w, 'ctx, 'k, 'sf) LcClient \<Rightarrow> 'ctx \<Rightarrow> KeyRequest \<Rightarrow>
     ('w, VerifiableItemExt) io" where
  "verifiedGetExt F c ctx kReq = store_then_check F c ctx (verifiedGetExt_fetch F c ctx kReq)"

definition VerifiedGetExt ::
    "('ip, 'dp, 'tx, 'md, 'es, 'k) immudb \<Rightarrow> ('w, 'ctx, 'k, 'sf) LcClient \<Rightarrow> 'ctx \<Rightarrow> bytes \<Rightarrow>
     ('w, VerifiableItemExt) io" where
  "VerifiedGetExt F c ctx key =
     verifiedGetExt F c ctx \<lparr>KeyRequest_Key = key, KeyRequest_AtTx = 0, KeyRequest_SinceTx = 0\<rparr>"

definition VerifiedGetExtSince ::
    "('ip, 'dp, 'tx, 'md, 'es, 'k) immudb \<Rightarrow> ('w, 'ctx, 'k, 'sf) LcClient \<Rightarrow> 'ctx \<Rightarrow> bytes \<Rightarrow> u64 \<Rightarrow>
     ('w, VerifiableItemExt) io" where
  "VerifiedGetExtSince F c ctx key tx =
     verifiedGetExt F c ctx \<lparr>KeyRequest_Key = key, KeyRequest_AtTx = 0, KeyRequest_SinceTx = tx\<rparr>"

definition VerifiedGetExtAt ::
    "('ip, 'dp, 'tx, 'md, 'es, 'k) immudb \<Rightarrow> ('w, 'ctx, 'k, 'sf) LcClient \<Rightarrow> 'ctx \<Rightarrow> bytes \<Rightarrow> u64 \<Rightarrow>
     ('w, VerifiableItemExt) io" where
  "VerifiedGetExtAt F c ctx key tx =
     verifiedGetExt F c ctx \<lparr>KeyRequest_Key = key, KeyRequest_AtTx = tx, KeyRequest_SinceTx = 0\<rparr>"

section \<open>verifiedGetExtMulti\<close>

text \<open>
  The results \<open>(itemsExt, errs, err)\<close>. The one return that gives a non-nil error together with the
  other results is \<open>Ok (items, errs, Some e)\<close>; the error returns with nil results are \<open>Fail e\<close>.
\<close>

type_synonym multi_result = "VerifiableItemExt option list \<times> string list \<times> go_error option"

definition multi_mismatch :: "nat \<Rightarrow> nat \<Rightarrow> nat \<Rightarrow> go_error" where
  "multi_mismatch n items errs = NewError (''expected '' @ fmt_d (int n) @ '' entries and '' @
     fmt_d (int n) @ '' errors, got '' @ fmt_d (int items) @ '' entries and '' @
     fmt_d (int errs) @ '' errors'')"

fun verifiedGetExtMulti_loop ::
    "('ip, 'dp, 'tx, 'md, 'es, 'k) immudb \<Rightarrow> ('w, 'ctx, 'k, 'sf) LcClient \<Rightarrow> ('w, 'ctx) StateServiceIf \<Rightarrow>
     ImmutableState \<Rightarrow> KeyRequest list \<Rightarrow> string list \<Rightarrow> nat \<Rightarrow> VerifiableItemExt option list \<Rightarrow>
     ('w, unit) io" where
  "verifiedGetExtMulti_loop F c ss state reqs errs i [] = ret ()"
| "verifiedGetExtMulti_loop F c ss state reqs errs i (itemExt # items) =
     tryE (lift (index errs i)) (\<lambda>e.
     if e \<noteq> '''' then verifiedGetExtMulti_loop F c ss state reqs errs (Suc i) items else
     tryE (lift (index reqs i)) (\<lambda>kReq.
     tryE (lift (verifyGet F state (VerifiableItemExt_GetItem itemExt) kReq (ApiKeyHash c))) (\<lambda>newState.
     tryE (SetState ss (ApiKey c) newState) (\<lambda>_.
     tryE (lift (check_signature F c newState)) (\<lambda>_.
     verifiedGetExtMulti_loop F c ss state reqs errs (Suc i) items)))))"

definition verifiedGetExtMulti_rest ::
    "('ip, 'dp, 'tx, 'md, 'es, 'k) immudb \<Rightarrow> ('w, 'ctx, 'k, 'sf) LcClient \<Rightarrow> 'ctx \<Rightarrow> KeyRequest list \<Rightarrow>
     ('w, 'ctx) StateServiceIf \<Rightarrow> ImmutableState \<Rightarrow> ('w, multi_result) io" where
  "verifiedGetExtMulti_rest F c ctx reqs ss state =
     (let requests = map (\<lambda>kr. Some \<lparr>VerifiableGetRequest_KeyRequest = Some kr,
                              VerifiableGetRequest_ProveSinceTx = ImmutableState_TxId state\<rparr>) reqs;
          req = \<lparr>VerifiableGetExtMultiRequest_Requests = requests\<rparr>
      in derefE (ServiceClient c) (\<lambda>cc.
         tryE (lcServiceClient_VerifiableGetExtMulti cc ctx req []) (\<lambda>resp.
         let itemsExt = VerifiableGetExtMultiResponse_GetItems (Some resp);
             errs = VerifiableGetExtMultiResponse_GetErrors (Some resp)
         in if length itemsExt \<noteq> length requests \<or> length errs \<noteq> length requests
            then ret (itemsExt, errs,
                   Some (multi_mismatch (length requests) (length itemsExt) (length errs)))
            else tryE (verifiedGetExtMulti_loop F c ss state reqs errs 0 itemsExt) (\<lambda>_.
                 ret (itemsExt, errs, None)))))"

definition verifiedGetExtMulti ::
    "('ip, 'dp, 'tx, 'md, 'es, 'k) immudb \<Rightarrow> ('w, 'ctx, 'k, 'sf) LcClient \<Rightarrow> 'ctx \<Rightarrow> KeyRequest list \<Rightarrow>
     ('w, multi_result) io" where
  "verifiedGetExtMulti F c ctx reqs =
     with_trusted_state c ctx (verifiedGetExtMulti_rest F c ctx reqs)"

definition VerifiedGetExtAtMulti ::
    "('ip, 'dp, 'tx, 'md, 'es, 'k) immudb \<Rightarrow> ('w, 'ctx, 'k, 'sf) LcClient \<Rightarrow> 'ctx \<Rightarrow> bytes list \<Rightarrow> u64 list \<Rightarrow>
     ('w, multi_result) io" where
  "VerifiedGetExtAtMulti F c ctx keys txs =
     (if length keys \<noteq> length txs
      then fail (NewError ''keys and txs must have the same length'')
      else verifiedGetExtMulti F c ctx
             (map (\<lambda>(key, tx). \<lparr>KeyRequest_Key = key, KeyRequest_AtTx = tx, KeyRequest_SinceTx = 0\<rparr>)
                (zip keys txs)))"

section \<open>VCNGetArtifacts\<close>

text \<open>The check of the first entry of the answer, with the entry and the request it is turned into.\<close>

definition artifacts_check ::
    "('ip, 'dp, 'tx, 'md, 'es, 'k) immudb \<Rightarrow> ImmutableState \<Rightarrow> string \<Rightarrow> bytes \<Rightarrow> EntryList \<Rightarrow>
     ImmutableState go" where
  "artifacts_check F state apiKeyHash hashDecoded resp =
     tryG (index (EntryList_Entries resp) 0) (\<lambda>entry. deref entry (\<lambda>e. deref (LcEntry_Proof e) (\<lambda>proof.
     if \<not> bytes_contains (Proof_ImmudbFullKey proof) hashDecoded then Fail ErrCorruptedData else
     let ventry = \<lparr>VerifiableEntry_Entry = Some (zero_Entry
                     \<lparr>Entry_Tx := LcEntry_Tx e, Entry_Key := Proof_ImmudbFullKey proof,
                      Entry_Value := LcEntry_Value e, Entry_Metadata := Proof_Metadata proof\<rparr>),
                   VerifiableEntry_VerifiableTx = Proof_VerifiableTx proof,
                   VerifiableEntry_InclusionProof = Proof_InclusionProof proof\<rparr>;
         kReq = \<lparr>KeyRequest_Key = Proof_ImmudbFullKey proof, KeyRequest_AtTx = 0, KeyRequest_SinceTx = 0\<rparr>
     in verifyGet F state (Some ventry) kReq apiKeyHash)))"

definition VCNGetArtifacts_fetch ::
    "('ip, 'dp, 'tx, 'md, 'es, 'k) immudb \<Rightarrow> ('w, 'ctx, 'k, 'sf) LcClient \<Rightarrow> 'ctx \<Rightarrow>
     VCNArtifactsGetRequest \<Rightarrow> ImmutableState \<Rightarrow> ('w, EntryList \<times> ImmutableState) io" where
  "VCNGetArtifacts_fetch F c ctx req state =
     (let req = req\<lparr>VCNArtifactsGetRequest_ProveSinceTx := ImmutableState_TxId state\<rparr>
      in derefE (ServiceClient c) (\<lambda>cc.
         tryE (lcServiceClient_VCNGetArtifacts cc ctx req []) (\<lambda>resp.
         tryE (lift (tryG (index (VCNArtifactsGetRequest_Hashes req) 0) hex_DecodeString)) (\<lambda>hashDecoded.
         tryE (lift (artifacts_check F state (ApiKeyHash c) hashDecoded resp)) (\<lambda>newState.
         ret (resp, newState))))))"

definition verify_one_hash :: go_error where
  "verify_one_hash = NewError ''verify can only be used with one hash''"

definition VCNGetArtifacts ::
    "('ip, 'dp, 'tx, 'md, 'es, 'k) immudb \<Rightarrow> ('w, 'ctx, 'k, 'sf) LcClient \<Rightarrow> 'ctx \<Rightarrow>
     VCNArtifactsGetRequest \<Rightarrow> ('w, EntryList) io" where
  "VCNGetArtifacts F c ctx req =
     (if 1 < length (VCNArtifactsGetRequest_Hashes req) \<and> VCNArtifactsGetRequest_Verify req
      then fail verify_one_hash
      else if length (VCNArtifactsGetRequest_Hashes req) \<noteq> 1 \<or> \<not> VCNArtifactsGetRequest_Verify req
      then derefE (ServiceClient c) (\<lambda>cc.
           tryE (lcServiceClient_VCNGetArtifacts cc ctx req []) (\<lambda>resp. ret resp))
      else store_then_check F c ctx (VCNGetArtifacts_fetch F c ctx req))"

text \<open>
  The request is the caller's, and a verified read sets \<open>ProveSinceTx\<close> in it once it has read the trusted
  state. This is the caller's request after the call.
\<close>

definition VCNGetArtifacts_request ::
    "('w, 'ctx, 'k, 'sf) LcClient \<Rightarrow> 'ctx \<Rightarrow> VCNArtifactsGetRequest \<Rightarrow> 'w \<Rightarrow> VCNArtifactsGetRequest" where
  "VCNGetArtifacts_request c ctx req w =
     (if length (VCNArtifactsGetRequest_Hashes req) \<noteq> 1 \<or> \<not> VCNArtifactsGetRequest_Verify req then req
      else case derefE (StateService c) (\<lambda>ss. tryE (CacheLock ss) (\<lambda>_. GetState ss ctx (ApiKey c))) w of
        (Ok state, _) \<Rightarrow> req\<lparr>VCNArtifactsGetRequest_ProveSinceTx := ImmutableState_TxId state\<rparr>
      | _ \<Rightarrow> req)"

text \<open>What a call sends does not depend on what an earlier one left in that field.\<close>

lemma VCNGetArtifacts_request_again:
  "VCNArtifactsGetRequest_Verify req \<Longrightarrow>
   VCNGetArtifacts F c ctx (req\<lparr>VCNArtifactsGetRequest_ProveSinceTx := tx\<rparr>) = VCNGetArtifacts F c ctx req"
  if "length (VCNArtifactsGetRequest_Hashes req) = 1"
  using that by (simp add: VCNGetArtifacts_def VCNGetArtifacts_fetch_def [abs_def])

section \<open>Each operation follows the protocol\<close>

lemma VerifiedSet_fetch_advances:
  "VerifiedSet_fetch F c ctx key val st w = (Ok (x, ns), w') \<Longrightarrow> advances F st ns"
  by (auto simp: VerifiedSet_fetch_def Let_def ok_simps dest: verifiedSet_advances)

lemma verifiedGet_fetch_Ok:
  "verifiedGet_fetch F c ctx kReq st w = (Ok (x, ns), w') \<Longrightarrow>
   \<exists>ve. verifyGet F st (Some ve) kReq (ApiKeyHash c) = Ok ns \<and> x = VerifiableEntry_Entry ve"
  by (auto simp: verifiedGet_fetch_def Let_def ok_simps)

lemma verifiedGetExt_fetch_Ok:
  "verifiedGetExt_fetch F c ctx kReq st w = (Ok (x, ns), w') \<Longrightarrow>
   verifyGet F st (VerifiableItemExt_Item x) kReq (ApiKeyHash c) = Ok ns"
  by (auto simp: verifiedGetExt_fetch_def Let_def ok_simps)

lemma artifacts_check_advances: "artifacts_check F st h hash resp = Ok ns \<Longrightarrow> advances F st ns"
  by (auto simp: artifacts_check_def Let_def ok_simps split: if_splits dest: verifyGet_advances)

lemma VCNGetArtifacts_fetch_Ok:
  "VCNGetArtifacts_fetch F c ctx req st w = (Ok (x, ns), w') \<Longrightarrow>
   \<exists>h. hex_DecodeString (VCNArtifactsGetRequest_Hashes req ! 0) = Ok h \<and>
       artifacts_check F st (ApiKeyHash c) h x = Ok ns"
  by (auto simp: VCNGetArtifacts_fetch_def Let_def ok_simps)

lemma fetch_advances:
  "verifiedGet_fetch F c ctx kReq st w = (Ok (x, ns), w') \<Longrightarrow> advances F st ns"
  "verifiedGetExt_fetch F c ctx kReq st w = (Ok (y, ns), w') \<Longrightarrow> advances F st ns"
  "VCNGetArtifacts_fetch F c ctx req st w = (Ok (z, ns), w') \<Longrightarrow> advances F st ns"
  by (auto dest!: verifiedGet_fetch_Ok verifiedGetExt_fetch_Ok VCNGetArtifacts_fetch_Ok
      intro: verifyGet_advances artifacts_check_advances)

context client_network
begin

lemma VerifiedSet_fetch_quiet: "quiet obs (VerifiedSet_fetch F c ctx key val st)"
  unfolding VerifiedSet_fetch_def Let_def
  by (intro quiet_rules quiet_connection.verified_stubs_quiet network)

lemma verifiedGet_fetch_quiet: "quiet obs (verifiedGet_fetch F c ctx kReq st)"
  unfolding verifiedGet_fetch_def Let_def
  by (intro quiet_rules quiet_connection.verified_stubs_quiet network)

lemma verifiedGetExt_fetch_quiet: "quiet obs (verifiedGetExt_fetch F c ctx kReq st)"
  unfolding verifiedGetExt_fetch_def Let_def
  by (intro quiet_rules quiet_connection.verified_stubs_quiet network)

lemma VCNGetArtifacts_fetch_quiet: "quiet obs (VCNGetArtifacts_fetch F c ctx req st)"
  unfolding VCNGetArtifacts_fetch_def Let_def
  by (intro quiet_rules quiet_connection.verified_stubs_quiet network)

lemma VCNGetArtifacts_plain_quiet:
  "quiet obs (derefE (ServiceClient c) (\<lambda>cc.
     tryE (lcServiceClient_VCNGetArtifacts cc ctx req []) (\<lambda>resp. ret resp)))"
  by (intro quiet_rules quiet_connection.verified_stubs_quiet network)

lemmas fetches_quiet = VerifiedSet_fetch_quiet verifiedGet_fetch_quiet verifiedGetExt_fetch_quiet
  VCNGetArtifacts_fetch_quiet

end

context client_session
begin

lemmas session_network = network
lemmas session_fetches_quiet = fetches_quiet VCNGetArtifacts_plain_quiet

text \<open>The loop of the batch operation: every item is checked from the state read at the start.\<close>

lemma multi_loop_locked: "preserves locked (verifiedGetExtMulti_loop F c ss state reqs errs i items)"
proof (induction items arbitrary: i)
  case (Cons item items)
  then show ?case
    unfolding verifiedGetExtMulti_loop.simps by (intro triple_rules set_preserves_locked) auto
qed (simp add: preserves_lift)

lemma multi_loop_kept:
  assumes "verifiedGetExtMulti_loop F c ss state reqs errs i items w = (r, w')"
    and "cached w (ApiKey c) = Some a" and "trust_path F state a"
  shows "(\<exists>b. cached w' (ApiKey c) = Some b \<and> trust_path F state b) \<and>
     (\<forall>k'. slot k' \<noteq> slot (ApiKey c) \<longrightarrow> cached w' k' = cached w k')"
  using assms
proof (induction items arbitrary: i w a)
  case (Cons item items)
  let ?v = "\<lambda>kr. verifyGet F state (VerifiableItemExt_GetItem item) kr (ApiKeyHash c)"
  show ?case
  proof (cases "index errs i")
    case e: (Ok e)
    show ?thesis
    proof (cases "e = ''''")
      case False
      with Cons e show ?thesis by simp
    next
      case True
      show ?thesis
      proof (cases "tryG (index reqs i) ?v")
        case (Ok ns)
        then obtain kr where kr: "index reqs i = Ok kr" "?v kr = Ok ns" by (auto simp: tryG_Ok)
        have path: "trust_path F state ns" using kr(2) by (intro advances_trust_path verifyGet_advances)
        obtain s w1 where s: "SetState ss (ApiKey c) ns w = (s, w1)"
          by (cases "SetState ss (ApiKey c) ns w")
        show ?thesis
        proof (cases rule: set_state_cases [OF s])
          case 1
          show ?thesis
          proof (cases "check_signature F c ns")
            case (Ok u)
            with Cons.prems(1) e True kr s 1 have
              "verifiedGetExtMulti_loop F c ss state reqs errs (Suc i) items w1 = (r, w')"
              by (simp add: tryE_def)
            from Cons.IH [OF this 1(2) path] 1(3) show ?thesis by simp
          qed (use Cons.prems(1) e True kr s 1 path in \<open>auto simp: tryE_def\<close>)
        next
          case 2
          with Cons.prems e True kr s show ?thesis by (cases s) (auto simp: tryE_def)
        qed
      qed (use Cons.prems e True in \<open>cases "index reqs i"; auto simp: tryE_def\<close>)+
    qed
  qed (use Cons.prems in \<open>auto simp: tryE_def\<close>)
qed auto

end

text \<open>What the batch vouches for: every item without an error text passed the check and is signed.\<close>

definition multi_verified ::
    "('ip, 'dp, 'tx, 'md, 'es, 'k) immudb \<Rightarrow> ('w, 'ctx, 'k, 'sf) LcClient \<Rightarrow> ImmutableState \<Rightarrow>
     KeyRequest list \<Rightarrow> string list \<Rightarrow> VerifiableItemExt option list \<Rightarrow> bool" where
  "multi_verified F c state reqs errs items =
     (\<forall>j < length items. errs ! j = '''' \<longrightarrow>
        (\<exists>ns. verifyGet F state (VerifiableItemExt_GetItem (items ! j)) (reqs ! j) (ApiKeyHash c) = Ok ns \<and>
           check_signature F c ns = Ok ()))"

lemma multi_loop_Ok:
  assumes "verifiedGetExtMulti_loop F c ss state reqs errs i items w = (Ok u, w')"
    and "j < length items" and "errs ! (i + j) = ''''"
  shows "\<exists>ns. verifyGet F state (VerifiableItemExt_GetItem (items ! j)) (reqs ! (i + j)) (ApiKeyHash c) = Ok ns \<and>
      check_signature F c ns = Ok ()"
  using assms
proof (induction items arbitrary: i w j)
  case (Cons item items)
  from Cons.prems(1) obtain v
    where rest: "verifiedGetExtMulti_loop F c ss state reqs errs (Suc i) items v = (Ok u, w')"
      and item: "errs ! i = '''' \<Longrightarrow> (\<exists>ns. verifyGet F state (VerifiableItemExt_GetItem item)
        (reqs ! i) (ApiKeyHash c) = Ok ns \<and> check_signature F c ns = Ok ())"
    by (auto simp: ok_simps split: if_splits)
  show ?case
  proof (cases j)
    case 0
    with Cons.prems(3) item show ?thesis by simp
  next
    case (Suc k)
    with Cons.IH [OF rest, of k] Cons.prems(2,3) show ?thesis by simp
  qed
qed simp

lemma multi_rest_Ok:
  assumes "verifiedGetExtMulti_rest F c ctx reqs ss state w = (Ok (items, errs, None), w')"
  shows "length items = length reqs \<and> length errs = length reqs \<and> multi_verified F c state reqs errs items"
  using assms
  by (auto simp: verifiedGetExtMulti_rest_def multi_verified_def Let_def ok_simps split: if_splits
      dest: multi_loop_Ok [where i = 0, simplified])

context client_session
begin

lemma multi_rest_cases:
  assumes rest: "verifiedGetExtMulti_rest F c ctx reqs ss state w = (r, w'')"
  shows "cached w'' = cached w \<or>
     (\<exists>items errs w1 q. verifiedGetExtMulti_loop F c ss state reqs errs 0 items w1 = (q, w'') \<and>
        cached w1 = cached w)"
proof (cases "ServiceClient c")
  case (Some cc)
  let ?req = "\<lparr>VerifiableGetExtMultiRequest_Requests =
      map (\<lambda>kr. Some \<lparr>VerifiableGetRequest_KeyRequest = Some kr,
                  VerifiableGetRequest_ProveSinceTx = ImmutableState_TxId state\<rparr>) reqs\<rparr>"
  obtain s w1 where s: "lcServiceClient_VerifiableGetExtMulti cc ctx ?req [] w = (s, w1)"
    by (cases "lcServiceClient_VerifiableGetExtMulti cc ctx ?req [] w")
  have same: "cached w1 = cached w"
    using quietD [OF quiet_connection.verified_stubs_quiet(3) [OF network [OF Some]] s] by simp
  show ?thesis
  proof (cases s)
    case (Ok resp)
    let ?items = "VerifiableGetExtMultiResponse_GetItems (Some resp)"
    let ?errs = "VerifiableGetExtMultiResponse_GetErrors (Some resp)"
    obtain q w2 where q: "verifiedGetExtMulti_loop F c ss state reqs ?errs 0 ?items w1 = (q, w2)"
      by (cases "verifiedGetExtMulti_loop F c ss state reqs ?errs 0 ?items w1")
    from rest Some s Ok q have "w'' = w1 \<or> w'' = w2"
      by (cases q) (auto simp: verifiedGetExtMulti_rest_def Let_def tryE_def split: if_splits)
    with same q show ?thesis by blast
  qed (use rest Some s same in \<open>auto simp: verifiedGetExtMulti_rest_def Let_def tryE_def\<close>)
qed (use rest in \<open>auto simp: verifiedGetExtMulti_rest_def Let_def\<close>)

lemma multi_rest_locked: "preserves locked (verifiedGetExtMulti_rest F c ctx reqs ss state)"
  unfolding verifiedGetExtMulti_rest_def Let_def
  by (intro triple_rules multi_loop_locked)
    (rule quiet_locked, rule quiet_connection.verified_stubs_quiet, rule network)

lemma multi_run:
  assumes run: "verifiedGetExtMulti F c ctx reqs w = (r, w'')"
  shows "trust_kept F slot (ApiKey c) (cached w) (cached w'')"
    and "r = Ok (items, errs, None) \<Longrightarrow> length items = length reqs \<and> length errs = length reqs \<and>
      (\<exists>st. (cached w (ApiKey c) = None \<or> cached w (ApiKey c) = Some st) \<and>
         multi_verified F c st reqs errs items)"
proof -
  have "trust_kept F slot (ApiKey c) (cached w) (cached w'') \<and>
      (r = Ok (items, errs, None) \<longrightarrow> length items = length reqs \<and> length errs = length reqs \<and>
      (\<exists>st. (cached w (ApiKey c) = None \<or> cached w (ApiKey c) = Some st) \<and>
         multi_verified F c st reqs errs items))"
  proof -
    from with_trusted_state_run [OF run [unfolded verifiedGetExtMulti_def] multi_rest_locked]
    consider "cached w'' = cached w" "\<forall>x. r \<noteq> Ok x"
      | st w1 w2 where "cached w1 (ApiKey c) = Some st"
        "cached w (ApiKey c) = None \<or> cached w (ApiKey c) = Some st"
        "\<forall>k'. slot k' \<noteq> slot (ApiKey c) \<longrightarrow> cached w1 k' = cached w k'"
        "verifiedGetExtMulti_rest F c ctx reqs ss st w1 = (r, w2)" "cached w'' = cached w2"
      by blast
    then show ?thesis
    proof cases
      case (2 st w1 w2)
      note st = 2(1) and old = 2(2) and fr = 2(3) and rest = 2(4) and w'' = 2(5)
      have kept: "(\<exists>b. cached w2 (ApiKey c) = Some b \<and> trust_path F st b) \<and>
          (\<forall>k'. slot k' \<noteq> slot (ApiKey c) \<longrightarrow> cached w2 k' = cached w1 k')"
        using multi_rest_cases [OF rest]
      proof (elim disjE exE conjE)
        fix its ers v q
        assume "verifiedGetExtMulti_loop F c ss st reqs ers 0 its v = (q, w2)" and "cached v = cached w1"
        with multi_loop_kept [of F st reqs ers 0 its v q w2 st] st show ?thesis by simp
      qed (simp add: st)
      show ?thesis
        using kept fr old rest w'' multi_rest_Ok [of F c ctx reqs ss st w1 items errs w2]
        by (auto simp: trust_kept_def)
    qed auto
  qed
  then show "trust_kept F slot (ApiKey c) (cached w) (cached w'')"
    and "r = Ok (items, errs, None) \<Longrightarrow> length items = length reqs \<and> length errs = length reqs \<and>
      (\<exists>st. (cached w (ApiKey c) = None \<or> cached w (ApiKey c) = Some st) \<and>
         multi_verified F c st reqs errs items)" by auto
qed

end

end
