(* ===== verification/Api_Ops.thy ===== *)
theory Api_Ops
  imports Client_Session
begin

text \<open>
  The operations of \<open>lc_api.go\<close> that only forward: each calls one method of the service client
  with the request, possibly built from the arguments, and returns what it returned.
  \<open>SetFile\<close> and \<open>GetFile\<close> add a file, read or written through the record \<open>FileSystem\<close>, whose
  contract is the locale \<open>file_system\<close>. A method call on a nil \<open>ServiceClient\<close>, which is what
  \<open>Disconnect\<close> leaves, dereferences a nil interface.
\<close>

named_theorems api_defs \<open>definitions of the forwarding operations\<close>

section \<open>Requests and their answers\<close>

definition Set ::
    "('w, 'ctx, 'k, 'sf) LcClient \<Rightarrow> 'ctx \<Rightarrow> bytes \<Rightarrow> bytes \<Rightarrow> ('w, TxHeader) io" where
  [api_defs]: "Set c ctx key val = derefE (ServiceClient c) (\<lambda>cc. lcServiceClient_Set cc ctx
     \<lparr>SetRequest_KVs = [\<lparr>KeyValue_Key = key, KeyValue_Value = val\<rparr>]\<rparr> [])"

definition Get ::
    "('w, 'ctx, 'k, 'sf) LcClient \<Rightarrow> 'ctx \<Rightarrow> bytes \<Rightarrow> ('w, Entry) io" where
  [api_defs]: "Get c ctx key = derefE (ServiceClient c) (\<lambda>cc. lcServiceClient_Get cc ctx
     \<lparr>KeyRequest_Key = key, KeyRequest_AtTx = 0, KeyRequest_SinceTx = 0\<rparr> [])"

definition GetAt ::
    "('w, 'ctx, 'k, 'sf) LcClient \<Rightarrow> 'ctx \<Rightarrow> bytes \<Rightarrow> u64 \<Rightarrow> ('w, Entry) io" where
  [api_defs]: "GetAt c ctx key tx = derefE (ServiceClient c) (\<lambda>cc. lcServiceClient_Get cc ctx
     \<lparr>KeyRequest_Key = key, KeyRequest_AtTx = tx, KeyRequest_SinceTx = 0\<rparr> [])"

definition ExecAll ::
    "('w, 'ctx, 'k, 'sf) LcClient \<Rightarrow> 'ctx \<Rightarrow> wire \<Rightarrow> ('w, TxHeader) io" where
  [api_defs]: "ExecAll c ctx inp = derefE (ServiceClient c) (\<lambda>cc. lcServiceClient_ExecAll cc ctx
     inp [])"

definition GetAll ::
    "('w, 'ctx, 'k, 'sf) LcClient \<Rightarrow> 'ctx \<Rightarrow> wire \<Rightarrow> ('w, Entries) io" where
  [api_defs]: "GetAll c ctx inp = derefE (ServiceClient c) (\<lambda>cc. lcServiceClient_GetAll cc ctx
     inp [])"

definition SetAll ::
    "('w, 'ctx, 'k, 'sf) LcClient \<Rightarrow> 'ctx \<Rightarrow> SetRequest \<Rightarrow> ('w, TxHeader) io" where
  [api_defs]: "SetAll c ctx req = derefE (ServiceClient c) (\<lambda>cc. lcServiceClient_Set cc ctx
     req [])"

definition SetMulti ::
    "('w, 'ctx, 'k, 'sf) LcClient \<Rightarrow> 'ctx \<Rightarrow> SetMultiRequest \<Rightarrow> ('w, SetMultiResponse) io" where
  [api_defs]: "SetMulti c ctx req = derefE (ServiceClient c) (\<lambda>cc. lcServiceClient_SetMulti cc ctx
     req [])"

definition VCNSetArtifacts ::
    "('w, 'ctx, 'k, 'sf) LcClient \<Rightarrow> 'ctx \<Rightarrow> VCNArtifactsRequest \<Rightarrow> ('w, VCNArtifactsResponse) io" where
  [api_defs]: "VCNSetArtifacts c ctx req = derefE (ServiceClient c) (\<lambda>cc. lcServiceClient_VCNSetArtifacts cc ctx
     req [])"

definition VCNSearchArtifacts ::
    "('w, 'ctx, 'k, 'sf) LcClient \<Rightarrow> 'ctx \<Rightarrow> VCNSearchRequest \<Rightarrow> ('w, EntryList) io" where
  [api_defs]: "VCNSearchArtifacts c ctx req = derefE (ServiceClient c) (\<lambda>cc. lcServiceClient_VCNSearchArtifacts cc ctx
     req [])"

definition VCNGetClientSignature ::
    "('w, 'ctx, 'k, 'sf) LcClient \<Rightarrow> 'ctx \<Rightarrow> VCNGetClientSignatureRequest \<Rightarrow> (CallOption list) \<Rightarrow> ('w, VCNGetClientSignatureResponse) io" where
  [api_defs]: "VCNGetClientSignature c ctx inp opts = derefE (ServiceClient c) (\<lambda>cc. lcServiceClient_VCNGetClientSignature cc ctx
     inp opts)"

definition Scan ::
    "('w, 'ctx, 'k, 'sf) LcClient \<Rightarrow> 'ctx \<Rightarrow> wire \<Rightarrow> ('w, Entries) io" where
  [api_defs]: "Scan c ctx req = derefE (ServiceClient c) (\<lambda>cc. lcServiceClient_Scan cc ctx
     req [])"

definition ZScan ::
    "('w, 'ctx, 'k, 'sf) LcClient \<Rightarrow> 'ctx \<Rightarrow> wire \<Rightarrow> ('w, ZEntries) io" where
  [api_defs]: "ZScan c ctx req = derefE (ServiceClient c) (\<lambda>cc. lcServiceClient_ZScan cc ctx
     req [])"

definition History ::
    "('w, 'ctx, 'k, 'sf) LcClient \<Rightarrow> 'ctx \<Rightarrow> wire \<Rightarrow> ('w, Entries) io" where
  [api_defs]: "History c ctx req = derefE (ServiceClient c) (\<lambda>cc. lcServiceClient_History cc ctx
     req [])"

definition ZAddAt ::
    "('w, 'ctx, 'k, 'sf) LcClient \<Rightarrow> 'ctx \<Rightarrow> wire \<Rightarrow> ('w, TxHeader) io" where
  [api_defs]: "ZAddAt c ctx options = derefE (ServiceClient c) (\<lambda>cc. lcServiceClient_ZAdd cc ctx
     options [])"

definition ZScanExt ::
    "('w, 'ctx, 'k, 'sf) LcClient \<Rightarrow> 'ctx \<Rightarrow> wire \<Rightarrow> ('w, ZItemExtList) io" where
  [api_defs]: "ZScanExt c ctx options = derefE (ServiceClient c) (\<lambda>cc. lcServiceClient_ZScanExt cc ctx
     options [])"

definition HistoryExt ::
    "('w, 'ctx, 'k, 'sf) LcClient \<Rightarrow> 'ctx \<Rightarrow> wire \<Rightarrow> ('w, ItemExtList) io" where
  [api_defs]: "HistoryExt c ctx options = derefE (ServiceClient c) (\<lambda>cc. lcServiceClient_HistoryExt cc ctx
     options [])"

definition Health ::
    "('w, 'ctx, 'k, 'sf) LcClient \<Rightarrow> 'ctx \<Rightarrow> ('w, wire) io" where
  [api_defs]: "Health c ctx = derefE (ServiceClient c) (\<lambda>cc. lcServiceClient_Health cc ctx
     () [])"

definition CurrentState ::
    "('w, 'ctx, 'k, 'sf) LcClient \<Rightarrow> 'ctx \<Rightarrow> ('w, ImmutableState) io" where
  [api_defs]: "CurrentState c ctx = derefE (ServiceClient c) (\<lambda>cc. lcServiceClient_CurrentState cc ctx
     () [])"

definition Feats ::
    "('w, 'ctx, 'k, 'sf) LcClient \<Rightarrow> 'ctx \<Rightarrow> ('w, Features) io" where
  [api_defs]: "Feats c ctx = derefE (ServiceClient c) (\<lambda>cc. lcServiceClient_Feats cc ctx
     () [])"

definition VCNLabelsSet ::
    "('w, 'ctx, 'k, 'sf) LcClient \<Rightarrow> 'ctx \<Rightarrow> (LabelsSetRequest option list) \<Rightarrow> (CallOption list) \<Rightarrow> ('w, VCNLabelsSetResponse) io" where
  [api_defs]: "VCNLabelsSet c ctx req opts = derefE (ServiceClient c) (\<lambda>cc. lcServiceClient_VCNLabelsSet cc ctx
     \<lparr>VCNLabelsSetRequest_Request = req\<rparr> opts)"

definition VCNLabelsUpdate ::
    "('w, 'ctx, 'k, 'sf) LcClient \<Rightarrow> 'ctx \<Rightarrow> string \<Rightarrow> (VCNLabelsOp option list) \<Rightarrow> (CallOption list) \<Rightarrow> ('w, VCNLabelsUpdateResponse) io" where
  [api_defs]: "VCNLabelsUpdate c ctx hash ops opts = derefE (ServiceClient c) (\<lambda>cc. lcServiceClient_VCNLabelsUpdate cc ctx
     \<lparr>VCNLabelsUpdateRequest_Hash = hash, VCNLabelsUpdateRequest_Ops = ops\<rparr> opts)"

definition VCNLabelsGet ::
    "('w, 'ctx, 'k, 'sf) LcClient \<Rightarrow> 'ctx \<Rightarrow> (LabelsGetRequest option list) \<Rightarrow> (CallOption list) \<Rightarrow> ('w, VCNLabelsGetResponse) io" where
  [api_defs]: "VCNLabelsGet c ctx req opts = derefE (ServiceClient c) (\<lambda>cc. lcServiceClient_VCNLabelsGet cc ctx
     \<lparr>VCNLabelsGetRequest_Request = req\<rparr> opts)"

definition VCNGetAttachment ::
    "('w, 'ctx, 'k, 'sf) LcClient \<Rightarrow> 'ctx \<Rightarrow> string \<Rightarrow> string \<Rightarrow> string \<Rightarrow> ('w, VCNGetAttachmentResponse) io" where
  [api_defs]: "VCNGetAttachment c ctx signerID artifactHash attachHash = derefE (ServiceClient c) (\<lambda>cc. lcServiceClient_VCNGetAttachment cc ctx
     \<lparr>VCNGetAttachmentRequest_SignerID = signerID,
        VCNGetAttachmentRequest_ArtifactHash = artifactHash,
        VCNGetAttachmentRequest_AttachmentHash = attachHash\<rparr> [])"

section \<open>Files\<close>

text \<open>\<open>ioutil.ReadFile\<close> and \<open>ioutil.WriteFile\<close>; \<open>os.ModePerm\<close> is 0777.\<close>

record 'w FileSystem =
  ReadFile :: "string \<Rightarrow> ('w, bytes) io"
  WriteFile :: "string \<Rightarrow> bytes \<Rightarrow> nat \<Rightarrow> ('w, unit) io"

definition ModePerm :: nat where
  "ModePerm = 511"

definition SetFile ::
    "'w FileSystem \<Rightarrow> ('w, 'ctx, 'k, 'sf) LcClient \<Rightarrow> 'ctx \<Rightarrow> bytes \<Rightarrow> string \<Rightarrow> ('w, TxHeader) io" where
  "SetFile fs c ctx key filePath =
     tryE (ReadFile fs filePath) (\<lambda>bs.
     derefE (ServiceClient c) (\<lambda>cc. lcServiceClient_Set cc ctx
       \<lparr>SetRequest_KVs = [\<lparr>KeyValue_Key = key, KeyValue_Value = bs\<rparr>]\<rparr> []))"

definition GetFile ::
    "'w FileSystem \<Rightarrow> ('w, 'ctx, 'k, 'sf) LcClient \<Rightarrow> 'ctx \<Rightarrow> bytes \<Rightarrow> string \<Rightarrow> ('w, Entry) io" where
  "GetFile fs c ctx key filePath =
     tryE (derefE (ServiceClient c) (\<lambda>cc. lcServiceClient_Get cc ctx
       \<lparr>KeyRequest_Key = key, KeyRequest_AtTx = 0, KeyRequest_SinceTx = 0\<rparr> [])) (\<lambda>entry.
     tryE (WriteFile fs filePath (Entry_Value entry) ModePerm) (\<lambda>_.
     ret entry))"

text \<open>
  What the two rely on: \<open>content w p\<close> is the content of the file at \<open>p\<close>, if there is one.
\<close>

locale file_system =
  fixes fs :: "'w FileSystem" and content :: "'w \<Rightarrow> string \<Rightarrow> bytes option"
  assumes read_law: "ReadFile fs p w = (r, w') \<Longrightarrow>
      content w' = content w \<and> (\<forall>bs. r = Ok bs \<longrightarrow> content w p = Some bs)"
    and write_law: "WriteFile fs p bs m w = (Ok (), w') \<Longrightarrow> content w' = (content w)(p \<mapsto> bs)"
begin

text \<open>\<open>SetFile\<close> uploads what the file holds: it acts as \<open>Set\<close> does on those bytes.\<close>

lemma SetFile_uploads:
  assumes "SetFile fs c ctx key p w = (Ok h, w')"
  shows "\<exists>bs w1. content w p = Some bs \<and> content w1 = content w \<and> Set c ctx key bs w1 = (Ok h, w')"
  using assms read_law by (fastforce simp: SetFile_def Set_def ok_simps)

text \<open>\<open>GetFile\<close> leaves in the file the value of the entry it returns, and no other file changes.\<close>

lemma GetFile_downloads:
  assumes "GetFile fs c ctx key p w = (Ok e, w')"
  shows "\<exists>w1. Get c ctx key w = (Ok e, w1) \<and> content w' = (content w1)(p \<mapsto> Entry_Value e)"
  using assms write_law by (fastforce simp: GetFile_def Get_def ok_simps)

end

section \<open>The forwarding operations and the cache\<close>

context client_network
begin

lemma forwarding_quiet:
  "quiet obs (Set c ctx key val)" "quiet obs (Get c ctx key)" "quiet obs (GetAt c ctx key tx)"
  "quiet obs (ExecAll c ctx b)" "quiet obs (GetAll c ctx b)" "quiet obs (SetAll c ctx sr)"
  "quiet obs (SetMulti c ctx mr)" "quiet obs (VCNSetArtifacts c ctx ar)"
  "quiet obs (VCNSearchArtifacts c ctx qr)" "quiet obs (VCNGetClientSignature c ctx gr opts)"
  "quiet obs (Scan c ctx b)" "quiet obs (ZScan c ctx b)" "quiet obs (History c ctx b)"
  "quiet obs (ZAddAt c ctx b)" "quiet obs (ZScanExt c ctx b)" "quiet obs (HistoryExt c ctx b)"
  "quiet obs (Health c ctx)" "quiet obs (CurrentState c ctx)" "quiet obs (Feats c ctx)"
  "quiet obs (VCNLabelsSet c ctx ls opts)" "quiet obs (VCNLabelsUpdate c ctx hash ops opts)"
  "quiet obs (VCNLabelsGet c ctx lg opts)" "quiet obs (VCNGetAttachment c ctx s a h)"
  unfolding api_defs service_defs
  by (intro quiet_rules quiet_connection.unary_quiet network; assumption)+

end

end
