(* ===== verification/Streams.thy ===== *)
theory Streams
  imports Client_Session
begin

text \<open>
  The streaming operations (\<open>lc_streams_api.go\<close>). immudb's stream package is a parameter in two
  records: \<open>StreamFactory\<close> holds what the client's \<open>StreamServiceFactory\<close> builds (senders and
  receivers over an open gRPC stream), \<open>StreamLib\<close> the package functions and the \<open>io.Reader\<close>s.
  A receiver's progress is part of the world.

  The loops over a received stream end only when the stream does. They are \<open>partial_function\<close>s into
  \<open>option\<close>: \<open>None\<close> is a loop that never returns. \<open>delivers\<close> describes a stream that ends after
  given items; the locale \<open>finite_stream\<close> gives a reason for every stream to end.
\<close>

section \<open>The stream package\<close>

record 'rd ValueSize =
  Content :: 'rd
  Size :: int

record 'rd StreamKeyValue =
  Key :: "'rd ValueSize option"
  Value :: "'rd ValueSize option"

text \<open>
  \<open>Read rd n\<close> is \<^verbatim>\<open>rd.Read(p)\<close> for a slice of length \<open>n\<close> and gives the bytes read;
  \<open>NewBufReader bs\<close> is \<^verbatim>\<open>bufio.NewReader\<close> of a buffer holding \<open>bs\<close>.
\<close>

record ('w, 'rd) StreamLib =
  Read :: "'rd \<Rightarrow> nat \<Rightarrow> ('w, bytes) io"
  NewBufReader :: "bytes \<Rightarrow> ('w, 'rd) io"
  ReadValue :: "'rd \<Rightarrow> int \<Rightarrow> ('w, bytes) io"
  ParseVerifiableEntry :: "wire \<Rightarrow> wire \<Rightarrow> wire \<Rightarrow> 'rd \<Rightarrow> int \<Rightarrow> ('w, VerifiableEntry) io"
  ParseZEntry :: "bytes \<Rightarrow> bytes \<Rightarrow> wire \<Rightarrow> wire \<Rightarrow> 'rd \<Rightarrow> int \<Rightarrow> ('w, ZEntry) io"
  NumberToBytes :: "u64 \<Rightarrow> bytes go"

record ('w, 'ctx, 'rd) StreamFactory =
  kvs_Send :: "('w, 'ctx) ClientConn \<Rightarrow> stream \<Rightarrow> 'rd StreamKeyValue \<Rightarrow> ('w, unit) io"
  msg_Send :: "('w, 'ctx) ClientConn \<Rightarrow> stream \<Rightarrow> bytes \<Rightarrow> ('w, unit) io"
  kvr_Next :: "('w, 'ctx) ClientConn \<Rightarrow> stream \<Rightarrow> ('w, bytes \<times> 'rd) io"
  zr_Next :: "('w, 'ctx) ClientConn \<Rightarrow> stream \<Rightarrow> ('w, bytes \<times> bytes \<times> wire \<times> wire \<times> 'rd) io"
  ver_Next :: "('w, 'ctx) ClientConn \<Rightarrow> stream \<Rightarrow> ('w, wire \<times> wire \<times> wire \<times> 'rd) io"
  eas_Send :: "('w, 'ctx) ClientConn \<Rightarrow> stream \<Rightarrow> wire \<Rightarrow> ('w, unit) io"

type_synonym ('w, 'ctx, 'k, 'rd) StreamClient =
  "('w, 'ctx, 'k, ('w, 'ctx, 'rd) StreamFactory) LcClient"

section \<open>Sending\<close>

fun send_all ::
    "('w, 'ctx, 'rd) StreamFactory \<Rightarrow> ('w, 'ctx) ClientConn \<Rightarrow> stream \<Rightarrow> 'rd StreamKeyValue list \<Rightarrow>
     ('w, unit) io" where
  "send_all sf cc s [] = ret ()"
| "send_all sf cc s (kv # kvs) = tryE (kvs_Send sf cc s kv) (\<lambda>_. send_all sf cc s kvs)"

definition StreamSet ::
    "('w, 'ctx, 'k, 'rd) StreamClient \<Rightarrow> 'ctx \<Rightarrow> 'rd StreamKeyValue list \<Rightarrow> ('w, TxHeader) io" where
  "StreamSet c ctx kvs =
     derefE (ServiceClient c) (\<lambda>cc.
     tryE (lcServiceClient_StreamSet cc ctx []) (\<lambda>s.
     tryE (send_all (StreamServiceFactory c) cc s kvs) (\<lambda>_.
     lcServiceStreamSetClient_CloseAndRecv cc s)))"

definition StreamExecAll ::
    "('w, 'ctx, 'k, 'rd) StreamClient \<Rightarrow> 'ctx \<Rightarrow> wire \<Rightarrow> ('w, TxHeader) io" where
  "StreamExecAll c ctx req =
     derefE (ServiceClient c) (\<lambda>cc.
     tryE (lcServiceClient_StreamExecAll cc ctx []) (\<lambda>s.
     tryE (eas_Send (StreamServiceFactory c) cc s req) (\<lambda>_.
     lcServiceStreamExecAllClient_CloseAndRecv cc s)))"

section \<open>Receiving one entry\<close>

definition missing_data :: go_error where
  "missing_data = NewError ''expected data on stream is missing''"

text \<open>\<open>stream.ReadValue\<close>, its end-of-file error replaced as the callers do.\<close>

definition read_value :: "('w, 'rd) StreamLib \<Rightarrow> 'rd \<Rightarrow> int \<Rightarrow> ('w, bytes) io" where
  "read_value S vr chunkSize = (\<lambda>w.
     case ReadValue S vr chunkSize w of
       (Fail err, w') \<Rightarrow> (Fail (if err = EOF then missing_data else err), w')
     | (Ok val, w') \<Rightarrow> (Ok val, w')
     | (Panic p, w') \<Rightarrow> (Panic p, w'))"

definition stream_entry :: "bytes \<Rightarrow> bytes \<Rightarrow> Entry" where
  "stream_entry key val = zero_Entry\<lparr>Entry_Key := key, Entry_Value := val\<rparr>"

definition StreamGet ::
    "('w, 'rd) StreamLib \<Rightarrow> ('w, 'ctx, 'k, 'rd) StreamClient \<Rightarrow> 'ctx \<Rightarrow> KeyRequest \<Rightarrow> ('w, Entry) io" where
  "StreamGet S c ctx k =
     derefE (ServiceClient c) (\<lambda>cc.
     tryE (lcServiceClient_StreamGet cc ctx k []) (\<lambda>gs.
     tryE (kvr_Next (StreamServiceFactory c) cc gs) (\<lambda>(key, vr).
     tryE (read_value S vr (StreamChunkSize c)) (\<lambda>val.
     ret (stream_entry key val)))))"

section \<open>StreamVerifiedSet\<close>

text \<open>
  A key or a value is read once through a tee into a slice of its declared size; the caller's reader
  is replaced by one over the bytes read. A short read leaves zeros at the end of the slice.
\<close>

definition tee_read :: "('w, 'rd) StreamLib \<Rightarrow> 'rd ValueSize option \<Rightarrow> ('w, bytes \<times> 'rd ValueSize) io" where
  "tee_read S vs = derefE vs (\<lambda>v.
     if Size v < 0 then panic NegativeMake else
     tryE (Read S (Content v) (nat (Size v))) (\<lambda>data.
     tryE (NewBufReader S data) (\<lambda>rd.
     ret (data @ replicate (nat (Size v) - length data) 0, v\<lparr>Content := rd\<rparr>))))"

fun collect_kvs ::
    "('w, 'rd) StreamLib \<Rightarrow> 'rd StreamKeyValue list \<Rightarrow> ('w, KeyValue list \<times> 'rd StreamKeyValue list) io" where
  "collect_kvs S [] = ret ([], [])"
| "collect_kvs S (kv # kvs) =
     tryE (tee_read S (Key kv)) (\<lambda>(key, k').
     tryE (tee_read S (Value kv)) (\<lambda>(val, v').
     tryE (collect_kvs S kvs) (\<lambda>(stdKVs, kvs').
     ret (\<lparr>KeyValue_Key = key, KeyValue_Value = val\<rparr> # stdKVs,
          kv\<lparr>Key := Some k', Value := Some v'\<rparr> # kvs'))))"

definition StreamVerifiedSet_fetch ::
    "('ip, 'dp, 'tx, 'md, 'es, 'k) immudb \<Rightarrow> ('w, 'rd) StreamLib \<Rightarrow> ('w, 'ctx, 'k, 'rd) StreamClient \<Rightarrow>
     'ctx \<Rightarrow> 'rd StreamKeyValue list \<Rightarrow> ImmutableState \<Rightarrow> ('w, TxHeader option \<times> ImmutableState) io" where
  "StreamVerifiedSet_fetch F S c ctx kvs state =
     tryE (lift (NumberToBytes S (ImmutableState_TxId state))) (\<lambda>stateTxID.
     tryE (collect_kvs S kvs) (\<lambda>(stdKVs, kvs').
     derefE (ServiceClient c) (\<lambda>cc.
     tryE (lcServiceClient_StreamVerifiableSet cc ctx []) (\<lambda>s.
     tryE (msg_Send (StreamServiceFactory c) cc s stateTxID) (\<lambda>_.
     tryE (send_all (StreamServiceFactory c) cc s kvs') (\<lambda>_.
     tryE (lcServiceStreamVerifiableSetClient_CloseAndRecv cc s) (\<lambda>verifiableTx.
     tryE (lift (streamVerifiedSet_check F state (ApiKey c) stdKVs verifiableTx)) (\<lambda>newState.
     lift (deref (VerifiableTx_Tx verifiableTx) (\<lambda>tx. Ok (Tx_Header tx, newState)))))))))))"

definition StreamVerifiedSet ::
    "('ip, 'dp, 'tx, 'md, 'es, 'k) immudb \<Rightarrow> ('w, 'rd) StreamLib \<Rightarrow> ('w, 'ctx, 'k, 'rd) StreamClient \<Rightarrow>
     'ctx \<Rightarrow> 'rd StreamKeyValue list \<Rightarrow> ('w, TxHeader option) io" where
  "StreamVerifiedSet F S c ctx kvs =
     (if length kvs = 0 then fail (NewError ''no key-values specified'')
      else check_then_store F c ctx (StreamVerifiedSet_fetch F S c ctx kvs))"

section \<open>StreamVerifiedGet\<close>

text \<open>The caller's request is sent as it is: its \<open>ProveSinceTx\<close> is not set from the state.\<close>

definition StreamVerifiedGet_fetch ::
    "('ip, 'dp, 'tx, 'md, 'es, 'k) immudb \<Rightarrow> ('w, 'rd) StreamLib \<Rightarrow> ('w, 'ctx, 'k, 'rd) StreamClient \<Rightarrow>
     'ctx \<Rightarrow> VerifiableGetRequest \<Rightarrow> ImmutableState \<Rightarrow> ('w, Entry option \<times> ImmutableState) io" where
  "StreamVerifiedGet_fetch F S c ctx req state =
     derefE (ServiceClient c) (\<lambda>cc.
     tryE (lcServiceClient_StreamVerifiableGet cc ctx req []) (\<lambda>gs.
     tryE (ver_Next (StreamServiceFactory c) cc gs) (\<lambda>(entryProto, txProto, proofProto, vr).
     tryE (ParseVerifiableEntry S entryProto txProto proofProto vr (StreamChunkSize c)) (\<lambda>vEntry.
     tryE (lift (streamVerifiedGet_check F state vEntry req (ApiKey c))) (\<lambda>newState.
     ret (VerifiableEntry_Entry vEntry, newState))))))"

definition StreamVerifiedGet ::
    "('ip, 'dp, 'tx, 'md, 'es, 'k) immudb \<Rightarrow> ('w, 'rd) StreamLib \<Rightarrow> ('w, 'ctx, 'k, 'rd) StreamClient \<Rightarrow>
     'ctx \<Rightarrow> VerifiableGetRequest \<Rightarrow> ('w, Entry option) io" where
  "StreamVerifiedGet F S c ctx req = check_then_store F c ctx (StreamVerifiedGet_fetch F S c ctx req)"

section \<open>Receiving until the end of the stream\<close>

text \<open>The loop of \<open>StreamScan\<close> and \<open>StreamHistory\<close>.\<close>

partial_function (option) kv_loop ::
    "('w, 'ctx, 'rd) StreamFactory \<Rightarrow> ('w, 'rd) StreamLib \<Rightarrow> ('w, 'ctx) ClientConn \<Rightarrow> int \<Rightarrow> stream \<Rightarrow>
     Entry list \<Rightarrow> 'w \<Rightarrow> (Entry list go \<times> 'w) option" where
  "kv_loop sf S cc chunkSize gs entries w =
     (case kvr_Next sf cc gs w of
        (Fail err, w1) \<Rightarrow> Some (if err = EOF then Ok entries else Fail err, w1)
      | (Panic p, w1) \<Rightarrow> Some (Panic p, w1)
      | (Ok (key, vr), w1) \<Rightarrow>
          (case read_value S vr chunkSize w1 of
             (Fail err, w2) \<Rightarrow> Some (Fail err, w2)
           | (Panic p, w2) \<Rightarrow> Some (Panic p, w2)
           | (Ok val, w2) \<Rightarrow>
               kv_loop sf S cc chunkSize gs (entries @ [stream_entry key val]) w2))"

text \<open>The loop of \<open>StreamZScan\<close>.\<close>

partial_function (option) z_loop ::
    "('w, 'ctx, 'rd) StreamFactory \<Rightarrow> ('w, 'rd) StreamLib \<Rightarrow> ('w, 'ctx) ClientConn \<Rightarrow> int \<Rightarrow> stream \<Rightarrow>
     ZEntry list \<Rightarrow> 'w \<Rightarrow> (ZEntry list go \<times> 'w) option" where
  "z_loop sf S cc chunkSize gs entries w =
     (case zr_Next sf cc gs w of
        (Fail err, w1) \<Rightarrow> Some (if err = EOF then Ok entries else Fail err, w1)
      | (Panic p, w1) \<Rightarrow> Some (Panic p, w1)
      | (Ok (set', key, score, atTx, vr), w1) \<Rightarrow>
          (case ParseZEntry S set' key score atTx vr chunkSize w1 of
             (Fail err, w2) \<Rightarrow> Some (Fail err, w2)
           | (Panic p, w2) \<Rightarrow> Some (Panic p, w2)
           | (Ok entry, w2) \<Rightarrow> z_loop sf S cc chunkSize gs (entries @ [entry]) w2))"

text \<open>A stream that is opened and then read to its end by \<open>loop\<close>, whose result is wrapped.\<close>

definition open_and_loop ::
    "('w, stream) io \<Rightarrow> (stream \<Rightarrow> 'w \<Rightarrow> ('a list go \<times> 'w) option) \<Rightarrow> ('a list \<Rightarrow> 'b) \<Rightarrow>
     'w \<Rightarrow> ('b go \<times> 'w) option" where
  "open_and_loop opn loop wrap w =
     (case opn w of
        (Ok gs, w1) \<Rightarrow> map_option (\<lambda>(r, w2). (tryG r (\<lambda>xs. Ok (wrap xs)), w2)) (loop gs w1)
      | (Fail e, w1) \<Rightarrow> Some (Fail e, w1)
      | (Panic p, w1) \<Rightarrow> Some (Panic p, w1))"

definition StreamScan ::
    "('w, 'rd) StreamLib \<Rightarrow> ('w, 'ctx, 'k, 'rd) StreamClient \<Rightarrow> 'ctx \<Rightarrow> wire \<Rightarrow>
     'w \<Rightarrow> (Entries go \<times> 'w) option" where
  "StreamScan S c ctx req w =
     (case ServiceClient c of
        None \<Rightarrow> Some (Panic NilDereference, w)
      | Some cc \<Rightarrow> open_and_loop (lcServiceClient_StreamScan cc ctx req [])
          (\<lambda>gs. kv_loop (StreamServiceFactory c) S cc (StreamChunkSize c) gs [])
          (\<lambda>entries. \<lparr>Entries_Entries = entries\<rparr>) w)"

definition StreamHistory ::
    "('w, 'rd) StreamLib \<Rightarrow> ('w, 'ctx, 'k, 'rd) StreamClient \<Rightarrow> 'ctx \<Rightarrow> wire \<Rightarrow>
     'w \<Rightarrow> (Entries go \<times> 'w) option" where
  "StreamHistory S c ctx req w =
     (case ServiceClient c of
        None \<Rightarrow> Some (Panic NilDereference, w)
      | Some cc \<Rightarrow> open_and_loop (lcServiceClient_StreamHistory cc ctx req [])
          (\<lambda>gs. kv_loop (StreamServiceFactory c) S cc (StreamChunkSize c) gs [])
          (\<lambda>entries. \<lparr>Entries_Entries = entries\<rparr>) w)"

definition StreamZScan ::
    "('w, 'rd) StreamLib \<Rightarrow> ('w, 'ctx, 'k, 'rd) StreamClient \<Rightarrow> 'ctx \<Rightarrow> wire \<Rightarrow>
     'w \<Rightarrow> (ZEntries go \<times> 'w) option" where
  "StreamZScan S c ctx req w =
     (case ServiceClient c of
        None \<Rightarrow> Some (Panic NilDereference, w)
      | Some cc \<Rightarrow> open_and_loop (lcServiceClient_StreamZScan cc ctx req [])
          (\<lambda>gs. z_loop (StreamServiceFactory c) S cc (StreamChunkSize c) gs [])
          (\<lambda>entries. \<lparr>ZEntries_Entries = entries\<rparr>) w)"

section \<open>Streams that end\<close>

inductive delivers ::
    "('w, 'ctx, 'rd) StreamFactory \<Rightarrow> ('w, 'rd) StreamLib \<Rightarrow> ('w, 'ctx) ClientConn \<Rightarrow> int \<Rightarrow> stream \<Rightarrow>
     'w \<Rightarrow> (bytes \<times> bytes) list \<Rightarrow> 'w \<Rightarrow> bool"
  for sf S cc chunkSize gs where
  finish: "kvr_Next sf cc gs w = (Fail EOF, w') \<Longrightarrow> delivers sf S cc chunkSize gs w [] w'"
| item: "kvr_Next sf cc gs w = (Ok (key, vr), w1) \<Longrightarrow> ReadValue S vr chunkSize w1 = (Ok val, w2) \<Longrightarrow>
     delivers sf S cc chunkSize gs w2 items w' \<Longrightarrow>
     delivers sf S cc chunkSize gs w ((key, val) # items) w'"

inductive_cases delivers_NilE: "delivers sf S cc chunkSize gs w [] w'"
inductive_cases delivers_ConsE: "delivers sf S cc chunkSize gs w (kv # items) w'"

lemma read_value_Ok [ok_simps]:
  "(read_value S vr n w = (Ok v, w')) = (ReadValue S vr n w = (Ok v, w'))"
  by (auto simp: read_value_def split: prod.splits go.splits)

lemma kv_loop_delivers:
  "delivers sf S cc n gs w items w' \<Longrightarrow>
   kv_loop sf S cc n gs acc w = Some (Ok (acc @ map (\<lambda>(k, v). stream_entry k v) items), w')"
proof (induction arbitrary: acc rule: delivers.induct)
  case (item w key vr w1 val w2 items w')
  then have "read_value S vr n w1 = (Ok val, w2)" by (simp add: read_value_Ok)
  with item show ?case by (subst kv_loop.simps) simp
qed (simp add: kv_loop.simps)

lemma kv_loop_Ok:
  assumes "kv_loop sf S cc n gs acc w = Some y" and "y = (Ok es, w')"
  shows "\<exists>items. delivers sf S cc n gs w items w' \<and> es = acc @ map (\<lambda>(k, v). stream_entry k v) items"
  using assms
proof (induction arbitrary: es w' rule: kv_loop.raw_induct [rotated -1, consumes 1, case_names step])
  case (step loop sf S cc n gs acc w y)
  obtain q w1 where q: "kvr_Next sf cc gs w = (q, w1)" by (cases "kvr_Next sf cc gs w")
  show ?case
  proof (cases q)
    case (Ok kv)
    obtain key vr where kv: "kv = (key, vr)" by (cases kv)
    obtain v w2 where v: "read_value S vr n w1 = (v, w2)" by (cases "read_value S vr n w1")
    show ?thesis
    proof (cases v)
      case (Ok val)
      with step(2-) q \<open>q = Ok kv\<close> kv v
      have "loop sf S cc n gs (acc @ [stream_entry key val]) w2 = Some (Ok es, w')" by simp
      from step(1) [OF this refl] obtain items where "delivers sf S cc n gs w2 items w'"
        and "es = (acc @ [stream_entry key val]) @ map (\<lambda>(k, v). stream_entry k v) items" by blast
      with q \<open>q = Ok kv\<close> kv v Ok show ?thesis
        by (intro exI [of _ "(key, val) # items"]) (auto intro: item simp: read_value_Ok)
    qed (use step(2-) q \<open>q = Ok kv\<close> kv v in auto)
  qed (use step(2-) q in \<open>auto split: if_splits intro: finish\<close>)
qed

text \<open>The loop returns the delivered entries in the order they came, and nothing else.\<close>

lemma kv_loop_iff:
  "(kv_loop sf S cc n gs [] w = Some (Ok es, w')) =
   (\<exists>items. delivers sf S cc n gs w items w' \<and> es = map (\<lambda>(k, v). stream_entry k v) items)"
  using kv_loop_delivers [where acc = "[]"] kv_loop_Ok [where acc = "[]"] by fastforce

text \<open>
  A stream with finitely many messages left: every message received brings its end nearer.
\<close>

locale finite_stream =
  fixes sf :: "('w, 'ctx, 'rd) StreamFactory" and S :: "('w, 'rd) StreamLib" and pending :: "'w \<Rightarrow> nat"
  assumes kv_next: "kvr_Next sf cc gs w = (Ok kv, w') \<Longrightarrow> pending w' < pending w"
    and z_next: "zr_Next sf cc gs w = (Ok z, w') \<Longrightarrow> pending w' < pending w"
    and value_read: "ReadValue S vr n w = (Ok v, w') \<Longrightarrow> pending w' \<le> pending w"
    and z_read: "ParseZEntry S s k sc t vr n w = (Ok ze, w') \<Longrightarrow> pending w' \<le> pending w"
begin

lemma kv_loop_returns: "\<exists>y. kv_loop sf S cc n gs acc w = Some y"
proof (induction "pending w" arbitrary: acc w rule: less_induct)
  case less
  obtain q w1 where q: "kvr_Next sf cc gs w = (q, w1)" by (cases "kvr_Next sf cc gs w")
  show ?case
  proof (cases q)
    case (Ok kv)
    obtain key vr where kv: "kv = (key, vr)" by (cases kv)
    obtain v w2 where v: "read_value S vr n w1 = (v, w2)" by (cases "read_value S vr n w1")
    show ?thesis
    proof (cases v)
      case (Ok val)
      with v have "pending w2 \<le> pending w1" by (intro value_read) (simp add: read_value_Ok)
      with kv_next [OF q [unfolded \<open>q = Ok kv\<close>]] have "pending w2 < pending w" by simp
      from less [OF this] q \<open>q = Ok kv\<close> kv v Ok show ?thesis by (subst kv_loop.simps) simp
    qed (use q \<open>q = Ok kv\<close> kv v in \<open>auto simp: kv_loop.simps [of _ _ _ _ _ _ w]\<close>)
  qed (use q in \<open>auto simp: kv_loop.simps [of _ _ _ _ _ _ w]\<close>)
qed

lemma z_loop_returns: "\<exists>y. z_loop sf S cc n gs acc w = Some y"
proof (induction "pending w" arbitrary: acc w rule: less_induct)
  case less
  obtain q w1 where q: "zr_Next sf cc gs w = (q, w1)" by (cases "zr_Next sf cc gs w")
  show ?case
  proof (cases q)
    case (Ok z)
    obtain s k sc t vr where z: "z = (s, k, sc, t, vr)" by (cases z)
    obtain v w2 where v: "ParseZEntry S s k sc t vr n w1 = (v, w2)" by (cases "ParseZEntry S s k sc t vr n w1")
    show ?thesis
    proof (cases v)
      case (Ok ze)
      with v have "pending w2 \<le> pending w1" by (intro z_read) simp
      with z_next [OF q [unfolded \<open>q = Ok z\<close>]] have "pending w2 < pending w" by simp
      from less [OF this] q \<open>q = Ok z\<close> z v Ok show ?thesis by (subst z_loop.simps) simp
    qed (use q \<open>q = Ok z\<close> z v in \<open>auto simp: z_loop.simps [of _ _ _ _ _ _ w]\<close>)
  qed (use q in \<open>auto simp: z_loop.simps [of _ _ _ _ _ _ w]\<close>)
qed

lemma open_and_loop_returns:
  "(\<And>gs w. \<exists>y. loop gs w = Some y) \<Longrightarrow> \<exists>y. open_and_loop opn loop wrap w = Some y"
  unfolding open_and_loop_def by (cases "opn w") (fastforce split: go.splits)

lemma scans_return:
  assumes "StreamServiceFactory c = sf"
  shows "\<exists>y. StreamScan S c ctx req w = Some y" "\<exists>y. StreamHistory S c ctx req w = Some y"
    "\<exists>y. StreamZScan S c ctx req w = Some y"
  by (cases "ServiceClient c";
      simp only: StreamScan_def StreamHistory_def StreamZScan_def assms option.case;
      (rule open_and_loop_returns, rule kv_loop_returns z_loop_returns)?; simp)+

end

lemma StreamScan_iff:
  assumes "ServiceClient c = Some cc"
  shows "(StreamScan S c ctx req w = Some (Ok \<lparr>Entries_Entries = es\<rparr>, w')) =
     (\<exists>gs w1 items. lcServiceClient_StreamScan cc ctx req [] w = (Ok gs, w1) \<and>
        delivers (StreamServiceFactory c) S cc (StreamChunkSize c) gs w1 items w' \<and>
        es = map (\<lambda>(k, v). stream_entry k v) items)"
  using assms
  by (cases "lcServiceClient_StreamScan cc ctx req [] w")
    (auto simp: StreamScan_def open_and_loop_def tryG_Ok kv_loop_iff [symmetric] split: go.splits)

lemma StreamHistory_iff:
  assumes "ServiceClient c = Some cc"
  shows "(StreamHistory S c ctx req w = Some (Ok \<lparr>Entries_Entries = es\<rparr>, w')) =
     (\<exists>gs w1 items. lcServiceClient_StreamHistory cc ctx req [] w = (Ok gs, w1) \<and>
        delivers (StreamServiceFactory c) S cc (StreamChunkSize c) gs w1 items w' \<and>
        es = map (\<lambda>(k, v). stream_entry k v) items)"
  using assms
  by (cases "lcServiceClient_StreamHistory cc ctx req [] w")
    (auto simp: StreamHistory_def open_and_loop_def tryG_Ok kv_loop_iff [symmetric] split: go.splits)

section \<open>Readers\<close>

text \<open>\<open>io.Reader\<close>: a read fills at most the slice it is given.\<close>

locale byte_readers =
  fixes S :: "('w, 'rd) StreamLib"
  assumes read_bound: "Read S rd n w = (Ok data, w') \<Longrightarrow> length data \<le> n"
begin

lemma tee_read_length:
  assumes "tee_read S vs w = (Ok (data, vs'), w')"
  shows "\<exists>v. vs = Some v \<and> 0 \<le> Size v \<and> length data = nat (Size v) \<and> Size vs' = Size v"
  using assms read_bound
  by (fastforce simp: tee_read_def ok_simps split: if_splits)

text \<open>
  Every collected key and value has exactly its declared length, however much was read, and the
  entries sent declare the same lengths.
\<close>

lemma collect_kvs_lengths:
  assumes "collect_kvs S kvs w = (Ok (stdKVs, kvs'), w')"
  shows "list_all2 (\<lambda>kv std. \<exists>k v. Key kv = Some k \<and> Value kv = Some v \<and>
           int (length (KeyValue_Key std)) = Size k \<and> int (length (KeyValue_Value std)) = Size v) kvs stdKVs \<and>
     list_all2 (\<lambda>kv kv'. map_option Size (Key kv') = map_option Size (Key kv) \<and>
           map_option Size (Value kv') = map_option Size (Value kv)) kvs kvs'"
  using assms
proof (induction kvs arbitrary: w stdKVs kvs' w')
  case (Cons kv kvs)
  from Cons.prems obtain key k' val v' std rest w1 w2 w3
    where k: "tee_read S (Key kv) w = (Ok (key, k'), w1)"
      and v: "tee_read S (Value kv) w1 = (Ok (val, v'), w2)"
      and r: "collect_kvs S kvs w2 = (Ok (std, rest), w3)"
      and eq: "stdKVs = \<lparr>KeyValue_Key = key, KeyValue_Value = val\<rparr> # std"
        "kvs' = kv\<lparr>Key := Some k', Value := Some v'\<rparr> # rest"
    by (auto simp: ok_simps)
  from tee_read_length [OF k] tee_read_length [OF v] Cons.IH [OF r] show ?case
    by (auto simp: eq)
qed (simp add: ok_simps)

end

section \<open>The streamed checks and the plain ones\<close>

lemma streamVerifiedGet_check_eq:
  "VerifiableGetRequest_KeyRequest req = Some kr \<Longrightarrow>
   streamVerifiedGet_check F st ve req k = verifyGet F st (Some ve) kr k"
  by (simp add: streamVerifiedGet_check_def verifyGet_def)

lemma verifiedSet_check_iff_stream:
  "(verifiedSet_check F st k key val vtx = Ok ns) =
   (streamVerifiedSet_check F st k [\<lparr>KeyValue_Key = key, KeyValue_Value = val\<rparr>] vtx = Ok ns \<and>
    (\<forall>tx m. TxFromProto F (VerifiableTx_Tx vtx) = Ok tx \<longrightarrow> index (tx_entries_md F tx) 0 = Ok (Some m) \<longrightarrow>
       \<not> md_deleted F m))"
proof -
  have deref_case: "deref p f = (case p of None \<Rightarrow> Panic NilDereference | Some x \<Rightarrow> f x)"
    for p :: "'z option" and f :: "'z \<Rightarrow> 'y go" by (cases p) auto
  have tryG_case: "tryG m f = (case m of Ok x \<Rightarrow> f x | Fail e \<Rightarrow> Fail e | Panic q \<Rightarrow> Panic q)"
    for m :: "'z go" and f :: "'z \<Rightarrow> 'y go" by (cases m) auto
  show ?thesis
    by (simp add: verifiedSet_check_def streamVerifiedSet_check_def Let_def deref_case tryG_case
        split: option.splits go.splits) blast?
qed

section \<open>The streamed operations follow the protocol\<close>

lemma stream_fetch_advances:
  "StreamVerifiedSet_fetch F S c ctx kvs st w = (Ok (x, ns), w') \<Longrightarrow> advances F st ns"
  "StreamVerifiedGet_fetch F S c ctx req st w = (Ok (y, ns), w') \<Longrightarrow> advances F st ns"
  by (auto simp: StreamVerifiedSet_fetch_def StreamVerifiedGet_fetch_def ok_simps
      dest: streamVerifiedSet_advances streamVerifiedGet_advances)

locale stream_network = client_network obs c
  for obs :: "'w \<Rightarrow> 'o" and c :: "('w, 'ctx, 'k, 'rd) StreamClient" +
  fixes S :: "('w, 'rd) StreamLib"
  assumes kvs_quiet: "quiet obs (kvs_Send (StreamServiceFactory c) cc x kv)"
    and msg_quiet: "quiet obs (msg_Send (StreamServiceFactory c) cc x bs)"
    and ver_quiet: "quiet obs (ver_Next (StreamServiceFactory c) cc x)"
    and read_quiet: "quiet obs (Read S rd n)"
    and buf_quiet: "quiet obs (NewBufReader S bs)"
    and parse_quiet: "quiet obs (ParseVerifiableEntry S e t i rd m)"
    and eas_quiet: "quiet obs (eas_Send (StreamServiceFactory c) cc x req)"
    and kvr_quiet: "quiet obs (kvr_Next (StreamServiceFactory c) cc x)"
    and zr_quiet: "quiet obs (zr_Next (StreamServiceFactory c) cc x)"
    and value_quiet: "quiet obs (ReadValue S rd m)"
    and parse_z_quiet: "quiet obs (ParseZEntry S s k sc t rd m)"
begin

lemma tee_read_quiet: "quiet obs (tee_read S vs)"
  unfolding tee_read_def by (intro quiet_rules read_quiet buf_quiet)

lemma collect_kvs_quiet: "quiet obs (collect_kvs S kvs)"
  by (induction kvs) (simp_all only: collect_kvs.simps, (intro quiet_rules tee_read_quiet; assumption?)+)

lemma send_all_quiet: "quiet obs (send_all (StreamServiceFactory c) cc x kvs)"
  by (induction kvs) (simp_all only: send_all.simps, (intro quiet_rules kvs_quiet; assumption?)+)

lemma stream_fetch_quiet:
  "quiet obs (StreamVerifiedSet_fetch F S c ctx kvs st)"
  "quiet obs (StreamVerifiedGet_fetch F S c ctx req st)"
  unfolding StreamVerifiedSet_fetch_def StreamVerifiedGet_fetch_def
  by (intro quiet_rules collect_kvs_quiet send_all_quiet msg_quiet ver_quiet parse_quiet
      quiet_connection.stream_stubs_quiet network; assumption?)+

end

context stream_network
begin

lemma read_value_quiet: "quiet obs (read_value S vr n)"
proof (rule quietI)
  fix w r w'
  assume run: "read_value S vr n w = (r, w')"
  obtain q v where q: "ReadValue S vr n w = (q, v)" by (cases "ReadValue S vr n w")
  with run have "w' = v" by (cases q) (auto simp: read_value_def)
  with quietD [OF value_quiet q] show "obs w' = obs w" by simp
qed

lemma stream_forwarding_quiet:
  "quiet obs (StreamSet c ctx kvs)" "quiet obs (StreamExecAll c ctx req)" "quiet obs (StreamGet S c ctx k)"
  unfolding StreamSet_def StreamExecAll_def StreamGet_def
  by (intro quiet_rules send_all_quiet eas_quiet kvr_quiet read_value_quiet
      quiet_connection.stream_stubs_quiet network; assumption?)+

lemma kv_loop_quiet:
  assumes "kv_loop (StreamServiceFactory c) S cc n gs acc w = Some y"
  shows "obs (snd y) = obs w"
proof -
  have "sf = StreamServiceFactory c \<longrightarrow> S' = S \<longrightarrow> obs (snd y) = obs w"
    if "kv_loop sf S' cc n gs acc w = Some y" for sf S' y
    using that
  proof (induction rule: kv_loop.raw_induct [rotated -1, consumes 1, case_names step])
    case (step loop sf S' cc n gs acc w y)
    show ?case
    proof (intro impI)
      assume sf: "sf = StreamServiceFactory c" and S': "S' = S"
      obtain q w1 where q: "kvr_Next sf cc gs w = (q, w1)" by (cases "kvr_Next sf cc gs w")
      have w1: "obs w1 = obs w" using quietD [OF kvr_quiet q [unfolded sf]] .
      show "obs (snd y) = obs w"
      proof (cases q)
        case (Ok kv)
        obtain key vr where kv: "kv = (key, vr)" by (cases kv)
        obtain v w2 where v: "read_value S vr n w1 = (v, w2)" by (cases "read_value S vr n w1")
        have "obs w2 = obs w" using quietD [OF read_value_quiet v] w1 by simp
        show ?thesis
        proof (cases v)
          case (Ok val)
          with step(2) q \<open>q = Ok kv\<close> kv v have "loop sf S' cc n gs (acc @ [stream_entry key val]) w2 = Some y"
            by (simp add: S')
          from step(1) [OF this] sf S' \<open>obs w2 = obs w\<close> show ?thesis by simp
        qed (use step(2) S' q \<open>q = Ok kv\<close> kv v \<open>obs w2 = obs w\<close> in auto)
      qed (use step(2) q w1 in auto)
    qed
  qed
  with assms show ?thesis by simp
qed

lemma z_loop_quiet:
  assumes "z_loop (StreamServiceFactory c) S cc n gs acc w = Some y"
  shows "obs (snd y) = obs w"
proof -
  have "sf = StreamServiceFactory c \<longrightarrow> S' = S \<longrightarrow> obs (snd y) = obs w"
    if "z_loop sf S' cc n gs acc w = Some y" for sf S' y
    using that
  proof (induction rule: z_loop.raw_induct [rotated -1, consumes 1, case_names step])
    case (step loop sf S' cc n gs acc w y)
    show ?case
    proof (intro impI)
      assume sf: "sf = StreamServiceFactory c" and S': "S' = S"
      obtain q w1 where q: "zr_Next sf cc gs w = (q, w1)" by (cases "zr_Next sf cc gs w")
      have w1: "obs w1 = obs w" using quietD [OF zr_quiet q [unfolded sf]] .
      show "obs (snd y) = obs w"
      proof (cases q)
        case (Ok z)
        obtain s k sc t vr where z: "z = (s, k, sc, t, vr)" by (cases z)
        obtain v w2 where v: "ParseZEntry S s k sc t vr n w1 = (v, w2)"
          by (cases "ParseZEntry S s k sc t vr n w1")
        have "obs w2 = obs w" using quietD [OF parse_z_quiet v] w1 by simp
        show ?thesis
        proof (cases v)
          case (Ok ze)
          with step(2) q \<open>q = Ok z\<close> z v have "loop sf S' cc n gs (acc @ [ze]) w2 = Some y"
            by (simp add: S')
          from step(1) [OF this] sf S' \<open>obs w2 = obs w\<close> show ?thesis by simp
        qed (use step(2) S' q \<open>q = Ok z\<close> z v \<open>obs w2 = obs w\<close> in auto)
      qed (use step(2) q w1 in auto)
    qed
  qed
  with assms show ?thesis by simp
qed

lemma open_and_loop_quiet:
  assumes "open_and_loop opn loop wrap w = Some (r, w')"
    and o: "quiet obs opn" and l: "\<And>gs w y. loop gs w = Some y \<Longrightarrow> obs (snd y) = obs w"
  shows "obs w' = obs w"
proof -
  obtain q w1 where q: "opn w = (q, w1)" by (cases "opn w")
  have "obs w1 = obs w" by (rule quietD [OF o q])
  with assms(1) q show ?thesis by (cases q) (auto simp: open_and_loop_def dest: l)
qed

lemma open_stream_quiet:
  assumes "(case ServiceClient c of None \<Rightarrow> Some (Panic NilDereference, w)
      | Some cc \<Rightarrow> open_and_loop (opn cc) (loop cc) wrap w) = Some (r, w')"
    and o: "\<And>cc. ServiceClient c = Some cc \<Longrightarrow> quiet obs (opn cc)"
    and l: "\<And>cc gs w y. loop cc gs w = Some y \<Longrightarrow> obs (snd y) = obs w"
  shows "obs w' = obs w"
proof (cases "ServiceClient c")
  case (Some cc)
  with assms(1) have "open_and_loop (opn cc) (loop cc) wrap w = Some (r, w')" by simp
  from open_and_loop_quiet [OF this o [OF Some] l] show ?thesis by simp
qed (use assms(1) in simp)

lemma StreamScan_quiet: "StreamScan S c ctx req w = Some (r, w') \<Longrightarrow> obs w' = obs w"
  unfolding StreamScan_def
  by (erule open_stream_quiet, rule quiet_connection.stream_stubs_quiet, erule network, erule kv_loop_quiet)

lemma StreamHistory_quiet: "StreamHistory S c ctx req w = Some (r, w') \<Longrightarrow> obs w' = obs w"
  unfolding StreamHistory_def
  by (erule open_stream_quiet, rule quiet_connection.stream_stubs_quiet, erule network, erule kv_loop_quiet)

lemma StreamZScan_quiet: "StreamZScan S c ctx req w = Some (r, w') \<Longrightarrow> obs w' = obs w"
  unfolding StreamZScan_def
  by (erule open_stream_quiet, rule quiet_connection.stream_stubs_quiet, erule network, erule z_loop_quiet)

lemmas stream_reads_quiet = StreamScan_quiet StreamHistory_quiet StreamZScan_quiet

end

text \<open>A session whose streams are quiet too.\<close>

locale stream_session = client_session ss locked cached slot c + stream_network "\<lambda>w. (locked w, cached w)" c S
  for ss :: "('w, 'ctx) StateServiceIf" and locked cached slot
    and c :: "('w, 'ctx, 'k, 'rd) StreamClient" and S :: "('w, 'rd) StreamLib"
begin

lemmas session_streams_quiet = stream_fetch_quiet

end

end
