(* ===== verification/Client_Runs.thy ===== *)
theory Client_Runs
  imports Verified_Ops Api_Ops Streams
begin

text \<open>
  Histories of a connected client: \<open>client_step\<close> is one call of any operation of the package on the
  client \<open>c\<close> in the world \<open>w\<close>, whatever it returns, including the calls that change the client
  itself (\<open>SetServerSigningPubKey\<close>, \<open>Disconnect\<close>). \<open>VerifiedGet\<close> and its variants are calls of
  \<open>verifiedGet\<close>, \<open>verifiedGetExt\<close> and \<open>verifiedGetExtMulti\<close>. The locale \<open>client_runs\<close> collects what
  a run relies on; its lemmas are the invariants of every reachable state: the cache lock is free
  between calls, and the trusted state only moves along proofs.
\<close>

section \<open>Steps\<close>

inductive client_step ::
    "('ip, 'dp, 'tx, 'md, 'es, 'k) immudb \<Rightarrow> ('w, 'rd) StreamLib \<Rightarrow> 'w FileSystem \<Rightarrow>
     ('w, 'ctx, 'k, 'rd) StreamClient \<times> 'w \<Rightarrow> ('w, 'ctx, 'k, 'rd) StreamClient \<times> 'w \<Rightarrow> bool"
  for F S fs where
  verified_set: "VerifiedSet F c ctx key val w = (r, w') \<Longrightarrow> client_step F S fs (c, w) (c, w')"
| verified_get: "verifiedGet F c ctx kr w = (r, w') \<Longrightarrow> client_step F S fs (c, w) (c, w')"
| verified_get_ext: "verifiedGetExt F c ctx kr w = (r, w') \<Longrightarrow> client_step F S fs (c, w) (c, w')"
| verified_multi: "verifiedGetExtMulti F c ctx krs w = (r, w') \<Longrightarrow> client_step F S fs (c, w) (c, w')"
| vcn_get: "VCNGetArtifacts F c ctx agr w = (r, w') \<Longrightarrow> client_step F S fs (c, w) (c, w')"
| stream_verified_set: "StreamVerifiedSet F S c ctx kvs w = (r, w') \<Longrightarrow> client_step F S fs (c, w) (c, w')"
| stream_verified_get: "StreamVerifiedGet F S c ctx vr w = (r, w') \<Longrightarrow> client_step F S fs (c, w) (c, w')"
| set_: "Set c ctx key val w = (r, w') \<Longrightarrow> client_step F S fs (c, w) (c, w')"
| get_: "Get c ctx key w = (r, w') \<Longrightarrow> client_step F S fs (c, w) (c, w')"
| get_at: "GetAt c ctx key tx w = (r, w') \<Longrightarrow> client_step F S fs (c, w) (c, w')"
| exec_all: "ExecAll c ctx b w = (r, w') \<Longrightarrow> client_step F S fs (c, w) (c, w')"
| get_all: "GetAll c ctx b w = (r, w') \<Longrightarrow> client_step F S fs (c, w) (c, w')"
| set_all: "SetAll c ctx sr w = (r, w') \<Longrightarrow> client_step F S fs (c, w) (c, w')"
| set_multi: "SetMulti c ctx mr w = (r, w') \<Longrightarrow> client_step F S fs (c, w) (c, w')"
| vcn_set: "VCNSetArtifacts c ctx ar w = (r, w') \<Longrightarrow> client_step F S fs (c, w) (c, w')"
| vcn_search: "VCNSearchArtifacts c ctx qr w = (r, w') \<Longrightarrow> client_step F S fs (c, w) (c, w')"
| vcn_signature: "VCNGetClientSignature c ctx gr opts w = (r, w') \<Longrightarrow> client_step F S fs (c, w) (c, w')"
| scan: "Scan c ctx b w = (r, w') \<Longrightarrow> client_step F S fs (c, w) (c, w')"
| z_scan: "ZScan c ctx b w = (r, w') \<Longrightarrow> client_step F S fs (c, w) (c, w')"
| history: "History c ctx b w = (r, w') \<Longrightarrow> client_step F S fs (c, w) (c, w')"
| z_add: "ZAddAt c ctx b w = (r, w') \<Longrightarrow> client_step F S fs (c, w) (c, w')"
| z_scan_ext: "ZScanExt c ctx b w = (r, w') \<Longrightarrow> client_step F S fs (c, w) (c, w')"
| history_ext: "HistoryExt c ctx b w = (r, w') \<Longrightarrow> client_step F S fs (c, w) (c, w')"
| health: "Health c ctx w = (r, w') \<Longrightarrow> client_step F S fs (c, w) (c, w')"
| current_state: "CurrentState c ctx w = (r, w') \<Longrightarrow> client_step F S fs (c, w) (c, w')"
| feats: "Feats c ctx w = (r, w') \<Longrightarrow> client_step F S fs (c, w) (c, w')"
| labels_set: "VCNLabelsSet c ctx ls opts w = (r, w') \<Longrightarrow> client_step F S fs (c, w) (c, w')"
| labels_update: "VCNLabelsUpdate c ctx hash ops opts w = (r, w') \<Longrightarrow> client_step F S fs (c, w) (c, w')"
| labels_get: "VCNLabelsGet c ctx lg opts w = (r, w') \<Longrightarrow> client_step F S fs (c, w) (c, w')"
| attachment: "VCNGetAttachment c ctx s a h w = (r, w') \<Longrightarrow> client_step F S fs (c, w) (c, w')"
| set_file: "SetFile fs c ctx key p w = (r, w') \<Longrightarrow> client_step F S fs (c, w) (c, w')"
| get_file: "GetFile fs c ctx key p w = (r, w') \<Longrightarrow> client_step F S fs (c, w) (c, w')"
| stream_set: "StreamSet c ctx kvs w = (r, w') \<Longrightarrow> client_step F S fs (c, w) (c, w')"
| stream_exec_all: "StreamExecAll c ctx b w = (r, w') \<Longrightarrow> client_step F S fs (c, w) (c, w')"
| stream_get: "StreamGet S c ctx kr w = (r, w') \<Longrightarrow> client_step F S fs (c, w) (c, w')"
| stream_scan: "StreamScan S c ctx b w = Some (r, w') \<Longrightarrow> client_step F S fs (c, w) (c, w')"
| stream_history: "StreamHistory S c ctx b w = Some (r, w') \<Longrightarrow> client_step F S fs (c, w) (c, w')"
| stream_z_scan: "StreamZScan S c ctx b w = Some (r, w') \<Longrightarrow> client_step F S fs (c, w) (c, w')"
| set_key: "client_step F S fs (c, w) (SetServerSigningPubKey c k, w)"
| disconnect: "Disconnect c w = ((r, c'), w') \<Longrightarrow> client_step F S fs (c, w) (c', w')"

inductive_cases client_stepE: "client_step F S fs (c, w) (c', w')"

text \<open>A call changes at most the signing key and the service client of the client.\<close>

lemma client_step_client:
  assumes "client_step F S fs (c, w) (c', w')"
  shows "c' = c \<or> (\<exists>k. c' = c\<lparr>serverSigningPubKey := k\<rparr>) \<or> c' = c\<lparr>ServiceClient := None\<rparr>"
proof -
  have "c' = c \<or> (\<exists>k. c' = SetServerSigningPubKey c k) \<or> (\<exists>r. Disconnect c w = ((r, c'), w'))"
    using assms by (rule client_stepE) auto
  then show ?thesis
    by (auto simp: SetServerSigningPubKey_def Disconnect_def Let_def split: prod.splits)
qed

lemma with_trusted_state_unwired:
  "StateService c = None \<Longrightarrow> with_trusted_state c ctx rest w = (Panic NilDereference, w)"
  by (simp add: with_trusted_state_def)

locale network_runs = stream_network obs c S
  for obs :: "'w \<Rightarrow> 'o" and c :: "('w, 'ctx, 'k, 'rd) StreamClient" and S :: "('w, 'rd) StreamLib" +
  fixes fs :: "'w FileSystem"
  assumes read_file_quiet: "quiet obs (ReadFile fs p)"
    and write_file_quiet: "quiet obs (WriteFile fs p bs m)"
begin

lemma files_quiet:
  "quiet obs (SetFile fs c ctx key p)" "quiet obs (GetFile fs c ctx key p)"
  unfolding SetFile_def GetFile_def service_defs
  by (intro quiet_rules read_file_quiet write_file_quiet quiet_connection.unary_quiet network; assumption?)+

lemma Disconnect_quiet: "Disconnect c w = ((r, c'), w') \<Longrightarrow> obs w' = obs w"
  by (cases "clientConn c")
    (auto simp: Disconnect_def Let_def split: prod.splits
      dest: quietD [OF quiet_connection.close_quiet [OF conn]])

lemmas all_quiet = forwarding_quiet files_quiet stream_forwarding_quiet

text \<open>A client without a state service can do nothing to the cache: its verified operations panic.\<close>

lemma unwired_step:
  assumes "StateService c = None" and "client_step F S fs (c, w) (c', w')"
  shows "obs w' = obs w"
proof -
  note plain = VCNGetArtifacts_plain_quiet [THEN quietD]
  note quietly = all_quiet [THEN quietD] stream_reads_quiet Disconnect_quiet
  note none = with_trusted_state_unwired [OF assms(1)]
  show ?thesis
    using assms(2)
    by (rule client_stepE)
      (auto dest: quietly plain simp: VerifiedSet_def verifiedGet_def verifiedGetExt_def verifiedGetExtMulti_def
        VCNGetArtifacts_def StreamVerifiedSet_def StreamVerifiedGet_def store_then_check_def check_then_store_def
        none split: if_splits)
qed

lemma step_network:
  assumes "client_step F S fs (c, w) (c', w')"
  shows "network_runs obs c' S fs \<and> ApiKey c' = ApiKey c \<and> StateService c' = StateService c"
proof -
  have "network_runs obs c S fs" by unfold_locales
  with client_step_client [OF assms] show ?thesis
    by (auto simp: network_runs_def stream_network_def stream_network_axioms_def client_network_def)
qed

end

locale client_runs = stream_session ss locked cached slot c S + network_runs "\<lambda>w. (locked w, cached w)" c S fs
  for ss :: "('w, 'ctx) StateServiceIf" and locked cached slot
    and c :: "('w, 'ctx, 'k, 'rd) StreamClient" and S :: "('w, 'rd) StreamLib" and fs :: "'w FileSystem"
begin

text \<open>One call, whatever it is, keeps the lock free and the trusted state on a path of proofs.\<close>

lemma verified_unlocks:
  "preserves (\<lambda>w. \<not> locked w) (VerifiedSet F c ctx key val)"
  "preserves (\<lambda>w. \<not> locked w) (verifiedGet F c ctx kr)"
  "preserves (\<lambda>w. \<not> locked w) (verifiedGetExt F c ctx kr)"
  "preserves (\<lambda>w. \<not> locked w) (verifiedGetExtMulti F c ctx krs)"
  "preserves (\<lambda>w. \<not> locked w) (VCNGetArtifacts F c ctx agr)"
  "preserves (\<lambda>w. \<not> locked w) (StreamVerifiedSet F S c ctx kvs)"
  "preserves (\<lambda>w. \<not> locked w) (StreamVerifiedGet F S c ctx vr)"
proof -
  note quiet_free = quiet_preserves [where P = "\<lambda>(l, m). \<not> l" and obs = obs, simplified]
  show "preserves (\<lambda>w. \<not> locked w) (VerifiedSet F c ctx key val)"
    unfolding VerifiedSet_def by (intro check_then_store_unlocks fetches_quiet)
  show "preserves (\<lambda>w. \<not> locked w) (verifiedGet F c ctx kr)"
    unfolding verifiedGet_def by (intro store_then_check_unlocks fetches_quiet)
  show "preserves (\<lambda>w. \<not> locked w) (verifiedGetExt F c ctx kr)"
    unfolding verifiedGetExt_def by (intro store_then_check_unlocks fetches_quiet)
  show "preserves (\<lambda>w. \<not> locked w) (verifiedGetExtMulti F c ctx krs)"
    unfolding verifiedGetExtMulti_def by (intro with_trusted_state_unlocks multi_rest_locked)
  show "preserves (\<lambda>w. \<not> locked w) (VCNGetArtifacts F c ctx agr)"
    unfolding VCNGetArtifacts_def
    by (intro preserves_if preserves_lift store_then_check_unlocks fetches_quiet
        quiet_free VCNGetArtifacts_plain_quiet)
  show "preserves (\<lambda>w. \<not> locked w) (StreamVerifiedSet F S c ctx kvs)"
    unfolding StreamVerifiedSet_def
    by (intro preserves_if preserves_lift check_then_store_unlocks stream_fetch_quiet)
  show "preserves (\<lambda>w. \<not> locked w) (StreamVerifiedGet F S c ctx vr)"
    unfolding StreamVerifiedGet_def by (intro check_then_store_unlocks stream_fetch_quiet)
qed

lemma verified_trust:
  "VerifiedSet F c ctx key val w = (r1, w') \<Longrightarrow> trust_kept F slot (ApiKey c) (cached w) (cached w')"
  "verifiedGet F c ctx kr w = (r2, w') \<Longrightarrow> trust_kept F slot (ApiKey c) (cached w) (cached w')"
  "verifiedGetExt F c ctx kr w = (r3, w') \<Longrightarrow> trust_kept F slot (ApiKey c) (cached w) (cached w')"
  "verifiedGetExtMulti F c ctx krs w = (r4, w') \<Longrightarrow> trust_kept F slot (ApiKey c) (cached w) (cached w')"
  "VCNGetArtifacts F c ctx agr w = (r5, w') \<Longrightarrow> trust_kept F slot (ApiKey c) (cached w) (cached w')"
  "StreamVerifiedSet F S c ctx kvs w = (r6, w') \<Longrightarrow> trust_kept F slot (ApiKey c) (cached w) (cached w')"
  "StreamVerifiedGet F S c ctx vr w = (r7, w') \<Longrightarrow> trust_kept F slot (ApiKey c) (cached w) (cached w')"
proof -
  show "VerifiedSet F c ctx key val w = (r1, w') \<Longrightarrow> trust_kept F slot (ApiKey c) (cached w) (cached w')"
    unfolding VerifiedSet_def
    by (rule check_then_store_run(1)) (auto intro: fetches_quiet VerifiedSet_fetch_advances)
  show "verifiedGet F c ctx kr w = (r2, w') \<Longrightarrow> trust_kept F slot (ApiKey c) (cached w) (cached w')"
    unfolding verifiedGet_def
    by (rule store_then_check_run(1)) (auto intro: fetches_quiet fetch_advances)
  show "verifiedGetExt F c ctx kr w = (r3, w') \<Longrightarrow> trust_kept F slot (ApiKey c) (cached w) (cached w')"
    unfolding verifiedGetExt_def
    by (rule store_then_check_run(1)) (auto intro: fetches_quiet fetch_advances)
  show "verifiedGetExtMulti F c ctx krs w = (r4, w') \<Longrightarrow> trust_kept F slot (ApiKey c) (cached w) (cached w')"
    by (rule multi_run(1))
  show "VCNGetArtifacts F c ctx agr w = (r5, w') \<Longrightarrow> trust_kept F slot (ApiKey c) (cached w) (cached w')"
    unfolding VCNGetArtifacts_def
    using store_then_check_run(1) [where fetch = "VCNGetArtifacts_fetch F c ctx agr",
        OF _ fetches_quiet(4) fetch_advances(3)]
      quietD [OF VCNGetArtifacts_plain_quiet, of ctx agr w r5 w']
    by (auto split: if_splits)
  show "StreamVerifiedSet F S c ctx kvs w = (r6, w') \<Longrightarrow> trust_kept F slot (ApiKey c) (cached w) (cached w')"
    unfolding StreamVerifiedSet_def
    using check_then_store_run(1) [where fetch = "StreamVerifiedSet_fetch F S c ctx kvs",
        OF _ stream_fetch_quiet(1) stream_fetch_advances(1)]
    by (auto split: if_splits)
  show "StreamVerifiedGet F S c ctx vr w = (r7, w') \<Longrightarrow> trust_kept F slot (ApiKey c) (cached w) (cached w')"
    unfolding StreamVerifiedGet_def
    by (rule check_then_store_run(1)) (auto intro: stream_fetch_quiet stream_fetch_advances)
qed

lemma step_kept:
  assumes "client_step F S fs (c, w) (c', w')"
  shows "(\<not> locked w \<longrightarrow> \<not> locked w') \<and> trust_kept F slot (ApiKey c) (cached w) (cached w')"
proof -
  note unlocked = verified_unlocks [THEN tripleD]
  note quietly = all_quiet [THEN quietD] stream_reads_quiet Disconnect_quiet
  show ?thesis
    using assms by (rule client_stepE) (auto dest: unlocked verified_trust quietly)
qed

text \<open>A call leaves the client with the same API key and the same session.\<close>

lemma step_session:
  assumes "client_step F S fs (c, w) (c', w')"
  shows "client_runs ss locked cached slot c' S fs \<and> ApiKey c' = ApiKey c"
proof -
  from step_network [OF assms] have "network_runs obs c' S fs" "ApiKey c' = ApiKey c" "StateService c' = Some ss"
    by (simp_all add: session)
  with trusted_state_axioms show ?thesis
    by (auto simp: client_runs_def stream_session_def network_runs_def stream_network_def
        intro!: client_session.intro client_session_axioms.intro)
qed

end

section \<open>Runs\<close>

lemma run_kept:
  assumes "(client_step F S fs)\<^sup>*\<^sup>* (c, w) (c', w')" and "client_runs ss locked cached slot c S fs"
  shows "client_runs ss locked cached slot c' S fs \<and> ApiKey c' = ApiKey c \<and>
     (\<not> locked w \<longrightarrow> \<not> locked w') \<and> trust_kept F slot (ApiKey c) (cached w) (cached w')"
  using assms
proof (induction "(c', w')" arbitrary: c' w' rule: rtranclp_induct)
  case (step y)
  obtain d v where y: "y = (d, v)" by (cases y)
  with step have d: "client_runs ss locked cached slot d S fs" "ApiKey d = ApiKey c"
    and kept: "\<not> locked w \<longrightarrow> \<not> locked v" "trust_kept F slot (ApiKey c) (cached w) (cached v)"
    by auto
  note last = client_runs.step_kept [OF d(1) step(2) [unfolded y]]
    client_runs.step_session [OF d(1) step(2) [unfolded y]]
  from last d kept show ?case by (auto intro: trust_kept_trans)
qed auto

end
