(* ===== verification/Interceptors.thy ===== *)
theory Interceptors
  imports Lc_Client
begin

text \<open>
  The gRPC interceptors of the client (\<open>connection_checker_interceptor.go\<close>,
  \<open>apikey_setter_interceptor.go\<close>, \<open>signature_verifier_interceptor.go\<close>). An interceptor takes
  the rest of the chain (the \<open>invoker\<close>) and is itself an invoker; it reads the client object at
  the time of the call. \<open>addMD md ctx\<close> is \<open>metadata.AppendToOutgoingContext\<close>, which panics on
  an odd number of values.

  The locale \<open>pass_through\<close> is the contract of the unary ones: a call that succeeds was made by
  the rest of the chain, once, for the same method, request and reply, and its reply is passed on
  unchanged. It is shown for every interceptor of the package, and the lemma
  \<open>pass_through_compose\<close> lifts it to whole chains.
\<close>

section \<open>Credentials\<close>

definition ApiKeyAuth_GetRequestMetadata :: "ApiKeyAuth \<Rightarrow> (string \<rightharpoonup> string)" where
  "ApiKeyAuth_GetRequestMetadata t = [''lc-api-key'' \<mapsto> ApiKeyAuth_ApiKey t]"

definition ApiKeyAuth_RequireTransportSecurity :: "ApiKeyAuth \<Rightarrow> bool" where
  "ApiKeyAuth_RequireTransportSecurity t = False"

section \<open>The interceptors\<close>

definition not_connected :: go_error where
  "not_connected = NewError ''not connected''"

definition connectionChecker ::
    "('w, 'ctx, 'k, 'sf) LcClient \<Rightarrow> ('w, 'ctx) invoker \<Rightarrow> ('w, 'ctx) invoker" where
  "connectionChecker c invoker = (\<lambda>ctx method req reply opts w.
     if clientConn c = None \<or> ServiceClient c = None then ((Fail not_connected, reply, \<lambda>_. []), w)
     else invoker ctx method req reply opts w)"

definition apiKey_opts :: "('w, 'ctx, 'k, 'sf) LcClient \<Rightarrow> CallOption list \<Rightarrow> CallOption list" where
  "apiKey_opts c opts =
     (if ApiKey c \<noteq> '''' then opts @ [PerRPCCredentials \<lparr>ApiKeyAuth_ApiKey = ApiKey c\<rparr>] else opts)"

definition apiKeySetter ::
    "(string list \<Rightarrow> 'ctx \<Rightarrow> 'ctx go) \<Rightarrow> ('w, 'ctx, 'k, 'sf) LcClient \<Rightarrow>
     ('w, 'ctx) invoker \<Rightarrow> ('w, 'ctx) invoker" where
  "apiKeySetter addMD c invoker = (\<lambda>ctx method req reply opts w.
     let opts = apiKey_opts c opts in
     case (if 0 < length (MetadataPairs c) then addMD (MetadataPairs c) ctx else Ok ctx) of
       Ok ctx \<Rightarrow> invoker ctx method req reply opts w
     | Fail e \<Rightarrow> ((Fail e, reply, \<lambda>_. []), w)
     | Panic p \<Rightarrow> ((Panic p, reply, \<lambda>_. []), w))"

definition apiKeySetterStream ::
    "(string list \<Rightarrow> 'ctx \<Rightarrow> 'ctx go) \<Rightarrow> ('w, 'ctx, 'k, 'sf) LcClient \<Rightarrow>
     ('w, 'ctx) streamer \<Rightarrow> ('w, 'ctx) streamer" where
  "apiKeySetterStream addMD c streamer = (\<lambda>ctx desc method opts.
     if ApiKey c \<noteq> '''' then
       let opts = opts @ [PerRPCCredentials \<lparr>ApiKeyAuth_ApiKey = ApiKey c\<rparr>] in
       tryE (lift (if 0 < length (MetadataPairs c) then addMD (MetadataPairs c) ctx else Ok ctx))
         (\<lambda>ctx. streamer ctx desc method opts)
     else streamer ctx desc method opts)"

definition public_key_not_loaded :: go_error where
  "public_key_not_loaded = StatusError ''FailedPrecondition'' ''public key not loaded''"

definition CurrentState_method :: string where
  "CurrentState_method = ''/lc.schema.LcService/CurrentState''"

definition signature_invalid :: "go_error \<Rightarrow> go_error" where
  "signature_invalid e = StatusErrorf ''InvalidArgument'' ''unable to verify signature: %s'' e"

text \<open>
  The call is made first, and its error is kept in \<open>ris\<close>; the checks follow whatever it was.
\<close>

definition signatureVerifier ::
    "('ip, 'dp, 'tx, 'md, 'es, 'k) immudb \<Rightarrow> ('w, 'ctx, 'k, 'sf) LcClient \<Rightarrow>
     ('w, 'ctx) invoker \<Rightarrow> ('w, 'ctx) invoker" where
  "signatureVerifier F c invoker = (\<lambda>ctx method req reply opts w.
     case invoker ctx method req reply opts w of ((ris, reply, md), w) \<Rightarrow>
       (case ris of Panic p \<Rightarrow> ((Panic p, reply, md), w) | _ \<Rightarrow>
       (case serverSigningPubKey c of
          None \<Rightarrow> ((Fail public_key_not_loaded, reply, md), w)
        | Some key \<Rightarrow>
            if method = CurrentState_method then
              (case reply of
                 RepState state \<Rightarrow>
                   (case CheckSignature F state key of
                      Fail err \<Rightarrow> ((Fail (signature_invalid err), reply, md), w)
                    | Panic p \<Rightarrow> ((Panic p, reply, md), w)
                    | Ok _ \<Rightarrow> ((ris, reply, md), w))
               | _ \<Rightarrow> ((Panic TypeAssertion, reply, md), w))
            else ((ris, reply, md), w))))"

text \<open>
  The interceptor a dial option names. \<open>retry\<close> is \<open>grpc_retry.UnaryClientInterceptor\<close>, of
  go-grpc-middleware.
\<close>

fun unary_interceptor_fun ::
    "(RetryOption list \<Rightarrow> ('w, 'ctx) invoker \<Rightarrow> ('w, 'ctx) invoker) \<Rightarrow> (string list \<Rightarrow> 'ctx \<Rightarrow> 'ctx go) \<Rightarrow>
     ('ip, 'dp, 'tx, 'md, 'es, 'k) immudb \<Rightarrow> ('w, 'ctx, 'k, 'sf) LcClient \<Rightarrow> unary_interceptor \<Rightarrow>
     ('w, 'ctx) invoker \<Rightarrow> ('w, 'ctx) invoker" where
  "unary_interceptor_fun retry addMD F c SignatureVerifierInterceptor = signatureVerifier F c"
| "unary_interceptor_fun retry addMD F c ConnectionCheckerInterceptor = connectionChecker c"
| "unary_interceptor_fun retry addMD F c ApiKeySetterInterceptor = apiKeySetter addMD c"
| "unary_interceptor_fun retry addMD F c (RetryUnaryInterceptor opts) = retry opts"

text \<open>
  Documented behaviour of \<open>ChainUnaryClient\<close> of go-grpc-middleware: the interceptors run from
  left to right, the first one outermost.
\<close>

definition chains_left_to_right ::
    "((('w, 'ctx) invoker \<Rightarrow> ('w, 'ctx) invoker) list \<Rightarrow> ('w, 'ctx) invoker \<Rightarrow> ('w, 'ctx) invoker) \<Rightarrow> bool" where
  "chains_left_to_right chain = (\<forall>is nxt. chain is nxt = foldr (\<lambda>i. i) is nxt)"

section \<open>The contract of an interceptor\<close>

locale pass_through =
  fixes icp :: "('w, 'ctx) invoker \<Rightarrow> ('w, 'ctx) invoker"
  assumes success_passed: "icp nxt ctx method req reply opts w = ((Ok u, reply', md), w') \<Longrightarrow>
    \<exists>ctx' opts'. nxt ctx' method req reply opts' w = ((Ok u, reply', md), w')"
    and failure_silent: "icp nxt ctx method req reply opts w = ((r, reply', md), w') \<Longrightarrow>
    w' = w \<or> (\<exists>ctx' opts' r' reply'' md'. nxt ctx' method req reply opts' w = ((r', reply'', md'), w'))"
begin

text \<open>A rest of the chain that cannot succeed makes a chain that cannot succeed.\<close>

lemma no_spurious_success:
  assumes "\<And>ctx' opts'. fst (fst (nxt ctx' method req reply opts' w)) \<noteq> Ok ()"
  shows "fst (fst (icp nxt ctx method req reply opts w)) \<noteq> Ok ()"
proof
  assume "fst (fst (icp nxt ctx method req reply opts w)) = Ok ()"
  then obtain reply' md w' where "icp nxt ctx method req reply opts w = ((Ok (), reply', md), w')"
    by (cases "icp nxt ctx method req reply opts w") auto
  from success_passed [OF this] obtain ctx' opts'
    where "nxt ctx' method req reply opts' w = ((Ok (), reply', md), w')" by blast
  with assms [of ctx' opts'] show False by simp
qed

end

lemma pass_through_compose:
  fixes f g :: "('w, 'ctx) invoker \<Rightarrow> ('w, 'ctx) invoker"
  assumes "pass_through f" and "pass_through g"
  shows "pass_through (f \<circ> g)"
proof unfold_locales
  fix nxt :: "('w, 'ctx) invoker" and ctx mth req reply opts w u reply' md w'
  assume "(f \<circ> g) nxt ctx mth req reply opts w = ((Ok u, reply', md), w')"
  then obtain ctx' opts' where "g nxt ctx' mth req reply opts' w = ((Ok u, reply', md), w')"
    using pass_through.success_passed [OF assms(1)] by fastforce
  then show "\<exists>ctx' opts'. nxt ctx' mth req reply opts' w = ((Ok u, reply', md), w')"
    by (rule pass_through.success_passed [OF assms(2)])
next
  fix nxt :: "('w, 'ctx) invoker" and ctx mth req reply opts w r reply' md w'
  assume "(f \<circ> g) nxt ctx mth req reply opts w = ((r, reply', md), w')"
  then have "w' = w \<or> (\<exists>ctx' opts' r' reply'' md'. g nxt ctx' mth req reply opts' w = ((r', reply'', md'), w'))"
    unfolding comp_def by (rule pass_through.failure_silent [OF assms(1)])
  then show "w' = w \<or> (\<exists>ctx' opts' r' reply'' md'. nxt ctx' mth req reply opts' w = ((r', reply'', md'), w'))"
  proof (elim disjE exE)
    fix ctx' opts' r' reply'' md'
    assume "g nxt ctx' mth req reply opts' w = ((r', reply'', md'), w')"
    then show ?thesis by (rule pass_through.failure_silent [OF assms(2)])
  qed simp
qed

lemma pass_through_id: "pass_through (\<lambda>nxt. nxt)"
  by unfold_locales blast+

lemma pass_through_chain:
  "list_all pass_through is \<Longrightarrow> pass_through (foldr (\<lambda>i. i) is)"
proof (induction "is")
  case Nil
  then show ?case using pass_through_id by (simp add: id_def)
next
  case (Cons i "is")
  then show ?case using pass_through_compose [of i "foldr (\<lambda>i. i) is"] by (simp add: comp_def)
qed

interpretation checker: pass_through "connectionChecker c" for c
  by unfold_locales (auto simp: connectionChecker_def split: if_splits)

interpretation setter: pass_through "apiKeySetter addMD c" for addMD c
  by unfold_locales (auto simp: apiKeySetter_def Let_def split: if_splits go.splits)

lemma signatureVerifier_result:
  assumes "signatureVerifier F c nxt ctx method req reply opts w = ((r, reply', md), w')"
  shows "\<exists>ris. nxt ctx method req reply opts w = ((ris, reply', md), w') \<and> (r = Ok () \<longrightarrow> ris = Ok ())"
proof -
  obtain ris rep md' v where "nxt ctx method req reply opts w = ((ris, rep, md'), v)"
    by (cases "nxt ctx method req reply opts w") auto
  with assms show ?thesis
    by (auto simp: signatureVerifier_def split: go.splits option.splits if_splits reply.splits)
qed

interpretation verifier: pass_through "signatureVerifier F c" for F c
  by unfold_locales (auto dest!: signatureVerifier_result)

text \<open>The verifier adds to the contract: a successful \<open>CurrentState\<close> carries a valid signature.\<close>

lemma signatureVerifier_CurrentState:
  assumes "signatureVerifier F c nxt ctx CurrentState_method req reply opts w = ((Ok u, reply', md), w')"
  shows "\<exists>key state. serverSigningPubKey c = Some key \<and> reply' = RepState state \<and>
      (\<exists>v. CheckSignature F state key = Ok v)"
  using assms
  by (auto simp: signatureVerifier_def split: prod.splits go.splits option.splits reply.splits)

end
