(* ===== verification/Go_Io.thy ===== *)
theory Go_Io
  imports Streams
begin

text \<open>
  The readers of Go's standard library that stream requests are made of: \<open>bytes.Buffer\<close>,
  \<open>bufio.Reader\<close> and, in \<open>tee_read\<close> of \<open>Streams\<close>, \<open>io.TeeReader\<close>. Readers live in a heap, the part
  \<open>readers\<close> of the world, and a reader is its index there, since a read changes it for everybody who
  holds it.

  \<open>StreamVerifiedSet\<close> reads each key and value with a single \<open>Read\<close>. The locale \<open>fresh_readers\<close> says
  when that is enough: a reader nobody has read from, over a buffer, gives all of it at once, however
  long. The lemmas about \<open>tee_read\<close> and \<open>collect_kvs\<close> proved in it, and the one about a reader that was
  read from before, say what is verified and what is sent.
\<close>

section \<open>Buffers and buffered readers\<close>

definition Buffer_Read :: "bytes \<Rightarrow> nat \<Rightarrow> bytes go \<times> bytes" where
  "Buffer_Read buf n =
     (if buf = [] then (if n = 0 then (Ok [], []) else (Fail EOF, []))
      else (Ok (take n buf), drop n buf))"

text \<open>
  \<open>rd_buf\<close> is \<^verbatim>\<open>b.buf[b.r:b.w]\<close> and \<open>rd_src\<close> what is left in the underlying buffer. \<^verbatim>\<open>b.err\<close> has no
  field: a \<open>bytes.Buffer\<close> never returns data and an error together, so the error a read leaves there is
  returned by the same call.
\<close>

record bufio_Reader =
  rd_buf :: bytes
  rd_src :: bytes

definition defaultBufSize :: nat where
  "defaultBufSize = 4096"

definition bufio_NewReader :: "bytes \<Rightarrow> bufio_Reader" where
  "bufio_NewReader src = \<lparr>rd_buf = [], rd_src = src\<rparr>"

definition bufio_Read :: "bufio_Reader \<Rightarrow> nat \<Rightarrow> bytes go \<times> bufio_Reader" where
  "bufio_Read b n =
     (if n = 0 then (Ok [], b)
      else if rd_buf b = [] then
        if defaultBufSize \<le> n then
          (case Buffer_Read (rd_src b) n of (r, src) \<Rightarrow> (r, b\<lparr>rd_src := src\<rparr>))
        else
          (case Buffer_Read (rd_src b) defaultBufSize of
             (Ok data, src) \<Rightarrow> (Ok (take n data), \<lparr>rd_buf = drop n data, rd_src = src\<rparr>)
           | (Fail e, src) \<Rightarrow> (Fail e, b\<lparr>rd_src := src\<rparr>)
           | (Panic p, src) \<Rightarrow> (Panic p, b\<lparr>rd_src := src\<rparr>))
      else (Ok (take n (rd_buf b)), b\<lparr>rd_buf := drop n (rd_buf b)\<rparr>))"

lemma bufio_Read_bound: "bufio_Read b n = (Ok data, b') \<Longrightarrow> length data \<le> n"
  by (auto simp: bufio_Read_def Buffer_Read_def split: if_splits prod.splits go.splits)

text \<open>What a read gives, and what is left, is what was there.\<close>

lemma take_between: "n \<le> m \<Longrightarrow> take n xs @ drop n (take m xs) @ drop m xs = xs"
  by (metis append_assoc append_take_drop_id min.absorb1 take_take)

lemma bufio_Read_split:
  "bufio_Read b n = (Ok data, b') \<Longrightarrow> data @ rd_buf b' @ rd_src b' = rd_buf b @ rd_src b"
  by (auto simp: bufio_Read_def Buffer_Read_def take_between split: if_splits prod.splits go.splits)

lemma bufio_Read_fresh: "fst (bufio_Read (bufio_NewReader bs) (length bs)) = Ok bs"
  by (simp add: bufio_Read_def bufio_NewReader_def Buffer_Read_def)

lemma bufio_Read_used:
  assumes "rd_buf b \<noteq> []" and "length (rd_buf b) < n"
  shows "bufio_Read b n = (Ok (rd_buf b), b\<lparr>rd_buf := []\<rparr>)"
  using assms by (simp add: bufio_Read_def)

section \<open>The heap of readers\<close>

record reader_heap =
  readers :: "bufio_Reader list"

definition heap_Read :: "nat \<Rightarrow> nat \<Rightarrow> ('m reader_heap_scheme, bytes) io" where
  "heap_Read rd n w =
     (if rd < length (readers w) then
        (case bufio_Read (readers w ! rd) n of (r, b) \<Rightarrow> (r, w\<lparr>readers := (readers w)[rd := b]\<rparr>))
      else (Panic NilDereference, w))"

definition heap_NewBufReader :: "bytes \<Rightarrow> ('m reader_heap_scheme, nat) io" where
  "heap_NewBufReader bs w = (Ok (length (readers w)), w\<lparr>readers := readers w @ [bufio_NewReader bs]\<rparr>)"

text \<open>The stream package over Go's readers; what it does with incoming streams stays a parameter.\<close>

definition go_readers ::
    "('m reader_heap_scheme, nat) StreamLib \<Rightarrow> ('m reader_heap_scheme, nat) StreamLib" where
  "go_readers S = S\<lparr>Read := heap_Read, NewBufReader := heap_NewBufReader\<rparr>"

section \<open>Fresh readers\<close>

text \<open>\<open>holds w rd bs\<close>: nobody has read from \<open>rd\<close>, which is over a buffer with \<open>bs\<close>.\<close>

locale fresh_readers = byte_readers S
  for S :: "('w, 'rd) StreamLib" +
  fixes holds :: "'w \<Rightarrow> 'rd \<Rightarrow> bytes \<Rightarrow> bool"
  assumes new_reader: "\<exists>rd w'. NewBufReader S bs w = (Ok rd, w') \<and> holds w' rd bs \<and>
        (\<forall>rd' bs'. holds w rd' bs' \<longrightarrow> rd' \<noteq> rd \<and> holds w' rd' bs')"
    and read_fresh: "holds w rd bs \<Longrightarrow> \<exists>w'. Read S rd (length bs) w = (Ok bs, w') \<and>
        (\<forall>rd' bs'. rd' \<noteq> rd \<longrightarrow> holds w rd' bs' \<longrightarrow> holds w' rd' bs')"

text \<open>
  A request the way a caller makes one from bytes in memory:
  \<^verbatim>\<open>&stream.ValueSize{Content: bufio.NewReader(bytes.NewBuffer(k)), Size: len(k)}\<close> for every key and value.
\<close>

definition new_value :: "('w, 'rd) StreamLib \<Rightarrow> bytes \<Rightarrow> ('w, 'rd ValueSize) io" where
  "new_value S bs = tryE (NewBufReader S bs) (\<lambda>rd. ret \<lparr>Content = rd, Size = int (length bs)\<rparr>)"

fun new_kvs :: "('w, 'rd) StreamLib \<Rightarrow> (bytes \<times> bytes) list \<Rightarrow> ('w, 'rd StreamKeyValue list) io" where
  "new_kvs S [] = ret []"
| "new_kvs S ((k, v) # kvs) =
     tryE (new_value S k) (\<lambda>key.
     tryE (new_value S v) (\<lambda>val.
     tryE (new_kvs S kvs) (\<lambda>skvs.
     ret (\<lparr>Key = Some key, Value = Some val\<rparr> # skvs))))"

definition std_kv :: "bytes \<times> bytes \<Rightarrow> KeyValue" where
  "std_kv = (\<lambda>(k, v). \<lparr>KeyValue_Key = k, KeyValue_Value = v\<rparr>)"

fun kv_readers :: "'rd StreamKeyValue list \<Rightarrow> 'rd list" where
  "kv_readers [] = []"
| "kv_readers (kv # kvs) =
     map Content (case Key kv of None \<Rightarrow> [] | Some k \<Rightarrow> [k]) @
     map Content (case Value kv of None \<Rightarrow> [] | Some v \<Rightarrow> [v]) @ kv_readers kvs"

text \<open>\<open>kvs_hold h skvs kvs\<close>: the readers of \<open>skvs\<close> are distinct, declare the sizes of \<open>kvs\<close> and, by \<open>h\<close>, hold
  them.\<close>

fun kvs_hold :: "('rd \<Rightarrow> bytes \<Rightarrow> bool) \<Rightarrow> 'rd StreamKeyValue list \<Rightarrow> (bytes \<times> bytes) list \<Rightarrow> bool" where
  "kvs_hold h [] [] = True"
| "kvs_hold h (skv # skvs) ((k, v) # kvs) =
     (\<exists>rk rv. Key skv = Some \<lparr>Content = rk, Size = int (length k)\<rparr> \<and> h rk k \<and>
        Value skv = Some \<lparr>Content = rv, Size = int (length v)\<rparr> \<and> h rv v \<and>
        rk \<noteq> rv \<and> rk \<notin> set (kv_readers skvs) \<and> rv \<notin> set (kv_readers skvs) \<and> kvs_hold h skvs kvs)"
| "kvs_hold h skvs kvs = False"

lemma kvs_hold_mono:
  "kvs_hold h skvs kvs \<Longrightarrow> (\<And>rd bs. rd \<in> set (kv_readers skvs) \<Longrightarrow> h rd bs \<Longrightarrow> h' rd bs) \<Longrightarrow> kvs_hold h' skvs kvs"
  by (induction h skvs kvs rule: kvs_hold.induct) fastforce+

lemma kvs_hold_readers: "kvs_hold h skvs kvs \<Longrightarrow> rd \<in> set (kv_readers skvs) \<Longrightarrow> \<exists>bs. h rd bs"
  by (induction h skvs kvs rule: kvs_hold.induct) auto

context fresh_readers
begin

lemma new_value_holds:
  "\<exists>rd w'. new_value S bs w = (Ok \<lparr>Content = rd, Size = int (length bs)\<rparr>, w') \<and> holds w' rd bs \<and>
     (\<forall>rd' bs'. holds w rd' bs' \<longrightarrow> rd' \<noteq> rd \<and> holds w' rd' bs')"
proof -
  from new_reader [of bs w] obtain rd w' where "NewBufReader S bs w = (Ok rd, w')" "holds w' rd bs"
    "\<forall>rd' bs'. holds w rd' bs' \<longrightarrow> rd' \<noteq> rd \<and> holds w' rd' bs'" by blast
  then show ?thesis by (auto simp: new_value_def tryE_def)
qed

lemma new_kvs_hold:
  "\<exists>skvs w'. new_kvs S kvs w = (Ok skvs, w') \<and> kvs_hold (holds w') skvs kvs \<and>
     (\<forall>rd bs. holds w rd bs \<longrightarrow> rd \<notin> set (kv_readers skvs) \<and> holds w' rd bs)"
proof (induction kvs arbitrary: w)
  case (Cons kv kvs)
  obtain k v where kv: "kv = (k, v)" by (cases kv)
  from new_value_holds [of k w] obtain rk w1 where k: "new_value S k w = (Ok \<lparr>Content = rk, Size = int (length k)\<rparr>, w1)"
    "holds w1 rk k" "\<And>rd' bs'. holds w rd' bs' \<Longrightarrow> rd' \<noteq> rk \<and> holds w1 rd' bs'" by blast
  from new_value_holds [of v w1] obtain rv w2 where v: "new_value S v w1 = (Ok \<lparr>Content = rv, Size = int (length v)\<rparr>, w2)"
    "holds w2 rv v" "\<And>rd' bs'. holds w1 rd' bs' \<Longrightarrow> rd' \<noteq> rv \<and> holds w2 rd' bs'" by blast
  from Cons.IH [of w2] obtain skvs w3 where r: "new_kvs S kvs w2 = (Ok skvs, w3)" "kvs_hold (holds w3) skvs kvs"
    "\<And>rd bs. holds w2 rd bs \<Longrightarrow> rd \<notin> set (kv_readers skvs) \<and> holds w3 rd bs" by blast
  let ?skv = "\<lparr>Key = Some \<lparr>Content = rk, Size = int (length k)\<rparr>, Value = Some \<lparr>Content = rv, Size = int (length v)\<rparr>\<rparr>"
  have run: "new_kvs S (kv # kvs) w = (Ok (?skv # skvs), w3)" using k v r by (simp add: kv tryE_def)
  have "kvs_hold (holds w3) (?skv # skvs) (kv # kvs)"
    using k(2) v(2,3) r(2,3) unfolding kv by simp blast
  moreover have "holds w rd bs \<longrightarrow> rd \<notin> set (kv_readers (?skv # skvs)) \<and> holds w3 rd bs" for rd bs
    using k(3) v(3) r(3) by auto blast
  ultimately show ?case unfolding run by auto
qed simp

lemma tee_read_fresh:
  assumes "holds w rd bs"
  shows "\<exists>rd' w'. tee_read S (Some \<lparr>Content = rd, Size = int (length bs)\<rparr>) w =
       (Ok (bs, \<lparr>Content = rd', Size = int (length bs)\<rparr>), w') \<and> holds w' rd' bs \<and>
     (\<forall>r b. r \<noteq> rd \<longrightarrow> holds w r b \<longrightarrow> r \<noteq> rd' \<and> holds w' r b)"
proof -
  from read_fresh [OF assms] obtain w1 where read: "Read S rd (length bs) w = (Ok bs, w1)"
    "\<And>r b. r \<noteq> rd \<Longrightarrow> holds w r b \<Longrightarrow> holds w1 r b" by blast
  from new_reader [of bs w1] obtain rd' w2 where new: "NewBufReader S bs w1 = (Ok rd', w2)" "holds w2 rd' bs"
    "\<And>r b. holds w1 r b \<Longrightarrow> r \<noteq> rd' \<and> holds w2 r b" by blast
  from read(1) new(1) have "tee_read S (Some \<lparr>Content = rd, Size = int (length bs)\<rparr>) w =
      (Ok (bs, \<lparr>Content = rd', Size = int (length bs)\<rparr>), w2)"
    by (simp add: tee_read_def tryE_def)
  with read(2) new(2,3) show ?thesis by blast
qed

text \<open>
  Exactly the caller's bytes are collected for the check, and the readers that are sent hold them again.
\<close>

lemma collect_kvs_exact:
  assumes "kvs_hold (holds w) skvs kvs"
  shows "\<exists>skvs' w'. collect_kvs S skvs w = (Ok (map std_kv kvs, skvs'), w') \<and> kvs_hold (holds w') skvs' kvs \<and>
     (\<forall>r b. r \<notin> set (kv_readers skvs) \<longrightarrow> holds w r b \<longrightarrow> r \<notin> set (kv_readers skvs') \<and> holds w' r b)"
  using assms
proof (induction skvs kvs arbitrary: w rule: list_induct2')
  case (4 skv skvs kv kvs)
  obtain k v where kv: "kv = (k, v)" by (cases kv)
  from 4(2) obtain rk rv where key: "Key skv = Some \<lparr>Content = rk, Size = int (length k)\<rparr>" "holds w rk k"
    and val: "Value skv = Some \<lparr>Content = rv, Size = int (length v)\<rparr>" "holds w rv v"
    and dist: "rk \<noteq> rv" "rk \<notin> set (kv_readers skvs)" "rv \<notin> set (kv_readers skvs)"
    and rest: "kvs_hold (holds w) skvs kvs" unfolding kv by auto
  from tee_read_fresh [OF key(2)] obtain rk' w1 where tk: "tee_read S (Key skv) w =
      (Ok (k, \<lparr>Content = rk', Size = int (length k)\<rparr>), w1)" "holds w1 rk' k"
    and fk: "\<And>r b. r \<noteq> rk \<Longrightarrow> holds w r b \<Longrightarrow> r \<noteq> rk' \<and> holds w1 r b" unfolding key(1) by blast
  from fk [OF _ val(2)] dist(1) have "holds w1 rv v" by blast
  from tee_read_fresh [OF this] obtain rv' w2 where tv: "tee_read S (Value skv) w1 =
      (Ok (v, \<lparr>Content = rv', Size = int (length v)\<rparr>), w2)" "holds w2 rv' v"
    and fv: "\<And>r b. r \<noteq> rv \<Longrightarrow> holds w1 r b \<Longrightarrow> r \<noteq> rv' \<and> holds w2 r b" unfolding val(1) by blast
  have "kvs_hold (holds w2) skvs kvs"
    using rest by (rule kvs_hold_mono) (metis dist(2,3) fk fv)
  from 4(1) [OF this] obtain skvs' w3 where r: "collect_kvs S skvs w2 = (Ok (map std_kv kvs, skvs'), w3)"
      "kvs_hold (holds w3) skvs' kvs"
    and fr: "\<And>r b. r \<notin> set (kv_readers skvs) \<Longrightarrow> holds w2 r b \<Longrightarrow> r \<notin> set (kv_readers skvs') \<and> holds w3 r b"
    by blast
  let ?skv = "skv\<lparr>Key := Some \<lparr>Content = rk', Size = int (length k)\<rparr>,
      Value := Some \<lparr>Content = rv', Size = int (length v)\<rparr>\<rparr>"
  have run: "collect_kvs S (skv # skvs) w = (Ok (map std_kv (kv # kvs), ?skv # skvs'), w3)"
    using tk(1) tv(1) r(1) by (simp add: kv tryE_def std_kv_def)
  have "rk' \<noteq> rv" using fk [OF _ val(2)] dist(1) by blast
  from fv [OF this tk(2)] have k': "rk' \<noteq> rv'" "holds w2 rk' k" by auto
  have old: "rk' \<notin> set (kv_readers skvs)" "rv' \<notin> set (kv_readers skvs)"
    by (metis kvs_hold_readers [OF rest] dist(2,3) fk fv)+
  from fr [OF old(1) k'(2)] fr [OF old(2) tv(2)] k'(1) r(2)
  have "kvs_hold (holds w3) (?skv # skvs') (kv # kvs)" by (simp add: kv)
  moreover have "r \<notin> set (kv_readers (skv # skvs)) \<longrightarrow> holds w r b \<longrightarrow>
      r \<notin> set (kv_readers (?skv # skvs')) \<and> holds w3 r b" for r b
    using key(1) val(1) fk [of r b] fv [of r b] fr [of r b] by auto
  ultimately show ?case unfolding run by blast
qed simp_all

end

section \<open>Go's readers keep the contract\<close>

definition heap_holds :: "'m reader_heap_scheme \<Rightarrow> nat \<Rightarrow> bytes \<Rightarrow> bool" where
  "heap_holds w rd bs = (rd < length (readers w) \<and> readers w ! rd = bufio_NewReader bs)"

interpretation go_readers: fresh_readers "go_readers S" heap_holds
  for S :: "('m reader_heap_scheme, nat) StreamLib"
proof unfold_locales
  fix rd n data and w w' :: "'m reader_heap_scheme"
  assume "Read (go_readers S) rd n w = (Ok data, w')"
  then show "length data \<le> n"
    by (auto simp: go_readers_def heap_Read_def split: if_splits prod.splits dest: bufio_Read_bound)
next
  fix bs and w :: "'m reader_heap_scheme"
  show "\<exists>rd w'. NewBufReader (go_readers S) bs w = (Ok rd, w') \<and> heap_holds w' rd bs \<and>
      (\<forall>rd' bs'. heap_holds w rd' bs' \<longrightarrow> rd' \<noteq> rd \<and> heap_holds w' rd' bs')"
    by (auto simp: go_readers_def heap_NewBufReader_def heap_holds_def nth_append)
next
  fix w :: "'m reader_heap_scheme" and rd bs
  assume "heap_holds w rd bs"
  then show "\<exists>w'. Read (go_readers S) rd (length bs) w = (Ok bs, w') \<and>
      (\<forall>rd' bs'. rd' \<noteq> rd \<longrightarrow> heap_holds w rd' bs' \<longrightarrow> heap_holds w' rd' bs')"
    using bufio_Read_fresh [of bs]
    by (auto simp: go_readers_def heap_Read_def heap_holds_def split: prod.splits)
qed

text \<open>
  A reader that was read from before may give less than is asked for: only what is in its own buffer.
  The slice that is verified is then padded with zeros, and the reader that is sent has only those bytes.
\<close>

lemma tee_read_used:
  assumes "rd < length (readers w)" and "rd_buf (readers w ! rd) = got" and "got \<noteq> []" and "length got < n"
  shows "tee_read (go_readers S) (Some \<lparr>Content = rd, Size = int n\<rparr>) w =
     (Ok (got @ replicate (n - length got) 0, \<lparr>Content = length (readers w), Size = int n\<rparr>),
      w\<lparr>readers := (readers w)[rd := (readers w ! rd)\<lparr>rd_buf := []\<rparr>] @ [bufio_NewReader got]\<rparr>)"
  using assms by (simp add: tee_read_def tryE_def go_readers_def heap_Read_def heap_NewBufReader_def bufio_Read_used)

end
