(* ===== verification/Reference_World.thy ===== *)
theory Reference_World
  imports Client_Runs Interceptors Go_Io
begin

text \<open>
  A small concrete environment for the parameters of the model: a world with a cache, a script of
  replies, incoming streams and files; a state service over that cache; a connection that plays the
  script; a stream package; a toy immudb in which a transaction holds one entry, its digest is the
  entry itself and a dual proof carries the two headers it connects.

  The interpretations at the end show that every contract of the library can be kept, by the
  repository's own state service around a store and by the client that \<open>NewLcClient\<close> and
  \<open>Connect\<close> build. The witnesses of the properties are evaluated in this world.
\<close>

section \<open>The world\<close>

record world = reader_heap +
  w_locked :: bool
  w_cache :: "string \<Rightarrow> ImmutableState option"
  w_replies :: "reply list"
  w_sent :: "(string \<times> request) list"
  w_items :: "(bytes \<times> bytes) list"
  w_zitems :: "ZEntry list"
  w_ventries :: "VerifiableEntry list"
  w_files :: "string \<Rightarrow> bytes option"

definition empty_world :: world where
  [ref_defs]: "empty_world = \<lparr>readers = [], w_locked = False, w_cache = (\<lambda>_. None), w_replies = [], w_sent = [],
     w_items = [], w_zitems = [], w_ventries = [], w_files = (\<lambda>_. None)\<rparr>"

definition unavailable :: go_error where
  "unavailable = Foreign ''unavailable''"

section \<open>The state service\<close>

definition ref_state :: "(world, unit) StateServiceIf" where
  [ref_defs]: "ref_state =
    \<lparr>GetState = (\<lambda>ctx k w. case w_cache w k of
         Some s \<Rightarrow> (Ok s, w)
       | None \<Rightarrow> (Ok zero_ImmutableState, w\<lparr>w_cache := (w_cache w)(k \<mapsto> zero_ImmutableState)\<rparr>)),
     SetState = (\<lambda>k s w. (Ok (), w\<lparr>w_cache := (w_cache w)(k \<mapsto> s)\<rparr>)),
     CacheLock = (\<lambda>w. if w_locked w then (Fail unavailable, w) else (Ok (), w\<lparr>w_locked := True\<rparr>)),
     CacheUnlock = (\<lambda>w. (Ok (), w\<lparr>w_locked := False\<rparr>)),
     SetServerIdentity = (\<lambda>i. ret ())\<rparr>"

section \<open>The connection and the stream package\<close>

definition play :: "reply \<Rightarrow> (world, reply) io" where
  [ref_defs]: "play reply w = (case w_replies w of
      [] \<Rightarrow> (Fail unavailable, w)
    | r # rs \<Rightarrow> (Ok r, w\<lparr>w_replies := rs\<rparr>))"

definition ref_conn :: "(world, unit) ClientConn" where
  [ref_defs]: "ref_conn =
    \<lparr>Invoke = (\<lambda>ctx method req reply opts w. case w_replies w of
         [] \<Rightarrow> ((Fail unavailable, reply, \<lambda>_. []), w)
       | r # rs \<Rightarrow> ((Ok (), r, \<lambda>_. []), w\<lparr>w_replies := rs, w_sent := w_sent w @ [(method, req)]\<rparr>)),
     NewStream = (\<lambda>ctx desc method opts. ret 0),
     SendMsg = (\<lambda>x req. ret ()),
     CloseSend = (\<lambda>x. ret ()),
     RecvMsg = (\<lambda>x reply. play reply),
     CloseConn = ret ()\<rparr>"

definition ref_lib :: "(world, bytes) StreamLib" where
  [ref_defs]: "ref_lib =
    \<lparr>Read = (\<lambda>rd n. ret (take n rd)),
     NewBufReader = ret,
     ReadValue = (\<lambda>rd n. ret rd),
     ParseVerifiableEntry = (\<lambda>e t i rd n w. case w_ventries w of
         [] \<Rightarrow> (Fail unavailable, w) | v # vs \<Rightarrow> (Ok v, w\<lparr>w_ventries := vs\<rparr>)),
     ParseZEntry = (\<lambda>s k sc t rd n. ret \<lparr>ZEntry_Set = s, ZEntry_Key = k, ZEntry_Score = 0, ZEntry_rest = []\<rparr>),
     NumberToBytes = (\<lambda>n. Ok [ucast n])\<rparr>"

definition ref_factory :: "int \<Rightarrow> (world, unit, bytes) StreamFactory" where
  [ref_defs]: "ref_factory chunk =
    \<lparr>kvs_Send = (\<lambda>cc x kv. ret ()),
     msg_Send = (\<lambda>cc x bs. ret ()),
     kvr_Next = (\<lambda>cc x w. case w_items w of
         [] \<Rightarrow> (Fail EOF, w) | (k, v) # rest \<Rightarrow> (Ok (k, v), w\<lparr>w_items := rest\<rparr>)),
     zr_Next = (\<lambda>cc x w. case w_zitems w of
         [] \<Rightarrow> (Fail EOF, w)
       | z # rest \<Rightarrow> (Ok (ZEntry_Set z, ZEntry_Key z, [], [], []), w\<lparr>w_zitems := rest\<rparr>)),
     ver_Next = (\<lambda>cc x. ret ([], [], [], [])),
     eas_Send = (\<lambda>cc x req. ret ())\<rparr>"

definition ref_files :: "world FileSystem" where
  [ref_defs]: "ref_files =
    \<lparr>ReadFile = (\<lambda>p w. case w_files w p of None \<Rightarrow> (Fail unavailable, w) | Some bs \<Rightarrow> (Ok bs, w)),
     WriteFile = (\<lambda>p bs m w. (Ok (), w\<lparr>w_files := (w_files w)(p \<mapsto> bs)\<rparr>))\<rparr>"

section \<open>A connected client\<close>

definition ref_platform :: "(world, unit) Platform" where
  "ref_platform =
    \<lparr>sha256 = (\<lambda>bs. take 32 (bs @ replicate 32 0)),
     grpc_Dial = (\<lambda>target opts. ret ref_conn),
     NewStateService = (\<lambda>ca l sp up. ret ref_state),
     SERVER_UUID_HEADER = ''immudb-uuid''\<rparr>"

type_synonym ref_client = "(world, unit, wire, bytes) StreamClient"

definition ref_new :: "wire option \<Rightarrow> ref_client" where
  "ref_new pubKey =
     NewLcClient [] 65536 ref_factory [Option_ApiKey ''signer.key'', Option_ServerSigningPubKey pubKey]"

definition ref_client :: "wire option \<Rightarrow> ref_client" where
  "ref_client pubKey = snd (fst (Connect ref_platform (ref_new pubKey) empty_world))"

text \<open>A second stream package, over Go's own readers, and a client that uses it. It only sends.\<close>

definition heap_lib :: "(world, nat) StreamLib" where
  "heap_lib = go_readers
    \<lparr>Read = (\<lambda>rd n. ret []), NewBufReader = (\<lambda>bs. ret 0), ReadValue = (\<lambda>rd n. ret []),
     ParseVerifiableEntry = (\<lambda>e t i rd n. fail unavailable), ParseZEntry = (\<lambda>s k sc t rd n. fail unavailable),
     NumberToBytes = (\<lambda>n. Ok [ucast n])\<rparr>"

definition heap_factory :: "int \<Rightarrow> (world, unit, nat) StreamFactory" where
  "heap_factory chunk =
    \<lparr>kvs_Send = (\<lambda>cc x kv. ret ()), msg_Send = (\<lambda>cc x bs. ret ()), kvr_Next = (\<lambda>cc x. fail EOF),
     zr_Next = (\<lambda>cc x. fail EOF), ver_Next = (\<lambda>cc x. fail EOF), eas_Send = (\<lambda>cc x req. ret ())\<rparr>"

definition heap_client :: "(world, unit, wire, nat) StreamClient" where
  "heap_client = snd (fst (Connect ref_platform (NewLcClient [] 65536 heap_factory
     [Option_ApiKey ''signer.key'', Option_ServerSigningPubKey None]) empty_world))"

lemma heap_client_simps [simp]:
  "StateService heap_client = Some (lcStateService (sha256 ref_platform) ref_state)"
  "ServiceClient heap_client = Some ref_conn" "ApiKey heap_client = ''signer.key''"
  "serverSigningPubKey heap_client = None" "StreamServiceFactory heap_client = heap_factory 65536"
  by (simp_all add: heap_client_def ref_platform_def Connect_def NewLcClient_def default_LcClient_def
      NewLcStateService_def option_defs Let_def)

interpretation heap_readers: fresh_readers heap_lib heap_holds
  unfolding heap_lib_def by (rule go_readers.fresh_readers_axioms)

section \<open>A toy immudb\<close>

definition header_matches :: "TxHeader option \<Rightarrow> bytes \<Rightarrow> bool" where
  [ref_defs]: "header_matches h alh = (case h of None \<Rightarrow> False | Some h' \<Rightarrow> TxHeader_EH h' = alh)"

definition header_alh :: "TxHeader option \<Rightarrow> bytes go" where
  [ref_defs]: "header_alh h = deref h (\<lambda>h'. Ok (TxHeader_EH h'))"

type_synonym ref_immudb = "(unit, DualProof, TxHeader \<times> wire list, bytes, bytes, wire) immudb"

definition ref_immudb :: ref_immudb where
  [ref_defs]: "ref_immudb =
    \<lparr>EntrySpecDigestFor = (\<lambda>v. if v \<in> {0, 1} then Ok (\<lambda>e. e) else Fail (Foreign ''unsupported version'')),
     InclusionProofFromProto = (\<lambda>p. Ok ()),
     DualProofFromProto = (\<lambda>p. deref p Ok),
     DigestFromProto = (\<lambda>d. d),
     KVMetadataFromProto = (\<lambda>m. m),
     TxFromProto = (\<lambda>t. deref t (\<lambda>tx. deref (Tx_Header tx) (\<lambda>h. Ok (h, Tx_Entries tx)))),
     EncodeKey = (\<lambda>k. 0 # k),
     EncodeEntrySpec = (\<lambda>k m v. k @ 0 # v),
     EncodeReference = (\<lambda>k m v t. k @ 1 # v),
     VerifyInclusion = (\<lambda>p d eh. d = eh),
     VerifyDualProof = (\<lambda>dp s t sa ta. s \<le> t \<and> (s = t \<longrightarrow> sa = ta) \<and>
        header_matches (DualProof_SourceTxHeader dp) sa \<and> header_matches (DualProof_TargetTxHeader dp) ta),
     dual_source_alh = (\<lambda>dp. header_alh (DualProof_SourceTxHeader dp)),
     dual_target_alh = (\<lambda>dp. header_alh (DualProof_TargetTxHeader dp)),
     tx_header_version = (\<lambda>t. sint (TxHeader_Version (fst t))),
     tx_header_eh = (\<lambda>t. TxHeader_EH (fst t)),
     tx_header_id = (\<lambda>t. of_nat (length (TxHeader_rest (fst t)))),
     tx_header_alh = (\<lambda>t. Ok (TxHeader_EH (fst t))),
     tx_proof = (\<lambda>t k. Ok ()),
     tx_entries_md = (\<lambda>t. map (\<lambda>e. if e = [] then None else Some e) (snd t)),
     md_deleted = (\<lambda>m. m = [1]),
     CheckSignature = (\<lambda>st k. if ImmutableState_Signature st = Some k then Ok ()
        else Fail (Foreign ''invalid signature''))\<rparr>"

section \<open>Answers of an honest server, and of a dishonest one\<close>

definition state_at :: "u64 \<Rightarrow> bytes \<Rightarrow> ImmutableState" where
  [ref_defs]: "state_at tx alh = \<lparr>ImmutableState_Db = ''db'', ImmutableState_TxId = tx,
     ImmutableState_TxHash = alh, ImmutableState_Signature = Some [9]\<rparr>"

definition world_at :: "ImmutableState \<Rightarrow> reply list \<Rightarrow> world" where
  [ref_defs]: "world_at st replies = empty_world\<lparr>w_cache := (\<lambda>_. Some st), w_replies := replies\<rparr>"

definition ref_hdr :: "nat \<Rightarrow> bytes \<Rightarrow> TxHeader" where
  [ref_defs]: "ref_hdr tx eh = \<lparr>TxHeader_Id = of_nat tx, TxHeader_Version = 1, TxHeader_Nentries = 1, TxHeader_EH = eh,
     TxHeader_rest = replicate tx 0\<rparr>"

definition ref_vtx :: "bytes \<Rightarrow> nat \<Rightarrow> bytes \<Rightarrow> VerifiableTx" where
  [ref_defs]: "ref_vtx old tx eh = \<lparr>VerifiableTx_Tx = Some \<lparr>Tx_Header = Some (ref_hdr tx eh), Tx_Entries = [[]]\<rparr>,
     VerifiableTx_DualProof = Some \<lparr>DualProof_SourceTxHeader = Some (ref_hdr 1 old),
        DualProof_TargetTxHeader = Some (ref_hdr tx eh), DualProof_rest = []\<rparr>,
     VerifiableTx_Signature = Some [9]\<rparr>"

definition ref_ventry :: "bytes \<Rightarrow> nat \<Rightarrow> bytes \<Rightarrow> bytes \<Rightarrow> VerifiableEntry" where
  [ref_defs]: "ref_ventry old tx key val =
    \<lparr>VerifiableEntry_Entry = Some (zero_Entry\<lparr>Entry_Tx := of_nat tx, Entry_Key := key, Entry_Value := val\<rparr>),
     VerifiableEntry_VerifiableTx = Some (ref_vtx old tx (key @ 0 # val)),
     VerifiableEntry_InclusionProof = Some []\<rparr>"

definition key_request :: "bytes \<Rightarrow> KeyRequest" where
  [ref_defs]: "key_request key = \<lparr>KeyRequest_Key = key, KeyRequest_AtTx = 0, KeyRequest_SinceTx = 0\<rparr>"

section \<open>Evaluation\<close>

lemma ref_client_simps [simp]:
  "StateService (ref_client k) = Some (lcStateService (sha256 ref_platform) ref_state)"
  "ServiceClient (ref_client k) = Some ref_conn" "clientConn (ref_client k) = Some ref_conn"
  "ApiKey (ref_client k) = ''signer.key''" "serverSigningPubKey (ref_client k) = k"
  "StreamServiceFactory (ref_client k) = ref_factory 65536" "StreamChunkSize (ref_client k) = 65536"
  "MetadataPairs (ref_client k) = []"
  by (simp_all add: ref_client_def ref_new_def ref_platform_def Connect_def NewLcClient_def
      default_LcClient_def NewLcStateService_def option_defs Let_def)

lemmas protocol_defs = store_then_check_def check_then_store_def with_trusted_state_def
  check_signature_def tryE_def deferE_def

lemmas wrapper_defs = lcStateService_def lcStateService_GetState_def lcStateService_SetState_def
  lcStateService_CacheLock_def lcStateService_CacheUnlock_def

lemmas stub_defs = service_defs unary_def unary_hdr_def recv_reply_def

lemmas verify_defs = verifyGet_def get_entry_spec_def get_proof_ends_def

section \<open>The contracts are kept\<close>

interpretation ref: trusted_state ref_state w_locked w_cache "\<lambda>k. k"
  by unfold_locales (auto simp: ref_state_def split: if_splits option.splits)

interpretation ref_wrapped: wrapped_state ref_state w_locked w_cache "\<lambda>k. k" sha for sha
  by unfold_locales

interpretation ref_conn: quiet_connection "\<lambda>w. (w_locked w, w_cache w)" ref_conn
  by unfold_locales (auto simp: ref_conn_def play_def quiet_def split: list.splits)

interpretation ref_files: file_system ref_files w_files
  by unfold_locales (auto simp: ref_files_def split: option.splits)

interpretation ref_readers: byte_readers ref_lib
  by unfold_locales (auto simp: ref_lib_def)

interpretation ref_streams: finite_stream "ref_factory chunk" ref_lib
    "\<lambda>w. length (w_items w) + length (w_zitems w)" for chunk
  by unfold_locales (auto simp: ref_factory_def ref_lib_def split: list.splits)

definition wrapped_cache :: "world \<Rightarrow> string \<Rightarrow> ImmutableState option" where
  "wrapped_cache w k = w_cache w (obfuscateApiKey (sha256 ref_platform) k)"

interpretation ref_client: client_runs "lcStateService (sha256 ref_platform) ref_state" w_locked
    wrapped_cache "\<lambda>k. obfuscateApiKey (sha256 ref_platform) k" "ref_client pubKey" ref_lib ref_files
  for pubKey
proof -
  have cache: "wrapped_cache = (\<lambda>w k. w_cache w (obfuscateApiKey (sha256 ref_platform) k))"
    by (rule ext)+ (simp add: wrapped_cache_def)
  have "quiet_connection (\<lambda>w. (w_locked w, wrapped_cache w)) ref_conn"
    by unfold_locales (auto simp: ref_conn_def play_def quiet_def cache split: list.splits)
  then have "client_session (lcStateService (sha256 ref_platform) ref_state) w_locked wrapped_cache
      (obfuscateApiKey (sha256 ref_platform)) (ref_client pubKey)"
    unfolding cache
    by (intro client_session.intro client_network.intro client_session_axioms.intro ref_wrapped.wrapper_trusted) auto
  then show "client_runs (lcStateService (sha256 ref_platform) ref_state) w_locked wrapped_cache
      (obfuscateApiKey (sha256 ref_platform)) (ref_client pubKey) ref_lib ref_files"
    by (intro client_runs.intro network_runs.intro network_runs_axioms.intro stream_session.intro
        stream_network.intro stream_network_axioms.intro client_session.axioms(2))
      (auto simp: quiet_def ref_lib_def ref_factory_def ref_files_def cache
        split: list.splits option.splits)
qed

lemma ref_live_state: "live_state ref_state w_locked w_cache (\<lambda>k. k)"
  by unfold_locales (auto simp: ref_state_def)

interpretation ref_live: live_session "lcStateService (sha256 ref_platform) ref_state" w_locked
    wrapped_cache "\<lambda>k. obfuscateApiKey (sha256 ref_platform) k" "ref_client pubKey"
  for pubKey
proof -
  from live_state.wrapper_live [OF ref_live_state, of "sha256 ref_platform"]
  have "live_state (lcStateService (sha256 ref_platform) ref_state) w_locked wrapped_cache
      (\<lambda>k. obfuscateApiKey (sha256 ref_platform) k)"
    unfolding wrapped_cache_def [abs_def] .
  then show "live_session (lcStateService (sha256 ref_platform) ref_state) w_locked wrapped_cache
      (\<lambda>k. obfuscateApiKey (sha256 ref_platform) k) (ref_client pubKey)"
    using ref_client.client_session_axioms by (intro live_session.intro)
qed

end
