(* ===== verification/Trust_Guarantees.thy ===== *)
theory Trust_Guarantees
  imports Reference_World
begin

text \<open>
  What the verified operations guarantee to a caller, over any implementation of the services the
  client relies on that keeps the contracts \<open>client_runs\<close> (state service, connection, stream
  package, files). Each property is followed by a witness in the reference world.
\<close>

section \<open>Every history of calls\<close>

text \<open>Between calls the cache lock is free: whatever sequence of operations a client made, with
  whatever outcomes (results, errors, panics), the lock it took is released.\<close>

theorem lock_free_between_calls:
  assumes "client_runs ss locked cached slot c S fs"
    and "(client_step F S fs)\<^sup>*\<^sup>* (c, w) (c', w')"
    and "\<not> locked w"
  shows "\<not> locked w'"
  using run_kept [OF assms(2,1)] assms(3) by blast

lemma ref_get_step:
  "(client_step ref_immudb ref_lib ref_files)\<^sup>*\<^sup>*
     (ref_client k, w) (ref_client k, snd (verifiedGet ref_immudb (ref_client k) () kr w))"
  by (intro r_into_rtranclp client_step.verified_get [where r = "fst (verifiedGet ref_immudb (ref_client k) () kr w)"])
    simp

lemma ref_runs: "client_runs (lcStateService (sha256 ref_platform) ref_state) w_locked wrapped_cache
    (obfuscateApiKey (sha256 ref_platform)) (ref_client k) ref_lib ref_files"
  by unfold_locales

lemma ref_stream_session: "stream_session (lcStateService (sha256 ref_platform) ref_state) w_locked
    wrapped_cache (obfuscateApiKey (sha256 ref_platform)) (ref_client k) ref_lib"
  by unfold_locales

lemma ref_session: "client_session (lcStateService (sha256 ref_platform) ref_state) w_locked
    wrapped_cache (obfuscateApiKey (sha256 ref_platform)) (ref_client k)"
  by unfold_locales

abbreviation get_world :: world where
  "get_world \<equiv> world_at (state_at 1 [1]) [RepVerifiableEntry (ref_ventry [1] 2 [5] [6])]"

lemmas get_eval = verifiedGet_def verifiedGet_fetch_def protocol_defs wrapper_defs stub_defs
  verify_defs ref_defs Let_def zero_Entry_def wrapped_cache_def

theorem lock_free_between_calls_witness:
  "\<not> w_locked (snd (verifiedGet ref_immudb (ref_client None) () (key_request [5]) get_world))"
  by (rule lock_free_between_calls [OF ref_runs ref_get_step]) (simp add: ref_defs)

text \<open>The trusted state of the client's API key only ever moves along verified proofs: after any
  history of calls the cache still holds a state for the key, reached from the old one by steps each of
  which a dual proof vouches for (or which repeats a state, or starts from no transaction); and the
  entries of other keys are untouched.\<close>

theorem trusted_state_moves_along_proofs:
  assumes "client_runs ss locked cached slot c S fs"
    and "(client_step F S fs)\<^sup>*\<^sup>* (c, w) (c', w')"
    and "cached w (ApiKey c) = Some st"
  shows "\<exists>st'. cached w' (ApiKey c) = Some st' \<and> trust_path F st st' \<and>
      (\<forall>k'. slot k' \<noteq> slot (ApiKey c) \<longrightarrow> cached w' k' = cached w k')"
  using run_kept [OF assms(2,1)] assms(3) by (auto simp: trust_kept_def)

theorem trusted_state_moves_along_proofs_witness:
  "\<exists>st'. wrapped_cache (snd (verifiedGet ref_immudb (ref_client None) () (key_request [5]) get_world))
       (ApiKey (ref_client None)) = Some st' \<and> trust_path ref_immudb (state_at 1 [1]) st'"
proof -
  have "wrapped_cache get_world (ApiKey (ref_client None)) = Some (state_at 1 [1])"
    by (simp add: wrapped_cache_def ref_defs)
  from trusted_state_moves_along_proofs [OF ref_runs ref_get_step this] show ?thesis by blast
qed

text \<open>C8. The transaction the client trusts never goes back: if immudb's dual proofs go forward, no
  history of calls lowers the id of the trusted transaction.\<close>

theorem trusted_tx_never_decreases:
  assumes "client_runs ss locked cached slot c S fs"
    and "(client_step F S fs)\<^sup>*\<^sup>* (c, w) (c', w')"
    and "cached w (ApiKey c) = Some st" and "dual_proof_ordered F"
  shows "\<exists>st'. cached w' (ApiKey c) = Some st' \<and> ImmutableState_TxId st \<le> ImmutableState_TxId st'"
  using run_kept [OF assms(2,1)] assms(3,4) by (auto simp: trust_kept_def dest: trust_path_mono)

lemma ref_ordered: "dual_proof_ordered ref_immudb"
  by (auto simp: dual_proof_ordered_def ref_immudb_def)

theorem trusted_tx_never_decreases_witness:
  "\<exists>st'. wrapped_cache (snd (verifiedGet ref_immudb (ref_client None) () (key_request [5]) get_world))
       (ApiKey (ref_client None)) = Some st' \<and> 1 \<le> ImmutableState_TxId st'"
proof -
  have "wrapped_cache get_world (ApiKey (ref_client None)) = Some (state_at 1 [1])"
    by (simp add: wrapped_cache_def ref_defs)
  from trusted_tx_never_decreases [OF ref_runs ref_get_step this ref_ordered] show ?thesis
    by (simp add: state_at_def)
qed

section \<open>What a check has checked\<close>





abbreviation ref_answer :: VerifiableEntry where
  "ref_answer \<equiv> ref_ventry [1] 2 [5] [6]"

abbreviation ref_ns :: ImmutableState where
  "ref_ns \<equiv> \<lparr>ImmutableState_Db = ''h'', ImmutableState_TxId = 2, ImmutableState_TxHash = [5, 0, 6],
     ImmutableState_Signature = Some [9]\<rparr>"

lemma ref_verifyGet:
  "verifyGet ref_immudb (state_at 1 [1]) (Some ref_answer) (key_request [5]) ''h'' = Ok ref_ns"
  by (simp add: verify_defs ref_defs Let_def zero_Entry_def)


text \<open>For an entry reached through a reference, what is proved is the reference: the key it has, its
  metadata and the transaction it is pinned to, pointing at the returned entry's key. The key that was
  asked for and the returned value take no part in the check.\<close>

theorem verifyGet_reference_ignores_request:
  assumes "VerifiableEntry_Entry ve = Some e" and "Entry_ReferencedBy e = Some ref"
  shows "verifyGet F st (Some ve) kr h = verifyGet F st
      (Some (ve\<lparr>VerifiableEntry_Entry := Some (e\<lparr>Entry_Value := val, Entry_Tx := tx, Entry_Metadata := md\<rparr>)\<rparr>)) kr' h"
  using assms by (simp add: verifyGet_def get_entry_spec_def)

theorem verifyGet_reference_ignores_request_witness:
  "verifyGet ref_immudb (state_at 1 [1])
     (Some (ref_answer\<lparr>VerifiableEntry_Entry := Some (zero_Entry\<lparr>Entry_ReferencedBy :=
        Some \<lparr>Reference_Tx = 2, Reference_Key = [5], Reference_Metadata = None, Reference_AtTx = 0\<rparr>\<rparr>)\<rparr>))
     (key_request [5]) ''h'' =
   verifyGet ref_immudb (state_at 1 [1])
     (Some (ref_answer\<lparr>VerifiableEntry_Entry := Some (zero_Entry\<lparr>Entry_ReferencedBy :=
        Some \<lparr>Reference_Tx = 2, Reference_Key = [5], Reference_Metadata = None, Reference_AtTx = 0\<rparr>,
        Entry_Value := [77], Entry_Tx := 9, Entry_Metadata := None\<rparr>)\<rparr>))
     (key_request [66]) ''h''"
  by (subst verifyGet_reference_ignores_request [where kr' = "key_request [66]" and val = "[77]" and tx = 9
      and md = None]) (simp_all add: ref_ventry_def)

text \<open>C11. The check of \<open>VerifiedSet\<close> accepts exactly the proven answers: it accepts if and only if the answer's
  transaction has exactly one entry; the key and the value that were sent, with the metadata of that entry, which
  does not mark a deletion, are included in the transaction's header; that header's digest is the target of
  the dual proof; and the dual proof links the transaction to the trusted state, unless nothing was trusted yet.
  The state to trust next is then the transaction's own id and hash.\<close>

theorem verifiedSet_check_accepts_exactly:
  "verifiedSet_check F st k key val vtx = Ok ns \<longleftrightarrow>
    (\<exists>ptx hdr tx digest ip md dproof target alh.
      VerifiableTx_Tx vtx = Some ptx \<and> Tx_Header ptx = Some hdr \<and> TxHeader_Nentries hdr = 1 \<and>
      length (Tx_Entries ptx) = 1 \<and> TxFromProto F (Some ptx) = Ok tx \<and>
      EntrySpecDigestFor F (tx_header_version F tx) = Ok digest \<and> tx_proof F tx (EncodeKey F key) = Ok ip \<and>
      index (tx_entries_md F tx) 0 = Ok md \<and> (\<forall>m. md = Some m \<longrightarrow> \<not> md_deleted F m) \<and>
      VerifyInclusion F ip (digest (EncodeEntrySpec F key md val)) (tx_header_eh F tx) \<and>
      VerifiableTx_DualProof vtx = Some dproof \<and> DualProof_TargetTxHeader dproof = Some target \<and>
      tx_header_eh F tx = DigestFromProto F (TxHeader_EH target) \<and> tx_header_alh F tx = Ok alh \<and>
      (0 < ImmutableState_TxId st \<longrightarrow> (\<exists>dp. DualProofFromProto F (Some dproof) = Ok dp \<and>
         VerifyDualProof F dp (ImmutableState_TxId st) (tx_header_id F tx)
           (DigestFromProto F (ImmutableState_TxHash st)) alh)) \<and>
      ns = \<lparr>ImmutableState_Db = k, ImmutableState_TxId = tx_header_id F tx, ImmutableState_TxHash = alh,
        ImmutableState_Signature = VerifiableTx_Signature vtx\<rparr>)"
  (is "_ \<longleftrightarrow> ?accepted")
proof
  show ?accepted if "verifiedSet_check F st k key val vtx = Ok ns"
    using that by (auto simp: verifiedSet_check_def set_target_check_def Let_def ok_simps split: if_splits option.splits)
  show "verifiedSet_check F st k key val vtx = Ok ns" if ?accepted
    using that by (elim exE conjE) (auto simp: verifiedSet_check_def set_target_check_def Let_def split: option.splits)
qed

abbreviation ref_set_ns :: ImmutableState where
  "ref_set_ns \<equiv> \<lparr>ImmutableState_Db = ''k'', ImmutableState_TxId = 2, ImmutableState_TxHash = [5, 0, 6],
     ImmutableState_Signature = Some [9]\<rparr>"

theorem verifiedSet_check_accepts_exactly_witness:
  "verifiedSet_check ref_immudb (state_at 1 [1]) ''k'' [5] [6] (ref_vtx [1] 2 [5, 0, 6]) = Ok ref_set_ns \<and>
   (\<forall>ns. verifiedSet_check ref_immudb (state_at 1 [1]) ''k'' [5] [7] (ref_vtx [1] 2 [5, 0, 6]) \<noteq> Ok ns)"
  unfolding verifiedSet_check_accepts_exactly by (auto simp: ref_defs index_def)

section \<open>The operations\<close>

text \<open>C17. How \<open>verifiedGet\<close> ends, on every branch: either the trusted state is as before and no entry
  is returned; or an answer passed the check from the trusted state, the state it leads to has been
  stored, and only then the signature decides between the entry and an error. A state whose signature
  is rejected therefore stays in the cache.\<close>

theorem verifiedGet_outcomes:
  assumes session: "client_session ss locked cached slot c"
    and "verifiedGet F c ctx kr w = (r, w')" and "cached w (ApiKey c) = Some st"
  shows "cached w' (ApiKey c) = Some st \<and> (\<forall>x. r \<noteq> Ok x) \<or>
    (\<exists>ve ns. verifyGet F st (Some ve) kr (ApiKeyHash c) = Ok ns \<and> cached w' (ApiKey c) = Some ns \<and>
       r = tryG (check_signature F c ns) (\<lambda>_. Ok (VerifiableEntry_Entry ve)))"
proof -
  from client_session.store_then_check_outcome [OF session assms(2) [unfolded verifiedGet_def]
      client_session.session_fetches_quiet(2) [OF session] assms(3)]
  show ?thesis by (auto dest!: verifiedGet_fetch_Ok)
qed

text \<open>The reference server signs with \<open>[9]\<close>; a client that expects another key gets an error and the
  state is stored all the same.\<close>

theorem verifiedGet_outcomes_witness:
  "fst (verifiedGet ref_immudb (ref_client (Some [8])) () (key_request [5]) get_world) =
     Fail (Foreign ''invalid signature'') \<and>
   (wrapped_cache (snd (verifiedGet ref_immudb (ref_client (Some [8])) () (key_request [5]) get_world))
     ''signer.key'' = Some (state_at 1 [1]) \<or>
    (\<exists>ve ns. verifyGet ref_immudb (state_at 1 [1]) (Some ve) (key_request [5])
        (ApiKeyHash (ref_client (Some [8]))) = Ok ns \<and>
      wrapped_cache (snd (verifiedGet ref_immudb (ref_client (Some [8])) () (key_request [5]) get_world))
        ''signer.key'' = Some ns))"
proof -
  let ?c = "ref_client (Some [8])"
  have c: "wrapped_cache get_world (ApiKey ?c) = Some (state_at 1 [1])"
    by (simp add: wrapped_cache_def ref_defs)
  have r: "fst (verifiedGet ref_immudb ?c () (key_request [5]) get_world) = Fail (Foreign ''invalid signature'')"
    by (simp add: get_eval)
  from verifiedGet_outcomes [OF ref_session surjective_pairing c, of ref_immudb "()" "key_request [5]"] r
  show ?thesis by auto
qed

text \<open>C18. How \<open>VerifiedSet\<close> ends, on every branch: either the trusted state is as before and no header is
  returned; or an answer passed the check from the trusted state, the signature of the new state was
  checked first, the new state is stored, and the header of the checked transaction is returned. A
  failed call never changes the trusted state.\<close>

theorem VerifiedSet_outcomes:
  assumes session: "client_session ss locked cached slot c"
    and "VerifiedSet F c ctx key val w = (r, w')" and "cached w (ApiKey c) = Some st"
  shows "cached w' (ApiKey c) = Some st \<and> (\<forall>x. r \<noteq> Ok x) \<or>
    (\<exists>answer tx ns. verifiedSet_check F st (ApiKey c) key val answer = Ok ns \<and>
       VerifiableTx_Tx answer = Some tx \<and> check_signature F c ns = Ok () \<and>
       cached w' (ApiKey c) = Some ns \<and> r = Ok (Tx_Header tx))"
proof -
  from client_session.check_then_store_outcome [OF session assms(2) [unfolded VerifiedSet_def]
      client_session.session_fetches_quiet(1) [OF session] assms(3)]
  show ?thesis by (auto simp: VerifiedSet_fetch_def Let_def ok_simps)
qed

abbreviation set_world :: world where
  "set_world \<equiv> world_at (state_at 1 [1]) [RepVerifiableTx (ref_vtx [1] 2 [5, 0, 6])]"

lemmas set_eval = VerifiedSet_def VerifiedSet_fetch_def protocol_defs wrapper_defs stub_defs
  verifiedSet_check_def set_target_check_def ref_defs Let_def wrapped_cache_def index_def

theorem VerifiedSet_outcomes_witness:
  "fst (VerifiedSet ref_immudb (ref_client (Some [8])) () [5] [6] set_world) =
     Fail (Foreign ''invalid signature'') \<and>
   wrapped_cache (snd (VerifiedSet ref_immudb (ref_client (Some [8])) () [5] [6] set_world))
     ''signer.key'' = Some (state_at 1 [1])"
proof -
  let ?c = "ref_client (Some [8])"
  have c: "wrapped_cache set_world (ApiKey ?c) = Some (state_at 1 [1])"
    by (simp add: wrapped_cache_def ref_defs)
  have r: "fst (VerifiedSet ref_immudb ?c () [5] [6] set_world) = Fail (Foreign ''invalid signature'')"
    by (simp add: set_eval)
  from VerifiedSet_outcomes [OF ref_session surjective_pairing c, of ref_immudb "()" "[5]" "[6]"] r
  show ?thesis by auto
qed

text \<open>C20. The streamed setter keeps to the same discipline: a failed \<open>StreamVerifiedSet\<close> leaves the trusted
  state as it was, and a success returns the header of a transaction that passed the check, for the
  keys and values collected from the caller's readers, with the new state stored and signed.\<close>

theorem StreamVerifiedSet_outcomes:
  assumes stream: "stream_session ss locked cached slot c S"
    and "StreamVerifiedSet F S c ctx kvs w = (r, w')" and "cached w (ApiKey c) = Some st"
  shows "cached w' (ApiKey c) = Some st \<and> (\<forall>x. r \<noteq> Ok x) \<or>
    (\<exists>v0 v1 stdKVs kvs' answer tx ns. collect_kvs S kvs v0 = (Ok (stdKVs, kvs'), v1) \<and>
       streamVerifiedSet_check F st (ApiKey c) stdKVs answer = Ok ns \<and>
       VerifiableTx_Tx answer = Some tx \<and> check_signature F c ns = Ok () \<and>
       cached w' (ApiKey c) = Some ns \<and> r = Ok (Tx_Header tx))"
proof (cases "kvs = []")
  case True
  with assms(2,3) show ?thesis by (auto simp: StreamVerifiedSet_def)
next
  case False
  from stream have session: "client_session ss locked cached slot c" by (simp add: stream_session_def)
  from assms(2) False have run:
    "check_then_store F c ctx (StreamVerifiedSet_fetch F S c ctx kvs) w = (r, w')"
    by (simp add: StreamVerifiedSet_def)
  from client_session.check_then_store_outcome [OF session run
      stream_session.session_streams_quiet(1) [OF stream] assms(3)]
  show ?thesis by (fastforce simp: StreamVerifiedSet_fetch_def ok_simps)
qed

abbreviation ref_kvs :: "bytes StreamKeyValue list" where
  "ref_kvs \<equiv> [\<lparr>Key = Some \<lparr>Content = [5], Size = 1\<rparr>, Value = Some \<lparr>Content = [6], Size = 1\<rparr>\<rparr>]"

lemmas stream_set_eval = StreamVerifiedSet_def StreamVerifiedSet_fetch_def tee_read_def protocol_defs
  wrapper_defs stub_defs streamVerifiedSet_check_def set_target_check_def ref_defs Let_def
  wrapped_cache_def index_def

theorem StreamVerifiedSet_outcomes_witness:
  "fst (StreamVerifiedSet ref_immudb ref_lib (ref_client (Some [8])) () ref_kvs set_world) =
     Fail (Foreign ''invalid signature'') \<and>
   wrapped_cache (snd (StreamVerifiedSet ref_immudb ref_lib (ref_client (Some [8])) () ref_kvs set_world))
     ''signer.key'' = Some (state_at 1 [1])"
proof -
  let ?c = "ref_client (Some [8])"
  have c: "wrapped_cache set_world (ApiKey ?c) = Some (state_at 1 [1])"
    by (simp add: wrapped_cache_def ref_defs)
  have r: "fst (StreamVerifiedSet ref_immudb ref_lib ?c () ref_kvs set_world) =
      Fail (Foreign ''invalid signature'')"
    by (simp add: stream_set_eval)
  from StreamVerifiedSet_outcomes [OF ref_stream_session surjective_pairing c, of ref_immudb "()" ref_kvs] r
  show ?thesis by auto
qed

text \<open>C21. \<open>StreamVerifiedGet\<close> checks the signature before it stores: a failed call leaves the trusted state
  as it was, and a success returns the entry of an answer that passed the check.\<close>

theorem StreamVerifiedGet_outcomes:
  assumes stream: "stream_session ss locked cached slot c S"
    and "StreamVerifiedGet F S c ctx req w = (r, w')" and "cached w (ApiKey c) = Some st"
  shows "cached w' (ApiKey c) = Some st \<and> (\<forall>x. r \<noteq> Ok x) \<or>
    (\<exists>ve ns. streamVerifiedGet_check F st ve req (ApiKey c) = Ok ns \<and> check_signature F c ns = Ok () \<and>
       cached w' (ApiKey c) = Some ns \<and> r = Ok (VerifiableEntry_Entry ve))"
proof -
  from stream have session: "client_session ss locked cached slot c" by (simp add: stream_session_def)
  from client_session.check_then_store_outcome [OF session assms(2) [unfolded StreamVerifiedGet_def]
      stream_session.session_streams_quiet(2) [OF stream] assms(3)]
  show ?thesis by (fastforce simp: StreamVerifiedGet_fetch_def ok_simps)
qed

abbreviation ref_get_req :: VerifiableGetRequest where
  "ref_get_req \<equiv> \<lparr>VerifiableGetRequest_KeyRequest = Some (key_request [5]),
     VerifiableGetRequest_ProveSinceTx = 1\<rparr>"

abbreviation stream_get_world :: world where
  "stream_get_world \<equiv> (world_at (state_at 1 [1]) [])\<lparr>w_ventries := [ref_answer]\<rparr>"

lemmas stream_get_eval = StreamVerifiedGet_def StreamVerifiedGet_fetch_def streamVerifiedGet_check_def
  protocol_defs wrapper_defs stub_defs verify_defs ref_defs Let_def wrapped_cache_def zero_Entry_def

theorem StreamVerifiedGet_outcomes_witness:
  "fst (StreamVerifiedGet ref_immudb ref_lib (ref_client (Some [8])) () ref_get_req stream_get_world) =
     Fail (Foreign ''invalid signature'') \<and>
   wrapped_cache (snd (StreamVerifiedGet ref_immudb ref_lib (ref_client (Some [8])) () ref_get_req
     stream_get_world)) ''signer.key'' = Some (state_at 1 [1])"
proof -
  let ?c = "ref_client (Some [8])"
  have c: "wrapped_cache stream_get_world (ApiKey ?c) = Some (state_at 1 [1])"
    by (simp add: wrapped_cache_def ref_defs)
  have r: "fst (StreamVerifiedGet ref_immudb ref_lib ?c () ref_get_req stream_get_world) =
      Fail (Foreign ''invalid signature'')"
    by (simp add: stream_get_eval)
  from StreamVerifiedGet_outcomes [OF ref_stream_session surjective_pairing c, of ref_immudb "()" ref_get_req] r
  show ?thesis by auto
qed

end
