(* ===== verification/Client_Interface.thy ===== *)
theory Client_Interface
  imports Client_Runs
begin

text \<open>
  The exported interface of the package, \<open>LcClientIf\<close> (\<open>lc_client.go\<close>), method by method, and the
  implementation the package has for it, a pointer to an \<open>LcClient\<close>.

  An interface value is a record of its methods. The methods of a pointer read and write the client it
  points to, so their state \<open>'s\<close> is that client next to the world. The receiving loops of the streams may
  not return; the variadic call options are a list. \<open>if_call\<close> is one call of any method, with any outcome.
\<close>

section \<open>The interface\<close>

record ('s, 'ctx, 'k, 'rd) LcClientIf =
  If_VCNSetArtifacts :: "'ctx \<Rightarrow> VCNArtifactsRequest \<Rightarrow> ('s, VCNArtifactsResponse) io"
  If_VCNSearchArtifacts :: "'ctx \<Rightarrow> VCNSearchRequest \<Rightarrow> ('s, EntryList) io"
  If_VCNGetArtifacts :: "'ctx \<Rightarrow> VCNArtifactsGetRequest \<Rightarrow> ('s, EntryList) io"
  If_VCNGetClientSignature ::
    "'ctx \<Rightarrow> VCNGetClientSignatureRequest \<Rightarrow> CallOption list \<Rightarrow> ('s, VCNGetClientSignatureResponse) io"
  If_Health :: "'ctx \<Rightarrow> ('s, wire) io"
  If_CurrentState :: "'ctx \<Rightarrow> ('s, ImmutableState) io"
  If_Feats :: "'ctx \<Rightarrow> ('s, Features) io"
  If_SetFile :: "'ctx \<Rightarrow> bytes \<Rightarrow> string \<Rightarrow> ('s, TxHeader) io"
  If_GetFile :: "'ctx \<Rightarrow> bytes \<Rightarrow> string \<Rightarrow> ('s, Entry) io"
  If_Connect :: "('s, unit) io"
  If_Disconnect :: "('s, unit) io"
  If_SetServerSigningPubKey :: "'k option \<Rightarrow> ('s, unit) io"
  If_GetApiKey :: "('s, string) io"
  If_VCNLabelsSet ::
    "'ctx \<Rightarrow> LabelsSetRequest option list \<Rightarrow> CallOption list \<Rightarrow> ('s, VCNLabelsSetResponse) io"
  If_VCNLabelsUpdate ::
    "'ctx \<Rightarrow> string \<Rightarrow> VCNLabelsOp option list \<Rightarrow> CallOption list \<Rightarrow> ('s, VCNLabelsUpdateResponse) io"
  If_VCNLabelsGet ::
    "'ctx \<Rightarrow> LabelsGetRequest option list \<Rightarrow> CallOption list \<Rightarrow> ('s, VCNLabelsGetResponse) io"
  If_VCNGetAttachment ::
    "'ctx \<Rightarrow> string \<Rightarrow> string \<Rightarrow> string \<Rightarrow> ('s, VCNGetAttachmentResponse) io"
  If_Set :: "'ctx \<Rightarrow> bytes \<Rightarrow> bytes \<Rightarrow> ('s, TxHeader) io"
  If_VerifiedSet :: "'ctx \<Rightarrow> bytes \<Rightarrow> bytes \<Rightarrow> ('s, TxHeader option) io"
  If_Get :: "'ctx \<Rightarrow> bytes \<Rightarrow> ('s, Entry) io"
  If_GetAt :: "'ctx \<Rightarrow> bytes \<Rightarrow> u64 \<Rightarrow> ('s, Entry) io"
  If_VerifiedGet :: "'ctx \<Rightarrow> bytes \<Rightarrow> ('s, Entry option) io"
  If_VerifiedGetSince :: "'ctx \<Rightarrow> bytes \<Rightarrow> u64 \<Rightarrow> ('s, Entry option) io"
  If_VerifiedGetAt :: "'ctx \<Rightarrow> bytes \<Rightarrow> u64 \<Rightarrow> ('s, Entry option) io"
  If_GetAll :: "'ctx \<Rightarrow> wire \<Rightarrow> ('s, Entries) io"
  If_SetAll :: "'ctx \<Rightarrow> SetRequest \<Rightarrow> ('s, TxHeader) io"
  If_SetMulti :: "'ctx \<Rightarrow> SetMultiRequest \<Rightarrow> ('s, SetMultiResponse) io"
  If_ExecAll :: "'ctx \<Rightarrow> wire \<Rightarrow> ('s, TxHeader) io"
  If_Scan :: "'ctx \<Rightarrow> wire \<Rightarrow> ('s, Entries) io"
  If_ZScan :: "'ctx \<Rightarrow> wire \<Rightarrow> ('s, ZEntries) io"
  If_History :: "'ctx \<Rightarrow> wire \<Rightarrow> ('s, Entries) io"
  If_ZScanExt :: "'ctx \<Rightarrow> wire \<Rightarrow> ('s, ZItemExtList) io"
  If_HistoryExt :: "'ctx \<Rightarrow> wire \<Rightarrow> ('s, ItemExtList) io"
  If_VerifiedGetExt :: "'ctx \<Rightarrow> bytes \<Rightarrow> ('s, VerifiableItemExt) io"
  If_VerifiedGetExtSince ::
    "'ctx \<Rightarrow> bytes \<Rightarrow> u64 \<Rightarrow> ('s, VerifiableItemExt) io"
  If_VerifiedGetExtAt :: "'ctx \<Rightarrow> bytes \<Rightarrow> u64 \<Rightarrow> ('s, VerifiableItemExt) io"
  If_VerifiedGetExtAtMulti ::
    "'ctx \<Rightarrow> bytes list \<Rightarrow> u64 list \<Rightarrow> ('s, multi_result) io"
  If_StreamSet :: "'ctx \<Rightarrow> 'rd StreamKeyValue list \<Rightarrow> ('s, TxHeader) io"
  If_StreamGet :: "'ctx \<Rightarrow> KeyRequest \<Rightarrow> ('s, Entry) io"
  If_StreamVerifiedSet :: "'ctx \<Rightarrow> 'rd StreamKeyValue list \<Rightarrow> ('s, TxHeader option) io"
  If_StreamVerifiedGet :: "'ctx \<Rightarrow> VerifiableGetRequest \<Rightarrow> ('s, Entry option) io"
  If_StreamScan :: "'ctx \<Rightarrow> wire \<Rightarrow> 's \<Rightarrow> (Entries go \<times> 's) option"
  If_StreamZScan :: "'ctx \<Rightarrow> wire \<Rightarrow> 's \<Rightarrow> (ZEntries go \<times> 's) option"
  If_StreamHistory :: "'ctx \<Rightarrow> wire \<Rightarrow> 's \<Rightarrow> (Entries go \<times> 's) option"
  If_StreamExecAll :: "'ctx \<Rightarrow> wire \<Rightarrow> ('s, TxHeader) io"

section \<open>The pointer\<close>

text \<open>A method that leaves the client alone, the same for one that may not return, and one that updates it.\<close>

definition on_pointer :: "('c \<Rightarrow> ('w, 'a) io) \<Rightarrow> ('c \<times> 'w, 'a) io" where
  "on_pointer m = (\<lambda>(c, w). case m c w of (r, w') \<Rightarrow> (r, (c, w')))"

definition on_pointer_loop :: "('c \<Rightarrow> 'w \<Rightarrow> ('a go \<times> 'w) option) \<Rightarrow> 'c \<times> 'w \<Rightarrow> ('a go \<times> 'c \<times> 'w) option" where
  "on_pointer_loop m = (\<lambda>(c, w). map_option (\<lambda>(r, w'). (r, (c, w'))) (m c w))"

definition updating :: "('c \<Rightarrow> 'w \<Rightarrow> ('a go \<times> 'c) \<times> 'w) \<Rightarrow> ('c \<times> 'w, 'a) io" where
  "updating m = (\<lambda>(c, w). case m c w of ((r, c'), w') \<Rightarrow> (r, (c', w')))"

definition client_pointer ::
    "('w, 'ctx) Platform \<Rightarrow> ('ip, 'dp, 'tx, 'md, 'es, 'k) immudb \<Rightarrow> ('w, 'rd) StreamLib \<Rightarrow> 'w FileSystem \<Rightarrow>
     (('w, 'ctx, 'k, 'rd) StreamClient \<times> 'w, 'ctx, 'k, 'rd) LcClientIf" where
  "client_pointer P F S fs =
    \<lparr>If_VCNSetArtifacts = \<lambda>ctx req. on_pointer (\<lambda>c. VCNSetArtifacts c ctx req),
     If_VCNSearchArtifacts = \<lambda>ctx req. on_pointer (\<lambda>c. VCNSearchArtifacts c ctx req),
     If_VCNGetArtifacts = \<lambda>ctx req. on_pointer (\<lambda>c. VCNGetArtifacts F c ctx req),
     If_VCNGetClientSignature = \<lambda>ctx req opts.
       on_pointer (\<lambda>c. VCNGetClientSignature c ctx req opts),
     If_Health = \<lambda>ctx. on_pointer (\<lambda>c. Health c ctx),
     If_CurrentState = \<lambda>ctx. on_pointer (\<lambda>c. CurrentState c ctx),
     If_Feats = \<lambda>ctx. on_pointer (\<lambda>c. Feats c ctx),
     If_SetFile = \<lambda>ctx key filePath. on_pointer (\<lambda>c. SetFile fs c ctx key filePath),
     If_GetFile = \<lambda>ctx key filePath. on_pointer (\<lambda>c. GetFile fs c ctx key filePath),
     If_Connect = updating (Connect P),
     If_Disconnect = updating Disconnect,
     If_SetServerSigningPubKey = \<lambda>key. updating (\<lambda>c w. ((Ok (), SetServerSigningPubKey c key), w)),
     If_GetApiKey = on_pointer (\<lambda>c. ret (GetApiKey c)),
     If_VCNLabelsSet = \<lambda>ctx req opts. on_pointer (\<lambda>c. VCNLabelsSet c ctx req opts),
     If_VCNLabelsUpdate = \<lambda>ctx hash ops opts.
       on_pointer (\<lambda>c. VCNLabelsUpdate c ctx hash ops opts),
     If_VCNLabelsGet = \<lambda>ctx req opts. on_pointer (\<lambda>c. VCNLabelsGet c ctx req opts),
     If_VCNGetAttachment = \<lambda>ctx signerID artifactHash attachHash.
       on_pointer (\<lambda>c. VCNGetAttachment c ctx signerID artifactHash attachHash),
     If_Set = \<lambda>ctx key val. on_pointer (\<lambda>c. Set c ctx key val),
     If_VerifiedSet = \<lambda>ctx key val. on_pointer (\<lambda>c. VerifiedSet F c ctx key val),
     If_Get = \<lambda>ctx key. on_pointer (\<lambda>c. Get c ctx key),
     If_GetAt = \<lambda>ctx key tx. on_pointer (\<lambda>c. GetAt c ctx key tx),
     If_VerifiedGet = \<lambda>ctx key. on_pointer (\<lambda>c. VerifiedGet F c ctx key),
     If_VerifiedGetSince = \<lambda>ctx key tx. on_pointer (\<lambda>c. VerifiedGetSince F c ctx key tx),
     If_VerifiedGetAt = \<lambda>ctx key tx. on_pointer (\<lambda>c. VerifiedGetAt F c ctx key tx),
     If_GetAll = \<lambda>ctx req. on_pointer (\<lambda>c. GetAll c ctx req),
     If_SetAll = \<lambda>ctx kvList. on_pointer (\<lambda>c. SetAll c ctx kvList),
     If_SetMulti = \<lambda>ctx req. on_pointer (\<lambda>c. SetMulti c ctx req),
     If_ExecAll = \<lambda>ctx req. on_pointer (\<lambda>c. ExecAll c ctx req),
     If_Scan = \<lambda>ctx req. on_pointer (\<lambda>c. Scan c ctx req),
     If_ZScan = \<lambda>ctx req. on_pointer (\<lambda>c. ZScan c ctx req),
     If_History = \<lambda>ctx req. on_pointer (\<lambda>c. History c ctx req),
     If_ZScanExt = \<lambda>ctx req. on_pointer (\<lambda>c. ZScanExt c ctx req),
     If_HistoryExt = \<lambda>ctx req. on_pointer (\<lambda>c. HistoryExt c ctx req),
     If_VerifiedGetExt = \<lambda>ctx key. on_pointer (\<lambda>c. VerifiedGetExt F c ctx key),
     If_VerifiedGetExtSince = \<lambda>ctx key tx. on_pointer (\<lambda>c. VerifiedGetExtSince F c ctx key tx),
     If_VerifiedGetExtAt = \<lambda>ctx key tx. on_pointer (\<lambda>c. VerifiedGetExtAt F c ctx key tx),
     If_VerifiedGetExtAtMulti = \<lambda>ctx keys txs.
       on_pointer (\<lambda>c. VerifiedGetExtAtMulti F c ctx keys txs),
     If_StreamSet = \<lambda>ctx kvs. on_pointer (\<lambda>c. StreamSet c ctx kvs),
     If_StreamGet = \<lambda>ctx req. on_pointer (\<lambda>c. StreamGet S c ctx req),
     If_StreamVerifiedSet = \<lambda>ctx kvs. on_pointer (\<lambda>c. StreamVerifiedSet F S c ctx kvs),
     If_StreamVerifiedGet = \<lambda>ctx req. on_pointer (\<lambda>c. StreamVerifiedGet F S c ctx req),
     If_StreamScan = \<lambda>ctx req. on_pointer_loop (\<lambda>c. StreamScan S c ctx req),
     If_StreamZScan = \<lambda>ctx req. on_pointer_loop (\<lambda>c. StreamZScan S c ctx req),
     If_StreamHistory = \<lambda>ctx req. on_pointer_loop (\<lambda>c. StreamHistory S c ctx req),
     If_StreamExecAll = \<lambda>ctx req. on_pointer (\<lambda>c. StreamExecAll c ctx req)\<rparr>"

section \<open>Calls\<close>

inductive if_call :: "('s, 'ctx, 'k, 'rd) LcClientIf \<Rightarrow> 's \<Rightarrow> 's \<Rightarrow> bool" for I where
  if_VCNSetArtifacts: "If_VCNSetArtifacts I ctx req s = (r, s') \<Longrightarrow> if_call I s s'"
| if_VCNSearchArtifacts: "If_VCNSearchArtifacts I ctx req s = (r, s') \<Longrightarrow> if_call I s s'"
| if_VCNGetArtifacts: "If_VCNGetArtifacts I ctx req s = (r, s') \<Longrightarrow> if_call I s s'"
| if_VCNGetClientSignature: "If_VCNGetClientSignature I ctx req opts s = (r, s') \<Longrightarrow> if_call I s s'"
| if_Health: "If_Health I ctx s = (r, s') \<Longrightarrow> if_call I s s'"
| if_CurrentState: "If_CurrentState I ctx s = (r, s') \<Longrightarrow> if_call I s s'"
| if_Feats: "If_Feats I ctx s = (r, s') \<Longrightarrow> if_call I s s'"
| if_SetFile: "If_SetFile I ctx key filePath s = (r, s') \<Longrightarrow> if_call I s s'"
| if_GetFile: "If_GetFile I ctx key filePath s = (r, s') \<Longrightarrow> if_call I s s'"
| if_Connect: "If_Connect I s = (r, s') \<Longrightarrow> if_call I s s'"
| if_Disconnect: "If_Disconnect I s = (r, s') \<Longrightarrow> if_call I s s'"
| if_SetServerSigningPubKey: "If_SetServerSigningPubKey I key s = (r, s') \<Longrightarrow> if_call I s s'"
| if_GetApiKey: "If_GetApiKey I s = (r, s') \<Longrightarrow> if_call I s s'"
| if_VCNLabelsSet: "If_VCNLabelsSet I ctx req opts s = (r, s') \<Longrightarrow> if_call I s s'"
| if_VCNLabelsUpdate: "If_VCNLabelsUpdate I ctx hash ops opts s = (r, s') \<Longrightarrow> if_call I s s'"
| if_VCNLabelsGet: "If_VCNLabelsGet I ctx req opts s = (r, s') \<Longrightarrow> if_call I s s'"
| if_VCNGetAttachment: "If_VCNGetAttachment I ctx signerID artifactHash attachHash s = (r, s') \<Longrightarrow> if_call I s s'"
| if_Set: "If_Set I ctx key val s = (r, s') \<Longrightarrow> if_call I s s'"
| if_VerifiedSet: "If_VerifiedSet I ctx key val s = (r, s') \<Longrightarrow> if_call I s s'"
| if_Get: "If_Get I ctx key s = (r, s') \<Longrightarrow> if_call I s s'"
| if_GetAt: "If_GetAt I ctx key tx s = (r, s') \<Longrightarrow> if_call I s s'"
| if_VerifiedGet: "If_VerifiedGet I ctx key s = (r, s') \<Longrightarrow> if_call I s s'"
| if_VerifiedGetSince: "If_VerifiedGetSince I ctx key tx s = (r, s') \<Longrightarrow> if_call I s s'"
| if_VerifiedGetAt: "If_VerifiedGetAt I ctx key tx s = (r, s') \<Longrightarrow> if_call I s s'"
| if_GetAll: "If_GetAll I ctx req s = (r, s') \<Longrightarrow> if_call I s s'"
| if_SetAll: "If_SetAll I ctx kvList s = (r, s') \<Longrightarrow> if_call I s s'"
| if_SetMulti: "If_SetMulti I ctx req s = (r, s') \<Longrightarrow> if_call I s s'"
| if_ExecAll: "If_ExecAll I ctx req s = (r, s') \<Longrightarrow> if_call I s s'"
| if_Scan: "If_Scan I ctx req s = (r, s') \<Longrightarrow> if_call I s s'"
| if_ZScan: "If_ZScan I ctx req s = (r, s') \<Longrightarrow> if_call I s s'"
| if_History: "If_History I ctx req s = (r, s') \<Longrightarrow> if_call I s s'"
| if_ZScanExt: "If_ZScanExt I ctx req s = (r, s') \<Longrightarrow> if_call I s s'"
| if_HistoryExt: "If_HistoryExt I ctx req s = (r, s') \<Longrightarrow> if_call I s s'"
| if_VerifiedGetExt: "If_VerifiedGetExt I ctx key s = (r, s') \<Longrightarrow> if_call I s s'"
| if_VerifiedGetExtSince: "If_VerifiedGetExtSince I ctx key tx s = (r, s') \<Longrightarrow> if_call I s s'"
| if_VerifiedGetExtAt: "If_VerifiedGetExtAt I ctx key tx s = (r, s') \<Longrightarrow> if_call I s s'"
| if_VerifiedGetExtAtMulti: "If_VerifiedGetExtAtMulti I ctx keys txs s = (r, s') \<Longrightarrow> if_call I s s'"
| if_StreamSet: "If_StreamSet I ctx kvs s = (r, s') \<Longrightarrow> if_call I s s'"
| if_StreamGet: "If_StreamGet I ctx req s = (r, s') \<Longrightarrow> if_call I s s'"
| if_StreamVerifiedSet: "If_StreamVerifiedSet I ctx kvs s = (r, s') \<Longrightarrow> if_call I s s'"
| if_StreamVerifiedGet: "If_StreamVerifiedGet I ctx req s = (r, s') \<Longrightarrow> if_call I s s'"
| if_StreamScan: "If_StreamScan I ctx req s = Some (r, s') \<Longrightarrow> if_call I s s'"
| if_StreamZScan: "If_StreamZScan I ctx req s = Some (r, s') \<Longrightarrow> if_call I s s'"
| if_StreamHistory: "If_StreamHistory I ctx req s = Some (r, s') \<Longrightarrow> if_call I s s'"
| if_StreamExecAll: "If_StreamExecAll I ctx req s = (r, s') \<Longrightarrow> if_call I s s'"

inductive_cases if_callE: "if_call I s s'"

lemma on_pointer_eq: "(on_pointer m (c, w) = (r, s')) = (\<exists>w'. m c w = (r, w') \<and> s' = (c, w'))"
  by (auto simp: on_pointer_def split: prod.splits)

lemma on_pointer_loop_eq: "(on_pointer_loop m (c, w) = Some (r, s')) = (\<exists>w'. m c w = Some (r, w') \<and> s' = (c, w'))"
  by (auto simp: on_pointer_loop_def)

lemma updating_eq: "(updating m (c, w) = (r, s')) = (\<exists>c' w'. m c w = ((r, c'), w') \<and> s' = (c', w'))"
  by (auto simp: updating_def split: prod.splits)

lemmas pointer_eqs = on_pointer_eq on_pointer_loop_eq updating_eq

lemmas read_variants = VerifiedGet_def VerifiedGetSince_def VerifiedGetAt_def VerifiedGetExt_def
  VerifiedGetExtSince_def VerifiedGetExtAt_def VerifiedGetExtAtMulti_def

text \<open>Every call through the interface is a step of the client, a \<open>Connect\<close>, or does nothing.\<close>

lemma if_call_cases:
  assumes "if_call (client_pointer P F S fs) (c, w) (c', w')"
  shows "client_step F S fs (c, w) (c', w') \<or> (\<exists>r. Connect P c w = ((r, c'), w')) \<or> (c', w') = (c, w)"
  using assms
  by (rule if_callE)
    (simp_all only: client_pointer_def LcClientIf.simps pointer_eqs Pair_inject,
      auto simp: read_variants intro: client_step.intros split: if_splits)

end
