(* ===== verification/Client_Lifetime.thy ===== *)
theory Client_Lifetime
  imports Client_Interface
begin

text \<open>
  A client over its whole life: any sequence of calls through \<open>LcClientIf\<close>, \<open>Connect\<close> and
  \<open>Disconnect\<close> among them, whatever they return.

  \<open>wired\<close> is the well-formedness of a client object: its connections were dialled and its state service
  is the repository's wrapper around one that immudb provided. The locale \<open>platform\<close> is what a lifetime
  relies on; the locale \<open>live_state\<close> adds to the contract of a state service that it makes progress.
\<close>

section \<open>Well-formed clients\<close>

definition dialled :: "('w, 'ctx) Platform \<Rightarrow> ('w, 'ctx) ClientConn \<Rightarrow> bool" where
  "dialled P cc = (\<exists>target opts v v'. grpc_Dial P target opts v = (Ok cc, v'))"

definition provided :: "('w, 'ctx) Platform \<Rightarrow> ('w, 'ctx) StateServiceIf \<Rightarrow> bool" where
  "provided P ss = (\<exists>ca l sp up v v'. NewStateService P ca l sp up v = (Ok ss, v'))"

definition wired :: "('w, 'ctx) Platform \<Rightarrow> ('w, 'ctx, 'k, 'sf) LcClient \<Rightarrow> bool" where
  "wired P c =
     ((\<forall>cc. ServiceClient c = Some cc \<longrightarrow> dialled P cc) \<and>
      (\<forall>cc. clientConn c = Some cc \<longrightarrow> dialled P cc) \<and>
      (\<forall>ss. StateService c = Some ss \<longrightarrow> (\<exists>ss0. provided P ss0 \<and> ss = lcStateService (sha256 P) ss0)))"

text \<open>What the options of \<open>NewLcClient\<close> fixed, and the two values the hash of the API key can have.\<close>

definition configuration :: "('w, 'ctx, 'k, 'sf) LcClient \<Rightarrow>
    (string \<times> string \<times> int \<times> string) \<times> string list \<times> DialOption list \<times> RetryOption list \<times> wire \<times> int \<times> 'sf \<times> LcLogger" where
  "configuration c = ((Dir c, Host c, Port c, ApiKey c), MetadataPairs c, DialOptions c, RetryOptions c,
     TimestampService c, StreamChunkSize c, StreamServiceFactory c, logger c)"

definition hash_of :: "('w, 'ctx) Platform \<Rightarrow> ('w, 'ctx, 'k, 'sf) LcClient \<Rightarrow> string" where
  "hash_of P c = connect_ApiKeyHash (sha256 P) (ApiKey c) (ApiKeyHash c)"

definition same_settings ::
    "('w, 'ctx) Platform \<Rightarrow> ('w, 'ctx, 'k, 'sf) LcClient \<Rightarrow> ('w, 'ctx, 'k, 'sf) LcClient \<Rightarrow> bool" where
  "same_settings P c c' = (configuration c' = configuration c \<and>
     (ApiKeyHash c' = ApiKeyHash c \<or> ApiKeyHash c' = hash_of P c))"

lemma connect_ApiKeyHash_idem [simp]:
  "connect_ApiKeyHash sha k (connect_ApiKeyHash sha k old) = connect_ApiKeyHash sha k old"
  by (simp add: connect_ApiKeyHash_def Let_def)

lemma same_settings_refl [simp]: "same_settings P c c"
  by (simp add: same_settings_def)

lemma same_settings_trans: "same_settings P a b \<Longrightarrow> same_settings P b c \<Longrightarrow> same_settings P a c"
  by (auto simp: same_settings_def hash_of_def configuration_def)

lemma same_settingsD:
  "same_settings P c c' \<Longrightarrow> ApiKey c' = ApiKey c"
  "same_settings P c c' \<Longrightarrow> StreamServiceFactory c' = StreamServiceFactory c"
  by (simp_all add: same_settings_def configuration_def)

text \<open>\<open>Connect\<close> on every branch.\<close>

lemma Connect_cases:
  assumes "Connect P c w = ((r, c'), w')"
  obtains c1 where "c1 = c\<lparr>ApiKeyHash := connect_ApiKeyHash (sha256 P) (ApiKey c) (ApiKeyHash c)\<rparr>"
    and "(c' = c1 \<or> c' = c1\<lparr>clientConn := None\<rparr>) \<and>
       (\<exists>q. grpc_Dial P (Host c @ '':'' @ fmt_d (Port c)) (DialOptions c) w = (q, w') \<and> (\<forall>cc. q \<noteq> Ok cc))"
  | c1 cc v q where "c1 = c\<lparr>ApiKeyHash := connect_ApiKeyHash (sha256 P) (ApiKey c) (ApiKeyHash c),
         clientConn := Some cc, ServiceClient := Some cc\<rparr>"
    and "grpc_Dial P (Host c @ '':'' @ fmt_d (Port c)) (DialOptions c) w = (Ok cc, v)"
    and "NewStateService P (FileCache (Dir c)) (logger c) (LcStateProvider_CurrentState (NewLcStateProvider cc))
        (LcUuidProvider_CurrentUUID (SERVER_UUID_HEADER P) (NewLcUUIDProvider cc)) v = (q, w')"
    and "c' = c1 \<or> c' = c1\<lparr>StateService := None\<rparr> \<or>
       (\<exists>ss. q = Ok ss \<and> c' = c1\<lparr>StateService := Some (lcStateService (sha256 P) ss)\<rparr>)"
proof -
  obtain d v where d: "grpc_Dial P (Host c @ '':'' @ fmt_d (Port c)) (DialOptions c) w = (d, v)"
    by (cases "grpc_Dial P (Host c @ '':'' @ fmt_d (Port c)) (DialOptions c) w")
  show thesis
  proof (cases d)
    case (Ok cc)
    obtain q v' where q: "NewStateService P (FileCache (Dir c)) (logger c) (LcStateProvider_CurrentState (NewLcStateProvider cc))
        (LcUuidProvider_CurrentUUID (SERVER_UUID_HEADER P) (NewLcUUIDProvider cc)) v = (q, v')"
      by (cases "NewStateService P (FileCache (Dir c)) (logger c) (LcStateProvider_CurrentState (NewLcStateProvider cc))
        (LcUuidProvider_CurrentUUID (SERVER_UUID_HEADER P) (NewLcUUIDProvider cc)) v")
    show thesis
      by (rule that(2) [OF refl]; use assms d [unfolded Ok] q in
        \<open>cases q; force simp: Connect_def NewLcStateService_def tryE_def Let_def\<close>)
  qed (rule that(1) [OF refl]; use assms d in \<open>force simp: Connect_def Let_def\<close>)+
qed

lemma Connect_wired:
  assumes "Connect P c w = ((r, c'), w')" and "wired P c"
  shows "wired P c' \<and> same_settings P c c'"
  using assms(1)
proof (cases rule: Connect_cases)
  case (2 c1 cc v q)
  then have "dialled P cc" and "\<forall>ss. q = Ok ss \<longrightarrow> provided P ss"
    unfolding dialled_def provided_def by blast+
  with 2 assms(2) show ?thesis by (auto simp: wired_def same_settings_def configuration_def hash_of_def)
qed (use assms(2) in \<open>auto simp: wired_def same_settings_def configuration_def hash_of_def\<close>)

lemma call_wired:
  assumes "if_call (client_pointer P F S fs) (c, w) (c', w')" and "wired P c"
  shows "wired P c' \<and> same_settings P c c'"
proof -
  consider "client_step F S fs (c, w) (c', w')" | r where "Connect P c w = ((r, c'), w')" | "c' = c"
    using if_call_cases [OF assms(1)] by auto
  then show ?thesis
  proof cases
    case 1
    from client_step_client [OF this] assms(2) show ?thesis by (auto simp: wired_def same_settings_def configuration_def)
  next
    case 2
    from Connect_wired [OF this assms(2)] show ?thesis .
  qed (use assms(2) in simp)
qed

lemma calls_wired:
  assumes "(if_call (client_pointer P F S fs))\<^sup>*\<^sup>* (c, w) (c', w')" and "wired P c"
  shows "wired P c' \<and> same_settings P c c'"
  using assms
proof (induction "(c', w')" arbitrary: c' w' rule: rtranclp_induct)
  case (step y)
  obtain d v where y: "y = (d, v)" by (cases y)
  with step have "wired P d" "same_settings P c d" by auto
  with call_wired [OF step(2) [unfolded y]] show ?case by (auto intro: same_settings_trans)
qed simp

lemma network_runs_map:
  assumes "network_runs obs c S fs"
  shows "network_runs (\<lambda>w. f (obs w)) c S fs"
  using assms
  unfolding network_runs_def network_runs_axioms_def stream_network_def stream_network_axioms_def
    client_network_def quiet_connection_def quiet_def
  by simp

section \<open>What a lifetime relies on\<close>

text \<open>
  Dialling and providing leave the lock and the cache alone, what is dialled never touches them, and what is
  provided keeps the contract of a state service. \<open>cached\<close> is the cache by the names states have in it;
  \<open>view\<close> is the same cache as a client sees it, by API keys.
\<close>

locale platform =
  fixes P :: "('w, 'ctx) Platform"
    and locked :: "'w \<Rightarrow> bool" and cached :: "'w \<Rightarrow> string \<Rightarrow> ImmutableState option" and slot :: "string \<Rightarrow> string"
  assumes dial_quiet: "quiet (\<lambda>w. (locked w, cached w)) (grpc_Dial P target opts)"
    and provide_quiet: "quiet (\<lambda>w. (locked w, cached w)) (NewStateService P ca l sp up)"
    and dialled_quiet: "dialled P cc \<Longrightarrow> quiet_connection (\<lambda>w. (locked w, cached w)) cc"
    and provided_trusted: "provided P ss \<Longrightarrow> trusted_state ss locked cached slot"
begin

abbreviation name_of :: "string \<Rightarrow> string" where
  "name_of \<equiv> obfuscateApiKey (sha256 P)"

abbreviation view :: "'w \<Rightarrow> string \<Rightarrow> ImmutableState option" where
  "view w k \<equiv> cached w (name_of k)"

abbreviation raw :: "'w \<Rightarrow> bool \<times> (string \<Rightarrow> ImmutableState option)" where
  "raw \<equiv> \<lambda>w. (locked w, cached w)"

lemma Connect_quiet: "Connect P c w = ((r, c'), w') \<Longrightarrow> raw w' = raw w"
  by (erule Connect_cases) (auto dest!: quietD [OF dial_quiet] quietD [OF provide_quiet])

lemma wired_network:
  assumes "network_runs raw c S fs" and "wired P d" and "StreamServiceFactory d = StreamServiceFactory c"
  shows "network_runs raw d S fs"
  using assms dialled_quiet
  by (auto simp: network_runs_def stream_network_def stream_network_axioms_def client_network_def wired_def)

lemma wired_session:
  assumes net: "network_runs raw c S fs" and "wired P c" and ss: "StateService c = Some ss"
  shows "client_runs ss locked view (\<lambda>k. slot (name_of k)) c S fs"
proof -
  from assms obtain ss0 where "provided P ss0" and s: "ss = lcStateService (sha256 P) ss0"
    by (auto simp: wired_def)
  then have trusted: "trusted_state ss locked view (\<lambda>k. slot (name_of k))"
    unfolding s by (intro wrapped_state.wrapper_trusted wrapped_state.intro provided_trusted)
  from network_runs_map [OF net, of "\<lambda>(l, m). (l, \<lambda>k. m (name_of k))"]
  have "network_runs (\<lambda>w. (locked w, view w)) c S fs" by simp
  with trusted ss show ?thesis
    by (auto simp: client_runs_def stream_session_def network_runs_def stream_network_def
        intro!: client_session.intro client_session_axioms.intro)
qed

text \<open>One call.\<close>

lemma call_kept:
  assumes call: "if_call (client_pointer P F S fs) (c, w) (c', w')"
    and net: "network_runs raw c S fs" and wired: "wired P c"
  shows "(\<not> locked w \<longrightarrow> \<not> locked w') \<and>
     trust_kept F (\<lambda>k. slot (name_of k)) (ApiKey c) (view w) (view w')"
proof -
  have same: ?thesis if "raw w' = raw w" using that by simp
  consider "client_step F S fs (c, w) (c', w')" | r where "Connect P c w = ((r, c'), w')" | "w' = w"
    using if_call_cases [OF call] by auto
  then show ?thesis
  proof cases
    case 1
    show ?thesis
    proof (cases "StateService c")
      case None
      from network_runs.unwired_step [OF net None 1] show ?thesis by (rule same)
    next
      case (Some ss)
      from client_runs.step_kept [OF wired_session [OF net wired Some] 1] show ?thesis .
    qed
  qed (auto intro!: same dest: Connect_quiet)
qed

text \<open>Any number of calls.\<close>

lemma calls_kept:
  assumes "(if_call (client_pointer P F S fs))\<^sup>*\<^sup>* (c, w) (c', w')"
    and net: "network_runs raw c S fs" and wired: "wired P c"
  shows "(\<not> locked w \<longrightarrow> \<not> locked w') \<and>
     trust_kept F (\<lambda>k. slot (name_of k)) (ApiKey c) (view w) (view w')"
  using assms(1)
proof (induction "(c', w')" arbitrary: c' w' rule: rtranclp_induct)
  case (step y)
  obtain d v where y: "y = (d, v)" by (cases y)
  from calls_wired [OF step(1) [unfolded y] wired]
  have d: "wired P d" "ApiKey d = ApiKey c" "StreamServiceFactory d = StreamServiceFactory c"
    by (auto dest: same_settingsD)
  from call_kept [OF step(2) [unfolded y] wired_network [OF net d(1,3)] d(1)] step(3) [OF y] d(2)
  show ?case by (auto intro: trust_kept_trans)
qed simp

end

end
