(* ===== verification/Lifetime_Guarantees.thy ===== *)
theory Lifetime_Guarantees
  imports Trust_Guarantees Client_Lifetime
begin

text \<open>
  What holds over the whole life of a client, through the exported interface: calls of any method in any
  order, including calls before \<open>Connect\<close>, failed and repeated \<open>Connect\<close>s, and calls after \<open>Disconnect\<close>.
\<close>

section \<open>The platform of the reference world\<close>

interpretation ref_platform: platform ref_platform w_locked w_cache "\<lambda>k. k"
  by unfold_locales
    (use ref_conn.quiet_connection_axioms ref.trusted_state_axioms in
      \<open>auto simp: dialled_def provided_def ref_platform_def quiet_def quiet_connection_def trusted_state_def\<close>)

text \<open>A client as it is before \<open>Connect\<close>, and a lifetime: connect, read, disconnect, connect and read again.\<close>

lemma ref_new_unconnected:
  "ServiceClient (ref_new k) = None" "clientConn (ref_new k) = None" "StateService (ref_new k) = None"
  "ApiKey (ref_new k) = ''signer.key''" "serverSigningPubKey (ref_new k) = k"
  by (simp_all add: ref_new_def NewLcClient_def default_LcClient_def option_defs Let_def)

lemma ref_new_wired: "wired ref_platform (ref_new k)"
  by (simp add: wired_def ref_new_unconnected)

lemma ref_new_network:
  "network_runs (\<lambda>w. (w_locked w, w_cache w)) (ref_new k) ref_lib ref_files"
  by unfold_locales
    (auto simp: ref_new_unconnected ref_new_def NewLcClient_def default_LcClient_def option_defs Let_def
      quiet_def ref_lib_def ref_factory_def ref_files_def split: list.splits option.splits)

lemma ref_connects: "Connect ref_platform (ref_new k) w = ((Ok (), ref_client k), w)"
  by (simp add: ref_client_def ref_platform_def Connect_def NewLcStateService_def Let_def)

abbreviation ref_calls where
  "ref_calls \<equiv> (if_call (client_pointer ref_platform ref_immudb ref_lib ref_files))\<^sup>*\<^sup>*"

lemma ref_connect_call: "ref_calls (ref_new k, w) (ref_client k, w)"
  by (rule r_into_rtranclp, rule if_Connect [where r = "Ok ()"])
    (simp add: client_pointer_def updating_def ref_connects)

lemma ref_read_call:
  "ref_calls (c, w) (c, snd (VerifiedGet ref_immudb c ctx key w))"
  by (rule r_into_rtranclp, rule if_VerifiedGet
      [where r = "fst (VerifiedGet ref_immudb c ctx key w)" and ctx = ctx and key = key])
    (simp add: client_pointer_def on_pointer_def split: prod.splits)

text \<open>Connecting, reading with proofs, and disconnecting.\<close>

lemma ref_life:
  "ref_calls (ref_new k, w)
     (ref_client k\<lparr>ServiceClient := None\<rparr>, snd (VerifiedGet ref_immudb (ref_client k) ctx key w))"
proof -
  let ?w = "snd (VerifiedGet ref_immudb (ref_client k) ctx key w)"
  have "clientConn (ref_client k) = Some ref_conn"
    by (simp add: ref_client_def ref_platform_def Connect_def NewLcStateService_def Let_def)
  then have "Disconnect (ref_client k) ?w = ((Ok (), ref_client k\<lparr>ServiceClient := None\<rparr>), ?w)"
    by (simp add: Disconnect_def Let_def ref_conn_def)
  then have "ref_calls (ref_client k, ?w) (ref_client k\<lparr>ServiceClient := None\<rparr>, ?w)"
    by (intro r_into_rtranclp if_Disconnect [where r = "Ok ()"]) (simp add: client_pointer_def updating_def)
  with ref_connect_call ref_read_call show ?thesis by (meson rtranclp_trans)
qed

section \<open>Well-formedness\<close>

text \<open>C15. A client stays well-formed over its life: whatever methods are called, with whatever outcomes, it
  only ever holds connections that were dialled and state services that are the repository's wrapper around
  one immudb provided; what the options configured is never changed; the hash of the API key is the one
  \<open>NewLcClient\<close> left or the one \<open>Connect\<close> derives; and whenever it has a state service it keeps every
  contract its verified operations rely on.\<close>

theorem client_stays_well_formed:
  assumes "(if_call (client_pointer P F S fs))\<^sup>*\<^sup>* (c0, w0) (c, w)" and "wired P c0"
    and "platform P locked cached slot" and "network_runs (\<lambda>w. (locked w, cached w)) c0 S fs"
  shows "wired P c \<and> configuration c = configuration c0 \<and>
     ApiKeyHash c \<in> {ApiKeyHash c0, connect_ApiKeyHash (sha256 P) (ApiKey c0) (ApiKeyHash c0)} \<and>
     (\<forall>ss. StateService c = Some ss \<longrightarrow>
        client_runs ss locked (\<lambda>w k. cached w (obfuscateApiKey (sha256 P) k))
          (\<lambda>k. slot (obfuscateApiKey (sha256 P) k)) c S fs)"
proof -
  from calls_wired [OF assms(1,2)] have c: "wired P c" "same_settings P c0 c" by auto
  from platform.wired_network [OF assms(3,4) c(1)] same_settingsD(2) [OF c(2)]
  have "network_runs (\<lambda>w. (locked w, cached w)) c S fs" by simp
  with platform.wired_session [OF assms(3) this c(1)] c show ?thesis
    by (auto simp: same_settings_def hash_of_def)
qed

theorem client_stays_well_formed_witness:
  "wired ref_platform (ref_client None\<lparr>ServiceClient := None\<rparr>) \<and>
   client_runs (lcStateService (sha256 ref_platform) ref_state) w_locked
     (\<lambda>w k. w_cache w (obfuscateApiKey (sha256 ref_platform) k)) (obfuscateApiKey (sha256 ref_platform))
     (ref_client None\<lparr>ServiceClient := None\<rparr>) ref_lib ref_files"
  using client_stays_well_formed [OF ref_life [of None get_world "()" "[5]"] ref_new_wired
      ref_platform.platform_axioms ref_new_network]
  by simp

section \<open>Trust\<close>



section \<open>One history\<close>





section \<open>Progress\<close>

text \<open>C16. No history of calls can block a later verified read: whatever a client's earlier calls returned, a
  connected client whose server now answers the read with an accepted proof, from the trusted state of the
  cache, and a signed state, gets the entry. It relies on the state service granting a free lock, finding
  what it stores and storing.\<close>

theorem honest_answer_is_returned:
  assumes calls: "(if_call (client_pointer P F S fs))\<^sup>*\<^sup>* (c0, w0) (c, w)" and "wired P c0"
    and platform: "platform P locked cached slot" and "network_runs (\<lambda>w. (locked w, cached w)) c0 S fs"
    and live: "\<And>ss. provided P ss \<Longrightarrow> live_state ss locked cached slot"
    and "\<not> locked w0" and "cached w0 (obfuscateApiKey (sha256 P) (ApiKey c0)) = Some st0"
    and ss: "StateService c = Some ss" and cc: "ServiceClient c = Some cc"
    and honest: "\<And>st v1 v. CacheLock ss w = (Ok (), v1) \<Longrightarrow> GetState ss ctx (ApiKey c) v1 = (Ok st, v) \<Longrightarrow>
      trust_path F st0 st \<Longrightarrow>
      \<exists>answer ns v'. lcServiceClient_VerifiableGet cc ctx
          \<lparr>VerifiableGetRequest_KeyRequest = Some \<lparr>KeyRequest_Key = key, KeyRequest_AtTx = 0, KeyRequest_SinceTx = 0\<rparr>,
           VerifiableGetRequest_ProveSinceTx = ImmutableState_TxId st\<rparr> [] v = (Ok answer, v') \<and>
        verifyGet F st (Some answer) \<lparr>KeyRequest_Key = key, KeyRequest_AtTx = 0, KeyRequest_SinceTx = 0\<rparr>
          (ApiKeyHash c) = Ok ns \<and>
        check_signature F c ns = Ok ()"
  shows "\<exists>x w'. VerifiedGet F c ctx key w = (Ok x, w')"
proof -
  let ?view = "\<lambda>w k. cached w (obfuscateApiKey (sha256 P) k)" and ?slot = "\<lambda>k. slot (obfuscateApiKey (sha256 P) k)"
  from calls_wired [OF calls assms(2)] have c: "wired P c" "ApiKey c = ApiKey c0"
    "StreamServiceFactory c = StreamServiceFactory c0" by (auto dest: same_settingsD)
  from platform.calls_kept [OF platform calls assms(4,2)] assms(6,7) obtain st
    where free: "\<not> locked w" and st: "?view w (ApiKey c) = Some st" and path: "trust_path F st0 st"
    by (auto simp: trust_kept_def c)
  from platform.wired_session [OF platform platform.wired_network [OF platform assms(4) c(1,3)] c(1) ss]
  have session: "client_session ss locked ?view ?slot c"
    by (simp add: client_runs_def stream_session_def)
  from c(1) ss obtain ss0 where "provided P ss0" "ss = lcStateService (sha256 P) ss0" by (auto simp: wired_def)
  then have "live_state ss locked ?view ?slot" using live_state.wrapper_live [OF live] by simp
  with session have live: "live_session ss locked ?view ?slot c" by (rule live_session.intro)
  show ?thesis
    unfolding VerifiedGet_def verifiedGet_def
  proof (rule live_session.store_then_check_runs [OF live free st])
    fix v1 v
    assume v: "CacheLock ss w = (Ok (), v1)" "GetState ss ctx (ApiKey c) v1 = (Ok st, v)"
    from honest [OF v path] show "\<exists>x ns v'. verifiedGet_fetch F c ctx
        \<lparr>KeyRequest_Key = key, KeyRequest_AtTx = 0, KeyRequest_SinceTx = 0\<rparr> st v = (Ok (x, ns), v') \<and>
        check_signature F c ns = Ok ()"
      by (auto simp: verifiedGet_fetch_def cc ok_simps)
  qed (rule client_session.session_fetches_quiet(2) [OF session])
qed

text \<open>A read that is answered with the entry of another key is refused; the next read goes through.\<close>

definition tampered_world :: world where
  "tampered_world = world_at (state_at 1 [1])
     [RepVerifiableEntry (ref_ventry [1] 2 [5] [6]), RepVerifiableEntry (ref_ventry [1] 2 [5] [6])]"

abbreviation refused_world :: world where
  "refused_world \<equiv> snd (VerifiedGet ref_immudb (ref_client None) () [7] tampered_world)"

lemma refused:
  "fst (VerifiedGet ref_immudb (ref_client None) () [7] tampered_world) = Fail ErrCorruptedData"
  "\<not> w_locked refused_world"
  "w_cache refused_world = w_cache tampered_world"
  "w_replies refused_world = [RepVerifiableEntry (ref_ventry [1] 2 [5] [6])]"
  by (simp_all add: VerifiedGet_def tampered_world_def get_eval)

lemma refused_calls: "ref_calls (ref_new None, tampered_world) (ref_client None, refused_world)"
  using ref_connect_call ref_read_call by (rule rtranclp_trans)

theorem honest_answer_is_returned_witness:
  "fst (VerifiedGet ref_immudb (ref_client None) () [7] tampered_world) = Fail ErrCorruptedData \<and>
   (\<exists>x w'. VerifiedGet ref_immudb (ref_client None) () [5] refused_world = (Ok x, w'))"
proof (intro conjI refused(1))
  let ?ss = "lcStateService (sha256 ref_platform) ref_state" and ?r = "\<lparr>KeyRequest_Key = [5], KeyRequest_AtTx = 0,
    KeyRequest_SinceTx = 0\<rparr>"
  have live: "live_state ss w_locked w_cache (\<lambda>k. k)" if "provided ref_platform ss" for ss
    using that ref_live_state by (auto simp: provided_def ref_platform_def)
  have start: "\<not> w_locked tampered_world"
    "w_cache tampered_world (obfuscateApiKey (sha256 ref_platform) (ApiKey (ref_new None))) = Some (state_at 1 [1])"
    by (simp_all add: tampered_world_def ref_defs ref_new_unconnected)
  have honest: "\<exists>answer ns v'. lcServiceClient_VerifiableGet ref_conn () \<lparr>VerifiableGetRequest_KeyRequest = Some ?r,
        VerifiableGetRequest_ProveSinceTx = ImmutableState_TxId st\<rparr> [] v = (Ok answer, v') \<and>
      verifyGet ref_immudb st (Some answer) ?r (ApiKeyHash (ref_client None)) = Ok ns \<and>
      check_signature ref_immudb (ref_client None) ns = Ok ()"
    if "CacheLock ?ss refused_world = (Ok (), v1)"
      and "GetState ?ss () (ApiKey (ref_client None)) v1 = (Ok st, v)" for st v1 v
  proof -
    have "w_replies v = [RepVerifiableEntry (ref_ventry [1] 2 [5] [6])]" "st = state_at 1 [1]"
      using that refused start(2)
      by (auto simp: wrapper_defs ref_state_def ref_new_unconnected split: option.splits if_splits)
    then show ?thesis by (simp add: stub_defs get_eval)
  qed
  show "\<exists>x w'. VerifiedGet ref_immudb (ref_client None) () [5] refused_world = (Ok x, w')"
    by (rule honest_answer_is_returned [OF refused_calls ref_new_wired ref_platform.platform_axioms ref_new_network
          live start ref_client_simps(1,2)])
      (assumption, rule honest)
qed

end
