(* ===== verification/Batch_Checks.thy ===== *)
theory Batch_Checks
  imports Verified_Ops
begin

text \<open>
  What a batch read checks, as a list of checks, and the item whose check comes last: after a batch that succeeded
  the trusted state is the one that this check led to.
\<close>

section \<open>The checks of a batch\<close>

text \<open>The checks of a batch in order: one for every item whose error text is empty.\<close>

fun batch_checks ::
    "('ip, 'dp, 'tx, 'md, 'es, 'k) immudb \<Rightarrow> ('w, 'ctx, 'k, 'sf) LcClient \<Rightarrow> ImmutableState \<Rightarrow>
     KeyRequest list \<Rightarrow> string list \<Rightarrow> VerifiableItemExt option list \<Rightarrow> ImmutableState go list" where
  "batch_checks F c st (kr # reqs) (e # errs) (item # items) =
     (if e = '''' then [verifyGet F st (VerifiableItemExt_GetItem item) kr (ApiKeyHash c)] else []) @
     batch_checks F c st reqs errs items"
| "batch_checks F c st reqs errs items = []"

section \<open>The last of them\<close>

text \<open>The last item without an error text, with its request.\<close>

fun last_checked ::
    "KeyRequest list \<Rightarrow> string list \<Rightarrow> VerifiableItemExt option list \<Rightarrow> (KeyRequest \<times> VerifiableItemExt option) option" where
  "last_checked (kr # reqs) (e # errs) (item # items) =
     (case last_checked reqs errs items of
        Some p \<Rightarrow> Some p
      | None \<Rightarrow> if e = '''' then Some (kr, item) else None)"
| "last_checked reqs errs items = None"

lemma last_checked_None: "(last_checked reqs errs items = None) = (batch_checks F c st reqs errs items = [])"
  by (induction reqs errs items rule: last_checked.induct) (auto split: option.splits)

lemma batch_checks_last:
  "last_checked reqs errs items = Some (kr, item) \<Longrightarrow>
   last (batch_checks F c st reqs errs items) = verifyGet F st (VerifiableItemExt_GetItem item) kr (ApiKeyHash c)"
proof (induction reqs errs items rule: last_checked.induct)
  case (1 kr' reqs e errs item' items)
  then show ?case
    using last_checked_None [of reqs errs items F c st] by (auto split: option.splits if_splits)
qed simp_all

end
