(* ===== verification/Batch_Guarantees.thy ===== *)
theory Batch_Guarantees
  imports Trust_Guarantees Batch_Checks
begin

text \<open>
  What the batch read \<open>verifiedGetExtMulti\<close> and the verified artifact read \<open>VCNGetArtifacts\<close>
  guarantee, and how the streamed checks relate to the plain ones.
\<close>

section \<open>Batches\<close>

text \<open>A batch read that succeeds without an error answers every request: there are as many items and
  error texts as requests, and every item without an error text passed the check, for the request in
  its position, from the state trusted when the batch began, and carries a valid signature.\<close>

theorem verifiedGetExtMulti_accepts:
  assumes session: "client_session ss locked cached slot c"
    and "verifiedGetExtMulti F c ctx reqs w = (Ok (items, errs, None), w')"
    and "cached w (ApiKey c) = Some st"
  shows "length items = length reqs \<and> length errs = length reqs \<and>
     (\<forall>j < length items. errs ! j = '''' \<longrightarrow>
        (\<exists>ns. verifyGet F st (VerifiableItemExt_GetItem (items ! j)) (reqs ! j) (ApiKeyHash c) = Ok ns \<and>
           check_signature F c ns = Ok ()))"
proof -
  from client_session.multi_run(2) [OF session assms(2) refl] assms(3)
  show ?thesis by (auto simp: multi_verified_def)
qed

abbreviation ref_item :: "bytes \<Rightarrow> VerifiableItemExt option" where
  "ref_item val \<equiv> Some (zero_VerifiableItemExt\<lparr>VerifiableItemExt_Item := Some (ref_ventry [1] 2 [5] val)\<rparr>)"

abbreviation multi_world :: "VerifiableItemExt option list \<Rightarrow> string list \<Rightarrow> world" where
  "multi_world items errs \<equiv> world_at (state_at 1 [1]) [RepGetExtMulti
     \<lparr>VerifiableGetExtMultiResponse_Items = items, VerifiableGetExtMultiResponse_Errors = errs\<rparr>]"

lemmas multi_eval = verifiedGetExtMulti_def verifiedGetExtMulti_rest_def protocol_defs wrapper_defs
  stub_defs verify_defs ref_defs Let_def wrapped_cache_def index_def zero_Entry_def
  zero_VerifiableItemExt_def VerifiableItemExt_GetItem_def VerifiableGetExtMultiResponse_GetItems_def
  VerifiableGetExtMultiResponse_GetErrors_def

theorem verifiedGetExtMulti_accepts_witness:
  "fst (verifiedGetExtMulti ref_immudb (ref_client (Some [9])) () [key_request [5], key_request [6]]
     (multi_world [ref_item [7], None] [[], ''gone''])) = Ok ([ref_item [7], None], [[], ''gone''], None) \<and>
   (\<exists>ns. verifyGet ref_immudb (state_at 1 [1]) (VerifiableItemExt_GetItem (ref_item [7])) (key_request [5])
     (ApiKeyHash (ref_client (Some [9]))) = Ok ns)"
proof -
  let ?c = "ref_client (Some [9])" and ?w = "multi_world [ref_item [7], None] [[], ''gone'']"
  let ?run = "verifiedGetExtMulti ref_immudb ?c () [key_request [5], key_request [6]] ?w"
  have r: "fst ?run = Ok ([ref_item [7], None], [[], ''gone''], None)"
    by (simp add: multi_eval)
  then have run: "?run = (Ok ([ref_item [7], None], [[], ''gone''], None), snd ?run)"
    by (metis prod.collapse)
  have c: "wrapped_cache ?w (ApiKey ?c) = Some (state_at 1 [1])"
    by (simp add: wrapped_cache_def ref_defs)
  have first: "\<exists>ns. verifyGet ref_immudb (state_at 1 [1]) (VerifiableItemExt_GetItem (items ! 0))
      (key_request [5]) (ApiKeyHash ?c) = Ok ns"
    if "?run = (Ok (items, errs, None), w')" and "errs ! 0 = ''''" for items errs w'
  proof -
    note acc = verifiedGetExtMulti_accepts [where c = ?c and w = ?w and st = "state_at 1 [1]", OF ref_session that(1) c]
    then have "0 < length items" by simp
    with acc that(2) have "\<exists>ns. verifyGet ref_immudb (state_at 1 [1]) (VerifiableItemExt_GetItem (items ! 0))
        ([key_request [5], key_request [6]] ! 0) (ApiKeyHash ?c) = Ok ns" by blast
    then show ?thesis unfolding nth_Cons_0 .
  qed
  from first [OF run] r show ?thesis unfolding nth_Cons_0 by blast
qed

section \<open>What a batch leaves\<close>

text \<open>
  How far a batch got: the states of a prefix of the checks were stored, all but the last of them being signed
  as well, and the whole list if it succeeded.
\<close>

definition batch_progress ::
    "('ip, 'dp, 'tx, 'md, 'es, 'k) immudb \<Rightarrow> ('w, 'ctx, 'k, 'sf) LcClient \<Rightarrow> ImmutableState go list \<Rightarrow>
     ImmutableState list \<Rightarrow> bool \<Rightarrow> bool" where
  "batch_progress F c checks stored fin =
     (\<exists>rest. checks = map Ok stored @ rest \<and>
        (if fin then rest = [] \<and> (\<forall>ns \<in> set stored. check_signature F c ns = Ok ())
         else \<forall>ns \<in> set (butlast stored). check_signature F c ns = Ok ()))"

lemma batch_progress_Nil [simp]: "batch_progress F c checks [] fin = (fin \<longrightarrow> checks = [])"
  by (simp add: batch_progress_def)

lemma batch_progress_one: "batch_progress F c (Ok ns # checks) [ns] False"
  by (auto simp: batch_progress_def)

lemma batch_progress_Cons:
  "check_signature F c ns = Ok () \<Longrightarrow> batch_progress F c checks stored fin \<Longrightarrow>
   batch_progress F c (Ok ns # checks) (ns # stored) fin"
  by (auto simp: batch_progress_def split: if_splits)

lemma after_loop:
  assumes "tryE m (\<lambda>_. ret x) w = (r, w')" and "m w = (q, v)"
  shows "w' = v" and "(r = Ok x) = (q = Ok ())" and "r = Ok x \<or> (\<forall>y. r \<noteq> Ok y)"
  using assms by (cases q; auto simp: tryE_def)+

context client_session
begin

lemma multi_loop_progress:
  assumes "verifiedGetExtMulti_loop F c ss st reqs errs i items w = (r, w')"
    and "cached w (ApiKey c) = Some cur"
    and "length reqs = i + length items" and "length errs = i + length items"
  shows "\<exists>stored. batch_progress F c (batch_checks F c st (drop i reqs) (drop i errs) items) stored (r = Ok ()) \<and>
     cached w' (ApiKey c) = Some (last (cur # stored))"
  using assms
proof (induction items arbitrary: i w cur)
  case (Cons item items)
  let ?checks = "batch_checks F c st (drop (Suc i) reqs) (drop (Suc i) errs) items"
    and ?v = "verifyGet F st (VerifiableItemExt_GetItem item) (reqs ! i) (ApiKeyHash c)"
  have i: "i < length errs" "i < length reqs" and len: "length reqs = Suc i + length items" "length errs = Suc i + length items"
    using Cons.prems(3,4) by simp_all
  then have index: "index errs i = Ok (errs ! i)" "index reqs i = Ok (reqs ! i)" by (simp_all add: index_def)
  have checks: "batch_checks F c st (drop i reqs) (drop i errs) (item # items) =
      (if errs ! i = '''' then [?v] else []) @ ?checks"
    using i by (simp add: Cons_nth_drop_Suc [symmetric])
  show ?case
  proof (cases "errs ! i = ''''")
    case False
    with Cons.prems(1) index have "verifiedGetExtMulti_loop F c ss st reqs errs (Suc i) items w = (r, w')" by simp
    from Cons.IH [OF this Cons.prems(2) len] False checks show ?thesis by simp
  next
    case True
    show ?thesis
    proof (cases ?v)
      case v: (Ok ns)
      obtain s w1 where s: "SetState ss (ApiKey c) ns w = (s, w1)" by (cases "SetState ss (ApiKey c) ns w")
      show ?thesis
      proof (cases rule: set_state_cases [OF s])
        case 1
        show ?thesis
        proof (cases "check_signature F c ns = Ok ()")
          case sig: True
          with Cons.prems(1) index True v s 1 have
            "verifiedGetExtMulti_loop F c ss st reqs errs (Suc i) items w1 = (r, w')" by (simp add: tryE_def)
          from Cons.IH [OF this 1(2) len] obtain stored where
            "batch_progress F c ?checks stored (r = Ok ())" "cached w' (ApiKey c) = Some (last (ns # stored))" by blast
          then show ?thesis
            using checks True v batch_progress_Cons [OF sig] by (intro exI [of _ "ns # stored"]) simp
        next
          case False
          then have "r \<noteq> Ok ()" "w' = w1"
            using Cons.prems(1) index True v s 1 by (cases "check_signature F c ns"; auto simp: tryE_def)+
          then show ?thesis
            using checks True v 1(2) batch_progress_one [of F c ns] by (intro exI [of _ "[ns]"]) simp
        qed
      next
        case 2
        then have "r \<noteq> Ok ()" "w' = w1"
          using Cons.prems(1) index True v s by (cases s; auto simp: tryE_def)+
        then show ?thesis using 2 Cons.prems(2) by (intro exI [of _ "[]"]) simp
      qed
    qed (use Cons.prems index True in \<open>auto simp: tryE_def intro!: exI [of _ "[]"]\<close>)
  qed
qed (auto intro!: exI [of _ "[]"])

lemma multi_rest_run:
  assumes rest: "verifiedGetExtMulti_rest F c ctx reqs ss st w1 = (r, w2)"
  obtains "cached w2 = cached w1" "\<forall>x. r \<noteq> Ok x"
  | items errs where "length items \<noteq> length reqs \<or> length errs \<noteq> length reqs"
      "r = Ok (items, errs, Some (multi_mismatch (length reqs) (length items) (length errs)))" "cached w2 = cached w1"
  | items errs v q where "length items = length reqs" "length errs = length reqs" "cached v = cached w1"
      "verifiedGetExtMulti_loop F c ss st reqs errs 0 items v = (q, w2)"
      "(r = Ok (items, errs, None)) = (q = Ok ())" "r = Ok (items, errs, None) \<or> (\<forall>x. r \<noteq> Ok x)"
proof (cases "ServiceClient c")
  case (Some cc)
  let ?req = "\<lparr>VerifiableGetExtMultiRequest_Requests = map (\<lambda>kr. Some
      \<lparr>VerifiableGetRequest_KeyRequest = Some kr, VerifiableGetRequest_ProveSinceTx = ImmutableState_TxId st\<rparr>) reqs\<rparr>"
  let ?call = "lcServiceClient_VerifiableGetExtMulti cc ctx ?req []"
  obtain s v where s: "?call w1 = (s, v)" by (cases "?call w1")
  have same: "cached v = cached w1"
    using quietD [OF quiet_connection.verified_stubs_quiet(3) [OF network [OF Some]] s] by simp
  show thesis
  proof (cases s)
    case (Ok resp)
    let ?items = "VerifiableGetExtMultiResponse_GetItems (Some resp)"
      and ?errs = "VerifiableGetExtMultiResponse_GetErrors (Some resp)"
    note step = tryE_step(1) [where m = ?call, OF s [unfolded Ok]]
    show thesis
    proof (cases "length ?items = length reqs \<and> length ?errs = length reqs")
      case True
      obtain q v' where q: "verifiedGetExtMulti_loop F c ss st reqs ?errs 0 ?items v = (q, v')"
        by (cases "verifiedGetExtMulti_loop F c ss st reqs ?errs 0 ?items v")
      from rest True have "tryE (verifiedGetExtMulti_loop F c ss st reqs ?errs 0 ?items) (\<lambda>_.
          ret (?items, ?errs, None)) v = (r, w2)"
        by (simp add: verifiedGetExtMulti_rest_def Let_def Some step)
      note fin = after_loop [OF this q]
      from True show thesis by (intro that(3) [OF _ _ same q [folded fin(1)] fin(2,3)]) simp_all
    next
      case False
      with rest have "r = Ok (?items, ?errs, Some (multi_mismatch (length reqs) (length ?items) (length ?errs)))"
        "w2 = v" by (auto simp: verifiedGetExtMulti_rest_def Let_def Some step)
      with False same show thesis by (intro that(2) [of ?items ?errs]) auto
    qed
  qed (use rest Some s same in \<open>auto simp: verifiedGetExtMulti_rest_def Let_def tryE_def intro: that(1)\<close>)
qed (use rest in \<open>auto simp: verifiedGetExtMulti_rest_def Let_def intro: that(1)\<close>)

end

text \<open>C22. How a batch read ends, on every branch: either the trusted state is as before and nothing is
  returned; or the answer has the wrong size, is handed over with an error that says so, and nothing is
  stored; or the answer has one item and one error text for each request, the items without an error text
  are checked in order, each against the state the batch began with, and the trusted state left behind is
  that of the last one stored: all of them, checked and signed, when the call succeeds, and otherwise those up
  to the first failure, of which only the last may be unsigned.\<close>

theorem batch_read_outcomes:
  assumes session: "client_session ss locked cached slot c"
    and "verifiedGetExtMulti F c ctx reqs w = (r, w')" and "cached w (ApiKey c) = Some st"
  shows "cached w' (ApiKey c) = Some st \<and> (\<forall>x. r \<noteq> Ok x) \<or>
    (\<exists>items errs. (length items \<noteq> length reqs \<or> length errs \<noteq> length reqs) \<and>
       r = Ok (items, errs, Some (multi_mismatch (length reqs) (length items) (length errs))) \<and>
       cached w' (ApiKey c) = Some st) \<or>
    (\<exists>items errs stored. length items = length reqs \<and> length errs = length reqs \<and>
       (r = Ok (items, errs, None) \<or> (\<forall>x. r \<noteq> Ok x)) \<and>
       batch_progress F c (batch_checks F c st reqs errs items) stored (r = Ok (items, errs, None)) \<and>
       cached w' (ApiKey c) = Some (last (st # stored)))"
proof -
  from client_session.with_trusted_state_run [OF session assms(2) [unfolded verifiedGetExtMulti_def]
      client_session.multi_rest_locked [OF session]] assms(3)
  consider "cached w' = cached w" "\<forall>x. r \<noteq> Ok x"
    | w1 w2 where "cached w1 (ApiKey c) = Some st" "cached w' = cached w2"
      "verifiedGetExtMulti_rest F c ctx reqs ss st w1 = (r, w2)" by auto
  then show ?thesis
  proof cases
    case (2 w1 w2)
    from 2(3) show ?thesis
    proof (cases rule: client_session.multi_rest_run [OF session, consumes 1])
      case (3 items errs v q)
      from client_session.multi_loop_progress [OF session 3(4), of st] 3(1-3) 2(1) obtain stored
        where "batch_progress F c (batch_checks F c st reqs errs items) stored (q = Ok ())"
          "cached w2 (ApiKey c) = Some (last (st # stored))" by auto
      with 3 2(2) show ?thesis by (intro disjI2 exI [of _ items] exI [of _ errs] exI [of _ stored]) simp
    qed (use 2 in auto)
  qed (use assms(3) in simp)
qed

text \<open>Of two items the first is accepted; the second does not answer its request, and the batch fails.\<close>

theorem batch_read_outcomes_witness:
  "fst (verifiedGetExtMulti ref_immudb (ref_client None) () [key_request [5], key_request [6]]
     (multi_world [ref_item [7], ref_item [7]] [[], []])) = Fail ErrCorruptedData \<and>
   (\<exists>stored. wrapped_cache (snd (verifiedGetExtMulti ref_immudb (ref_client None) () [key_request [5], key_request [6]]
     (multi_world [ref_item [7], ref_item [7]] [[], []]))) ''signer.key'' = Some (last (state_at 1 [1] # stored)))"
proof -
  let ?c = "ref_client None" and ?w = "multi_world [ref_item [7], ref_item [7]] [[], []]"
  let ?run = "verifiedGetExtMulti ref_immudb ?c () [key_request [5], key_request [6]] ?w"
  have r: "fst ?run = Fail ErrCorruptedData" by (simp add: multi_eval)
  have c: "wrapped_cache ?w (ApiKey ?c) = Some (state_at 1 [1])"
    by (simp add: wrapped_cache_def ref_defs)
  from batch_read_outcomes [OF ref_session surjective_pairing c, of ref_immudb "()" "[key_request [5], key_request [6]]"]
  have "\<exists>stored. wrapped_cache (snd ?run) (ApiKey ?c) = Some (last (state_at 1 [1] # stored))"
    unfolding r by (metis go.distinct(1) last.simps)
  with r show ?thesis by simp
qed

text \<open>A batch answer of the wrong size is reported with the numbers of entries and errors received,
  and nothing is checked or stored: the trusted state is as it was.\<close>

theorem verifiedGetExtMulti_mismatch:
  assumes session: "client_session ss locked cached slot c"
    and "verifiedGetExtMulti F c ctx reqs w = (Ok (items, errs, Some e), w')"
    and "cached w (ApiKey c) = Some st"
  shows "(length items \<noteq> length reqs \<or> length errs \<noteq> length reqs) \<and>
     e = multi_mismatch (length reqs) (length items) (length errs) \<and> cached w' (ApiKey c) = Some st"
proof -
  from client_session.with_trusted_state_run [OF session assms(2) [unfolded verifiedGetExtMulti_def]
      client_session.multi_rest_locked [OF session]] assms(3)
  obtain w1 w2 where w1: "cached w1 (ApiKey c) = Some st" "cached w' = cached w2"
    and rest: "verifiedGetExtMulti_rest F c ctx reqs ss st w1 = (Ok (items, errs, Some e), w2)"
    by auto
  from rest obtain cc req resp where cc: "ServiceClient c = Some cc"
    and call: "lcServiceClient_VerifiableGetExtMulti cc ctx req [] w1 = (Ok resp, w2)"
    and res: "length items \<noteq> length reqs \<or> length errs \<noteq> length reqs"
      "e = multi_mismatch (length reqs) (length items) (length errs)"
    by (auto simp: verifiedGetExtMulti_rest_def Let_def ok_simps split: if_splits)
  from quietD [OF quiet_connection.verified_stubs_quiet(3) [OF client_session.session_network [OF session cc]] call]
  have "cached w2 = cached w1" by simp
  with w1 res show ?thesis by simp
qed

theorem verifiedGetExtMulti_mismatch_witness:
  "fst (verifiedGetExtMulti ref_immudb (ref_client None) () [key_request [5]] (multi_world [] [])) =
     Ok ([], [], Some (NewError ''expected 1 entries and 1 errors, got 0 entries and 0 errors'')) \<and>
   wrapped_cache (snd (verifiedGetExtMulti ref_immudb (ref_client None) () [key_request [5]] (multi_world [] [])))
     ''signer.key'' = Some (state_at 1 [1])"
proof -
  let ?c = "ref_client None" and ?w = "multi_world [] []"
  let ?run = "verifiedGetExtMulti ref_immudb ?c () [key_request [5]] ?w"
  have msg: "multi_mismatch 1 0 0 =
      NewError ''expected 1 entries and 1 errors, got 0 entries and 0 errors''" by code_simp
  have r: "fst ?run = Ok ([], [], Some (multi_mismatch 1 0 0))"
    by (simp add: multi_eval)
  then have run: "?run = (Ok ([], [], Some (multi_mismatch 1 0 0)), snd ?run)"
    by (metis prod.collapse)
  have c: "wrapped_cache ?w (ApiKey ?c) = Some (state_at 1 [1])"
    by (simp add: wrapped_cache_def ref_defs)
  from verifiedGetExtMulti_mismatch [OF ref_session run c] r msg show ?thesis by auto
qed

section \<open>Artifacts\<close>

text \<open>C23. How a verified artifact read of one hash ends, on every branch: either the trusted state is as
  before and nothing is returned; or the hash is valid hexadecimal, the first entry of the answer has a
  proof whose full key contains the decoded hash, that entry passed the check from the trusted state,
  the new state is stored, and the signature decides between the whole answer and an error.\<close>

theorem VCNGetArtifacts_outcomes:
  assumes session: "client_session ss locked cached slot c"
    and "VCNGetArtifacts F c ctx req w = (r, w')" and "cached w (ApiKey c) = Some st"
    and "VCNArtifactsGetRequest_Hashes req = [h]" and "VCNArtifactsGetRequest_Verify req"
  shows "cached w' (ApiKey c) = Some st \<and> (\<forall>x. r \<noteq> Ok x) \<or>
    (\<exists>hash resp e proof rest ns. hex_DecodeString h = Ok hash \<and>
       EntryList_Entries resp = Some e # rest \<and> LcEntry_Proof e = Some proof \<and>
       sublist hash (Proof_ImmudbFullKey proof) \<and> artifacts_check F st (ApiKeyHash c) hash resp = Ok ns \<and>
       cached w' (ApiKey c) = Some ns \<and> r = tryG (check_signature F c ns) (\<lambda>_. Ok resp))"
proof -
  have shape: "\<exists>e rest proof. EntryList_Entries resp = Some e # rest \<and> LcEntry_Proof e = Some proof \<and>
      sublist hash (Proof_ImmudbFullKey proof)" if "artifacts_check F st k hash resp = Ok ns" for k hash resp ns
    using that by (cases "EntryList_Entries resp")
      (auto simp: artifacts_check_def Let_def ok_simps bytes_contains_sublist split: if_splits)
  from assms(2,4,5) have "store_then_check F c ctx (VCNGetArtifacts_fetch F c ctx req) w = (r, w')"
    by (simp add: VCNGetArtifacts_def)
  from client_session.store_then_check_outcome [OF session this
      client_session.session_fetches_quiet(4) [OF session] assms(3)]
  consider "cached w' (ApiKey c) = Some st \<and> (\<forall>x. r \<noteq> Ok x)"
    | x ns w1 w2 where "VCNGetArtifacts_fetch F c ctx req st w1 = (Ok (x, ns), w2)"
      "cached w' (ApiKey c) = Some ns" "r = tryG (check_signature F c ns) (\<lambda>_. Ok x)" by blast
  then show ?thesis
  proof cases
    case 2
    from VCNGetArtifacts_fetch_Ok [OF 2(1)] assms(4) obtain hash
      where "hex_DecodeString h = Ok hash" and chk: "artifacts_check F st (ApiKeyHash c) hash x = Ok ns"
      by auto
    with shape [OF chk] 2 show ?thesis by blast
  qed blast
qed

abbreviation artifact_req :: VCNArtifactsGetRequest where
  "artifact_req \<equiv> \<lparr>VCNArtifactsGetRequest_Hashes = [''05''], VCNArtifactsGetRequest_Verify = True,
     VCNArtifactsGetRequest_ProveSinceTx = 0, VCNArtifactsGetRequest_UID = [],
     VCNArtifactsGetRequest_SignerID = []\<rparr>"

abbreviation artifact_entry :: "LcEntry option" where
  "artifact_entry \<equiv> Some (zero_LcEntry\<lparr>LcEntry_Tx := 2, LcEntry_Value := [6], LcEntry_Proof :=
     Some \<lparr>Proof_VerifiableTx = Some (ref_vtx [1] 2 [5, 0, 6]), Proof_InclusionProof = Some [],
        Proof_Metadata = None, Proof_ImmudbFullKey = [5]\<rparr>\<rparr>)"

abbreviation artifact_world :: "LcEntry option list \<Rightarrow> world" where
  "artifact_world es \<equiv> world_at (state_at 1 [1])
     [RepEntryList \<lparr>EntryList_Entries = es, EntryList_ContinuationToken = []\<rparr>]"

lemmas artifact_eval = VCNGetArtifacts_def VCNGetArtifacts_fetch_def artifacts_check_def protocol_defs
  wrapper_defs stub_defs verify_defs ref_defs Let_def wrapped_cache_def zero_Entry_def zero_LcEntry_def
  from_hex_def bytes_contains.simps

theorem VCNGetArtifacts_outcomes_witness:
  "fst (VCNGetArtifacts ref_immudb (ref_client (Some [9])) () artifact_req (artifact_world [artifact_entry])) =
     Ok \<lparr>EntryList_Entries = [artifact_entry], EntryList_ContinuationToken = []\<rparr> \<and>
   (\<exists>hash. hex_DecodeString ''05'' = Ok hash)"
proof -
  let ?c = "ref_client (Some [9])" and ?w = "artifact_world [artifact_entry]"
  have c: "wrapped_cache ?w (ApiKey ?c) = Some (state_at 1 [1])"
    by (simp add: wrapped_cache_def ref_defs)
  have r: "fst (VCNGetArtifacts ref_immudb ?c () artifact_req ?w) =
      Ok \<lparr>EntryList_Entries = [artifact_entry], EntryList_ContinuationToken = []\<rparr>"
    by (simp add: artifact_eval)
  have "VCNArtifactsGetRequest_Hashes artifact_req = [''05'']" "VCNArtifactsGetRequest_Verify artifact_req"
    by simp_all
  from VCNGetArtifacts_outcomes [OF ref_session surjective_pairing c this, of ref_immudb "()"] r
  show ?thesis by auto
qed

text \<open>An artifact request that asks to verify more than one hash is refused before anything is locked,
  sent or stored; one that does not ask to verify exactly one hash is only forwarded, and leaves the
  cache and its lock alone.\<close>

theorem VCNGetArtifacts_not_verified:
  assumes session: "client_session ss locked cached slot c"
    and "VCNGetArtifacts F c ctx req w = (r, w')"
    and "length (VCNArtifactsGetRequest_Hashes req) \<noteq> 1 \<or> \<not> VCNArtifactsGetRequest_Verify req"
  shows "cached w' = cached w \<and> locked w' = locked w \<and>
    (if 1 < length (VCNArtifactsGetRequest_Hashes req) \<and> VCNArtifactsGetRequest_Verify req
     then r = Fail verify_one_hash \<and> w' = w
     else derefE (ServiceClient c) (\<lambda>cc. lcServiceClient_VCNGetArtifacts cc ctx req []) w = (r, w'))"
proof -
  have unit: "tryE m (\<lambda>x. ret x) = m" for m :: "('a, 'z) io"
    by (rule ext) (auto simp: tryE_def split: prod.splits go.splits)
  show ?thesis
    using assms(2,3) quietD [OF client_session.session_fetches_quiet(5) [OF session], of ctx req w r w']
    by (auto simp: VCNGetArtifacts_def unit split: if_splits)
qed

theorem VCNGetArtifacts_not_verified_witness:
  "VCNGetArtifacts ref_immudb (ref_client None) () (artifact_req\<lparr>VCNArtifactsGetRequest_Hashes := [[], []]\<rparr>)
     empty_world = (Fail verify_one_hash, empty_world)"
proof -
  let ?req = "artifact_req\<lparr>VCNArtifactsGetRequest_Hashes := [[], []]\<rparr>"
  have "length (VCNArtifactsGetRequest_Hashes ?req) \<noteq> 1 \<or> \<not> VCNArtifactsGetRequest_Verify ?req" by simp
  from VCNGetArtifacts_not_verified [OF ref_session surjective_pairing this, where F = ref_immudb and ctx = "()" and w = empty_world]
  show ?thesis by (simp add: prod_eq_iff)
qed

text \<open>Only the first entry of a verified artifact answer is checked: the check gives the same result
  whatever the other entries are.\<close>

theorem artifacts_check_first_only:
  "artifacts_check F st k hash \<lparr>EntryList_Entries = e # es, EntryList_ContinuationToken = t\<rparr> =
   artifacts_check F st k hash \<lparr>EntryList_Entries = e # es', EntryList_ContinuationToken = t'\<rparr>"
  by (simp add: artifacts_check_def)

text \<open>An answer with no entries, for a valid hash, makes the verified read panic with an index out of
  range instead of returning an error.\<close>

theorem VCNGetArtifacts_empty_panics:
  assumes "ServiceClient c = Some cc" and "VCNArtifactsGetRequest_Hashes req = [h]"
    and "hex_DecodeString h = Ok hash"
    and "lcServiceClient_VCNGetArtifacts cc ctx
       (req\<lparr>VCNArtifactsGetRequest_ProveSinceTx := ImmutableState_TxId st\<rparr>) [] w = (Ok resp, w')"
    and "EntryList_Entries resp = []"
  shows "VCNGetArtifacts_fetch F c ctx req st w = (Panic IndexOutOfRange, w')"
  using assms by (simp add: VCNGetArtifacts_fetch_def artifacts_check_def tryE_def Let_def)

theorem VCNGetArtifacts_empty_panics_witness:
  "fst (VCNGetArtifacts_fetch ref_immudb (ref_client None) () artifact_req (state_at 1 [1]) (artifact_world []))
     = Panic IndexOutOfRange"
proof -
  let ?req = "artifact_req\<lparr>VCNArtifactsGetRequest_ProveSinceTx := 1\<rparr>"
  let ?resp = "\<lparr>EntryList_Entries = [], EntryList_ContinuationToken = []\<rparr>"
  have "fst (lcServiceClient_VCNGetArtifacts ref_conn () ?req [] (artifact_world [])) = Ok ?resp"
    by (simp add: stub_defs tryE_def ref_defs)
  then have call: "lcServiceClient_VCNGetArtifacts ref_conn ()
      (artifact_req\<lparr>VCNArtifactsGetRequest_ProveSinceTx := ImmutableState_TxId (state_at 1 [1])\<rparr>) []
      (artifact_world []) =
      (Ok ?resp, snd (lcServiceClient_VCNGetArtifacts ref_conn () ?req [] (artifact_world [])))"
    by (simp add: prod_eq_iff state_at_def)
  have hex: "hex_DecodeString ''05'' = Ok [5]" by (simp add: from_hex_def)
  have "VCNGetArtifacts_fetch ref_immudb (ref_client None) () artifact_req (state_at 1 [1])
      (artifact_world []) =
      (Panic IndexOutOfRange, snd (lcServiceClient_VCNGetArtifacts ref_conn () ?req [] (artifact_world [])))"
    by (rule VCNGetArtifacts_empty_panics [OF ref_client_simps(2) _ hex call]) simp_all
  then show ?thesis by (simp only: fst_conv)
qed

text \<open>
  A server can leave the client, after one successful batch, with an older state than one it had stored a moment
  before: here the first item moves the trusted transaction from 1 to 3, the second one, checked from 1 again, to 2.
\<close>

abbreviation back_items :: "VerifiableItemExt option list" where
  "back_items \<equiv> [Some (zero_VerifiableItemExt\<lparr>VerifiableItemExt_Item := Some (ref_ventry [1] 3 [5] [7])\<rparr>),
     Some (zero_VerifiableItemExt\<lparr>VerifiableItemExt_Item := Some (ref_ventry [1] 2 [5] [6])\<rparr>)]"

abbreviation back_world :: world where
  "back_world \<equiv> world_at (state_at 1 [1]) [RepGetExtMulti \<lparr>VerifiableGetExtMultiResponse_Items = back_items,
     VerifiableGetExtMultiResponse_Errors = [[], []]\<rparr>]"

theorem batch_read_can_go_back:
  "fst (VerifiedGetExtAtMulti ref_immudb (ref_client (Some [9])) () [[5], [5]] [3, 2] back_world) =
     Ok (back_items, [[], []], None) \<and>
   map_go ImmutableState_TxId (verifyGet ref_immudb (state_at 1 [1]) (Some (ref_ventry [1] 3 [5] [7])) (key_request [5]) h) = Ok 3 \<and>
   map_option ImmutableState_TxId (wrapped_cache (snd (VerifiedGetExtAtMulti ref_immudb (ref_client (Some [9])) ()
     [[5], [5]] [3, 2] back_world)) ''signer.key'') = Some 2"
  by (simp add: VerifiedGetExtAtMulti_def multi_eval ref_defs)

section \<open>What a streamed read asks for\<close>

text \<open>\<open>StreamVerifiedGet\<close> asks the same question whatever is trusted, where \<open>verifiedGet\<close> asks for a proof from the
  trusted transaction.\<close>

theorem stream_get_asks_regardless_of_state:
  "StreamVerifiedGet_fetch F S c ctx req st =
     tryE (derefE (ServiceClient c) (\<lambda>cc.
       tryE (lcServiceClient_StreamVerifiableGet cc ctx req []) (\<lambda>gs.
       tryE (ver_Next (StreamServiceFactory c) cc gs) (\<lambda>(e, t, p, vr). ParseVerifiableEntry S e t p vr (StreamChunkSize c)))))
     (\<lambda>ve. tryE (lift (streamVerifiedGet_check F st ve req (ApiKey c))) (\<lambda>ns. ret (VerifiableEntry_Entry ve, ns)))"
proof (cases "ServiceClient c")
  case None
  then show ?thesis by (simp add: StreamVerifiedGet_fetch_def fun_eq_iff tryE_def)
next
  case (Some cc)
  then show ?thesis by (simp only: StreamVerifiedGet_fetch_def derefE.simps tryE_assoc case_prod_unfold)
qed

section \<open>Streamed and plain checks\<close>



text \<open>C28. The streamed setter's check, on a single key and value, accepts what \<open>VerifiedSet\<close> accepts and
  more: it does not look at the metadata of the entry, so it also accepts an entry marked as deleted.\<close>

theorem streamed_set_check_vs_VerifiedSet:
  "(verifiedSet_check F st k key val answer = Ok ns) =
   (streamVerifiedSet_check F st k [\<lparr>KeyValue_Key = key, KeyValue_Value = val\<rparr>] answer = Ok ns \<and>
    \<not> (\<exists>tx m. TxFromProto F (VerifiableTx_Tx answer) = Ok tx \<and>
        index (tx_entries_md F tx) 0 = Ok (Some m) \<and> md_deleted F m))"
  unfolding verifiedSet_check_iff_stream by blast

end
