(* ===== verification/Ledger.thy ===== *)
theory Ledger
  imports Batch_Checks Streams
begin

text \<open>
  The ledger behind the proofs: what an accepted answer says about a key, independently of the call that
  asked for it, and why two accepted answers cannot contradict each other.

  \<open>recorded F extends key val t st\<close> says that the history the state \<open>st\<close> stands for has, at transaction
  \<open>t\<close>, an entry with this key and value: a header with the hash the history has there commits to entries
  that include it. Every check of the client establishes it for the state to trust next, and it is kept
  along every path of proofs. The locale \<open>ledger\<close> collects what is known of immudb's hashes and proofs,
  with collisions left out; in it \<open>recorded\<close> determines the value, which is the abstract ledger a client
  sees: a partial function from keys and transactions to values that only grows.
\<close>

section \<open>What a header commits to\<close>

text \<open>A header whose accumulated hash is the first argument has entries with the digest that is the second.\<close>

inductive header_of :: "('ip, 'dp, 'tx, 'md, 'es, 'k) immudb \<Rightarrow> bytes \<Rightarrow> bytes \<Rightarrow> bool" for F where
  target: "DualProofFromProto F (Some proof) = Ok dp \<Longrightarrow> DualProof_TargetTxHeader proof = Some h \<Longrightarrow>
     dual_target_alh F dp = Ok alh \<Longrightarrow> header_of F alh (DigestFromProto F (TxHeader_EH h))"
| source: "DualProofFromProto F (Some proof) = Ok dp \<Longrightarrow> DualProof_SourceTxHeader proof = Some h \<Longrightarrow>
     dual_source_alh F dp = Ok alh \<Longrightarrow> header_of F alh (DigestFromProto F (TxHeader_EH h))"
| tx: "tx_header_alh F tx = Ok alh \<Longrightarrow> header_of F alh (tx_header_eh F tx)"

inductive_cases header_ofE: "header_of F alh eh"

definition has_entry ::
    "('ip, 'dp, 'tx, 'md, 'es, 'k) immudb \<Rightarrow> bytes \<Rightarrow> bytes \<Rightarrow> bytes \<Rightarrow> bool" where
  "has_entry F eh key val = (\<exists>v digest ip md. EntrySpecDigestFor F v = Ok digest \<and>
     VerifyInclusion F ip (digest (EncodeEntrySpec F key md val)) eh)"

definition recorded ::
    "('ip, 'dp, 'tx, 'md, 'es, 'k) immudb \<Rightarrow> (u64 \<times> bytes \<Rightarrow> u64 \<times> bytes \<Rightarrow> bool) \<Rightarrow>
     bytes \<Rightarrow> bytes \<Rightarrow> u64 \<Rightarrow> ImmutableState \<Rightarrow> bool" where
  "recorded F extends key val t st = (t \<le> ImmutableState_TxId st \<and>
     (\<exists>alh eh. header_of F alh eh \<and> has_entry F eh key val \<and> extends (t, alh) (history_of F st)))"

lemma recordedI:
  "header_of F alh eh \<Longrightarrow> has_entry F eh key val \<Longrightarrow> extends (t, alh) (history_of F st) \<Longrightarrow>
   t \<le> ImmutableState_TxId st \<Longrightarrow> recorded F extends key val t st"
  by (auto simp: recorded_def)

lemma has_entryI:
  "EntrySpecDigestFor F v = Ok digest \<Longrightarrow> VerifyInclusion F ip (digest (EncodeEntrySpec F key md val)) eh \<Longrightarrow>
   has_entry F eh key val"
  unfolding has_entry_def by blast

section \<open>What a streamed write reads\<close>

text \<open>
  The keys and values that \<open>StreamVerifiedSet\<close> called in a world reads from its request: once, after the lock is
  taken and the trusted state is known.
\<close>

definition streamed_kvs ::
    "('w, 'rd) StreamLib \<Rightarrow> ('w, 'ctx, 'k, 'rd) StreamClient \<Rightarrow> 'ctx \<Rightarrow> 'rd StreamKeyValue list \<Rightarrow> ('w, KeyValue list) io" where
  "streamed_kvs S c ctx skvs =
     derefE (StateService c) (\<lambda>ss.
     tryE (CacheLock ss) (\<lambda>_.
     tryE (GetState ss ctx (ApiKey c)) (\<lambda>state.
     tryE (collect_kvs S skvs) (\<lambda>(stdKVs, kvs'). ret stdKVs))))"

section \<open>What is known of immudb\<close>

text \<open>
  Dual proofs go forward along one history; accumulated hashes have the length of a digest; a history has one
  hash at each transaction; reading a transaction keeps its id; and, collisions left out, an accumulated hash determines the digest of the entries
  of its header, and that digest the value of each key, a transaction having at most one entry for a key.
\<close>

locale ledger =
  fixes F :: "('ip, 'dp, 'tx, 'md, 'es, 'k) immudb" and extends :: "u64 \<times> bytes \<Rightarrow> u64 \<times> bytes \<Rightarrow> bool"
  assumes proofs_extend: "dual_proof_extends F extends" and proofs_ordered: "dual_proof_ordered F"
    and digest_digest [simp]: "DigestFromProto F (DigestFromProto F d) = DigestFromProto F d"
    and alh_digest: "header_of F alh eh \<Longrightarrow> DigestFromProto F alh = alh"
    and tx_keeps_id: "TxFromProto F (Some ptx) = Ok tx \<Longrightarrow> Tx_Header ptx = Some hdr \<Longrightarrow>
      tx_header_id F tx = TxHeader_Id hdr"
    and one_hash: "extends (t, a) h \<Longrightarrow> extends (t, b) h \<Longrightarrow> a = b"
    and header_binds: "header_of F alh eh \<Longrightarrow> header_of F alh eh' \<Longrightarrow> eh = eh'"
    and entries_bind: "has_entry F eh key val \<Longrightarrow> has_entry F eh key val' \<Longrightarrow> val = val'"
begin

lemma extends_refl [simp, intro]: "extends h h"
  using proofs_extend unfolding dual_proof_extends_def by (blast dest: reflpD)

lemma extends_trans: "extends a b \<Longrightarrow> extends b c \<Longrightarrow> extends a c"
  using proofs_extend unfolding dual_proof_extends_def by (blast dest: transpD)

lemma proof_extends: "VerifyDualProof F dp s t sa ta \<Longrightarrow> extends (s, sa) (t, DigestFromProto F ta)"
  using proofs_extend unfolding dual_proof_extends_def by blast

text \<open>One history, one value.\<close>

lemma recorded_unique:
  assumes "recorded F extends key val t st" and "recorded F extends key val' t st"
  shows "val = val'"
proof -
  from assms obtain a eh a' eh' where "header_of F a eh" "has_entry F eh key val" "extends (t, a) (history_of F st)"
    and "header_of F a' eh'" "has_entry F eh' key val'" "extends (t, a') (history_of F st)"
    by (auto simp: recorded_def)
  moreover from this one_hash have "a = a'" by blast
  ultimately show ?thesis using header_binds entries_bind by blast
qed

text \<open>What is recorded stays so.\<close>

lemma recorded_kept:
  assumes "recorded F extends key val t st" and path: "trust_path F st st'" and "0 < t"
  shows "recorded F extends key val t st'"
proof -
  from assms(1) obtain alh eh where rec: "header_of F alh eh" "has_entry F eh key val"
    "extends (t, alh) (history_of F st)" "t \<le> ImmutableState_TxId st" by (auto simp: recorded_def)
  with \<open>0 < t\<close> have "0 < ImmutableState_TxId st" by simp
  from trust_path_extends [OF proofs_extend proofs_ordered digest_digest path this]
  have "extends (history_of F st) (history_of F st')" .
  moreover from trust_path_mono [OF proofs_ordered path] rec(4) have "t \<le> ImmutableState_TxId st'" by simp
  ultimately show ?thesis using rec by (auto intro: recordedI extends_trans)
qed

lemma recorded_agree:
  "recorded F extends key val t st \<Longrightarrow> trust_path F st st' \<Longrightarrow> 0 < t \<Longrightarrow>
   recorded F extends key val' t st' \<Longrightarrow> val = val'"
  using recorded_kept recorded_unique by blast

section \<open>What the checks establish\<close>

lemma target_recorded:
  assumes "header_of F alh eh" and "has_entry F eh key val"
    and "ImmutableState_TxId ns = t" and "ImmutableState_TxHash ns = alh"
  shows "recorded F extends key val t ns"
proof (rule recordedI [OF assms(1,2)])
  have "history_of F ns = (t, alh)" using assms by (simp add: history_of_def alh_digest [OF assms(1)])
  then show "extends (t, alh) (history_of F ns)" by simp
qed (use assms in simp)

lemma verifyGet_recorded:
  assumes "verifyGet F st (Some ve) kr k = Ok ns"
    and "VerifiableEntry_Entry ve = Some e" and "Entry_ReferencedBy e = None"
  shows "recorded F extends (KeyRequest_Key kr) (Entry_Value e) (Entry_Tx e) ns"
proof (cases "ImmutableState_TxId st \<le> Entry_Tx e")
  case True
  with assms show ?thesis
    by (auto simp: verifyGet_def get_entry_spec_def get_proof_ends_def Let_def ok_simps
        split: if_splits intro!: target_recorded header_of.target intro: has_entryI)
next
  case False
  then have pos: "0 < ImmutableState_TxId st" by (cases "ImmutableState_TxId st = 0") (simp_all add: word_neq_0_conv)
  with False assms obtain eh alh dp where "header_of F alh eh" and "has_entry F eh (KeyRequest_Key kr) (Entry_Value e)"
    and "VerifyDualProof F dp (Entry_Tx e) (ImmutableState_TxId st) alh (DigestFromProto F (ImmutableState_TxHash st))"
    and "ImmutableState_TxId ns = ImmutableState_TxId st"
      "ImmutableState_TxHash ns = DigestFromProto F (ImmutableState_TxHash st)"
    by (fastforce simp: verifyGet_def get_entry_spec_def get_proof_ends_def Let_def ok_simps
        split: if_splits intro: header_of.source has_entryI)
  with False show ?thesis by (intro recordedI) (auto simp: history_of_def dest: proof_extends)
qed

text \<open>Of a batch whose checks all succeeded, the last one checked is recorded in the state it led to.\<close>

lemma batch_recorded:
  assumes "last (batch_checks F c st reqs errs items) = Ok ns" and "last_checked reqs errs items = Some (kr, Some x)"
    and "VerifiableItemExt_Item x = Some ve" and "VerifiableEntry_Entry ve = Some e" and "Entry_ReferencedBy e = None"
  shows "recorded F extends (KeyRequest_Key kr) (Entry_Value e) (Entry_Tx e) ns"
proof -
  from assms(1,3) batch_checks_last [OF assms(2), of F c st] have "verifyGet F st (Some ve) kr (ApiKeyHash c) = Ok ns"
    by (simp add: VerifiableItemExt_GetItem_def)
  from verifyGet_recorded [OF this assms(4,5)] show ?thesis .
qed

lemma artifacts_check_recorded:
  assumes "artifacts_check F st k hash resp = Ok ns"
  shows "\<exists>e proof rest. EntryList_Entries resp = Some e # rest \<and> LcEntry_Proof e = Some proof \<and>
     recorded F extends (Proof_ImmudbFullKey proof) (LcEntry_Value e) (LcEntry_Tx e) ns"
  using assms
  by (cases "EntryList_Entries resp")
    (auto simp: artifacts_check_def Let_def ok_simps zero_Entry_def split: if_splits dest!: verifyGet_recorded)

lemma set_target_check_Ok:
  "set_target_check F st k vtx tx = Ok ns \<Longrightarrow>
   header_of F (ImmutableState_TxHash ns) (tx_header_eh F tx) \<and> ImmutableState_TxId ns = tx_header_id F tx"
  using header_of.tx [of F tx] by (auto simp: set_target_check_def Let_def ok_simps split: if_splits)

lemma streamSet_entries_Ok:
  "streamSet_entries F tx digest i kvs = Ok u \<Longrightarrow> EntrySpecDigestFor F v = Ok digest \<Longrightarrow> kv \<in> set kvs \<Longrightarrow>
   has_entry F (tx_header_eh F tx) (KeyValue_Key kv) (KeyValue_Value kv)"
  by (induction kvs arbitrary: i) (auto simp: Let_def ok_simps split: if_splits intro: has_entryI)

lemma streamVerifiedSet_recorded:
  assumes "streamVerifiedSet_check F st k kvs vtx = Ok ns" and "kv \<in> set kvs"
  shows "recorded F extends (KeyValue_Key kv) (KeyValue_Value kv) (ImmutableState_TxId ns) ns"
  using assms
  by (auto simp: streamVerifiedSet_check_def ok_simps split: if_splits
      intro!: target_recorded dest!: set_target_check_Ok intro: streamSet_entries_Ok)

text \<open>A written entry is recorded at the transaction whose header the setter returns.\<close>

lemma streamVerifiedSet_recorded_in:
  assumes check: "streamVerifiedSet_check F st k kvs vtx = Ok ns" and "kv \<in> set kvs"
    and "VerifiableTx_Tx vtx = Some t" and "Tx_Header t = Some hdr"
  shows "recorded F extends (KeyValue_Key kv) (KeyValue_Value kv) (TxHeader_Id hdr) ns"
proof -
  have "ImmutableState_TxId ns = TxHeader_Id hdr"
    using assms by (auto simp: streamVerifiedSet_check_def ok_simps tx_keeps_id [OF _ assms(4)]
        split: if_splits dest!: set_target_check_Ok)
  with streamVerifiedSet_recorded [OF check assms(2)] show ?thesis by simp
qed

lemma verifiedSet_recorded:
  assumes "verifiedSet_check F st k key val vtx = Ok ns"
    and "VerifiableTx_Tx vtx = Some t" and "Tx_Header t = Some hdr"
  shows "recorded F extends key val (TxHeader_Id hdr) ns"
  using streamVerifiedSet_recorded_in [of st k "[\<lparr>KeyValue_Key = key, KeyValue_Value = val\<rparr>]" vtx ns _ t hdr] assms
  by (simp add: verifiedSet_check_iff_stream)

text \<open>What a streamed write read from its request is what it wrote.\<close>

lemma StreamVerifiedSet_fetch_recorded:
  assumes fetch: "StreamVerifiedSet_fetch F S c ctx skvs st w = (Ok (Some hdr, ns), w')"
    and read: "collect_kvs S skvs w = (Ok (kvs, skvs'), w1)" and kv: "kv \<in> set kvs"
  shows "recorded F extends (KeyValue_Key kv) (KeyValue_Value kv) (TxHeader_Id hdr) ns"
proof -
  from fetch read obtain vtx t where "streamVerifiedSet_check F st (ApiKey c) kvs vtx = Ok ns"
    and "VerifiableTx_Tx vtx = Some t" "Tx_Header t = Some hdr"
    by (auto simp: StreamVerifiedSet_fetch_def ok_simps)
  from streamVerifiedSet_recorded_in [OF this(1) kv this(2,3)] show ?thesis .
qed

end

end
