(* ===== verification/Reference_Ledger.thy ===== *)
theory Reference_Ledger
  imports Reference_World Ledger
begin

text \<open>
  A second immudb for the witnesses, one that has a history: the accumulated hash of a transaction is the
  digest of its entries, linked to the accumulated hash of the transaction before it. Nothing is hashed, so
  there are no collisions, and it keeps every law of the locale \<open>ledger\<close>.
\<close>

section \<open>Chains\<close>

fun link :: "bytes \<Rightarrow> bytes \<Rightarrow> bytes" where
  "link [] prev = 0 # prev"
| "link (b # eh) prev = 1 # b # link eh prev"

fun unlink :: "bytes \<Rightarrow> bytes" where
  "unlink [] = []"
| "unlink [b] = []"
| "unlink (b # d # bs) = (if b = 0 then d # bs else unlink bs)"

lemma unlink_link [simp]: "unlink (link eh prev) = prev"
proof (induction eh)
  case Nil
  then show ?case by (cases prev) auto
qed simp

lemma link_inject [simp]: "(link eh prev = link eh' prev') = (eh = eh' \<and> prev = prev')"
proof (induction eh arbitrary: eh')
  case Nil
  then show ?case by (cases eh') auto
next
  case (Cons b eh)
  then show ?case by (cases eh') auto
qed

text \<open>An earlier point of the same chain.\<close>

definition chain_extends :: "u64 \<times> bytes \<Rightarrow> u64 \<times> bytes \<Rightarrow> bool" where
  "chain_extends a b = (fst a \<le> fst b \<and> (unlink ^^ unat (fst b - fst a)) (snd b) = snd a)"

lemma chain_extends_trans: "chain_extends a b \<Longrightarrow> chain_extends b c \<Longrightarrow> chain_extends a c"
proof -
  assume ab: "chain_extends a b" and bc: "chain_extends b c"
  then have le: "fst a \<le> fst b" "fst b \<le> fst c" by (simp_all add: chain_extends_def)
  have "unat (fst c - fst a) = unat (fst b - fst a) + unat (fst c - fst b)"
    using le order_trans [OF le] by (simp add: unat_sub word_le_nat_alt)
  with ab bc le show "chain_extends a c"
    by (auto simp: chain_extends_def funpow_add)
qed

section \<open>The toy immudb\<close>

definition chain_alh :: "TxHeader option \<Rightarrow> bytes go" where
  [ref_defs]: "chain_alh h = deref h (\<lambda>h'. Ok (link (TxHeader_EH h') (TxHeader_rest h')))"

definition chain_immudb :: ref_immudb where
  [ref_defs]: "chain_immudb = ref_immudb
    \<lparr>VerifyDualProof := (\<lambda>dp s t sa ta. chain_extends (s, sa) (t, ta)),
     dual_source_alh := (\<lambda>dp. chain_alh (DualProof_SourceTxHeader dp)),
     dual_target_alh := (\<lambda>dp. chain_alh (DualProof_TargetTxHeader dp)),
     tx_header_id := (\<lambda>t. TxHeader_Id (fst t)),
     tx_header_alh := (\<lambda>t. Ok (link (TxHeader_EH (fst t)) (TxHeader_rest (fst t))))\<rparr>"

lemma chain_header: "header_of chain_immudb alh eh \<Longrightarrow> \<exists>prev. alh = link eh prev"
  by (erule header_ofE) (auto simp: chain_immudb_def ref_immudb_def chain_alh_def ok_simps)

lemma chain_entry: "has_entry chain_immudb eh key val \<Longrightarrow> eh = key @ 0 # val"
  by (auto simp: has_entry_def chain_immudb_def ref_immudb_def split: if_splits)

interpretation chain: ledger chain_immudb chain_extends
proof
  show "dual_proof_extends chain_immudb chain_extends"
    by (auto simp: dual_proof_extends_def chain_immudb_def ref_immudb_def intro!: reflpI transpI
        intro: chain_extends_trans) (simp add: chain_extends_def)
  show "dual_proof_ordered chain_immudb"
    by (simp add: dual_proof_ordered_def chain_immudb_def ref_immudb_def chain_extends_def)
  show "DigestFromProto chain_immudb (DigestFromProto chain_immudb d) = DigestFromProto chain_immudb d" for d
    by (simp add: chain_immudb_def ref_immudb_def)
  show "DigestFromProto chain_immudb alh = alh" for alh by (simp add: chain_immudb_def ref_immudb_def)
  show "TxFromProto chain_immudb (Some ptx) = Ok tx \<Longrightarrow> Tx_Header ptx = Some hdr \<Longrightarrow>
      tx_header_id chain_immudb tx = TxHeader_Id hdr" for ptx tx hdr
    by (auto simp: chain_immudb_def ref_immudb_def)
  show "chain_extends (t, a) h \<Longrightarrow> chain_extends (t, b) h \<Longrightarrow> a = b" for t a b h
    by (simp add: chain_extends_def)
  show "header_of chain_immudb alh eh \<Longrightarrow> header_of chain_immudb alh eh' \<Longrightarrow> eh = eh'" for alh eh eh'
    by (auto dest!: chain_header)
  show "has_entry chain_immudb eh key val \<Longrightarrow> has_entry chain_immudb eh key val' \<Longrightarrow> val = val'" for eh key val val'
    by (auto dest!: chain_entry)
qed

section \<open>Answers\<close>

text \<open>The first transaction set the empty key to 1; the second, which comes after it, sets a key to a value.\<close>

definition chain_1 :: bytes where
  [ref_defs]: "chain_1 = link [0, 1] []"

definition chain_state :: ImmutableState where
  [ref_defs]: "chain_state = state_at 1 chain_1"

definition chain_hdr :: "bytes \<Rightarrow> bytes \<Rightarrow> TxHeader" where
  [ref_defs]: "chain_hdr key val = \<lparr>TxHeader_Id = 2, TxHeader_Version = 1, TxHeader_Nentries = 1,
     TxHeader_EH = key @ 0 # val, TxHeader_rest = chain_1\<rparr>"

definition chain_vtx :: "bytes \<Rightarrow> bytes \<Rightarrow> VerifiableTx" where
  [ref_defs]: "chain_vtx key val =
    \<lparr>VerifiableTx_Tx = Some \<lparr>Tx_Header = Some (chain_hdr key val), Tx_Entries = [[]]\<rparr>,
     VerifiableTx_DualProof = Some \<lparr>DualProof_SourceTxHeader = None,
        DualProof_TargetTxHeader = Some (chain_hdr key val), DualProof_rest = []\<rparr>,
     VerifiableTx_Signature = Some [9]\<rparr>"

definition chain_ventry :: "bytes \<Rightarrow> bytes \<Rightarrow> VerifiableEntry" where
  [ref_defs]: "chain_ventry key val =
    \<lparr>VerifiableEntry_Entry = Some (zero_Entry\<lparr>Entry_Tx := 2, Entry_Key := key, Entry_Value := val\<rparr>),
     VerifiableEntry_VerifiableTx = Some (chain_vtx key val), VerifiableEntry_InclusionProof = Some []\<rparr>"

text \<open>A server that is written to, then read from.\<close>

definition chain_world :: world where
  [ref_defs]: "chain_world = world_at chain_state
     [RepVerifiableTx (chain_vtx [5] [6]), RepVerifiableEntry (chain_ventry [5] [6])]"

end
