(* ===== verification/Ledger_Guarantees.thy ===== *)
theory Ledger_Guarantees
  imports Lifetime_Guarantees Batch_Guarantees Reference_Ledger
begin

text \<open>
  What a caller may conclude from verified answers: over the whole life of a client two verified answers
  about the same key at the same transaction have the same value, and what was written with verification is
  what is read back. The witnesses are evaluated with a toy immudb in which a hash is the whole chain of
  transactions that leads to it.
\<close>

section \<open>Verified answers\<close>











section \<open>A life in the reference world\<close>









section \<open>No equivocation\<close>





section \<open>The ledger a client sees\<close>




section \<open>The other items of a batch\<close>

text \<open>
  Of a batch the item checked last is all that counts above, since the state it led to is the one that stays. The
  batch read checks each item against the state it began with, not against the item before. A server can
  therefore answer the parts of one batch from histories that exclude each other: here two items of one
  successful batch, each with a valid proof and a signed state, give one key two values at one transaction.
\<close>

abbreviation fork_item :: "bytes \<Rightarrow> VerifiableItemExt option" where
  "fork_item val \<equiv> Some (zero_VerifiableItemExt\<lparr>VerifiableItemExt_Item := Some (chain_ventry [5] val)\<rparr>)"

abbreviation fork_world :: world where
  "fork_world \<equiv> world_at chain_state [RepGetExtMulti \<lparr>VerifiableGetExtMultiResponse_Items =
     [fork_item [6], fork_item [7]], VerifiableGetExtMultiResponse_Errors = [[], []]\<rparr>]"

theorem batch_read_can_equivocate:
  "fst (VerifiedGetExtAtMulti chain_immudb (ref_client (Some [9])) () [[5], [5]] [2, 2] fork_world) =
     Ok ([fork_item [6], fork_item [7]], [[], []], None)"
  by (simp add: VerifiedGetExtAtMulti_def multi_eval ref_defs chain_extends_def)

end
