(* ===== verification/Concurrent_Sessions.thy ===== *)
theory Concurrent_Sessions
  imports Verified_Ops Streams
begin

text \<open>
  Verified operations called from several goroutines. Each call is a \<open>job\<close> that goes through the
  protocol of \<open>Client_Session\<close> in phases, one per call of the state service or of the server; between
  two phases any other goroutine may run. \<open>phase_step\<close> is the next phase of one job, \<open>solo\<close> a job
  that runs alone, which is shown to be the operation itself; \<open>goroutines\<close> interleaves any number of
  jobs, each goroutine starting a new job when the last one has returned, with other calls that leave
  the cache alone.

  A job asks the server once and then has a work list: the states to store, each already checked or
  failed. It has one element for every operation but the batch read, whose answers are checked and
  stored one after the other.

  What the cache lock is for is the assumption \<open>lock_exclusive\<close>: it is taken by one holder at a time.
  From it follows, for every interleaving, that at most one job is between \<open>CacheLock\<close> and
  \<open>CacheUnlock\<close>, that the state a job read is still the cached one while it asks for a proof from it,
  and that the trusted states move along proofs.
\<close>

section \<open>Phases\<close>

datatype order = StoreFirst | CheckFirst

datatype 'a phase =
    Locking
  | Reading
  | Asking ImmutableState
  | Working ImmutableState 'a "ImmutableState go list"
  | Storing ImmutableState 'a ImmutableState "ImmutableState go list"
  | Checking ImmutableState 'a ImmutableState "ImmutableState go list"
  | Unlocking "'a go"
  | Returned "'a go"

text \<open>
  \<open>defer c.StateService.CacheUnlock()\<close> takes the state service when it is deferred, so a job remembers in
  \<open>job_locker\<close> the one it has locked. Every other call takes it from the client as it is then.
\<close>

record ('w, 'ctx, 'k, 'sf, 'a) job =
  job_locker :: "('w, 'ctx) StateServiceIf"
  job_client :: "('w, 'ctx, 'k, 'sf) LcClient"
  job_ctx :: 'ctx
  job_order :: order
  job_fetch :: "ImmutableState \<Rightarrow> ('w, 'a \<times> ImmutableState go list) io"

abbreviation job_service :: "('w, 'ctx, 'k, 'sf, 'a) job \<Rightarrow> ('w, 'ctx) StateServiceIf option" where
  "job_service j \<equiv> StateService (job_client j)"

fun proceed :: "'b go \<Rightarrow> ('b \<Rightarrow> 'a phase) \<Rightarrow> 'a phase" where
  "proceed (Ok x) f = f x"
| "proceed (Fail e) f = Unlocking (Fail e)"
| "proceed (Panic p) f = Unlocking (Panic p)"

fun phase_step ::
    "('ip, 'dp, 'tx, 'md, 'es, 'k) immudb \<Rightarrow> ('w, 'ctx, 'k, 'sf, 'a) job \<Rightarrow> 'a phase \<times> 'w \<Rightarrow>
     'a phase \<times> 'w" where
  "phase_step F j (Locking, w) =
     (case derefE (job_service j) CacheLock w of
        (Ok _, w') \<Rightarrow> (Reading, w')
      | (Fail e, w') \<Rightarrow> (Returned (Fail e), w')
      | (Panic p, w') \<Rightarrow> (Returned (Panic p), w'))"
| "phase_step F j (Reading, w) =
     (case derefE (job_service j) (\<lambda>ss. GetState ss (job_ctx j) (ApiKey (job_client j))) w of
        (r, w') \<Rightarrow> (proceed r Asking, w'))"
| "phase_step F j (Asking state, w) =
     (case job_fetch j state w of (r, w') \<Rightarrow> (proceed r (\<lambda>(x, todo). Working state x todo), w'))"
| "phase_step F j (Working state x [], w) = (Unlocking (Ok x), w)"
| "phase_step F j (Working state x (s # todo), w) =
     (proceed s (\<lambda>newState. case job_order j of
        StoreFirst \<Rightarrow> Storing state x newState todo
      | CheckFirst \<Rightarrow> Checking state x newState todo), w)"
| "phase_step F j (Storing state x newState todo, w) =
     (case derefE (job_service j) (\<lambda>ss. SetState ss (ApiKey (job_client j)) newState) w of
        (r, w') \<Rightarrow> (proceed r (\<lambda>_. case job_order j of
           StoreFirst \<Rightarrow> Checking state x newState todo
         | CheckFirst \<Rightarrow> Working state x todo), w'))"
| "phase_step F j (Checking state x newState todo, w) =
     (proceed (check_signature F (job_client j) newState) (\<lambda>_. case job_order j of
        StoreFirst \<Rightarrow> Working state x todo
      | CheckFirst \<Rightarrow> Storing state x newState todo), w)"
| "phase_step F j (Unlocking r, w) =
     (case CacheUnlock (job_locker j) w of
        (Panic p, w') \<Rightarrow> (Returned (Panic p), w')
      | (_, w') \<Rightarrow> (Returned r, w'))"
| "phase_step F j (Returned r, w) = (Returned r, w)"

text \<open>A job is between \<open>CacheLock\<close> and \<open>CacheUnlock\<close>.\<close>

fun inside :: "'a phase \<Rightarrow> bool" where
  "inside Locking = False"
| "inside (Returned r) = False"
| "inside p = True"

section \<open>One job alone\<close>

inductive solo ::
    "('ip, 'dp, 'tx, 'md, 'es, 'k) immudb \<Rightarrow> ('w, 'ctx, 'k, 'sf, 'a) job \<Rightarrow> 'a phase \<times> 'w \<Rightarrow>
     'a go \<times> 'w \<Rightarrow> bool" for F j where
  returned: "solo F j (Returned r, w) (r, w)"
| phase: "solo F j (phase_step F j (p, w)) y \<Longrightarrow> (\<And>r. p \<noteq> Returned r) \<Longrightarrow> solo F j (p, w) y"

inductive_cases solo_ReturnedE: "solo F j (Returned r, w) y"

lemma solo_Returned [simp]: "solo F j (Returned r, w) y = (y = (r, w))"
  by (auto intro: solo.returned elim: solo.cases)

lemma solo_step: "(\<And>r. p \<noteq> Returned r) \<Longrightarrow> solo F j (p, w) y = solo F j (phase_step F j (p, w)) y"
  by (subst solo.simps) auto

text \<open>The work list as a computation under the lock.\<close>

fun work ::
    "('ip, 'dp, 'tx, 'md, 'es, 'k) immudb \<Rightarrow> ('w, 'ctx, 'k, 'sf, 'a) job \<Rightarrow> ImmutableState go list \<Rightarrow>
     ('w, unit) io" where
  "work F j [] = ret ()"
| "work F j (s # todo) =
     tryE (lift s) (\<lambda>newState.
     tryE (case job_order j of
        StoreFirst \<Rightarrow> tryE (derefE (job_service j) (\<lambda>ss. SetState ss (ApiKey (job_client j)) newState)) (\<lambda>_.
          lift (check_signature F (job_client j) newState))
      | CheckFirst \<Rightarrow> tryE (lift (check_signature F (job_client j) newState)) (\<lambda>_.
          derefE (job_service j) (\<lambda>ss. SetState ss (ApiKey (job_client j)) newState))) (\<lambda>_.
     work F j todo))"

definition job_body ::
    "('ip, 'dp, 'tx, 'md, 'es, 'k) immudb \<Rightarrow> ('w, 'ctx, 'k, 'sf, 'a) job \<Rightarrow> ('w, 'a) io" where
  "job_body F j =
     tryE (derefE (job_service j) (\<lambda>ss. GetState ss (job_ctx j) (ApiKey (job_client j)))) (\<lambda>state.
     tryE (job_fetch j state) (\<lambda>(x, todo).
     tryE (work F j todo) (\<lambda>_. ret x)))"

lemma solo_Unlocking:
  "solo F j (Unlocking r, w) = (\<lambda>y. y = (case CacheUnlock (job_locker j) w of
     (Panic p, w') \<Rightarrow> (Panic p, w') | (_, w') \<Rightarrow> (r, w')))"
  by (rule ext, subst solo_step) (auto split: prod.splits go.splits)

text \<open>From a phase under the lock on, what is left to do is a computation followed by the unlock.\<close>

lemma solo_Working:
  "solo F j (Working st x todo, w) y = (y = deferE (CacheUnlock (job_locker j)) (tryE (work F j todo) (\<lambda>_. ret x)) w)"
proof (induction todo arbitrary: w)
  case Nil
  then show ?case by (subst solo_step) (auto simp: solo_Unlocking deferE_def split: prod.splits go.splits)
next
  case (Cons s todo)
  show ?case
  proof (cases s)
    case (Ok ns)
    let ?set = "derefE (job_service j) (\<lambda>ss. SetState ss (ApiKey (job_client j)) ns) w"
    obtain r v where set: "?set = (r, v)" by (cases ?set)
    show ?thesis
      using Ok set
      by (cases "job_order j"; cases r; cases "check_signature F (job_client j) ns")
        (simp_all add: solo_step solo_Unlocking Cons.IH tryE_def deferE_def)
  qed (simp_all add: solo_step solo_Unlocking tryE_def deferE_def)
qed

lemma solo_job:
  "solo F j (Locking, w) y =
   (y = tryE (derefE (job_service j) CacheLock) (\<lambda>_. deferE (CacheUnlock (job_locker j)) (job_body F j)) w)"
proof -
  obtain l v where lock: "derefE (job_service j) CacheLock w = (l, v)" by (cases "derefE (job_service j) CacheLock w")
  show ?thesis
  proof (cases l)
    case (Ok u)
    let ?get = "derefE (job_service j) (\<lambda>ss. GetState ss (job_ctx j) (ApiKey (job_client j))) v"
    obtain r v1 where get: "?get = (r, v1)" by (cases ?get)
    show ?thesis
    proof (cases r)
      case (Ok st)
      obtain q v2 where ask: "job_fetch j st v1 = (q, v2)" by (cases "job_fetch j st v1")
      with lock get \<open>l = Ok u\<close> Ok show ?thesis
        by (cases q) (auto simp: solo_step solo_Working solo_Unlocking job_body_def tryE_def deferE_def)
    qed (use lock get \<open>l = Ok u\<close> in \<open>auto simp: solo_step solo_Unlocking job_body_def tryE_def deferE_def\<close>)
  qed (use lock in \<open>auto simp: solo_step tryE_def\<close>)
qed

section \<open>The operations as jobs\<close>

text \<open>An operation with a single answer: its work list has the one state its \<open>fetch\<close> gives.\<close>

definition one_answer ::
    "(ImmutableState \<Rightarrow> ('w, 'a \<times> ImmutableState) io) \<Rightarrow>
     ImmutableState \<Rightarrow> ('w, 'a \<times> ImmutableState go list) io" where
  "one_answer fetch state = tryE (fetch state) (\<lambda>(x, newState). ret (x, [Ok newState]))"

definition protocol_job ::
    "('w, 'ctx) StateServiceIf \<Rightarrow> ('w, 'ctx, 'k, 'sf) LcClient \<Rightarrow> 'ctx \<Rightarrow> order \<Rightarrow>
     (ImmutableState \<Rightarrow> ('w, 'a \<times> ImmutableState) io) \<Rightarrow> ('w, 'ctx, 'k, 'sf, 'a) job" where
  "protocol_job ss c ctx ord fetch = \<lparr>job_locker = ss, job_client = c, job_ctx = ctx, job_order = ord,
     job_fetch = one_answer fetch\<rparr>"

lemma tryE_case_prod: "tryE m (\<lambda>p. case p of (x, y) \<Rightarrow> f x y) w =
    (case m w of (Ok (x, y), w') \<Rightarrow> f x y w' | (Fail e, w') \<Rightarrow> (Fail e, w') | (Panic p, w') \<Rightarrow> (Panic p, w'))"
  by (auto simp: tryE_def split: prod.splits go.splits)

lemma one_answer_body:
  assumes "StateService c = Some ss"
  shows "job_body F (protocol_job ss c ctx StoreFirst fetch) =
     tryE (GetState ss ctx (ApiKey c)) (\<lambda>state. tryE (fetch state) (\<lambda>(x, newState).
       tryE (SetState ss (ApiKey c) newState) (\<lambda>_. tryE (lift (check_signature F c newState)) (\<lambda>_. ret x))))"
  "job_body F (protocol_job ss c ctx CheckFirst fetch) =
     tryE (GetState ss ctx (ApiKey c)) (\<lambda>state. tryE (fetch state) (\<lambda>(x, newState).
       tryE (lift (check_signature F c newState)) (\<lambda>_. tryE (SetState ss (ApiKey c) newState) (\<lambda>_. ret x))))"
  using assms by (rule_tac ext, simp add: job_body_def protocol_job_def one_answer_def tryE_def
      split: prod.splits go.splits)+

lemma solo_store_then_check:
  assumes "StateService c = Some ss"
  shows "solo F (protocol_job ss c ctx StoreFirst fetch) (Locking, w) y = (y = store_then_check F c ctx fetch w)"
  using assms unfolding solo_job one_answer_body [OF assms]
  by (simp add: protocol_job_def store_then_check_def with_trusted_state_def)

lemma solo_check_then_store:
  assumes "StateService c = Some ss"
  shows "solo F (protocol_job ss c ctx CheckFirst fetch) (Locking, w) y = (y = check_then_store F c ctx fetch w)"
  using assms unfolding solo_job one_answer_body [OF assms]
  by (simp add: protocol_job_def check_then_store_def with_trusted_state_def)

text \<open>The batch read: its items are checked, stored and their signatures checked one after the other.\<close>

fun multi_todo ::
    "('ip, 'dp, 'tx, 'md, 'es, 'k) immudb \<Rightarrow> ('w, 'ctx, 'k, 'sf) LcClient \<Rightarrow> ImmutableState \<Rightarrow>
     KeyRequest list \<Rightarrow> string list \<Rightarrow> nat \<Rightarrow> VerifiableItemExt option list \<Rightarrow> ImmutableState go list" where
  "multi_todo F c state reqs errs i [] = []"
| "multi_todo F c state reqs errs i (itemExt # items) =
     (case index errs i of
        Ok e \<Rightarrow>
          if e \<noteq> '''' then multi_todo F c state reqs errs (Suc i) items else
          tryG (index reqs i) (\<lambda>kReq. verifyGet F state (VerifiableItemExt_GetItem itemExt) kReq (ApiKeyHash c))
            # multi_todo F c state reqs errs (Suc i) items
      | Fail e \<Rightarrow> [Fail e]
      | Panic p \<Rightarrow> [Panic p])"

definition multi_fetch ::
    "('ip, 'dp, 'tx, 'md, 'es, 'k) immudb \<Rightarrow> ('w, 'ctx, 'k, 'sf) LcClient \<Rightarrow> 'ctx \<Rightarrow> KeyRequest list \<Rightarrow>
     ImmutableState \<Rightarrow> ('w, multi_result \<times> ImmutableState go list) io" where
  "multi_fetch F c ctx reqs state =
     (let requests = map (\<lambda>kr. Some \<lparr>VerifiableGetRequest_KeyRequest = Some kr,
                              VerifiableGetRequest_ProveSinceTx = ImmutableState_TxId state\<rparr>) reqs;
          req = \<lparr>VerifiableGetExtMultiRequest_Requests = requests\<rparr>
      in derefE (ServiceClient c) (\<lambda>cc.
         tryE (lcServiceClient_VerifiableGetExtMulti cc ctx req []) (\<lambda>resp.
         let itemsExt = VerifiableGetExtMultiResponse_GetItems (Some resp);
             errs = VerifiableGetExtMultiResponse_GetErrors (Some resp)
         in if length itemsExt \<noteq> length requests \<or> length errs \<noteq> length requests
            then ret ((itemsExt, errs,
                   Some (multi_mismatch (length requests) (length itemsExt) (length errs))), [])
            else ret ((itemsExt, errs, None), multi_todo F c state reqs errs 0 itemsExt))))"

definition multi_job ::
    "('ip, 'dp, 'tx, 'md, 'es, 'k) immudb \<Rightarrow> ('w, 'ctx) StateServiceIf \<Rightarrow> ('w, 'ctx, 'k, 'sf) LcClient \<Rightarrow>
     'ctx \<Rightarrow> KeyRequest list \<Rightarrow> ('w, 'ctx, 'k, 'sf, multi_result) job" where
  "multi_job F ss c ctx reqs = \<lparr>job_locker = ss, job_client = c, job_ctx = ctx, job_order = StoreFirst,
     job_fetch = multi_fetch F c ctx reqs\<rparr>"

lemma multi_job_simps [simp]:
  "job_order (multi_job F ss c ctx reqs) = StoreFirst" "job_locker (multi_job F ss c ctx reqs) = ss"
  "job_client (multi_job F ss c ctx reqs) = c" "job_ctx (multi_job F ss c ctx reqs) = ctx"
  "job_fetch (multi_job F ss c ctx reqs) = multi_fetch F c ctx reqs"
  by (simp_all add: multi_job_def)

lemma multi_work:
  assumes "StateService c = Some ss"
  shows "work F (multi_job F ss c ctx reqs) (multi_todo F c state reqs errs i items) =
     verifiedGetExtMulti_loop F c ss state reqs errs i items"
proof (induction items arbitrary: i)
  case (Cons item items)
  show ?case
  proof (cases "index errs i")
    case (Ok e)
    show ?thesis
    proof (cases "e = ''''")
      case True
      then show ?thesis
        using Ok Cons.IH assms
        by (cases "index reqs i") (auto simp: tryE_def fun_eq_iff split: prod.splits go.splits)
    qed (use Ok Cons.IH assms in \<open>simp add: tryE_def fun_eq_iff\<close>)
  qed (simp_all add: tryE_def fun_eq_iff)
qed simp

lemma multi_body:
  assumes "StateService c = Some ss"
  shows "tryE (multi_fetch F c ctx reqs state) (\<lambda>(x, todo).
     tryE (work F (multi_job F ss c ctx reqs) todo) (\<lambda>_. ret x)) = verifiedGetExtMulti_rest F c ctx reqs ss state"
proof -
  have swap: "tryE (if b then m1 else m2) f = (if b then tryE m1 f else tryE m2 f)"
    for b and m1 m2 :: "('w, 'x) io" and f :: "'x \<Rightarrow> ('w, 'y) io" by simp
  have nil: "tryE (derefE p g) f = derefE p (\<lambda>x. tryE (g x) f)"
    for p :: "'z option" and g :: "'z \<Rightarrow> ('w, 'x) io" and f :: "'x \<Rightarrow> ('w, 'y) io"
    by (cases p) (simp_all add: tryE_def fun_eq_iff)
  show ?thesis
    unfolding multi_fetch_def verifiedGetExtMulti_rest_def Let_def nil tryE_assoc swap
    by (simp add: multi_work [OF assms] cong: if_cong) (simp add: lift_def cong: if_cong)
qed

lemma solo_multi:
  assumes "StateService c = Some ss"
  shows "solo F (multi_job F ss c ctx reqs) (Locking, w) y = (y = verifiedGetExtMulti F c ctx reqs w)"
proof -
  have "job_body F (multi_job F ss c ctx reqs) =
      tryE (GetState ss ctx (ApiKey c)) (verifiedGetExtMulti_rest F c ctx reqs ss)"
    using assms by (simp add: job_body_def multi_body)
  with assms show ?thesis
    by (simp add: solo_job verifiedGetExtMulti_def with_trusted_state_def)
qed

section \<open>Interleaving\<close>

text \<open>
  A system is a job and its phase for every goroutine, and the world. \<open>ok\<close> says which jobs may be
  started, \<open>obs\<close> what calls that are not jobs leave alone. The client is shared: while a call is under way
  another goroutine may set the signing key, disconnect, or connect again, and the call goes on with the changed
  client, its new connection and its new state service, which may also be nil. That is the step \<open>changed\<close>, which
  replaces a job by the job of the same operation on a client with the same API key. A job under the lock keeps
  the state service it has locked; one that is not there yet will lock the client's own.
\<close>

definition same_session :: "('w, 'ctx, 'k, 'sf, 'a) job \<Rightarrow> ('w, 'ctx, 'k, 'sf, 'a) job \<Rightarrow> bool" where
  "same_session j j' = (ApiKey (job_client j') = ApiKey (job_client j) \<and> job_order j' = job_order j)"

definition own_locker :: "('w, 'ctx, 'k, 'sf, 'a) job \<Rightarrow> bool" where
  "own_locker j = (job_service j = None \<or> job_service j = Some (job_locker j))"

text \<open>What \<open>SetServerSigningPubKey\<close>, \<open>Disconnect\<close> and \<open>Connect\<close> do to the client of a running operation.\<close>

lemma changed_client_same_session:
  assumes "c' = SetServerSigningPubKey c k \<or> Disconnect c w = ((r, c'), w') \<or> Connect P c w = ((r, c'), w')"
  shows "same_session (protocol_job ss c ctx ord fetch) (protocol_job ss c' ctx ord fetch')"
    and "same_session (multi_job F ss c ctx krs) (multi_job F ss c' ctx krs)"
proof -
  have "ApiKey c' = ApiKey c"
    using assms by (auto simp: SetServerSigningPubKey_def Disconnect_def Connect_def Let_def split: prod.splits go.splits)
  then show "same_session (protocol_job ss c ctx ord fetch) (protocol_job ss c' ctx ord fetch')"
    and "same_session (multi_job F ss c ctx krs) (multi_job F ss c' ctx krs)"
    by (simp_all add: same_session_def protocol_job_def)
qed

inductive goroutines ::
    "('ip, 'dp, 'tx, 'md, 'es, 'k) immudb \<Rightarrow> (('w, 'ctx, 'k, 'sf, 'a) job \<Rightarrow> bool) \<Rightarrow> ('w \<Rightarrow> 'o) \<Rightarrow>
     ('i \<Rightarrow> ('w, 'ctx, 'k, 'sf, 'a) job \<times> 'a phase) \<times> 'w \<Rightarrow>
     ('i \<Rightarrow> ('w, 'ctx, 'k, 'sf, 'a) job \<times> 'a phase) \<times> 'w \<Rightarrow> bool"
  for F ok obs where
  advance: "J i = (j, p) \<Longrightarrow> phase_step F j (p, w) = (p', w') \<Longrightarrow>
     goroutines F ok obs (J, w) (J(i := (j, p')), w')"
| call: "J i = (j, Returned r) \<Longrightarrow> ok j' \<Longrightarrow> own_locker j' \<Longrightarrow>
     goroutines F ok obs (J, w) (J(i := (j', Locking)), w)"
| changed: "J i = (j, p) \<Longrightarrow> same_session j j' \<Longrightarrow> ok j' \<Longrightarrow>
     (if inside p then job_locker j' = job_locker j else own_locker j') \<Longrightarrow>
     goroutines F ok obs (J, w) (J(i := (j', p)), w)"
| other: "obs w' = obs w \<Longrightarrow> goroutines F ok obs (J, w) (J, w')"

inductive_cases goroutinesE: "goroutines F ok obs (J, w) (J', w')"

text \<open>The cache lock excludes other holders.\<close>

locale exclusive_state = trusted_state ss locked cached slot
  for ss :: "('w, 'ctx) StateServiceIf" and locked cached slot +
  assumes lock_exclusive: "CacheLock ss w = (Ok u, w') \<Longrightarrow> \<not> locked w"

text \<open>The repository's wrapper hands the lock through, so it excludes what the inner service excludes.\<close>

lemma wrapper_exclusive:
  assumes "exclusive_state ss locked cached slot"
  shows "exclusive_state (lcStateService sha ss) locked
     (\<lambda>w k. cached w (obfuscateApiKey sha k)) (\<lambda>k. slot (obfuscateApiKey sha k))"
proof (intro exclusive_state.intro exclusive_state_axioms.intro)
  show "trusted_state (lcStateService sha ss) locked
     (\<lambda>w k. cached w (obfuscateApiKey sha k)) (\<lambda>k. slot (obfuscateApiKey sha k))"
    using assms by (intro wrapped_state.wrapper_trusted) (simp add: wrapped_state_def exclusive_state_def)
next
  fix w u w'
  assume "CacheLock (lcStateService sha ss) w = (Ok u, w')"
  then show "\<not> locked w"
    using exclusive_state.lock_exclusive [OF assms]
    by (simp add: lcStateService_def lcStateService_CacheLock_def)
qed

text \<open>What a job relies on, and that what it stores is vouched for.\<close>

definition sound_job ::
    "('ip, 'dp, 'tx, 'md, 'es, 'k) immudb \<Rightarrow> ('w \<Rightarrow> bool) \<Rightarrow> ('w \<Rightarrow> string \<Rightarrow> ImmutableState option) \<Rightarrow>
     (string \<Rightarrow> string) \<Rightarrow> string set \<Rightarrow> ('w, 'ctx, 'k, 'sf, 'a) job \<Rightarrow> bool" where
  "sound_job F locked cached slot keys j =
     (exclusive_state (job_locker j) locked cached slot \<and>
      (\<forall>ss. job_service j = Some ss \<longrightarrow> exclusive_state ss locked cached slot) \<and>
      ApiKey (job_client j) \<in> keys \<and>
      (\<forall>st. quiet (\<lambda>w. (locked w, cached w)) (job_fetch j st)) \<and>
      (\<forall>st w x todo w'. job_fetch j st w = (Ok (x, todo), w') \<longrightarrow>
         (\<forall>ns. Ok ns \<in> set todo \<longrightarrow> advances F st ns)))"

text \<open>
  What holds of a job in a phase: from \<open>CacheLock\<close> to \<open>CacheUnlock\<close> the lock is held; while the job asks,
  the cache holds the state it read; afterwards the cached state is that state or one that a proof from it
  vouches for, and so is everything still to be stored.
\<close>

definition based ::
    "('ip, 'dp, 'tx, 'md, 'es, 'k) immudb \<Rightarrow> ImmutableState \<Rightarrow> ImmutableState go list \<Rightarrow>
     ImmutableState option \<Rightarrow> bool" where
  "based F st todo cur = ((\<exists>s. cur = Some s \<and> (s = st \<or> advances F st s)) \<and>
     (\<forall>ns. Ok ns \<in> set todo \<longrightarrow> advances F st ns))"

fun phase_inv ::
    "('ip, 'dp, 'tx, 'md, 'es, 'k) immudb \<Rightarrow> 'a phase \<Rightarrow> ImmutableState option \<Rightarrow> bool" where
  "phase_inv F (Asking st) cur = (cur = Some st)"
| "phase_inv F (Working st x todo) cur = based F st todo cur"
| "phase_inv F (Storing st x ns todo) cur = based F st (Ok ns # todo) cur"
| "phase_inv F (Checking st x ns todo) cur = based F st (Ok ns # todo) cur"
| "phase_inv F p cur = True"

text \<open>The state a job started from.\<close>

fun phase_base :: "'a phase \<Rightarrow> ImmutableState option" where
  "phase_base (Asking st) = Some st"
| "phase_base (Working st x todo) = Some st"
| "phase_base (Storing st x ns todo) = Some st"
| "phase_base (Checking st x ns todo) = Some st"
| "phase_base p = None"

definition kept_from ::
    "('ip, 'dp, 'tx, 'md, 'es, 'k) immudb \<Rightarrow> ImmutableState option \<Rightarrow> 'a phase \<Rightarrow>
     ImmutableState option \<Rightarrow> bool" where
  "kept_from F origin p cur = (phase_inv F p cur \<and>
     (\<forall>st0. origin = Some st0 \<longrightarrow> (\<exists>s. cur = Some s \<and> trust_path F st0 s) \<and>
        (\<forall>b. phase_base p = Some b \<longrightarrow> trust_path F st0 b)))"

lemma kept_from_outside:
  "\<not> inside p \<Longrightarrow> kept_from F origin p cur =
     (\<forall>st0. origin = Some st0 \<longrightarrow> (\<exists>s. cur = Some s \<and> trust_path F st0 s))"
  by (cases p) (auto simp: kept_from_def)

lemma kept_from_Unlocking: "kept_from F origin p cur \<Longrightarrow> kept_from F origin (Unlocking r) cur"
  by (auto simp: kept_from_def)

lemma proceed_inside: "(\<And>x. inside (f x)) \<Longrightarrow> inside (proceed r f)"
  by (cases r) auto

lemma kept_from_proceed:
  assumes "\<And>x. r = Ok x \<Longrightarrow> kept_from F origin (f x) cur"
    and "(\<And>x. r \<noteq> Ok x) \<Longrightarrow> kept_from F origin (Unlocking r') cur"
  shows "kept_from F origin (proceed r f) cur"
  using assms by (cases r) (auto simp: kept_from_def)

text \<open>What a step under the lock does for the key \<open>k\<close> of its job.\<close>

definition kept_step ::
    "('ip, 'dp, 'tx, 'md, 'es, 'k) immudb \<Rightarrow> ('w \<Rightarrow> bool) \<Rightarrow> ('w \<Rightarrow> string \<Rightarrow> ImmutableState option) \<Rightarrow>
     (string \<Rightarrow> string) \<Rightarrow> ImmutableState option \<Rightarrow> string \<Rightarrow> 'a phase \<Rightarrow> 'w \<Rightarrow> 'w \<Rightarrow> bool" where
  "kept_step F locked cached slot origin k p' w w' =
     (locked w' = inside p' \<and> kept_from F origin p' (cached w' k) \<and>
      (\<forall>k'. slot k' \<noteq> slot k \<longrightarrow> cached w' k' = cached w k'))"

context exclusive_state
begin

text \<open>A step under the lock keeps the lock unless it is the unlock, and keeps to the path.\<close>

lemma step_Reading:
  assumes step: "phase_step F j (Reading, w) = (p', w')" and ss: "job_service j = Some ss" and w: "locked w"
    and kept: "kept_from F origin Reading (cached w (ApiKey (job_client j)))"
  shows "kept_step F locked cached slot origin (ApiKey (job_client j)) p' w w'"
proof -
  let ?k = "ApiKey (job_client j)"
  obtain r v where get: "GetState ss (job_ctx j) ?k w = (r, v)" by (cases "GetState ss (job_ctx j) ?k w")
  show ?thesis
  proof (cases r)
    case (Ok st)
    with step ss get have "p' = Asking st" "w' = v" by auto
    with get_law [OF get [unfolded Ok]] get_locked [OF get] w kept show ?thesis
      by (auto simp: kept_step_def kept_from_def)
  qed (use step ss get get_error [OF get] get_locked [OF get] w kept
      in \<open>auto simp: kept_step_def kept_from_def\<close>)
qed

lemma step_Storing:
  assumes step: "phase_step F j (Storing st x ns todo, w) = (p', w')" and ss: "job_service j = Some ss" and w: "locked w"
    and kept: "kept_from F origin (Storing st x ns todo) (cached w (ApiKey (job_client j)))"
  shows "kept_step F locked cached slot origin (ApiKey (job_client j)) p' w w'"
proof -
  let ?k = "ApiKey (job_client j)"
  obtain r v where set: "SetState ss ?k ns w = (r, v)" by (cases "SetState ss ?k ns w")
  show ?thesis
  proof (cases r)
    case (Ok u)
    have "advances F st ns" using kept by (simp add: kept_from_def based_def)
    with step ss set Ok set_law [of ?k ns w v] set_locked [OF set] w kept show ?thesis
      by (cases "job_order j") (auto simp: kept_step_def kept_from_def based_def intro: trust_path_step)
  qed (use step ss set set_error [OF set] set_locked [OF set] w kept
      in \<open>auto simp: kept_step_def kept_from_def\<close>)
qed

lemma step_Unlocking:
  assumes step: "phase_step F j (Unlocking r, w) = (p', w')" and ss: "job_locker j = ss" and w: "locked w"
    and kept: "kept_from F origin (Unlocking r) (cached w (ApiKey (job_client j)))"
  shows "kept_step F locked cached slot origin (ApiKey (job_client j)) p' w w'"
proof -
  from unlock_law [OF w] obtain v where "CacheUnlock ss w = (Ok (), v)" "\<not> locked v" "cached v = cached w"
    by blast
  with step ss kept show ?thesis by (auto simp: kept_step_def kept_from_def)
qed

text \<open>A step outside the lock leaves the cache alone, and enters only when the lock is free.\<close>

lemma step_Locking:
  assumes step: "phase_step F j (Locking, w) = (p', w')" and ss: "job_service j = Some ss"
  shows "cached w' = cached w \<and> (inside p' \<longrightarrow> \<not> locked w \<and> locked w' \<and> p' = Reading) \<and>
    (\<not> inside p' \<longrightarrow> locked w' = locked w)"
proof -
  obtain l v where lock: "CacheLock ss w = (l, v)" by (cases "CacheLock ss w")
  from step ss lock lock_law [OF lock] lock_exclusive show ?thesis by (cases l) auto
qed

end

text \<open>The same for any phase and whatever state service the client has now.\<close>

lemma step_Asking:
  assumes step: "phase_step F j (Asking st, w) = (p', w')" and sound: "sound_job F locked cached slot keys j"
    and w: "locked w" and kept: "kept_from F origin (Asking st) (cached w (ApiKey (job_client j)))"
  shows "kept_step F locked cached slot origin (ApiKey (job_client j)) p' w w'"
proof -
  obtain r v where ask: "job_fetch j st w = (r, v)" by (cases "job_fetch j st w")
  have "quiet (\<lambda>w. (locked w, cached w)) (job_fetch j st)" using sound by (simp add: sound_job_def)
  from quietD [OF this ask] have same: "locked v = locked w" "cached v = cached w" by auto
  show ?thesis
  proof (cases r)
    case (Ok xt)
    obtain x todo where xt: "xt = (x, todo)" by (cases xt)
    have "\<forall>ns. Ok ns \<in> set todo \<longrightarrow> advances F st ns"
      using sound ask Ok xt unfolding sound_job_def by blast
    with step ask Ok xt same w kept show ?thesis by (auto simp: kept_step_def kept_from_def based_def)
  qed (use step ask same w kept in \<open>auto simp: kept_step_def kept_from_def\<close>)
qed

lemma step_inside:
  assumes step: "phase_step F j (p, w) = (p', w')" and sound: "sound_job F locked cached slot keys j"
    and p: "inside p" "locked w" and kept: "kept_from F origin p (cached w (ApiKey (job_client j)))"
  shows "kept_step F locked cached slot origin (ApiKey (job_client j)) p' w w'"
proof -
  have locker: "exclusive_state (job_locker j) locked cached slot"
    and service: "job_service j = Some ss \<Longrightarrow> exclusive_state ss locked cached slot" for ss
    using sound by (auto simp: sound_job_def)
  have "inside (Unlocking r)" "kept_from F origin (Unlocking r) (cached w (ApiKey (job_client j)))" for r
    using kept_from_Unlocking [OF kept] by simp_all
  note nil = this
  show ?thesis
  proof (cases p)
    case (Working st x todo)
    show ?thesis
    proof (cases todo)
      case (Cons s rest)
      with step Working p(2) kept show ?thesis
        by (cases s; cases "job_order j") (auto simp: kept_step_def kept_from_def based_def)
    qed (use step Working p(2) kept in \<open>auto simp: kept_step_def kept_from_def\<close>)
  next
    case (Checking st x ns todo)
    with step p(2) kept show ?thesis
      by (cases "check_signature F (job_client j) ns"; cases "job_order j")
        (auto simp: kept_step_def kept_from_def based_def)
  next
    case (Unlocking r)
    from exclusive_state.step_Unlocking [OF locker step [unfolded Unlocking] refl p(2) kept [unfolded Unlocking]]
    show ?thesis .
  next
    case Reading
    show ?thesis
    proof (cases "job_service j")
      case None
      with step Reading p(2) nil show ?thesis by (auto simp: kept_step_def)
    next
      case (Some ss)
      from exclusive_state.step_Reading [OF service [OF Some] step [unfolded Reading] Some p(2) kept [unfolded Reading]]
      show ?thesis .
    qed
  next
    case (Asking st)
    from step_Asking [OF step [unfolded Asking] sound p(2) kept [unfolded Asking]] show ?thesis .
  next
    case (Storing st x ns todo)
    show ?thesis
    proof (cases "job_service j")
      case None
      with step Storing p(2) nil show ?thesis by (auto simp: kept_step_def)
    next
      case (Some ss)
      from exclusive_state.step_Storing [OF service [OF Some] step [unfolded Storing] Some p(2) kept [unfolded Storing]]
      show ?thesis .
    qed
  qed (use p in simp_all)
qed

lemma step_outside:
  assumes step: "phase_step F j (p, w) = (p', w')" and sound: "sound_job F locked cached slot keys j"
    and p: "\<not> inside p"
  shows "cached w' = cached w \<and> (inside p' \<longrightarrow> \<not> locked w \<and> locked w' \<and> p' = Reading) \<and>
    (\<not> inside p' \<longrightarrow> locked w' = locked w)"
proof (cases p)
  case Locking
  show ?thesis
  proof (cases "job_service j")
    case (Some ss)
    then have "exclusive_state ss locked cached slot" using sound by (simp add: sound_job_def)
    from exclusive_state.step_Locking [OF this step [unfolded Locking] Some] show ?thesis .
  qed (use step Locking in auto)
qed (use step p in auto)

section \<open>Every interleaving\<close>

text \<open>The invariant of a system that started with the cache \<open>m0\<close>.\<close>

definition system_inv ::
    "('ip, 'dp, 'tx, 'md, 'es, 'k) immudb \<Rightarrow> ('w \<Rightarrow> bool) \<Rightarrow> ('w \<Rightarrow> string \<Rightarrow> ImmutableState option) \<Rightarrow>
     (string \<Rightarrow> string) \<Rightarrow> string set \<Rightarrow> (string \<Rightarrow> ImmutableState option) \<Rightarrow>
     ('i \<Rightarrow> ('w, 'ctx, 'k, 'sf, 'a) job \<times> 'a phase) \<times> 'w \<Rightarrow> bool" where
  "system_inv F locked cached slot keys m0 = (\<lambda>(J, w).
     (\<forall>i. sound_job F locked cached slot keys (fst (J i)) \<and> (inside (snd (J i)) \<longrightarrow> locked w) \<and>
        kept_from F (m0 (ApiKey (job_client (fst (J i))))) (snd (J i)) (cached w (ApiKey (job_client (fst (J i)))))) \<and>
     (\<forall>i i'. inside (snd (J i)) \<longrightarrow> inside (snd (J i')) \<longrightarrow> i = i') \<and>
     (\<forall>k \<in> keys. \<forall>st0. m0 k = Some st0 \<longrightarrow> (\<exists>s. cached w k = Some s \<and> trust_path F st0 s)))"

lemma system_invD:
  assumes "system_inv F locked cached slot keys m0 (J, w)"
  shows "sound_job F locked cached slot keys (fst (J i))"
    and "inside (snd (J i)) \<Longrightarrow> locked w"
    and "kept_from F (m0 (ApiKey (job_client (fst (J i))))) (snd (J i)) (cached w (ApiKey (job_client (fst (J i)))))"
    and "inside (snd (J i)) \<Longrightarrow> inside (snd (J i')) \<Longrightarrow> i = i'"
    and "k \<in> keys \<Longrightarrow> m0 k = Some st0 \<Longrightarrow> \<exists>s. cached w k = Some s \<and> trust_path F st0 s"
  using assms by (auto simp: system_inv_def)

lemma system_invI:
  assumes "\<And>i. sound_job F locked cached slot keys (fst (J i))" and "\<And>i. inside (snd (J i)) \<Longrightarrow> locked w"
    and "\<And>i. kept_from F (m0 (ApiKey (job_client (fst (J i))))) (snd (J i)) (cached w (ApiKey (job_client (fst (J i)))))"
    and "\<And>i i'. inside (snd (J i)) \<Longrightarrow> inside (snd (J i')) \<Longrightarrow> i = i'"
    and "\<And>k st0. k \<in> keys \<Longrightarrow> m0 k = Some st0 \<Longrightarrow> \<exists>s. cached w k = Some s \<and> trust_path F st0 s"
  shows "system_inv F locked cached slot keys m0 (J, w)"
  using assms by (simp add: system_inv_def)

text \<open>A step of a job that is inside the lock, and of one that is not.\<close>

lemma advance_inside:
  assumes inv: "system_inv F locked cached slot keys m0 (J, w)" and keys: "inj_on slot keys"
    and J: "J i = (j, p)" and p: "inside p"
    and s: "kept_step F locked cached slot (m0 (ApiKey (job_client j))) (ApiKey (job_client j)) p' w w'"
  shows "system_inv F locked cached slot keys m0 (J(i := (j, p')), w')"
proof -
  let ?k = "ApiKey (job_client j)" and ?key = "\<lambda>i. ApiKey (job_client (fst (J i)))"
  note inv = system_invD [OF inv]
  have sound: "sound_job F locked cached slot keys j" using inv(1) [of i] J by simp
  then have "?k \<in> keys" by (simp add: sound_job_def)
  with s keys have far: "cached w' k = cached w k" if "k \<in> keys" "k \<noteq> ?k" for k
    using that by (auto simp: kept_step_def dest: inj_onD)
  have out: "\<not> inside (snd (J i'))" if "i' \<noteq> i" for i'
    using inv(4) [of i i'] that p J by auto
  have path: "\<exists>s. cached w' k = Some s \<and> trust_path F st0 s" if "k \<in> keys" "m0 k = Some st0" for k st0
    using inv(5) [OF that] far [of k] s that by (cases "k = ?k") (auto simp: kept_step_def kept_from_def)
  have "kept_from F (m0 (?key i')) (snd (J i')) (cached w' (?key i'))" if "i' \<noteq> i" for i'
    using path inv(1) [of i'] by (simp add: kept_from_outside [OF out [OF that]] sound_job_def)
  with s out path inv(1) sound show ?thesis
    by (intro system_invI) (auto simp: kept_step_def split: if_splits)
qed

lemma advance_outside:
  assumes inv: "system_inv F locked cached slot keys m0 (J, w)" and J: "J i = (j, p)" and p: "\<not> inside p"
    and same: "cached w' = cached w" and enter: "inside p' \<Longrightarrow> \<not> locked w \<and> locked w' \<and> p' = Reading"
    and stay: "\<not> inside p' \<Longrightarrow> locked w' = locked w"
  shows "system_inv F locked cached slot keys m0 (J(i := (j, p')), w')"
proof -
  let ?J = "J(i := (j, p'))" and ?k = "ApiKey (job_client j)"
  note inv = system_invD [OF inv]
  have kept: "kept_from F (m0 ?k) p (cached w ?k)" and sound: "sound_job F locked cached slot keys j"
    using inv(1) [of i] inv(3) [of i] J by simp_all
  have new: "kept_from F (m0 ?k) p' (cached w' ?k)"
    using kept same enter p by (cases "inside p'") (auto simp: kept_from_outside, simp add: kept_from_def)
  have free: "\<not> inside (snd (J i'))" if "inside p'" for i' using inv(2) [of i'] enter [OF that] by blast
  show ?thesis
  proof (rule system_invI)
    show "sound_job F locked cached slot keys (fst (?J i'))" for i' using inv(1) sound by simp
    show "inside (snd (?J i')) \<Longrightarrow> locked w'" for i'
      using inv(2) [of i'] enter stay by (cases "inside p'"; cases "i' = i") auto
    show "kept_from F (m0 (ApiKey (job_client (fst (?J i'))))) (snd (?J i')) (cached w' (ApiKey (job_client (fst (?J i')))))"
      for i' using inv(3) [of i'] new same by (cases "i' = i") simp_all
    show "inside (snd (?J i1)) \<Longrightarrow> inside (snd (?J i2)) \<Longrightarrow> i1 = i2" for i1 i2
      using inv(4) [of i1 i2] free by (cases "i1 = i"; cases "i2 = i") auto
    show "k \<in> keys \<Longrightarrow> m0 k = Some st0 \<Longrightarrow> \<exists>s. cached w' k = Some s \<and> trust_path F st0 s" for k st0
      using inv(5) unfolding same .
  qed
qed

lemma changed_inv:
  assumes "system_inv F locked cached slot keys m0 (J, w)" and J: "J i = (j, p)"
    and same: "same_session j j'" and "sound_job F locked cached slot keys j'"
  shows "system_inv F locked cached slot keys m0 (J(i := (j', p)), w)"
proof -
  let ?J = "J(i := (j', p))"
  note inv = system_invD [OF assms(1)]
  have phase: "snd (?J i') = snd (J i')" and key: "ApiKey (job_client (fst (?J i'))) = ApiKey (job_client (fst (J i')))"
    for i' using J same by (auto simp: same_session_def)
  show ?thesis
  proof (rule system_invI)
    show "sound_job F locked cached slot keys (fst (?J i'))" for i' using inv(1) assms(4) by simp
    show "inside (snd (?J i')) \<Longrightarrow> locked w" for i' using inv(2) [of i'] by (simp only: phase)
    show "kept_from F (m0 (ApiKey (job_client (fst (?J i'))))) (snd (?J i')) (cached w (ApiKey (job_client (fst (?J i')))))"
      for i' using inv(3) [of i'] by (simp only: phase key)
    show "inside (snd (?J i1)) \<Longrightarrow> inside (snd (?J i2)) \<Longrightarrow> i1 = i2" for i1 i2
      using inv(4) [of i1 i2] by (simp only: phase)
  qed (rule inv(5))
qed

lemma goroutines_inv:
  assumes step: "goroutines F (sound_job F locked cached slot keys) (\<lambda>w. (locked w, cached w)) (J, w) (J', w')"
    and inv: "system_inv F locked cached slot keys m0 (J, w)" and keys: "inj_on slot keys"
  shows "system_inv F locked cached slot keys m0 (J', w')"
  using step
proof cases
  case (advance i j p p')
  note i = system_invD(1-3) [OF inv, of i, unfolded advance(2) fst_conv snd_conv]
  show ?thesis
  proof (cases "inside p")
    case True
    from step_inside [OF advance(3) i(1) True i(2) [OF True] i(3)]
    show ?thesis unfolding advance(1) by (rule advance_inside [OF inv keys advance(2) True])
  next
    case False
    from step_outside [OF advance(3) i(1) False]
    show ?thesis unfolding advance(1) by (intro advance_outside [OF inv advance(2) False]) auto
  qed
next
  case (changed i j p j')
  from changed_inv [OF inv changed(3-5)] show ?thesis unfolding changed(1,2) .
qed (use inv in \<open>auto simp: system_inv_def kept_from_outside sound_job_def\<close>)

lemma goroutines_run:
  assumes "(goroutines F (sound_job F locked cached slot keys) (\<lambda>w. (locked w, cached w)))\<^sup>*\<^sup>* (J, w) (J', w')"
    and "system_inv F locked cached slot keys m0 (J, w)" and "inj_on slot keys"
  shows "system_inv F locked cached slot keys m0 (J', w')"
  using assms
proof (induction "(J', w')" arbitrary: J' w' rule: rtranclp_induct)
  case (step y)
  then show ?case by (cases y) (auto intro: goroutines_inv)
qed simp

text \<open>Every goroutine is between calls.\<close>

lemma system_inv_start:
  assumes "\<And>i. sound_job F locked cached slot keys (fst (J i))" and "\<And>i. \<not> inside (snd (J i))"
  shows "system_inv F locked cached slot keys (cached w) (J, w)"
  using assms by (auto simp: system_inv_def kept_from_outside)

section \<open>Which jobs are sound\<close>

text \<open>The operations, on a client whose state service excludes other holders of the lock.\<close>

lemma one_answer_quiet: "(\<And>st. quiet obs (fetch st)) \<Longrightarrow> quiet obs (one_answer fetch st)"
  unfolding one_answer_def by (intro quiet_rules)

lemma one_answer_Ok:
  "one_answer fetch st w = (Ok (x, todo), w') \<Longrightarrow> \<exists>ns. fetch st w = (Ok (x, ns), w') \<and> todo = [Ok ns]"
  by (auto simp: one_answer_def ok_simps)

lemma protocol_job_sound:
  assumes "exclusive_state ss locked cached slot"
    and "\<And>ss'. StateService c = Some ss' \<Longrightarrow> exclusive_state ss' locked cached slot" and "ApiKey c \<in> keys"
    and "\<And>st. quiet (\<lambda>w. (locked w, cached w)) (fetch st)"
    and "\<And>st w x ns w'. fetch st w = (Ok (x, ns), w') \<Longrightarrow> advances F st ns"
  shows "sound_job F locked cached slot keys (protocol_job ss c ctx ord fetch)"
  using assms one_answer_quiet [of "\<lambda>w. (locked w, cached w)" fetch]
  by (fastforce simp: sound_job_def protocol_job_def dest: one_answer_Ok)

lemma multi_todo_advances:
  "Ok ns \<in> set (multi_todo F c st reqs errs i items) \<Longrightarrow> advances F st ns"
  by (induction items arbitrary: i)
    (auto simp: ok_simps eq_commute [of "Ok ns" "tryG a b" for a b] split: go.splits if_splits
      dest: verifyGet_advances)

lemma multi_fetch_quiet:
  assumes "client_network obs c"
  shows "quiet obs (multi_fetch F c ctx reqs st)"
  unfolding multi_fetch_def Let_def
  by (intro quiet_rules quiet_connection.verified_stubs_quiet client_network.network [OF assms])

lemma multi_fetch_advances:
  "multi_fetch F c ctx reqs st w = (Ok (x, todo), w') \<Longrightarrow> Ok ns \<in> set todo \<Longrightarrow> advances F st ns"
  by (auto simp: multi_fetch_def Let_def ok_simps split: if_splits dest: multi_todo_advances)

lemma multi_job_sound:
  assumes "exclusive_state ss locked cached slot" and "client_session ss locked cached slot c"
    and "ApiKey c \<in> keys"
  shows "sound_job F locked cached slot keys (multi_job F ss c ctx reqs)"
  using assms client_session.session [OF assms(2)]
    multi_fetch_quiet [OF client_session.axioms(2) [OF assms(2)]]
  by (auto simp: sound_job_def dest: multi_fetch_advances)

end
