(* ===== verification/Concurrent_Progress.thy ===== *)
theory Concurrent_Progress
  imports Concurrent_Sessions
begin

text \<open>
  Interleaved calls do not get stuck. Every job, left to itself, returns from whatever phase it is in, since
  nothing in a phase waits. So whoever holds the cache lock can be run to its end, which releases it, and a
  goroutine that waits for the lock then gets it. The lock is only ever held by a goroutine that is between
  \<open>CacheLock\<close> and \<open>CacheUnlock\<close>, also after errors and panics.
\<close>

section \<open>Every job returns\<close>

definition ends ::
    "('ip, 'dp, 'tx, 'md, 'es, 'k) immudb \<Rightarrow> ('w, 'ctx, 'k, 'sf, 'a) job \<Rightarrow> 'a phase \<Rightarrow> bool" where
  "ends F j p = (\<forall>w. \<exists>r w'. solo F j (p, w) (r, w'))"

lemma endsI: "(\<And>w. solo F j (p, w) (f w)) \<Longrightarrow> ends F j p"
  unfolding ends_def by (metis surj_pair)

lemma ends_step:
  assumes "\<And>w. ends F j (fst (phase_step F j (p, w)))" and "\<And>r. p \<noteq> Returned r"
  shows "ends F j p"
  unfolding ends_def
proof
  fix w
  obtain p' w' where "phase_step F j (p, w) = (p', w')" by (cases "phase_step F j (p, w)")
  with assms(1) [of w] show "\<exists>r w'. solo F j (p, w) (r, w')"
    unfolding ends_def by (subst solo_step [OF assms(2)]) auto
qed

lemma ends_Returned [simp]: "ends F j (Returned r)"
  by (simp add: ends_def)

lemma ends_Unlocking [simp]: "ends F j (Unlocking r)"
  by (rule ends_step) (simp_all split: prod.split go.split)

lemma ends_proceed: "(\<And>x. ends F j (f x)) \<Longrightarrow> ends F j (proceed r f)"
  by (cases r) auto

lemma ends_Working [simp]: "ends F j (Working st x todo)"
  by (rule endsI) (simp add: solo_Working)

lemma ends_Locking [simp]: "ends F j Locking"
  by (rule endsI) (simp add: solo_job)

lemma ends_Asking [simp]: "ends F j (Asking st)"
  by (rule ends_step) (auto split: prod.split intro: ends_proceed)

lemma ends_Reading [simp]: "ends F j Reading"
  by (rule ends_step) (auto split: prod.split intro: ends_proceed)

text \<open>Of \<open>Storing\<close> and \<open>Checking\<close> the second one of the order comes first here.\<close>

lemma ends_last:
  "job_order j = StoreFirst \<Longrightarrow> ends F j (Checking st x ns todo)"
  "job_order j = CheckFirst \<Longrightarrow> ends F j (Storing st x ns todo)"
  by (rule ends_step; auto split: prod.split intro: ends_proceed)+

lemma ends_Storing [simp]: "ends F j (Storing st x ns todo)"
proof (cases "job_order j")
  case StoreFirst
  then show ?thesis by (intro ends_step [of F j "Storing st x ns todo"]) (auto split: prod.split intro: ends_proceed ends_last)
qed (rule ends_last)

lemma ends_Checking [simp]: "ends F j (Checking st x ns todo)"
proof (cases "job_order j")
  case CheckFirst
  then show ?thesis by (intro ends_step [of F j "Checking st x ns todo"]) (auto intro: ends_proceed)
qed (rule ends_last)

lemma every_phase_ends: "ends F j p"
  by (cases p) simp_all

lemma solo_ends: "\<exists>r w'. solo F j (p, w) (r, w')"
  using every_phase_ends [of F j p] by (simp add: ends_def)

text \<open>What a job does alone it can do among others.\<close>

lemma solo_goroutines:
  assumes "solo F j pw y" and "J i = (j, fst pw)"
  shows "(goroutines F ok obs)\<^sup>*\<^sup>* (J, snd pw) (J(i := (j, Returned (fst y))), snd y)"
  using assms
proof (induction arbitrary: J rule: solo.induct)
  case (returned r w)
  then have "J(i := (j, Returned r)) = J" by (simp add: fun_upd_idem)
  then show ?case by simp
next
  case (phase p w y)
  obtain p' v where step: "phase_step F j (p, w) = (p', v)" by (cases "phase_step F j (p, w)")
  have "goroutines F ok obs (J, w) (J(i := (j, p')), v)"
    using phase.prems step by (intro goroutines.advance) simp_all
  moreover have "(goroutines F ok obs)\<^sup>*\<^sup>* (J(i := (j, p')), v) ((J(i := (j, p')))(i := (j, Returned (fst y))), snd y)"
    using phase.IH [of "J(i := (j, p'))"] by (simp only: step fst_conv snd_conv fun_upd_same simp_thms)
  ultimately show ?case
    unfolding fun_upd_upd fst_conv snd_conv by (rule converse_rtranclp_into_rtranclp)
qed

section \<open>Who holds the lock\<close>

definition lock_owned :: "('w \<Rightarrow> bool) \<Rightarrow> ('i \<Rightarrow> ('w, 'ctx, 'k, 'sf, 'a) job \<times> 'a phase) \<times> 'w \<Rightarrow> bool" where
  "lock_owned locked = (\<lambda>(J, w). locked w \<longrightarrow> (\<exists>i. inside (snd (J i))))"

lemma goroutines_owned:
  assumes step: "goroutines F (sound_job F locked cached slot keys) (\<lambda>w. (locked w, cached w)) (J, w) (J', w')"
    and inv: "system_inv F locked cached slot keys m0 (J, w)" and owned: "lock_owned locked (J, w)"
  shows "lock_owned locked (J', w')"
  using step
proof cases
  case (advance i j p p')
  note i = system_invD(1-3) [OF inv, of i, unfolded advance(2) fst_conv snd_conv]
  show ?thesis
  proof (cases "inside p")
    case True
    from step_inside [OF advance(3) i(1) True i(2) [OF True] i(3)]
    show ?thesis unfolding advance(1) by (auto simp: lock_owned_def kept_step_def)
  next
    case False
    from step_outside [OF advance(3) i(1) False] owned advance(2) False
    show ?thesis unfolding advance(1) by (auto simp: lock_owned_def) (metis snd_conv)
  qed
next
  case (call i j r j')
  with owned show ?thesis by (auto simp: lock_owned_def) (metis inside.simps(2) snd_conv)
next
  case (changed i j p j')
  with owned show ?thesis by (auto simp: lock_owned_def) (metis snd_conv)
next
  case other
  with owned show ?thesis by (auto simp: lock_owned_def)
qed

lemma goroutines_run_owned:
  assumes "(goroutines F (sound_job F locked cached slot keys) (\<lambda>w. (locked w, cached w)))\<^sup>*\<^sup>* (J, w) (J', w')"
    and "system_inv F locked cached slot keys m0 (J, w)" and "lock_owned locked (J, w)" and "inj_on slot keys"
  shows "lock_owned locked (J', w')"
  using assms
proof (induction "(J', w')" arbitrary: J' w' rule: rtranclp_induct)
  case (step y)
  obtain K v where y: "y = (K, v)" by (cases y)
  from goroutines_run [OF step(1) [unfolded y] step(4,6)] goroutines_owned [OF step(2) [unfolded y]] step(3) [OF y] step(4-6)
  show ?case by blast
qed simp

text \<open>The holder can be run to its end; nobody holds the lock then.\<close>

lemma lock_can_be_freed:
  assumes inv: "system_inv F locked cached slot keys m0 (J, w)" and owned: "lock_owned locked (J, w)"
    and keys: "inj_on slot keys" and i: "\<not> inside (snd (J i))"
  shows "\<exists>J' w'. (goroutines F (sound_job F locked cached slot keys) (\<lambda>w. (locked w, cached w)))\<^sup>*\<^sup>* (J, w) (J', w') \<and>
    J' i = J i \<and> \<not> locked w'"
proof (cases "locked w")
  case True
  with owned obtain h where h: "inside (snd (J h))" by (auto simp: lock_owned_def)
  obtain j p where jp: "J h = (j, p)" by (cases "J h")
  from solo_ends [of F j p w] obtain r w' where "solo F j (p, w) (r, w')" by auto
  from solo_goroutines [OF this, of J h] jp
  have run: "(goroutines F (sound_job F locked cached slot keys) (\<lambda>w. (locked w, cached w)))\<^sup>*\<^sup>*
      (J, w) (J(h := (j, Returned r)), w')" by simp
  have "\<not> inside (snd ((J(h := (j, Returned r))) i'))" for i'
    using system_invD(4) [OF inv h, of i'] by auto
  with goroutines_run_owned [OF run inv owned keys] have "\<not> locked w'" by (auto simp: lock_owned_def)
  moreover have "(J(h := (j, Returned r))) i = J i" using h i by auto
  ultimately show ?thesis using run by blast
qed auto

text \<open>Whoever waits gets the lock, runs, and leaves it free.\<close>

lemma waiting_can_run:
  assumes inv: "system_inv F locked cached slot keys m0 (J, w)" and owned: "lock_owned locked (J, w)"
    and keys: "inj_on slot keys" and i: "J i = (j, Locking)"
    and ss: "job_service j = Some ss" and live: "live_state ss locked cached slot"
  shows "\<exists>K v v1 r v2. (goroutines F (sound_job F locked cached slot keys) (\<lambda>w. (locked w, cached w)))\<^sup>*\<^sup>* (J, w) (K, v) \<and>
    K i = (j, Locking) \<and> \<not> locked v \<and> CacheLock ss v = (Ok (), v1) \<and> solo F j (Locking, v) (r, v2) \<and>
    (goroutines F (sound_job F locked cached slot keys) (\<lambda>w. (locked w, cached w)))\<^sup>*\<^sup>* (K, v)
      (K(i := (j, Returned r)), v2) \<and> \<not> locked v2"
proof -
  have "\<not> inside (snd (J i))" using i by simp
  from lock_can_be_freed [OF inv owned keys this, unfolded i] obtain K v
    where free: "(goroutines F (sound_job F locked cached slot keys) (\<lambda>w. (locked w, cached w)))\<^sup>*\<^sup>* (J, w) (K, v)"
      "K i = (j, Locking)" "\<not> locked v" by blast
  from live_state.lock_granted [OF live free(3)] obtain v1 where "CacheLock ss v = (Ok (), v1)" by blast
  moreover from solo_ends [of F j Locking v] obtain r v2 where solo: "solo F j (Locking, v) (r, v2)" by auto
  moreover from solo_goroutines [OF solo, of K i] free(2)
  have run: "(goroutines F (sound_job F locked cached slot keys) (\<lambda>w. (locked w, cached w)))\<^sup>*\<^sup>* (K, v)
      (K(i := (j, Returned r)), v2)" by simp
  moreover have "\<not> locked v2"
  proof -
    note here = goroutines_run [OF free(1) inv keys] goroutines_run_owned [OF free(1) inv owned keys]
    have "\<not> inside (snd ((K(i := (j, Returned r))) i'))" for i'
      using system_invD(2) [OF here(1), of i'] free(3) by auto
    with goroutines_run_owned [OF run here keys] show ?thesis by (auto simp: lock_owned_def)
  qed
  ultimately show ?thesis using free by blast
qed

end
