(* ===== verification/Concurrency_Guarantees.thy ===== *)
theory Concurrency_Guarantees
  imports Trust_Guarantees Concurrent_Progress
begin

text \<open>
  What the verified operations guarantee when several goroutines call them at once, on one client or on
  several that share a cache: the operations are the jobs of \<open>Concurrent_Sessions\<close>, and every
  interleaving of such jobs keeps what a single caller relies on.
\<close>

section \<open>The operations as jobs\<close>

text \<open>C24. Every verified operation is a job of the interleaved model: run alone, its phases give exactly
  the result and the world of the operation; and on a client with a session whose cache lock excludes
  other holders it may take part in an interleaving, what it stores being vouched for by proofs.\<close>

theorem operations_are_jobs:
  assumes session: "stream_session ss locked cached slot c S" and excl: "exclusive_state ss locked cached slot"
    and "ApiKey c \<in> keys" and "kvs \<noteq> []"
    and "length (VCNArtifactsGetRequest_Hashes areq) = 1" and "VCNArtifactsGetRequest_Verify areq"
  shows "solo F (protocol_job ss c ctx StoreFirst (verifiedGet_fetch F c ctx kr)) (Locking, w) y1 =
        (y1 = verifiedGet F c ctx kr w) \<and>
    solo F (protocol_job ss c ctx StoreFirst (verifiedGetExt_fetch F c ctx kr)) (Locking, w) y2 =
        (y2 = verifiedGetExt F c ctx kr w) \<and>
    solo F (protocol_job ss c ctx StoreFirst (VCNGetArtifacts_fetch F c ctx areq)) (Locking, w) y3 =
        (y3 = VCNGetArtifacts F c ctx areq w) \<and>
    solo F (protocol_job ss c ctx CheckFirst (VerifiedSet_fetch F c ctx key val)) (Locking, w) y4 =
        (y4 = VerifiedSet F c ctx key val w) \<and>
    solo F (protocol_job ss c ctx CheckFirst (StreamVerifiedSet_fetch F S c ctx kvs)) (Locking, w) y5 =
        (y5 = StreamVerifiedSet F S c ctx kvs w) \<and>
    solo F (protocol_job ss c ctx CheckFirst (StreamVerifiedGet_fetch F S c ctx req)) (Locking, w) y6 =
        (y6 = StreamVerifiedGet F S c ctx req w) \<and>
    solo F (multi_job F ss c ctx krs) (Locking, w) y7 = (y7 = verifiedGetExtMulti F c ctx krs w) \<and>
    sound_job F locked cached slot keys (protocol_job ss c ctx StoreFirst (verifiedGet_fetch F c ctx kr)) \<and>
    sound_job F locked cached slot keys (protocol_job ss c ctx StoreFirst (verifiedGetExt_fetch F c ctx kr)) \<and>
    sound_job F locked cached slot keys (protocol_job ss c ctx StoreFirst (VCNGetArtifacts_fetch F c ctx areq)) \<and>
    sound_job F locked cached slot keys (protocol_job ss c ctx CheckFirst (VerifiedSet_fetch F c ctx key val)) \<and>
    sound_job F locked cached slot keys (protocol_job ss c ctx CheckFirst (StreamVerifiedSet_fetch F S c ctx kvs)) \<and>
    sound_job F locked cached slot keys (protocol_job ss c ctx CheckFirst (StreamVerifiedGet_fetch F S c ctx req)) \<and>
    sound_job F locked cached slot keys (multi_job F ss c ctx krs)"
proof -
  have cs: "client_session ss locked cached slot c" using session by (simp add: stream_session_def)
  note quiet = client_session.session_fetches_quiet(2) [OF cs] client_session.session_fetches_quiet(3) [OF cs]
    client_session.session_fetches_quiet(4) [OF cs] client_session.session_fetches_quiet(1) [OF cs]
    stream_session.session_streams_quiet [OF session]
  note ss = client_session.session [OF cs]
  have same: "exclusive_state ss' locked cached slot" if "StateService c = Some ss'" for ss' using that ss excl by simp
  note sound = protocol_job_sound [OF excl same assms(3)]
  note solo = solo_store_then_check [OF ss] solo_check_then_store [OF ss] solo_multi [OF ss]
  note ops = verifiedGet_def verifiedGetExt_def VerifiedSet_def StreamVerifiedGet_def
  have "VCNGetArtifacts F c ctx areq = store_then_check F c ctx (VCNGetArtifacts_fetch F c ctx areq)"
    "StreamVerifiedSet F S c ctx kvs = check_then_store F c ctx (StreamVerifiedSet_fetch F S c ctx kvs)"
    using assms(4-6) by (simp_all add: VCNGetArtifacts_def StreamVerifiedSet_def)
  moreover have "sound_job F locked cached slot keys (protocol_job ss c ctx StoreFirst (verifiedGet_fetch F c ctx kr))"
    by (rule sound) (auto intro: quiet fetch_advances)
  moreover have "sound_job F locked cached slot keys (protocol_job ss c ctx StoreFirst (verifiedGetExt_fetch F c ctx kr))"
    by (rule sound) (auto intro: quiet fetch_advances)
  moreover have "sound_job F locked cached slot keys (protocol_job ss c ctx StoreFirst (VCNGetArtifacts_fetch F c ctx areq))"
    by (rule sound) (auto intro: quiet fetch_advances)
  moreover have "sound_job F locked cached slot keys (protocol_job ss c ctx CheckFirst (VerifiedSet_fetch F c ctx key val))"
    by (rule sound) (auto intro: quiet VerifiedSet_fetch_advances)
  moreover have "sound_job F locked cached slot keys (protocol_job ss c ctx CheckFirst (StreamVerifiedSet_fetch F S c ctx kvs))"
    by (rule sound) (auto intro: quiet stream_fetch_advances)
  moreover have "sound_job F locked cached slot keys (protocol_job ss c ctx CheckFirst (StreamVerifiedGet_fetch F S c ctx req))"
    by (rule sound) (auto intro: quiet stream_fetch_advances)
  ultimately show ?thesis
    using multi_job_sound [OF excl cs assms(3), of F ctx krs] unfolding solo ops by simp
qed

lemma ref_exclusive: "exclusive_state ref_state w_locked w_cache (\<lambda>k. k)"
  by unfold_locales (auto simp: ref_state_def split: if_splits)

lemma ref_wrapped_exclusive: "exclusive_state (lcStateService (sha256 ref_platform) ref_state) w_locked
    wrapped_cache (obfuscateApiKey (sha256 ref_platform))"
  using wrapper_exclusive [OF ref_exclusive, of "sha256 ref_platform"]
  by (simp add: wrapped_cache_def [abs_def])

interpretation ref_exclusive: exclusive_state "lcStateService (sha256 ref_platform) ref_state" w_locked
    wrapped_cache "obfuscateApiKey (sha256 ref_platform)"
  by (rule ref_wrapped_exclusive)

definition ref_job :: "(world, unit, wire, (world, unit, bytes) StreamFactory, Entry option) job" where
  "ref_job = protocol_job (lcStateService (sha256 ref_platform) ref_state) (ref_client None) () StoreFirst
     (verifiedGet_fetch ref_immudb (ref_client None) () (key_request [5]))"

theorem operations_are_jobs_witness:
  "solo ref_immudb ref_job (Locking, get_world) (verifiedGet ref_immudb (ref_client None) () (key_request [5]) get_world) \<and>
   sound_job ref_immudb w_locked wrapped_cache (obfuscateApiKey (sha256 ref_platform)) {''signer.key''} ref_job"
proof -
  let ?areq = "\<lparr>VCNArtifactsGetRequest_Hashes = [[]], VCNArtifactsGetRequest_Verify = True,
     VCNArtifactsGetRequest_ProveSinceTx = 0, VCNArtifactsGetRequest_UID = [],
     VCNArtifactsGetRequest_SignerID = []\<rparr>"
  have "ApiKey (ref_client None) \<in> {''signer.key''}" "ref_kvs \<noteq> []"
    "length (VCNArtifactsGetRequest_Hashes ?areq) = 1" "VCNArtifactsGetRequest_Verify ?areq"
    by simp_all
  from operations_are_jobs [OF ref_stream_session ref_wrapped_exclusive this,
      of ref_immudb "()" "key_request [5]" get_world]
  show ?thesis unfolding ref_job_def by blast
qed

lemma ref_job_sound:
  "sound_job ref_immudb w_locked wrapped_cache (obfuscateApiKey (sha256 ref_platform)) {''signer.key''} ref_job"
  unfolding ref_job_def
  by (rule protocol_job_sound [OF ref_wrapped_exclusive])
    (auto intro: ref_wrapped_exclusive client_session.session_fetches_quiet(2) [OF ref_session] fetch_advances)

section \<open>Interleavings\<close>

text \<open>C12. One at a time: however the calls of any number of goroutines interleave, also while others set the
  signing key of the client a call is using, disconnect it or connect it again, at most one of them is
  between taking the cache lock and releasing it, the lock is held while it is, and while it asks the
  server for proofs from the trusted state it read, that is still the cached state: no update is lost.\<close>

theorem one_session_at_a_time:
  assumes "(goroutines F (sound_job F locked cached slot keys) (\<lambda>w. (locked w, cached w)))\<^sup>*\<^sup>* (J, w) (J', w')"
    and "\<And>i. sound_job F locked cached slot keys (fst (J i))" and "\<And>i. \<not> inside (snd (J i))"
    and "inj_on slot keys"
  shows "(inside (snd (J' i)) \<longrightarrow> locked w') \<and>
    (inside (snd (J' i)) \<longrightarrow> inside (snd (J' i')) \<longrightarrow> i = i') \<and>
    (\<forall>st. snd (J' i) = Asking st \<longrightarrow> cached w' (ApiKey (job_client (fst (J' i)))) = Some st)"
proof -
  note inv = goroutines_run [OF assms(1) system_inv_start [OF assms(2,3)] assms(4), unfolded system_inv_def prod.case]
  from inv have "kept_from F (cached w (ApiKey (job_client (fst (J' i))))) (snd (J' i))
      (cached w' (ApiKey (job_client (fst (J' i)))))" by blast
  then have "\<forall>st. snd (J' i) = Asking st \<longrightarrow> cached w' (ApiKey (job_client (fst (J' i)))) = Some st"
    by (auto simp: kept_from_def)
  with inv show ?thesis by blast
qed

text \<open>Two goroutines read the same key at once; the first one has reached the point where it asks.\<close>

definition idle_pair ::
    "bool \<Rightarrow> (world, unit, wire, (world, unit, bytes) StreamFactory, Entry option) job \<times> Entry option phase" where
  "idle_pair = (\<lambda>_. (ref_job, Locking))"

definition asking_pair ::
    "bool \<Rightarrow> (world, unit, wire, (world, unit, bytes) StreamFactory, Entry option) job \<times> Entry option phase" where
  "asking_pair = idle_pair(True := (ref_job, Reading), True := (ref_job, Asking (state_at 1 [1])))"

definition held_world :: world where
  "held_world = get_world\<lparr>w_locked := True\<rparr>"

lemmas pair_defs = idle_pair_def asking_pair_def held_world_def ref_job_def protocol_job_def wrapper_defs ref_defs

lemma ref_interleaving:
  "(goroutines ref_immudb (sound_job ref_immudb w_locked wrapped_cache (obfuscateApiKey (sha256 ref_platform))
      {''signer.key''}) (\<lambda>w. (w_locked w, wrapped_cache w)))\<^sup>*\<^sup>* (idle_pair, get_world) (asking_pair, held_world)"
proof (rule converse_rtranclp_into_rtranclp [OF _ r_into_rtranclp])
  show "goroutines ref_immudb (sound_job ref_immudb w_locked wrapped_cache (obfuscateApiKey (sha256 ref_platform))
      {''signer.key''}) (\<lambda>w. (w_locked w, wrapped_cache w))
     (idle_pair, get_world) (idle_pair(True := (ref_job, Reading)), held_world)"
    by (rule goroutines.advance [where p = Locking]) (simp_all add: pair_defs)
  show "goroutines ref_immudb (sound_job ref_immudb w_locked wrapped_cache (obfuscateApiKey (sha256 ref_platform))
      {''signer.key''}) (\<lambda>w. (w_locked w, wrapped_cache w))
     (idle_pair(True := (ref_job, Reading)), held_world) (asking_pair, held_world)"
    unfolding asking_pair_def
    by (rule goroutines.advance [where p = Reading]) (simp_all add: pair_defs)
qed

lemma idle_pair_sound:
  "sound_job ref_immudb w_locked wrapped_cache (obfuscateApiKey (sha256 ref_platform)) {''signer.key''}
     (fst (idle_pair i))"
  "\<not> inside (snd (idle_pair i))"
  by (simp_all add: idle_pair_def ref_job_sound)

lemma ref_one_slot: "inj_on (obfuscateApiKey (sha256 ref_platform)) {''signer.key''}"
  by simp

theorem one_session_at_a_time_witness:
  "w_locked held_world \<and> wrapped_cache held_world (ApiKey (ref_client None)) = Some (state_at 1 [1])"
  using one_session_at_a_time [OF ref_interleaving idle_pair_sound ref_one_slot, of True]
  by (simp add: asking_pair_def ref_job_def protocol_job_def)



section \<open>Progress\<close>

text \<open>C14. No deadlock: in every system that interleaved calls can reach, a goroutine that waits for the
  cache lock can be brought to the point where the lock is free and granted to it; it then runs its whole
  operation, returns, and leaves the lock free, whatever error or panic ended the calls before it or ends
  its own. What this needs of the state service is that a free lock is granted.\<close>

theorem no_deadlock:
  assumes "(goroutines F (sound_job F locked cached slot keys) (\<lambda>w. (locked w, cached w)))\<^sup>*\<^sup>* (J, w) (J', w')"
    and "\<And>i. sound_job F locked cached slot keys (fst (J i))" and "\<And>i. \<not> inside (snd (J i))"
    and "inj_on slot keys" and "\<not> locked w" and "J' i = (j, Locking)"
    and "job_service j = Some ss" and "live_state ss locked cached slot"
  shows "\<exists>K v v1 r v2.
    (goroutines F (sound_job F locked cached slot keys) (\<lambda>w. (locked w, cached w)))\<^sup>*\<^sup>* (J', w') (K, v) \<and>
    K i = (j, Locking) \<and> \<not> locked v \<and> CacheLock ss v = (Ok (), v1) \<and>
    solo F j (Locking, v) (r, v2) \<and>
    (goroutines F (sound_job F locked cached slot keys) (\<lambda>w. (locked w, cached w)))\<^sup>*\<^sup>* (K, v)
      (K(i := (j, Returned r)), v2) \<and> \<not> locked v2"
proof -
  note start = system_inv_start [OF assms(2,3)]
  have "lock_owned locked (J, w)" using assms(5) by (simp add: lock_owned_def)
  from waiting_can_run [OF goroutines_run [OF assms(1) start assms(4)]
      goroutines_run_owned [OF assms(1) start this assms(4)] assms(4,6,7,8)]
  show ?thesis .
qed

lemma ref_wrapped_live: "live_state (lcStateService (sha256 ref_platform) ref_state) w_locked
    wrapped_cache (obfuscateApiKey (sha256 ref_platform))"
  using live_state.wrapper_live [OF ref_live_state, of "sha256 ref_platform"]
  by (simp add: wrapped_cache_def [abs_def])

text \<open>The second reader waits while the first one asks.\<close>

theorem no_deadlock_witness:
  "\<exists>K v v1 r v2.
    (goroutines ref_immudb (sound_job ref_immudb w_locked wrapped_cache (obfuscateApiKey (sha256 ref_platform))
      {''signer.key''}) (\<lambda>w. (w_locked w, wrapped_cache w)))\<^sup>*\<^sup>* (asking_pair, held_world) (K, v) \<and>
    K False = (ref_job, Locking) \<and> \<not> w_locked v \<and> CacheLock (job_locker ref_job) v = (Ok (), v1) \<and>
    solo ref_immudb ref_job (Locking, v) (r, v2) \<and>
    (goroutines ref_immudb (sound_job ref_immudb w_locked wrapped_cache (obfuscateApiKey (sha256 ref_platform))
      {''signer.key''}) (\<lambda>w. (w_locked w, wrapped_cache w)))\<^sup>*\<^sup>* (K, v) (K(False := (ref_job, Returned r)), v2) \<and>
    \<not> w_locked v2"
proof (rule no_deadlock [OF ref_interleaving idle_pair_sound ref_one_slot])
  show "\<not> w_locked get_world" by (simp add: ref_defs)
  show "asking_pair False = (ref_job, Locking)" by (simp add: asking_pair_def idle_pair_def)
  show "job_service ref_job = Some (job_locker ref_job)" by (simp add: ref_job_def protocol_job_def)
  show "live_state (job_locker ref_job) w_locked wrapped_cache (obfuscateApiKey (sha256 ref_platform))"
    using ref_wrapped_live by (simp add: ref_job_def protocol_job_def)
qed

end
