(* ===== verification/Concurrent_Ledger.thy ===== *)
theory Concurrent_Ledger
  imports Concurrent_Sessions Ledger
begin

text \<open>
  What interleaved calls may conclude from their answers. A result of a job vouches for entries of the ledger
  (\<open>claims\<close>); the state that the job stores last is one in which these entries are recorded
  (\<open>claiming_job\<close>), so of a batch only the item checked last counts. Under any interleaving, what a returned call vouched for stays recorded in the cached
  state of its API key, although other calls replace that state. Such a call may have begun from an older
  state than the cached one only while it is a batch that has stored part of its answers, so the invariant also
  speaks of the state the call under the lock began with.
\<close>

section \<open>Claims\<close>

type_synonym entry_claim = "bytes \<times> u64 \<times> bytes"

definition upheld ::
    "('ip, 'dp, 'tx, 'md, 'es, 'k) immudb \<Rightarrow> (u64 \<times> bytes \<Rightarrow> u64 \<times> bytes \<Rightarrow> bool) \<Rightarrow> ('a \<Rightarrow> entry_claim set) \<Rightarrow>
     'a \<Rightarrow> ImmutableState \<Rightarrow> bool" where
  "upheld F extends claims x st =
     (\<forall>(key, tx, val) \<in> claims x. 0 < tx \<longrightarrow> recorded F extends key val tx st)"

definition claiming_job ::
    "('ip, 'dp, 'tx, 'md, 'es, 'k) immudb \<Rightarrow> (u64 \<times> bytes \<Rightarrow> u64 \<times> bytes \<Rightarrow> bool) \<Rightarrow> ('a \<Rightarrow> entry_claim set) \<Rightarrow>
     ('w, 'ctx, 'k, 'sf, 'a) job \<Rightarrow> bool" where
  "claiming_job F extends claims j =
     (\<forall>st w x todo w'. job_fetch j st w = (Ok (x, todo), w') \<longrightarrow>
        (if todo = [] then claims x = {} else \<forall>ns. last todo = Ok ns \<longrightarrow> upheld F extends claims x ns))"

lemma upheld_empty: "claims x = {} \<Longrightarrow> upheld F extends claims x st"
  by (simp add: upheld_def)

context ledger
begin

lemma upheld_kept:
  "upheld F extends claims x st \<Longrightarrow> trust_path F st st' \<Longrightarrow> upheld F extends claims x st'"
  by (auto simp: upheld_def intro: recorded_kept)

lemma upheld_agree:
  assumes "upheld F extends claims x st" and "upheld F extends claims x' st"
    and "(key, tx, val) \<in> claims x" and "(key, tx, val') \<in> claims x'" and "0 < tx"
  shows "val = val'"
  using assms unfolding upheld_def by (blast intro: recorded_unique)

end

text \<open>\<open>R x st\<close> is that the result \<open>x\<close> is upheld by the state \<open>st\<close>.\<close>

definition holds_in :: "('a \<Rightarrow> ImmutableState \<Rightarrow> bool) \<Rightarrow> 'a \<Rightarrow> ImmutableState option \<Rightarrow> bool" where
  "holds_in R x cur = (\<exists>s. cur = Some s \<and> R x s)"

text \<open>Or will be, by the last state that is left to store.\<close>

definition last_holds :: "('a \<Rightarrow> ImmutableState \<Rightarrow> bool) \<Rightarrow> 'a \<Rightarrow> ImmutableState go list \<Rightarrow> bool" where
  "last_holds R x todo = (\<forall>n. last todo = Ok n \<longrightarrow> R x n)"

lemma last_holds_simps [simp]:
  "last_holds R x [Ok ns] = R x ns"
  "todo \<noteq> [] \<Longrightarrow> last_holds R x (r # todo) = last_holds R x todo"
  by (simp_all add: last_holds_def)

fun claim_inv :: "('a \<Rightarrow> ImmutableState \<Rightarrow> bool) \<Rightarrow> order \<Rightarrow> 'a phase \<Rightarrow> ImmutableState option \<Rightarrow> bool" where
  "claim_inv R ord (Working st x todo) cur =
     (if todo = [] then holds_in R x cur else last_holds R x todo)"
| "claim_inv R ord (Storing st x ns todo) cur = last_holds R x (Ok ns # todo)"
| "claim_inv R ord (Checking st x ns todo) cur =
     (last_holds R x (Ok ns # todo) \<and> (ord = StoreFirst \<longrightarrow> todo = [] \<longrightarrow> holds_in R x cur))"
| "claim_inv R ord (Unlocking (Ok x)) cur = holds_in R x cur"
| "claim_inv R ord (Returned (Ok x)) cur = holds_in R x cur"
| "claim_inv R ord p cur = True"

section \<open>One step\<close>

lemma claim_inv_proceed:
  "(\<And>y. r = Ok y \<Longrightarrow> claim_inv R ord (f y) cur) \<Longrightarrow> claim_inv R ord (proceed r f) cur"
  by (cases r) auto

text \<open>A step under the lock leaves the cached state, or finds the first one, or moves it from the base.\<close>

lemma step_cached:
  assumes step: "phase_step F j (p, w) = (p', w')" and sound: "sound_job F locked cached slot keys j"
    and p: "inside p" "locked w" and inv: "phase_inv F p (cached w (ApiKey (job_client j)))"
  shows "cached w' (ApiKey (job_client j)) = cached w (ApiKey (job_client j)) \<or>
    cached w (ApiKey (job_client j)) = None \<or>
    (\<exists>b ns. phase_base p = Some b \<and> advances F b ns \<and> cached w' (ApiKey (job_client j)) = Some ns)"
proof -
  let ?k = "ApiKey (job_client j)"
  have locker: "trusted_state (job_locker j) locked cached slot"
    and service: "job_service j = Some ss \<Longrightarrow> trusted_state ss locked cached slot" for ss
    using sound by (auto simp: sound_job_def exclusive_state_def)
  show ?thesis
  proof (cases p)
    case Reading
    show ?thesis
    proof (cases "job_service j")
      case (Some ss)
      obtain r v where get: "GetState ss (job_ctx j) ?k w = (r, v)" by (cases "GetState ss (job_ctx j) ?k w")
      then have "w' = v" using step Reading Some by auto
      with trusted_state.get_law [OF service [OF Some], of "job_ctx j" ?k w _ v] trusted_state.get_error [OF service [OF Some] get] get
      show ?thesis by (cases r) auto
    qed (use step Reading in auto)
  next
    case (Asking st)
    have "quiet (\<lambda>w. (locked w, cached w)) (job_fetch j st)" using sound by (simp add: sound_job_def)
    with step Asking show ?thesis by (auto split: prod.splits dest: quietD)
  next
    case (Storing st x ns todo)
    show ?thesis
    proof (cases "job_service j")
      case (Some ss)
      obtain r v where set: "SetState ss ?k ns w = (r, v)" by (cases "SetState ss ?k ns w")
      then have "w' = v" using step Storing Some by auto
      moreover have "advances F st ns" using inv Storing by (simp add: based_def)
      ultimately show ?thesis
        using trusted_state.set_law [OF service [OF Some], of ?k ns w v] Storing
          trusted_state.set_error [OF service [OF Some] set] set
        by (cases "r = Ok ()") auto
    qed (use step Storing in auto)
  next
    case (Unlocking r)
    from trusted_state.unlock_law [OF locker p(2)] obtain v
      where "CacheUnlock (job_locker j) w = (Ok (), v)" "cached v = cached w" by blast
    with step Unlocking show ?thesis by auto
  next
    case (Working st x todo)
    with step show ?thesis by (cases todo) auto
  qed (use step p in auto)
qed

text \<open>A step keeps what its own job claims.\<close>

lemma step_claims:
  assumes step: "phase_step F j (p, w) = (p', w')" and sound: "sound_job F locked cached slot keys j"
    and claims: "claiming_job F extends claims j"
    and p: "inside p" "locked w" and inv: "phase_inv F p (cached w (ApiKey (job_client j)))"
    and own: "claim_inv (upheld F extends claims) (job_order j) p (cached w (ApiKey (job_client j)))"
  shows "claim_inv (upheld F extends claims) (job_order j) p' (cached w' (ApiKey (job_client j)))"
proof -
  let ?k = "ApiKey (job_client j)" and ?R = "upheld F extends claims"
  have locker: "trusted_state (job_locker j) locked cached slot"
    and service: "job_service j = Some ss \<Longrightarrow> trusted_state ss locked cached slot" for ss
    using sound by (auto simp: sound_job_def exclusive_state_def)
  show ?thesis
  proof (cases p)
    case Reading
    with step show ?thesis by (auto split: prod.splits intro: claim_inv_proceed)
  next
    case (Asking st)
    obtain r v where ask: "job_fetch j st w = (r, v)" by (cases "job_fetch j st w")
    have "quiet (\<lambda>w. (locked w, cached w)) (job_fetch j st)" using sound by (simp add: sound_job_def)
    from quietD [OF this ask] have "cached v = cached w" by simp
    with inv Asking have cur: "cached v ?k = Some st" by simp
    show ?thesis
    proof (cases r)
      case (Ok y)
      obtain x todo where y: "y = (x, todo)" by (cases y)
      from ask Ok y claims have "if todo = [] then claims x = {} else last_holds ?R x todo"
        unfolding claiming_job_def last_holds_def by blast
      with step Asking ask Ok y cur show ?thesis by (auto simp: holds_in_def upheld_empty)
    qed (use step Asking ask in auto)
  next
    case (Working st x todo)
    with step own show ?thesis
      by (cases todo; cases "tl todo = []"; cases "hd todo"; cases "job_order j") auto
  next
    case (Storing st x ns todo)
    show ?thesis
    proof (cases "job_service j")
      case (Some ss)
      obtain r v where set: "SetState ss ?k ns w = (r, v)" by (cases "SetState ss ?k ns w")
      with trusted_state.set_law [OF service [OF Some], of ?k ns w v] step Storing Some own show ?thesis
        by (cases r; cases "job_order j"; cases "todo = []") (auto simp: holds_in_def)
    qed (use step Storing in auto)
  next
    case (Checking st x ns todo)
    with step own show ?thesis
      by (cases "check_signature F (job_client j) ns"; cases "job_order j"; cases "todo = []") auto
  next
    case (Unlocking r)
    from trusted_state.unlock_law [OF locker p(2)] obtain v
      where "CacheUnlock (job_locker j) w = (Ok (), v)" "cached v = cached w" by blast
    with step Unlocking own show ?thesis by (cases r) auto
  qed (use p in simp_all)
qed

section \<open>Every interleaving\<close>

definition sound_claim ::
    "('ip, 'dp, 'tx, 'md, 'es, 'k) immudb \<Rightarrow> (u64 \<times> bytes \<Rightarrow> u64 \<times> bytes \<Rightarrow> bool) \<Rightarrow> ('a \<Rightarrow> entry_claim set) \<Rightarrow>
     ('w \<Rightarrow> bool) \<Rightarrow> ('w \<Rightarrow> string \<Rightarrow> ImmutableState option) \<Rightarrow> (string \<Rightarrow> string) \<Rightarrow> string set \<Rightarrow>
     ('w, 'ctx, 'k, 'sf, 'a) job \<Rightarrow> bool" where
  "sound_claim F extends claims locked cached slot keys j =
     (sound_job F locked cached slot keys j \<and> claiming_job F extends claims j)"

text \<open>What a returned call vouched for is recorded in the cached state, and in the state that the call under the
  lock began with.\<close>

definition claims_inv ::
    "('a \<Rightarrow> ImmutableState \<Rightarrow> bool) \<Rightarrow> ('w \<Rightarrow> string \<Rightarrow> ImmutableState option) \<Rightarrow>
     ('i \<Rightarrow> ('w, 'ctx, 'k, 'sf, 'a) job \<times> 'a phase) \<times> 'w \<Rightarrow> bool" where
  "claims_inv R cached = (\<lambda>(J, w). \<forall>i.
     claim_inv R (job_order (fst (J i))) (snd (J i)) (cached w (ApiKey (job_client (fst (J i))))) \<and>
     (\<forall>i' x b. i' \<noteq> i \<longrightarrow> snd (J i) = Returned (Ok x) \<longrightarrow>
        ApiKey (job_client (fst (J i'))) = ApiKey (job_client (fst (J i))) \<longrightarrow>
        phase_base (snd (J i')) = Some b \<longrightarrow> R x b))"

lemma claims_invD:
  assumes "claims_inv R cached (J, w)"
  shows "claim_inv R (job_order (fst (J i))) (snd (J i)) (cached w (ApiKey (job_client (fst (J i)))))"
    and "i' \<noteq> i \<Longrightarrow> snd (J i) = Returned (Ok x) \<Longrightarrow>
      ApiKey (job_client (fst (J i'))) = ApiKey (job_client (fst (J i))) \<Longrightarrow> phase_base (snd (J i')) = Some b \<Longrightarrow> R x b"
  using assms by (auto simp: claims_inv_def)

lemma claims_invI:
  assumes "\<And>i. claim_inv R (job_order (fst (J i))) (snd (J i)) (cached w (ApiKey (job_client (fst (J i)))))"
    and "\<And>i i' x b. i' \<noteq> i \<Longrightarrow> snd (J i) = Returned (Ok x) \<Longrightarrow>
      ApiKey (job_client (fst (J i'))) = ApiKey (job_client (fst (J i))) \<Longrightarrow> phase_base (snd (J i')) = Some b \<Longrightarrow> R x b"
  shows "claims_inv R cached (J, w)"
  using assms by (auto simp: claims_inv_def)

lemma phase_base_inside: "phase_base p = Some b \<Longrightarrow> inside p"
  by (cases p) auto

text \<open>A base is the state a call has just read, or the one it had.\<close>

lemma step_base:
  assumes "phase_step F j (p, w) = (p', w')" and "phase_base p' = Some b" and "phase_base p \<noteq> Some b"
  shows "p = Reading \<and> p' = Asking b"
proof (cases p)
  case Reading
  with assms show ?thesis by (cases "fst (derefE (job_service j) (\<lambda>ss. GetState ss (job_ctx j) (ApiKey (job_client j))) w)")
    (auto split: prod.splits)
next
  case (Working st x todo)
  with assms show ?thesis by (cases todo; cases "hd todo"; cases "job_order j") auto
next
  case (Storing st x ns todo)
  with assms show ?thesis
    by (cases "fst (derefE (job_service j) (\<lambda>ss. SetState ss (ApiKey (job_client j)) ns) w)"; cases "job_order j")
      (auto split: prod.splits)
next
  case (Checking st x ns todo)
  with assms show ?thesis by (cases "check_signature F (job_client j) ns"; cases "job_order j") auto
next
  case (Asking st)
  with assms show ?thesis by (cases "fst (job_fetch j st w)") (auto split: prod.splits)
qed (use assms in \<open>auto split: prod.splits go.splits\<close>)

lemma claim_inv_outside:
  "\<not> inside p \<Longrightarrow> claim_inv R ord p cur = (\<forall>x. p = Returned (Ok x) \<longrightarrow> holds_in R x cur)"
  by (cases "(R, ord, p, cur)" rule: claim_inv.cases) auto

context ledger
begin

text \<open>A step of the call under the lock keeps what the returned ones claim.\<close>

lemma claims_inside:
  assumes step: "phase_step F j (p, w) = (p', w')" and inv: "system_inv F locked cached slot keys m0 (J, w)"
    and own: "claiming_job F extends claims j" and cl: "claims_inv (upheld F extends claims) cached (J, w)"
    and keys: "inj_on slot keys" and J: "J i = (j, p)" and p: "inside p"
  shows "claims_inv (upheld F extends claims) cached (J(i := (j, p')), w')"
proof -
  let ?R = "upheld F extends claims" and ?key = "\<lambda>i. ApiKey (job_client (fst (J i)))" and ?J = "J(i := (j, p'))"
  note inv = system_invD [OF inv] and cl = claims_invD [OF cl]
  have job: "sound_job F locked cached slot keys j" "locked w" "phase_inv F p (cached w (?key i))" "?key i = ApiKey (job_client j)"
    using inv(1) [of i] inv(2) [of i] inv(3) [of i] J p by (simp_all add: kept_from_def)
  have out: "\<not> inside (snd (J i'))" if "i' \<noteq> i" for i' using inv(4) [of i i'] that p J by auto
  have moved: "cached w' (?key i) = cached w (?key i) \<or> cached w (?key i) = None \<or>
      (\<exists>b ns. phase_base p = Some b \<and> advances F b ns \<and> cached w' (?key i) = Some ns)"
    using step_cached [OF step job(1) p job(2)] job(3,4) by simp
  have kept: "kept_step F locked cached slot (m0 (?key i)) (?key i) p' w w'"
    using step_inside [OF step job(1) p job(2)] inv(3) [of i] J by simp
  have "?key i \<in> keys" using job(1,4) by (simp add: sound_job_def)
  with kept keys have far: "cached w' k = cached w k" if "k \<in> keys" "k \<noteq> ?key i" for k
    using that by (auto simp: kept_step_def dest: inj_onD)
  have held: "holds_in ?R x (cached w' (?key i'))"
    and base: "?key i' = ?key i \<Longrightarrow> phase_base p' = Some b \<Longrightarrow> ?R x b"
    if i': "i' \<noteq> i" and ret: "snd (J i') = Returned (Ok x)" for i' x b
  proof -
    from cl(1) [of i'] ret obtain s where s: "cached w (?key i') = Some s" "?R x s" by (auto simp: holds_in_def)
    have old: "?R x b" if "?key i' = ?key i" "phase_base p = Some b" for b
      using cl(2) [of i i', OF _ ret] that i' J by auto
    show "holds_in ?R x (cached w' (?key i'))"
    proof (cases "?key i' = ?key i")
      case True
      with moved s old show ?thesis by (fastforce simp: holds_in_def intro: upheld_kept advances_trust_path)
    next
      case False
      have "?key i' \<in> keys" using inv(1) [of i'] by (simp add: sound_job_def)
      with far False s show ?thesis by (simp add: holds_in_def)
    qed
    show "?R x b" if k: "?key i' = ?key i" and b: "phase_base p' = Some b"
    proof (cases "phase_base p = Some b")
      case False
      from step_base [OF step b False] have read: "p = Reading" "p' = Asking b" by simp_all
      with kept have "cached w' (?key i) = Some b" by (simp add: kept_step_def kept_from_def)
      moreover from moved s k read have "cached w' (?key i) = Some s" by auto
      ultimately show ?thesis using s by simp
    qed (use old k in simp)
  qed
  show ?thesis
  proof (rule claims_invI)
    show "claim_inv ?R (job_order (fst (?J i'))) (snd (?J i')) (cached w' (ApiKey (job_client (fst (?J i')))))" for i'
    proof (cases "i' = i")
      case True
      with step_claims [OF step job(1) own p job(2)] job(3,4) cl(1) [of i] J show ?thesis by simp
    next
      case False
      with held [OF False] out [OF False] show ?thesis by (simp add: claim_inv_outside)
    qed
    show "?R x b" if "i2 \<noteq> i1" "snd (?J i1) = Returned (Ok x)"
      "ApiKey (job_client (fst (?J i2))) = ApiKey (job_client (fst (?J i1)))" "phase_base (snd (?J i2)) = Some b" for i1 i2 x b
    proof (cases "i2 = i")
      case True
      with that base [of i1 x b] J show ?thesis by (auto split: if_splits)
    next
      case False
      with that(4) out [OF False] phase_base_inside show ?thesis by auto
    qed
  qed
qed

end

context ledger
begin

text \<open>So does every other step.\<close>

lemma claims_outside:
  assumes cl: "claims_inv R cached (J, w)" and J: "J i = (j, p)" and p: "\<not> inside p"
    and p': "phase_base p' = None" "\<And>x. p' = Returned (Ok x) \<Longrightarrow> p = Returned (Ok x)" "\<And>cur. inside p' \<Longrightarrow> claim_inv R (job_order j') p' cur"
    and key: "p' = p \<Longrightarrow> ApiKey (job_client j') = ApiKey (job_client j)" and same: "cached w' = cached w"
  shows "claims_inv R cached (J(i := (j', p')), w')"
proof (rule claims_invI)
  let ?J = "J(i := (j', p'))"
  note cl = claims_invD [OF cl]
  show "claim_inv R (job_order (fst (?J i'))) (snd (?J i')) (cached w' (ApiKey (job_client (fst (?J i')))))" for i'
  proof (cases "i' = i")
    case True
    show ?thesis
    proof (cases "inside p'")
      case False
      with True cl(1) [of i] J p p'(2) key same show ?thesis by (auto simp: claim_inv_outside)
    qed (use True p'(3) in simp)
  qed (use cl(1) [of i'] same in simp)
  show "R x b" if "i2 \<noteq> i1" "snd (?J i1) = Returned (Ok x)"
    "ApiKey (job_client (fst (?J i2))) = ApiKey (job_client (fst (?J i1)))" "phase_base (snd (?J i2)) = Some b" for i1 i2 x b
  proof -
    have "i2 \<noteq> i" using that(4) p'(1) by auto
    with that cl(2) [of i2 i1 x b] J p'(2) key show ?thesis by (auto split: if_splits)
  qed
qed

lemma claims_step:
  assumes step: "goroutines F (sound_claim F extends claims locked cached slot keys) (\<lambda>w. (locked w, cached w))
      (J, w) (J', w')"
    and inv: "system_inv F locked cached slot keys m0 (J, w)" and keys: "inj_on slot keys"
    and own: "\<And>i. claiming_job F extends claims (fst (J i))" and cl: "claims_inv (upheld F extends claims) cached (J, w)"
  shows "claims_inv (upheld F extends claims) cached (J', w')"
  using step
proof cases
  case (advance i j p p')
  note i = system_invD(1-3) [OF inv, of i, unfolded advance(2) fst_conv snd_conv]
  show ?thesis
  proof (cases "inside p")
    case True
    from claims_inside [OF advance(3) inv _ cl keys advance(2) True] own [of i] advance(1,2) show ?thesis by simp
  next
    case False
    from step_outside [OF advance(3) i(1) False]
    have out: "cached w' = cached w" "inside p' \<Longrightarrow> p' = Reading" by auto
    show ?thesis unfolding advance(1)
    proof (rule claims_outside [OF cl advance(2) False _ _ _ refl out(1)])
      show "phase_base p' = None" using out(2) phase_base_inside [of p'] by (cases "phase_base p'") auto
      show "p = Returned (Ok x)" if "p' = Returned (Ok x)" for x
        using advance(3) that False by (cases p) (auto split: prod.splits go.splits)
      show "claim_inv (upheld F extends claims) (job_order j) p' cur" if "inside p'" for cur
        using out(2) [OF that] by simp
    qed
  qed
next
  case (call i j r j')
  with cl show ?thesis by (auto intro!: claims_outside [OF cl call(3)])
next
  case (changed i j p j')
  note cl = claims_invD [OF cl]
  let ?J = "J(i := (j', p))"
  have phase: "snd (?J i') = snd (J i')" and key: "ApiKey (job_client (fst (?J i'))) = ApiKey (job_client (fst (J i')))"
    and order: "job_order (fst (?J i')) = job_order (fst (J i'))"
    for i' using changed(3,4) by (auto simp: same_session_def)
  show ?thesis unfolding changed(1,2)
    by (rule claims_invI; unfold phase key order) (rule cl, erule cl, assumption+)
next
  case other
  with cl show ?thesis by (simp add: claims_inv_def)
qed

end

lemma goroutines_mono:
  assumes "goroutines F ok obs s s'" and "\<And>j. ok j \<Longrightarrow> ok' j"
  shows "goroutines F ok' obs s s'"
  using assms by (induction rule: goroutines.induct) (auto intro: goroutines.intros)

lemma goroutines_claiming:
  "goroutines F (sound_claim F extends claims locked cached slot keys) obs s s' \<Longrightarrow>
   (\<And>i. claiming_job F extends claims (fst (fst s i))) \<Longrightarrow> claiming_job F extends claims (fst (fst s' i))"
proof (induction rule: goroutines.induct)
  case (advance J i' j p w p' w')
  then show ?case by (metis fst_conv fun_upd_apply)
qed (simp_all add: sound_claim_def)

lemma claims_start: "(\<And>i. snd (J i) = Locking) \<Longrightarrow> claims_inv R cached (J, w)"
  by (simp add: claims_inv_def)

context ledger
begin

lemma claims_run:
  assumes "(goroutines F (sound_claim F extends claims locked cached slot keys) (\<lambda>w. (locked w, cached w)))\<^sup>*\<^sup>* (J, w) (J', w')"
    and "system_inv F locked cached slot keys m0 (J, w)" and "inj_on slot keys"
    and "\<And>i. claiming_job F extends claims (fst (J i))" and "claims_inv (upheld F extends claims) cached (J, w)"
  shows "system_inv F locked cached slot keys m0 (J', w') \<and> (\<forall>i. claiming_job F extends claims (fst (J' i))) \<and>
    claims_inv (upheld F extends claims) cached (J', w')"
  using assms
proof (induction "(J', w')" arbitrary: J' w' rule: rtranclp_induct)
  case (step y)
  obtain K v where y: "y = (K, v)" by (cases y)
  from step(3) [OF y step(4-7)] have inv: "system_inv F locked cached slot keys m0 (K, v)"
    and own: "\<And>i. claiming_job F extends claims (fst (K i))" and cl: "claims_inv (upheld F extends claims) cached (K, v)"
    by auto
  note one = step(2) [unfolded y]
  have "goroutines F (sound_job F locked cached slot keys) (\<lambda>w. (locked w, cached w)) (K, v) (J', w')"
    by (rule goroutines_mono [OF one]) (simp add: sound_claim_def)
  from goroutines_inv [OF this inv step(5)] claims_step [OF one inv step(5) own cl] goroutines_claiming [OF one] own
  show ?case by simp
qed auto

text \<open>Two calls with the same API key that have returned agree.\<close>

lemma returned_agree:
  assumes "claims_inv (upheld F extends claims) cached (J, w)"
    and "snd (J i) = Returned (Ok x)" and "snd (J i') = Returned (Ok x')"
    and "ApiKey (job_client (fst (J i))) = ApiKey (job_client (fst (J i')))"
    and "(key, tx, val) \<in> claims x" and "(key, tx, val') \<in> claims x'" and "0 < tx"
  shows "val = val'"
  using claims_invD(1) [OF assms(1), of i] claims_invD(1) [OF assms(1), of i'] assms(2-7)
  by (auto simp: holds_in_def intro: upheld_agree)

end

section \<open>The verified calls\<close>

text \<open>The answers of the verified calls, with the question they answer, and the entries they vouch for.\<close>

datatype answer =
    ReadAnswer bytes "Entry option"
  | ArtifactAnswer EntryList
  | WriteAnswer bytes bytes "TxHeader option"
  | StreamAnswer "KeyValue list" "TxHeader option"
  | BatchAnswer "KeyRequest list" multi_result

text \<open>An entry vouches for its value unless it was reached through a reference.\<close>

fun entry_claims :: "bytes \<Rightarrow> Entry option \<Rightarrow> entry_claim set" where
  "entry_claims key (Some e) = (if Entry_ReferencedBy e = None then {(key, Entry_Tx e, Entry_Value e)} else {})"
| "entry_claims key None = {}"

text \<open>Of a batch the item checked last counts, if the answer had as many items and errors as requests.\<close>

fun answer_claims :: "answer \<Rightarrow> entry_claim set" where
  "answer_claims (ReadAnswer key e) = entry_claims key e"
| "answer_claims (ArtifactAnswer resp) =
     (case EntryList_Entries resp of
        Some le # _ \<Rightarrow> (case LcEntry_Proof le of
          Some pr \<Rightarrow> {(Proof_ImmudbFullKey pr, LcEntry_Tx le, LcEntry_Value le)} | None \<Rightarrow> {})
      | _ \<Rightarrow> {})"
| "answer_claims (WriteAnswer key val (Some hdr)) = {(key, TxHeader_Id hdr, val)}"
| "answer_claims (WriteAnswer key val None) = {}"
| "answer_claims (StreamAnswer kvs (Some hdr)) =
     (\<lambda>kv. (KeyValue_Key kv, TxHeader_Id hdr, KeyValue_Value kv)) ` set kvs"
| "answer_claims (StreamAnswer kvs None) = {}"
| "answer_claims (BatchAnswer reqs (items, errs, err)) =
     (case (err, last_checked reqs errs items) of
        (None, Some (kr, Some x)) \<Rightarrow>
          entry_claims (KeyRequest_Key kr) (Option.bind (VerifiableItemExt_Item x) VerifiableEntry_Entry)
      | _ \<Rightarrow> {})"

definition tagged ::
    "('b \<Rightarrow> 'a) \<Rightarrow> (ImmutableState \<Rightarrow> ('w, 'b \<times> 's) io) \<Rightarrow> ImmutableState \<Rightarrow> ('w, 'a \<times> 's) io" where
  "tagged f fetch st = tryE (fetch st) (\<lambda>(x, ns). ret (f x, ns))"

lemma tagged_Ok:
  "tagged f fetch st w = (Ok (y, ns), w') \<Longrightarrow> \<exists>x. fetch st w = (Ok (x, ns), w') \<and> y = f x"
  by (auto simp: tagged_def ok_simps)

lemma tagged_quiet: "quiet obs (fetch st) \<Longrightarrow> quiet obs (tagged f fetch st)"
  unfolding tagged_def by (intro quiet_rules)

text \<open>A streamed write is tagged with what it reads from its request, in the world in which it does.\<close>

definition read_kvs :: "('w, 'rd) StreamLib \<Rightarrow> 'rd StreamKeyValue list \<Rightarrow> 'w \<Rightarrow> KeyValue list" where
  "read_kvs S skvs w = (case fst (collect_kvs S skvs w) of Ok (kvs, skvs') \<Rightarrow> kvs | _ \<Rightarrow> [])"

definition stream_tagged ::
    "('w, 'rd) StreamLib \<Rightarrow> 'rd StreamKeyValue list \<Rightarrow>
     (ImmutableState \<Rightarrow> ('w, TxHeader option \<times> ImmutableState) io) \<Rightarrow> ImmutableState \<Rightarrow> ('w, answer \<times> ImmutableState) io" where
  "stream_tagged S skvs fetch st = (\<lambda>w. tagged (StreamAnswer (read_kvs S skvs w)) fetch st w)"

lemma stream_tagged_Ok:
  "stream_tagged S skvs fetch st w = (Ok (y, ns), w') \<Longrightarrow>
   \<exists>x. fetch st w = (Ok (x, ns), w') \<and> y = StreamAnswer (read_kvs S skvs w) x"
  by (auto simp: stream_tagged_def dest: tagged_Ok)

lemma stream_tagged_quiet:
  assumes "quiet obs (fetch st)"
  shows "quiet obs (stream_tagged S skvs fetch st)"
proof -
  have "quiet obs (tagged f fetch st)" for f :: "TxHeader option \<Rightarrow> answer" by (rule tagged_quiet) (rule assms)
  then show ?thesis by (auto simp: stream_tagged_def intro: quietI dest: quietD)
qed

text \<open>The batch read is tagged with its requests.\<close>

definition batch_job ::
    "('ip, 'dp, 'tx, 'md, 'es, 'k) immudb \<Rightarrow> ('w, 'ctx) StateServiceIf \<Rightarrow> ('w, 'ctx, 'k, 'sf) LcClient \<Rightarrow>
     'ctx \<Rightarrow> KeyRequest list \<Rightarrow> ('w, 'ctx, 'k, 'sf, answer) job" where
  "batch_job F ss c ctx reqs = \<lparr>job_locker = ss, job_client = c, job_ctx = ctx, job_order = StoreFirst,
     job_fetch = tagged (BatchAnswer reqs) (multi_fetch F c ctx reqs)\<rparr>"

text \<open>What it has left to do after the answer are the checks of the batch.\<close>

lemma multi_todo_checks:
  "i + length items = length reqs \<Longrightarrow> length errs = length reqs \<Longrightarrow>
   multi_todo F c st reqs errs i items = batch_checks F c st (drop i reqs) (drop i errs) items"
proof (induction items arbitrary: i)
  case (Cons item items)
  then have "drop i reqs = reqs ! i # drop (Suc i) reqs" "drop i errs = errs ! i # drop (Suc i) errs"
    by (simp_all add: Cons_nth_drop_Suc)
  with Cons show ?case by (simp add: index_def)
qed simp

text \<open>A verified call on a client with whatever state service and connection it has by now.\<close>

definition call_client ::
    "('w \<Rightarrow> bool) \<Rightarrow> ('w \<Rightarrow> string \<Rightarrow> ImmutableState option) \<Rightarrow> (string \<Rightarrow> string) \<Rightarrow> string set \<Rightarrow>
     ('w, 'rd) StreamLib \<Rightarrow> ('w, 'ctx) StateServiceIf \<Rightarrow> ('w, 'ctx, 'k, 'rd) StreamClient \<Rightarrow> bool" where
  "call_client locked cached slot keys S ss c =
     (exclusive_state ss locked cached slot \<and> ApiKey c \<in> keys \<and>
      (\<forall>ss'. StateService c = Some ss' \<longrightarrow> exclusive_state ss' locked cached slot) \<and>
      stream_network (\<lambda>w. (locked w, cached w)) c S)"

inductive verified_call ::
    "('ip, 'dp, 'tx, 'md, 'es, 'k) immudb \<Rightarrow> ('w \<Rightarrow> bool) \<Rightarrow> ('w \<Rightarrow> string \<Rightarrow> ImmutableState option) \<Rightarrow>
     (string \<Rightarrow> string) \<Rightarrow> string set \<Rightarrow> ('w, 'rd) StreamLib \<Rightarrow>
     ('w, 'ctx, 'k, ('w, 'ctx, 'rd) StreamFactory, answer) job \<Rightarrow> bool" for F locked cached slot keys S where
  get: "call_client locked cached slot keys S ss c \<Longrightarrow> verified_call F locked cached slot keys S
     (protocol_job ss c ctx StoreFirst (tagged (ReadAnswer (KeyRequest_Key kr)) (verifiedGet_fetch F c ctx kr)))"
| get_ext: "call_client locked cached slot keys S ss c \<Longrightarrow> verified_call F locked cached slot keys S
     (protocol_job ss c ctx StoreFirst (tagged (\<lambda>x. ReadAnswer (KeyRequest_Key kr)
        (Option.bind (VerifiableItemExt_Item x) VerifiableEntry_Entry)) (verifiedGetExt_fetch F c ctx kr)))"
| stream_get: "call_client locked cached slot keys S ss c \<Longrightarrow> VerifiableGetRequest_KeyRequest req = Some kr \<Longrightarrow>
     verified_call F locked cached slot keys S
     (protocol_job ss c ctx CheckFirst (tagged (ReadAnswer (KeyRequest_Key kr)) (StreamVerifiedGet_fetch F S c ctx req)))"
| artifact: "call_client locked cached slot keys S ss c \<Longrightarrow> verified_call F locked cached slot keys S
     (protocol_job ss c ctx StoreFirst (tagged ArtifactAnswer (VCNGetArtifacts_fetch F c ctx areq)))"
| set: "call_client locked cached slot keys S ss c \<Longrightarrow> verified_call F locked cached slot keys S
     (protocol_job ss c ctx CheckFirst (tagged (WriteAnswer key val) (VerifiedSet_fetch F c ctx key val)))"
| stream_set: "call_client locked cached slot keys S ss c \<Longrightarrow> skvs \<noteq> [] \<Longrightarrow> verified_call F locked cached slot keys S
     (protocol_job ss c ctx CheckFirst (stream_tagged S skvs (StreamVerifiedSet_fetch F S c ctx skvs)))"
| batch: "call_client locked cached slot keys S ss c \<Longrightarrow>
     verified_call F locked cached slot keys S (batch_job F ss c ctx reqs)"

context ledger
begin

lemma fetch_sound_claim:
  assumes client: "call_client locked cached slot keys S ss c"
    and quiet: "\<And>st. quiet (\<lambda>w. (locked w, cached w)) (fetch st)"
    and fetched: "\<And>st w x ns w'. fetch st w = (Ok (x, ns), w') \<Longrightarrow>
      advances F st ns \<and> (\<forall>(key, tx, val) \<in> claims x. recorded F extends key val tx ns)"
  shows "sound_claim F extends claims locked cached slot keys (protocol_job ss c ctx ord fetch)"
proof -
  have "sound_job F locked cached slot keys (protocol_job ss c ctx ord fetch)"
    using client by (intro protocol_job_sound quiet) (auto simp: call_client_def dest!: fetched)
  moreover have "claiming_job F extends claims (protocol_job ss c ctx ord fetch)"
    unfolding claiming_job_def protocol_job_def
    by (auto dest!: one_answer_Ok fetched simp: upheld_def)
  ultimately show ?thesis by (simp add: sound_claim_def)
qed

lemma tagged_sound_claim:
  assumes client: "call_client locked cached slot keys S ss c"
    and quiet: "\<And>st. quiet (\<lambda>w. (locked w, cached w)) (fetch st)"
    and fetched: "\<And>st w x ns w'. fetch st w = (Ok (x, ns), w') \<Longrightarrow>
      advances F st ns \<and> (\<forall>(key, tx, val) \<in> claims (f x). recorded F extends key val tx ns)"
  shows "sound_claim F extends claims locked cached slot keys (protocol_job ss c ctx ord (tagged f fetch))"
  by (rule fetch_sound_claim [OF client tagged_quiet [OF quiet]]) (auto dest!: tagged_Ok fetched)

text \<open>What each request establishes when it is answered.\<close>

lemma entry_claims_recorded:
  assumes "verifyGet F st (Some ve) kr k = Ok ns"
    and "(key, tx, val) \<in> entry_claims (KeyRequest_Key kr) (VerifiableEntry_Entry ve)"
  shows "recorded F extends key val tx ns"
  using assms(2) verifyGet_recorded [OF assms(1)]
  by (cases "VerifiableEntry_Entry ve") (auto split: if_splits)

lemma batch_claims:
  assumes fetch: "multi_fetch F c ctx reqs st w = (Ok (y, todo), w')" and claim: "(key, tx, val) \<in> answer_claims (BatchAnswer reqs y)"
  shows "todo \<noteq> [] \<and> (\<forall>ns. last todo = Ok ns \<longrightarrow> recorded F extends key val tx ns)"
proof -
  obtain items errs err where y: "y = (items, errs, err)" by (cases y)
  with claim obtain kr x where none: "err = None" and last: "last_checked reqs errs items = Some (kr, Some x)"
    and entry: "(key, tx, val) \<in> entry_claims (KeyRequest_Key kr) (Option.bind (VerifiableItemExt_Item x) VerifiableEntry_Entry)"
    by (auto split: option.splits)
  from fetch y none have "length items = length reqs" "length errs = length reqs"
    and "todo = multi_todo F c st reqs errs 0 items"
    by (auto simp: multi_fetch_def Let_def ok_simps split: if_splits)
  then have todo: "todo = batch_checks F c st reqs errs items" using multi_todo_checks [of 0 items reqs errs F c st] by simp
  from entry obtain ve where ve: "VerifiableItemExt_Item x = Some ve"
      "(key, tx, val) \<in> entry_claims (KeyRequest_Key kr) (VerifiableEntry_Entry ve)"
    by (cases "VerifiableItemExt_Item x") auto
  have "recorded F extends key val tx ns" if "last todo = Ok ns" for ns
    using batch_checks_last [OF last, of F c st] that todo ve
    by (auto simp: VerifiableItemExt_GetItem_def intro: entry_claims_recorded)
  with last last_checked_None [of reqs errs items F c st] todo show ?thesis by auto
qed

lemma verifiedGet_claims:
  "verifiedGet_fetch F c ctx kr st w = (Ok (x, ns), w') \<Longrightarrow>
   (key, tx, val) \<in> answer_claims (ReadAnswer (KeyRequest_Key kr) x) \<Longrightarrow> recorded F extends key val tx ns"
  by (auto dest!: verifiedGet_fetch_Ok intro: entry_claims_recorded)

lemma verifiedGetExt_claims:
  assumes "verifiedGetExt_fetch F c ctx kr st w = (Ok (x, ns), w')"
    and "(key, tx, val) \<in> answer_claims (ReadAnswer (KeyRequest_Key kr) (Option.bind (VerifiableItemExt_Item x) VerifiableEntry_Entry))"
  shows "recorded F extends key val tx ns"
  using assms(2) verifiedGetExt_fetch_Ok [OF assms(1)]
  by (cases "VerifiableItemExt_Item x") (auto intro: entry_claims_recorded)

lemma StreamVerifiedGet_claims:
  assumes "StreamVerifiedGet_fetch F S c ctx req st w = (Ok (x, ns), w')"
    and kr: "VerifiableGetRequest_KeyRequest req = Some kr"
    and "(key, tx, val) \<in> answer_claims (ReadAnswer (KeyRequest_Key kr) x)"
  shows "recorded F extends key val tx ns"
proof -
  from assms(1) obtain ve where "verifyGet F st (Some ve) kr (ApiKey c) = Ok ns" "VerifiableEntry_Entry ve = x"
    by (auto simp: StreamVerifiedGet_fetch_def ok_simps streamVerifiedGet_check_eq [OF kr])
  with assms(3) entry_claims_recorded show ?thesis by simp
qed

lemma VCNGetArtifacts_claims:
  assumes "VCNGetArtifacts_fetch F c ctx req st w = (Ok (x, ns), w')"
    and "(key, tx, val) \<in> answer_claims (ArtifactAnswer x)"
  shows "recorded F extends key val tx ns"
  using assms by (auto dest!: VCNGetArtifacts_fetch_Ok artifacts_check_recorded)

lemma VerifiedSet_claims:
  assumes "VerifiedSet_fetch F c ctx k v st w = (Ok (x, ns), w')"
    and "(key, tx, val) \<in> answer_claims (WriteAnswer k v x)"
  shows "recorded F extends key val tx ns"
proof (cases x)
  case (Some hdr)
  with assms(1) obtain vtx t where "verifiedSet_check F st (ApiKey c) k v vtx = Ok ns"
    and "VerifiableTx_Tx vtx = Some t" "Tx_Header t = Some hdr"
    by (auto simp: VerifiedSet_fetch_def Let_def ok_simps)
  from verifiedSet_recorded [OF this] assms(2) Some show ?thesis by simp
qed (use assms(2) in simp)

lemma StreamVerifiedSet_claims:
  assumes run: "StreamVerifiedSet_fetch F S c ctx skvs st w = (Ok (x, ns), w')"
    and claim: "(key, tx, val) \<in> answer_claims (StreamAnswer (read_kvs S skvs w) x)"
  shows "recorded F extends key val tx ns"
proof -
  from run obtain kvs skvs' v where read: "collect_kvs S skvs w = (Ok (kvs, skvs'), v)"
    by (auto simp: StreamVerifiedSet_fetch_def ok_simps)
  with claim obtain hdr kv where "x = Some hdr" "kv \<in> set kvs" "key = KeyValue_Key kv" "tx = TxHeader_Id hdr"
    "val = KeyValue_Value kv" by (cases x) (auto simp: read_kvs_def)
  with StreamVerifiedSet_fetch_recorded [OF _ read] run show ?thesis by simp
qed

lemma verified_call_sound:
  assumes "verified_call F locked cached slot keys S j"
  shows "sound_claim F extends answer_claims locked cached slot keys j"
  using assms
proof cases
  case (get ss c ctx kr)
  have "client_network (\<lambda>w. (locked w, cached w)) c" using get(2) by (simp add: call_client_def stream_network_def)
  note quiet = client_network.fetches_quiet(2) [OF this]
  show ?thesis unfolding get(1)
    by (rule tagged_sound_claim [OF get(2) quiet]) (auto dest: fetch_advances verifiedGet_claims)
next
  case (get_ext ss c ctx kr)
  have "client_network (\<lambda>w. (locked w, cached w)) c" using get_ext(2) by (simp add: call_client_def stream_network_def)
  note quiet = client_network.fetches_quiet(3) [OF this]
  show ?thesis unfolding get_ext(1)
    by (rule tagged_sound_claim [OF get_ext(2) quiet]) (auto dest: fetch_advances verifiedGetExt_claims)
next
  case (stream_get ss c req kr ctx)
  have "stream_network (\<lambda>w. (locked w, cached w)) c S" using stream_get(2) by (simp add: call_client_def)
  note quiet = stream_network.stream_fetch_quiet(2) [OF this]
  show ?thesis unfolding stream_get(1)
    by (rule tagged_sound_claim [OF stream_get(2) quiet])
      (auto dest: stream_fetch_advances StreamVerifiedGet_claims [OF _ stream_get(3)])
next
  case (artifact ss c ctx areq)
  have "client_network (\<lambda>w. (locked w, cached w)) c" using artifact(2) by (simp add: call_client_def stream_network_def)
  note quiet = client_network.fetches_quiet(4) [OF this]
  show ?thesis unfolding artifact(1)
    by (rule tagged_sound_claim [OF artifact(2) quiet]) (auto dest: fetch_advances VCNGetArtifacts_claims)
next
  case (set ss c ctx key val)
  have "client_network (\<lambda>w. (locked w, cached w)) c" using set(2) by (simp add: call_client_def stream_network_def)
  note quiet = client_network.fetches_quiet(1) [OF this]
  show ?thesis unfolding set(1)
    by (rule tagged_sound_claim [OF set(2) quiet]) (auto dest: VerifiedSet_fetch_advances VerifiedSet_claims)
next
  case (stream_set ss c skvs ctx)
  have "stream_network (\<lambda>w. (locked w, cached w)) c S" using stream_set(2) by (simp add: call_client_def)
  note quiet = stream_tagged_quiet [OF stream_network.stream_fetch_quiet(1) [OF this]]
  show ?thesis unfolding stream_set(1)
    by (rule fetch_sound_claim [OF stream_set(2) quiet])
      (auto dest!: stream_tagged_Ok dest: StreamVerifiedSet_claims stream_fetch_advances(1))
next
  case (batch ss c ctx reqs)
  have "client_network (\<lambda>w. (locked w, cached w)) c" using batch(2) by (simp add: call_client_def stream_network_def)
  note quiet = tagged_quiet [OF multi_fetch_quiet [OF this]]
  have "sound_job F locked cached slot keys (batch_job F ss c ctx reqs)"
    using batch(2) quiet unfolding sound_job_def batch_job_def call_client_def
    by (auto dest!: tagged_Ok dest: multi_fetch_advances)
  moreover have "claiming_job F extends answer_claims (batch_job F ss c ctx reqs)"
    unfolding claiming_job_def batch_job_def upheld_def
    by (fastforce dest!: tagged_Ok dest: batch_claims split: if_splits)
  ultimately show ?thesis unfolding batch(1) by (simp add: sound_claim_def)
qed

end

end
