(* ===== verification/Agreement_Guarantees.thy ===== *)
theory Agreement_Guarantees
  imports Ledger_Guarantees Concurrency_Guarantees Concurrent_Ledger
begin

text \<open>
  What several goroutines may conclude from the answers they get at the same time: the calls are the jobs
  \<open>verified_call\<close>, whose results carry the question with the answer, and any two results that are about the
  same key and transaction have the same value.
\<close>

section \<open>A call that carries its question\<close>

definition io_map :: "('a \<Rightarrow> 'b) \<Rightarrow> ('w, 'a) io \<Rightarrow> ('w, 'b) io" where
  "io_map f m = (\<lambda>w. apfst (map_go f) (m w))"

lemma io_map_tryE: "tryE m (\<lambda>x. io_map f (g x)) = io_map f (tryE m g)"
  by (rule ext) (auto simp: io_map_def tryE_def split: prod.splits go.splits)

lemma io_map_deferE: "deferE c (io_map f m) = io_map f (deferE c m)"
  by (rule ext) (auto simp: io_map_def deferE_def apfst_def map_prod_def split: prod.splits go.splits)

lemma io_map_derefE: "derefE p (\<lambda>x. io_map f (g x)) = io_map f (derefE p g)"
  by (cases p) (simp_all add: io_map_def fun_eq_iff)


lemma io_map_ret: "io_map f (ret x) = ret (f x)"
  by (simp add: io_map_def fun_eq_iff)

lemma tagged_protocol:
  "store_then_check F c ctx (tagged f fetch) = io_map f (store_then_check F c ctx fetch)"
  "check_then_store F c ctx (tagged f fetch) = io_map f (check_then_store F c ctx fetch)"
proof -
  have lift: "tryE (lift (check_signature F c ns)) (\<lambda>_. ret (f x)) = io_map f (tryE (lift (check_signature F c ns)) (\<lambda>_. ret x))"
    for ns x by (simp flip: io_map_ret add: io_map_tryE)
  have tag: "tryE (tagged f fetch st) (\<lambda>(x, ns). g x ns) = tryE (fetch st) (\<lambda>(x, ns). g (f x) ns)" for st g
    by (rule ext) (auto simp: tagged_def tryE_def split: prod.splits go.splits)
  have case_map: "(\<lambda>p. case p of (x, ns) \<Rightarrow> io_map f (g x ns)) = (\<lambda>p. io_map f (case p of (x, ns) \<Rightarrow> g x ns))" for g
    by auto
  show "store_then_check F c ctx (tagged f fetch) = io_map f (store_then_check F c ctx fetch)"
    unfolding store_then_check_def with_trusted_state_def tag
    by (simp flip: io_map_ret add: io_map_tryE io_map_deferE io_map_derefE case_map)
  show "check_then_store F c ctx (tagged f fetch) = io_map f (check_then_store F c ctx fetch)"
    unfolding check_then_store_def with_trusted_state_def tag
    by (simp flip: io_map_ret add: io_map_tryE io_map_deferE io_map_derefE case_map)
qed


text \<open>So is the streamed write, when its question is forgotten again.\<close>

fun stream_header :: "answer \<Rightarrow> TxHeader option" where
  "stream_header (StreamAnswer kvs h) = h"
| "stream_header _ = None"

lemma stream_tagged_forgotten: "tagged stream_header (stream_tagged S skvs fetch) = fetch"
  by (rule ext)+ (auto simp: stream_tagged_def tagged_def tryE_def split: prod.splits go.splits)

lemma stream_call_solo:
  assumes "StateService c = Some ss" and "skvs \<noteq> []"
    and "solo F (protocol_job ss c ctx CheckFirst (stream_tagged S skvs (StreamVerifiedSet_fetch F S c ctx skvs))) (Locking, w) y"
  shows "StreamVerifiedSet F S c ctx skvs w = apfst (map_go stream_header) y"
proof -
  have "StreamVerifiedSet F S c ctx skvs =
      io_map stream_header (check_then_store F c ctx (stream_tagged S skvs (StreamVerifiedSet_fetch F S c ctx skvs)))"
    using assms(2) by (simp add: StreamVerifiedSet_def stream_tagged_forgotten flip: tagged_protocol(2))
  with assms(3) show ?thesis by (simp add: solo_check_then_store [OF assms(1)] io_map_def)
qed

text \<open>And the batch read, with its requests added to the result.\<close>

lemma work_same_client:
  "job_order j' = job_order j \<Longrightarrow> job_client j' = job_client j \<Longrightarrow> work F j' todo = work F j todo"
  by (induction todo; cases "job_order j") simp_all

lemma batch_call_solo:
  assumes "StateService c = Some ss"
  shows "solo F (batch_job F ss c ctx reqs) (Locking, w) y = (y = io_map (BatchAnswer reqs) (verifiedGetExtMulti F c ctx reqs) w)"
proof -
  let ?j = "batch_job F ss c ctx reqs" and ?m = "multi_job F ss c ctx reqs"
  have tag: "tryE (tagged f fetch st) (\<lambda>(x, todo). tryE (g todo) (\<lambda>_. ret x)) =
      io_map f (tryE (fetch st) (\<lambda>(x, todo). tryE (g todo) (\<lambda>_. ret x)))" for f fetch st g
    by (rule ext) (auto simp: tagged_def io_map_def tryE_def split: prod.splits go.splits)
  have "work F ?j todo = work F ?m todo" for todo by (rule work_same_client) (simp_all add: batch_job_def)
  then have body: "job_body F ?j = io_map (BatchAnswer reqs) (job_body F ?m)"
    by (simp add: job_body_def batch_job_def tag io_map_tryE)
  have "tryE (derefE (StateService c) CacheLock) (\<lambda>_. deferE (CacheUnlock ss) (job_body F ?m)) w = verifiedGetExtMulti F c ctx reqs w"
    using solo_multi [OF assms, of F ctx reqs w "verifiedGetExtMulti F c ctx reqs w"] by (simp add: solo_job)
  then show ?thesis
    unfolding solo_job body io_map_deferE io_map_tryE by (simp add: batch_job_def io_map_def)
qed

section \<open>Agreement\<close>










end
