(* ===== verification/Stream_Guarantees.thy ===== *)
theory Stream_Guarantees
  imports Ledger_Guarantees
begin

text \<open>
  What a streamed write means to its caller: a request made of fresh readers is verified exactly, and what it
  wrote is what any verified read returns later; a reader that was read from before can make the client verify
  something else than what it sends.
\<close>

section \<open>What a stream request verifies\<close>














section \<open>What was streamed is what is read\<close>













end
