(* ===== verification/Key_Guarantees.thy ===== *)
theory Key_Guarantees
  imports Reference_World
begin

text \<open>
  What the cache keys of the read requests identify, and what the helpers of the schema package
  return.
\<close>

section \<open>Keys\<close>

text \<open>C31. The key of a search request identifies the search: two requests with the same key (under the
  same leading pieces) agree in every field, except the continuation token, which the key does not
  cover. This holds when the texts of the request contain no newline and the two texts that are hashed
  are not a collision of SHA-256.\<close>

theorem search_key_identifies:
  assumes ES: "enum_names_or_numbers ES"
    and same: "VCNSearchRequest_GetKey sha ES (Some r) p = VCNSearchRequest_GetKey sha ES (Some r') p"
    and coll: "no_collision sha (key_text (search_pieces ES r p)) (key_text (search_pieces ES r' p))"
    and free: "free_of newline (p @ [VCNSearchRequest_Hash r, VCNSearchRequest_SignerID r,
        VCNSearchRequest_AttachName r, VCNSearchRequest_ArtifactName r, VCNSearchRequest_UID r])"
    and free': "free_of newline (p @ [VCNSearchRequest_Hash r', VCNSearchRequest_SignerID r',
        VCNSearchRequest_AttachName r', VCNSearchRequest_ArtifactName r', VCNSearchRequest_UID r'])"
  shows "r' = r\<lparr>VCNSearchRequest_ContinuationToken := VCNSearchRequest_ContinuationToken r'\<rparr>"
proof -
  note enum_free = enum_string_free [OF ES named_enum_tables(1)] enum_string_free [OF ES named_enum_tables(2)]
  note enum_inj = enum_string_inject [OF ES named_enum_tables(1)] enum_string_inject [OF ES named_enum_tables(2)]
  have "search_pieces ES r p = search_pieces ES r' p"
    by (rule search.key_identifies [OF _ _ same coll])
      (use free free' enum_free in \<open>auto simp: search_pieces_def\<close>)
  then show ?thesis
    by (cases r; cases r') (auto simp: search_pieces_def enum_inj dest!: signed_word_eqI unsigned_word_eqI)
qed

abbreviation ref_search :: VCNSearchRequest where
  "ref_search \<equiv> zero_VCNSearchRequest\<lparr>VCNSearchRequest_Hash := ''ab'', VCNSearchRequest_Limit := 5\<rparr>"

definition ref_ES :: "(i32 \<times> string) list \<Rightarrow> i32 \<Rightarrow> string" where
  "ref_ES d n = (case map_of d n of Some s \<Rightarrow> s | None \<Rightarrow> fmt_d (sint n))"

lemma ref_ES_names: "enum_names_or_numbers ref_ES"
  by (simp add: enum_names_or_numbers_def ref_ES_def)

theorem search_key_identifies_witness:
  "ref_search\<lparr>VCNSearchRequest_ContinuationToken := [1]\<rparr> =
   ref_search\<lparr>VCNSearchRequest_ContinuationToken :=
     VCNSearchRequest_ContinuationToken (ref_search\<lparr>VCNSearchRequest_ContinuationToken := [1]\<rparr>)\<rparr>"
  by (rule search_key_identifies [where sha = "\<lambda>bs. bs" and p = "[''tag'']" and ES = ref_ES])
    (simp_all add: ref_ES_names VCNSearchRequest_GetKey_def no_collision_def search_pieces_def
      zero_VCNSearchRequest_def)

text \<open>The key of an artifact request identifies its hashes, in order, and the transaction its proof
  starts from, under the same trailing pieces and conditions.\<close>

theorem artifacts_key_identifies:
  assumes "VCNArtifactsGetRequest_GetKey sha (Some r) p = VCNArtifactsGetRequest_GetKey sha (Some r') p"
    and "no_collision sha (key_text (artifacts_pieces r p)) (key_text (artifacts_pieces r' p))"
    and "free_of newline (VCNArtifactsGetRequest_Hashes r @ p)"
    and "free_of newline (VCNArtifactsGetRequest_Hashes r' @ p)"
  shows "VCNArtifactsGetRequest_Hashes r = VCNArtifactsGetRequest_Hashes r' \<and>
     VCNArtifactsGetRequest_ProveSinceTx r = VCNArtifactsGetRequest_ProveSinceTx r'"
proof -
  have "artifacts_pieces r p = artifacts_pieces r' p"
    by (rule artifacts.key_identifies [OF _ _ assms(1,2)])
      (use assms(3,4) in \<open>auto simp: artifacts_pieces_def\<close>)
  then show ?thesis by (auto simp: artifacts_pieces_def dest!: unsigned_word_eqI)
qed

abbreviation ref_artifacts :: VCNArtifactsGetRequest where
  "ref_artifacts \<equiv> zero_VCNArtifactsGetRequest\<lparr>VCNArtifactsGetRequest_Hashes := [''ab'', ''cd'']\<rparr>"

theorem artifacts_key_identifies_witness:
  "VCNArtifactsGetRequest_Hashes ref_artifacts =
     VCNArtifactsGetRequest_Hashes (ref_artifacts\<lparr>VCNArtifactsGetRequest_Verify := True\<rparr>) \<and>
   VCNArtifactsGetRequest_ProveSinceTx ref_artifacts =
     VCNArtifactsGetRequest_ProveSinceTx (ref_artifacts\<lparr>VCNArtifactsGetRequest_Verify := True\<rparr>)"
  by (rule artifacts_key_identifies [where sha = "\<lambda>bs. bs" and p = "[''tag'']"])
    (simp_all add: VCNArtifactsGetRequest_GetKey_def VCNArtifactsGetRequest_GetProveSinceTx_def
      no_collision_def zero_VCNArtifactsGetRequest_def)

text \<open>A verified artifact read changes the request it is given: afterwards the request asks for a proof from the
  transaction trusted at the time of the call. Calling again with the changed request does the same as with
  the original one, but its cache key is another one, unless it asked for that transaction before (absent
  newlines and a hash collision). So an answer kept under the key computed after the call is not found under
  the key of the request as it was built.\<close>

theorem verified_read_changes_key:
  assumes live: "live_state ss locked cached slot" and ss: "StateService c = Some ss"
    and "\<not> locked w" and st: "cached w (ApiKey c) = Some st"
    and verify: "length (VCNArtifactsGetRequest_Hashes r) = 1" "VCNArtifactsGetRequest_Verify r"
    and coll: "no_collision sha (key_text (artifacts_pieces (VCNGetArtifacts_request c ctx r w) p))
      (key_text (artifacts_pieces r p))"
    and free: "free_of newline (VCNArtifactsGetRequest_Hashes r @ p)"
  shows "VCNArtifactsGetRequest_ProveSinceTx (VCNGetArtifacts_request c ctx r w) = ImmutableState_TxId st \<and>
    VCNGetArtifacts F c ctx (VCNGetArtifacts_request c ctx r w) = VCNGetArtifacts F c ctx r \<and>
    (VCNArtifactsGetRequest_GetKey sha (Some (VCNGetArtifacts_request c ctx r w)) p =
       VCNArtifactsGetRequest_GetKey sha (Some r) p) = (VCNArtifactsGetRequest_ProveSinceTx r = ImmutableState_TxId st)"
proof -
  let ?r = "r\<lparr>VCNArtifactsGetRequest_ProveSinceTx := ImmutableState_TxId st\<rparr>"
  from live_state.lock_granted [OF live assms(3)] obtain v where v: "CacheLock ss w = (Ok (), v)" by blast
  from trusted_state.lock_law [OF live_state.axioms(1) [OF live] v] st have "cached v (ApiKey c) = Some st" by simp
  from live_state.get_found [OF live this] obtain v' where "GetState ss ctx (ApiKey c) v = (Ok st, v')" by blast
  with v ss verify have r: "VCNGetArtifacts_request c ctx r w = ?r"
    by (simp add: VCNGetArtifacts_request_def tryE_def)
  have "VCNArtifactsGetRequest_ProveSinceTx r = ImmutableState_TxId st"
    if "VCNArtifactsGetRequest_GetKey sha (Some ?r) p = VCNArtifactsGetRequest_GetKey sha (Some r) p"
  proof -
    have "artifacts_pieces ?r p = artifacts_pieces r p"
      by (rule artifacts.key_identifies [OF _ _ that coll [unfolded r]]) (use free in \<open>auto simp: artifacts_pieces_def\<close>)
    then show ?thesis by (auto simp: artifacts_pieces_def dest!: unsigned_word_eqI)
  qed
  moreover have "?r = r" if "VCNArtifactsGetRequest_ProveSinceTx r = ImmutableState_TxId st" using that by simp
  ultimately have "(VCNArtifactsGetRequest_GetKey sha (Some ?r) p = VCNArtifactsGetRequest_GetKey sha (Some r) p) =
      (VCNArtifactsGetRequest_ProveSinceTx r = ImmutableState_TxId st)" by metis
  then show ?thesis using r VCNGetArtifacts_request_again [OF verify] by simp
qed

abbreviation ref_verify :: VCNArtifactsGetRequest where
  "ref_verify \<equiv> zero_VCNArtifactsGetRequest\<lparr>VCNArtifactsGetRequest_Hashes := [''ab''], VCNArtifactsGetRequest_Verify := True\<rparr>"

theorem verified_read_changes_key_witness:
  "VCNArtifactsGetRequest_GetKey (\<lambda>bs. bs)
     (Some (VCNGetArtifacts_request (ref_client None) () ref_verify (world_at (state_at 1 [1]) []))) [''tag''] \<noteq>
   VCNArtifactsGetRequest_GetKey (\<lambda>bs. bs) (Some ref_verify) [''tag'']"
proof -
  let ?w = "world_at (state_at 1 [1]) []"
  have w: "\<not> w_locked ?w" "wrapped_cache ?w (ApiKey (ref_client None)) = Some (state_at 1 [1])"
    by (simp_all add: wrapped_cache_def ref_defs)
  have r: "length (VCNArtifactsGetRequest_Hashes ref_verify) = 1" "VCNArtifactsGetRequest_Verify ref_verify"
    "free_of newline (VCNArtifactsGetRequest_Hashes ref_verify @ [''tag''])"
    by (simp_all add: zero_VCNArtifactsGetRequest_def)
  have "no_collision (\<lambda>bs. bs) x y" for x y by (simp add: no_collision_def)
  from verified_read_changes_key [OF ref_live.live_state_axioms ref_client_simps(1) w r(1,2) this r(3), where F = ref_immudb]
  show ?thesis by (simp add: zero_VCNArtifactsGetRequest_def state_at_def)
qed

text \<open>The pieces the caller adds to an artifact key are not separated from the hashes: moving the last
  hash of a request to the front of the added pieces gives the same key.\<close>

theorem artifacts_key_boundary:
  "VCNArtifactsGetRequest_GetKey sha (Some (r\<lparr>VCNArtifactsGetRequest_Hashes := hs @ [h]\<rparr>)) p =
   VCNArtifactsGetRequest_GetKey sha (Some (r\<lparr>VCNArtifactsGetRequest_Hashes := hs\<rparr>)) (h # p)"
  by (simp add: VCNArtifactsGetRequest_GetKey_def VCNArtifactsGetRequest_GetProveSinceTx_def)

text \<open>The keys leave out fields that change the answer: artifact keys ignore whether to verify, the user
  id and the signer; search keys the continuation token; label keys the signers.\<close>

theorem keys_ignore_fields:
  "VCNArtifactsGetRequest_GetKey sha (Some (a\<lparr>VCNArtifactsGetRequest_Verify := v,
      VCNArtifactsGetRequest_UID := u, VCNArtifactsGetRequest_SignerID := s\<rparr>)) p =
    VCNArtifactsGetRequest_GetKey sha (Some a) p \<and>
   VCNSearchRequest_GetKey sha ES (Some (q\<lparr>VCNSearchRequest_ContinuationToken := t\<rparr>)) p =
    VCNSearchRequest_GetKey sha ES (Some q) p \<and>
   VCNLabelsGetRequest_GetKey sha (Some \<lparr>VCNLabelsGetRequest_Request =
      map (map_option (\<lambda>m. m\<lparr>LabelsGetRequest_SignerID := s\<rparr>)) ms\<rparr>) p =
    VCNLabelsGetRequest_GetKey sha (Some \<lparr>VCNLabelsGetRequest_Request = ms\<rparr>) p"
proof -
  have "labels_hashes (map (map_option (\<lambda>m. m\<lparr>LabelsGetRequest_SignerID := s\<rparr>)) ms) = labels_hashes ms"
  proof (induction ms)
    case (Cons m ms)
    then show ?case by (cases m) auto
  qed simp
  then show ?thesis
    by (simp add: VCNArtifactsGetRequest_GetKey_def VCNArtifactsGetRequest_GetProveSinceTx_def
        VCNSearchRequest_GetKey_def VCNLabelsGetRequest_GetKey_def)
qed

text \<open>The key of a label request identifies the hashes it asks about, in order; a request with a nil
  element panics instead of giving a key.\<close>

theorem labels_key_identifies:
  assumes "VCNLabelsGetRequest_GetKey sha (Some r) p = Ok k"
    and "VCNLabelsGetRequest_GetKey sha (Some r') p = Ok k"
    and "no_collision sha (key_text (labels_pieces r p)) (key_text (labels_pieces r' p))"
    and "free_of newline (labels_pieces r p)" and "free_of newline (labels_pieces r' p)"
    and "labels_pieces r p \<noteq> []" and "labels_pieces r' p \<noteq> []"
  shows "map (map_option LabelsGetRequest_Hash) (VCNLabelsGetRequest_Request r) =
      map (map_option LabelsGetRequest_Hash) (VCNLabelsGetRequest_Request r') \<and>
     None \<notin> set (VCNLabelsGetRequest_Request r)"
proof -
  have wf: "labels_wf x" if "VCNLabelsGetRequest_GetKey sha (Some x) p = Ok k" for x
  proof -
    have "labels_hashes vs = Ok hs \<Longrightarrow> list_all (\<lambda>v. v \<noteq> None) vs" for vs hs
      by (induction vs arbitrary: hs) (auto simp: ok_simps)
    with that show ?thesis
      by (auto simp: VCNLabelsGetRequest_GetKey_def Let_def ok_simps labels_wf_def)
  qed
  let ?txt = "\<lambda>v. case v of None \<Rightarrow> '''' | Some m \<Rightarrow> LabelsGetRequest_Hash m"
  have "labels_pieces r p = labels_pieces r' p"
    by (rule labels.key_identifies [OF wf [OF assms(1)] wf [OF assms(2)] _ assms(3) assms(6,7,4,5)])
      (simp add: assms(1,2))
  then have eq: "map ?txt (VCNLabelsGetRequest_Request r) = map ?txt (VCNLabelsGetRequest_Request r')"
    by (simp add: labels_pieces_def)
  have lift: "map (map_option LabelsGetRequest_Hash) vs = map Some (map ?txt vs)"
    if "list_all (\<lambda>v. v \<noteq> None) vs" for vs
    using that by (induction vs) auto
  have all: "list_all (\<lambda>v. v \<noteq> None) (VCNLabelsGetRequest_Request r)"
    "list_all (\<lambda>v. v \<noteq> None) (VCNLabelsGetRequest_Request r')"
    using wf [OF assms(1)] wf [OF assms(2)] by (simp_all add: labels_wf_def)
  then show ?thesis unfolding lift [OF all(1)] lift [OF all(2)] eq by (auto simp: list_all_iff)
qed

abbreviation ref_labels :: VCNLabelsGetRequest where
  "ref_labels \<equiv> \<lparr>VCNLabelsGetRequest_Request =
     [Some \<lparr>LabelsGetRequest_Hash = ''ab'', LabelsGetRequest_SignerID = []\<rparr>]\<rparr>"

theorem labels_key_identifies_witness:
  "map (map_option LabelsGetRequest_Hash) (VCNLabelsGetRequest_Request ref_labels) =
     map (map_option LabelsGetRequest_Hash) (VCNLabelsGetRequest_Request ref_labels) \<and>
   None \<notin> set (VCNLabelsGetRequest_Request ref_labels)"
  by (rule labels_key_identifies [where sha = "\<lambda>bs. bs" and p = "[]"])
    (simp_all add: VCNLabelsGetRequest_GetKey_def no_collision_def labels_pieces_def Let_def)

section \<open>Features\<close>

text \<open>\<open>Features.Map\<close> is the set of the features listed: a feature maps to true exactly when it is in the
  list, and nothing maps to false.\<close>

theorem Features_Map_set:
  "\<exists>m. Features_Map (Some f) = Ok m \<and> dom m = set (Features_Feat f) \<and> ran m \<subseteq> {True}"
  by (auto simp: Features_Map_def foldl_update_True dom_def ran_def)

end
