(* ===== verification/Client_Guarantees.thy ===== *)
theory Client_Guarantees
  imports Reference_World
begin

text \<open>
  The life of a client: construction, connection, its state service, its interceptors, its streams
  and files, and what is left after \<open>Disconnect\<close>.
\<close>

section \<open>Connecting\<close>

text \<open>What \<open>Connect\<close> relies on: connections that \<open>grpc.Dial\<close> gives do not touch the cache, and state
  services that immudb's \<open>NewStateService\<close> gives keep the contract.\<close>

definition dials_quietly :: "('w, 'ctx) Platform \<Rightarrow> ('w \<Rightarrow> 'o) \<Rightarrow> bool" where
  "dials_quietly P obs = (\<forall>target opts v cc v'. grpc_Dial P target opts v = (Ok cc, v') \<longrightarrow> quiet_connection obs cc)"

definition provides_trusted_state ::
    "('w, 'ctx) Platform \<Rightarrow> ('w \<Rightarrow> bool) \<Rightarrow> ('w \<Rightarrow> string \<Rightarrow> ImmutableState option) \<Rightarrow> (string \<Rightarrow> string) \<Rightarrow> bool" where
  "provides_trusted_state P locked cached slot = (\<forall>ca l sp up v ss v'.
     NewStateService P ca l sp up v = (Ok ss, v') \<longrightarrow> trusted_state ss locked cached slot)"

lemma Connect_session:
  assumes run: "Connect P c w = ((Ok (), c'), w')"
    and dial: "dials_quietly P (\<lambda>w. (locked w, cached w))"
    and new: "provides_trusted_state P locked cached slot"
  shows "\<exists>ss cc. StateService c' = Some (lcStateService (sha256 P) ss) \<and> ServiceClient c' = Some cc \<and>
     clientConn c' = Some cc \<and> ApiKey c' = ApiKey c \<and>
     client_session (lcStateService (sha256 P) ss) locked
       (\<lambda>w k. cached w (obfuscateApiKey (sha256 P) k)) (\<lambda>k. slot (obfuscateApiKey (sha256 P) k)) c'"
proof -
  from run obtain cc v ss where cc: "grpc_Dial P (Host c @ '':'' @ fmt_d (Port c)) (DialOptions c) w = (Ok cc, v)"
    and ss: "NewStateService P (FileCache (Dir c)) (logger c) (LcStateProvider_CurrentState (NewLcStateProvider cc))
        (LcUuidProvider_CurrentUUID (SERVER_UUID_HEADER P) (NewLcUUIDProvider cc)) v = (Ok ss, w')"
    and c': "c' = c\<lparr>ApiKeyHash := connect_ApiKeyHash (sha256 P) (ApiKey c) (ApiKeyHash c), clientConn := Some cc,
        ServiceClient := Some cc, StateService := Some (lcStateService (sha256 P) ss)\<rparr>"
    by (auto simp: Connect_def NewLcStateService_def tryE_def Let_def split: prod.splits go.splits)
  have quiet: "quiet_connection (\<lambda>w. (locked w, cached w)) cc"
    using dial cc unfolding dials_quietly_def by blast
  have trusted: "trusted_state ss locked cached slot"
    using new ss unfolding provides_trusted_state_def by blast
  have wrapped: "trusted_state (lcStateService (sha256 P) ss) locked
      (\<lambda>w k. cached w (obfuscateApiKey (sha256 P) k)) (\<lambda>k. slot (obfuscateApiKey (sha256 P) k))"
    using trusted by (intro wrapped_state.wrapper_trusted wrapped_state.intro)
  have "quiet_connection (\<lambda>w. (locked w, \<lambda>k. cached w (obfuscateApiKey (sha256 P) k))) cc"
    using quiet by (auto simp: quiet_connection_def quiet_def)
  with wrapped c' show ?thesis
    by (auto intro!: client_session.intro client_network.intro client_session_axioms.intro)
qed

text \<open>A successful \<open>Connect\<close> establishes the session every verified operation relies on: the client
  then has a connection and a state service that is the repository's wrapper, which keeps the contract
  of a trusted state for the cache seen through obfuscated API keys. It relies on the dialled connection
  not touching the cache and on immudb's state service keeping the contract itself.\<close>

theorem Connect_establishes_session:
  assumes run: "Connect P c w = ((Ok (), c'), w')"
    and dial: "dials_quietly P (\<lambda>w. (locked w, cached w))"
    and new: "provides_trusted_state P locked cached slot"
  shows "\<exists>ss cc. StateService c' = Some (lcStateService (sha256 P) ss) \<and> ServiceClient c' = Some cc \<and>
     clientConn c' = Some cc \<and> ApiKey c' = ApiKey c \<and>
     client_session (lcStateService (sha256 P) ss) locked
       (\<lambda>w k. cached w (obfuscateApiKey (sha256 P) k)) (\<lambda>k. slot (obfuscateApiKey (sha256 P) k)) c'"
  by (rule Connect_session [OF run dial new])

lemma ref_dials: "dials_quietly ref_platform (\<lambda>w. (w_locked w, w_cache w))"
  using ref_conn.quiet_connection_axioms by (auto simp: dials_quietly_def ref_platform_def)

lemma ref_provides: "provides_trusted_state ref_platform w_locked w_cache (\<lambda>k. k)"
  using ref.trusted_state_axioms by (auto simp: provides_trusted_state_def ref_platform_def)

theorem Connect_establishes_session_witness:
  "\<exists>ss cc. StateService (ref_client None) = Some (lcStateService (sha256 ref_platform) ss) \<and>
     client_session (lcStateService (sha256 ref_platform) ss) w_locked
       (\<lambda>w k. w_cache w (obfuscateApiKey (sha256 ref_platform) k)) (obfuscateApiKey (sha256 ref_platform))
       (ref_client None)"
proof -
  have run: "Connect ref_platform (ref_new None) empty_world = ((Ok (), ref_client None), empty_world)"
    by (simp add: ref_client_def ref_platform_def Connect_def NewLcStateService_def Let_def)
  from Connect_establishes_session [OF run ref_dials ref_provides] show ?thesis by blast
qed

text \<open>\<open>Connect\<close> keeps the parts of the API key apart: for a key with a signer part, the hash that is
  derived keeps every dot-separated piece but the last, and replaces the last one, the secret, by the
  unpadded URL-safe base64 of its SHA-256; two keys get the same hash exactly when they have the same
  signer part and their secrets the same SHA-256.\<close>

theorem ApiKeyHash_keeps_signer:
  assumes "2 \<le> length (split_on CHR ''.'' k1)" and "2 \<le> length (split_on CHR ''.'' k2)"
  shows "split_on CHR ''.'' (connect_ApiKeyHash sha k1 old1) =
      butlast (split_on CHR ''.'' k1) @ [RawURLEncoding (sha (string_bytes (last (split_on CHR ''.'' k1))))] \<and>
    (connect_ApiKeyHash sha k1 old1 = connect_ApiKeyHash sha k2 old2) =
      (butlast (split_on CHR ''.'' k1) = butlast (split_on CHR ''.'' k2) \<and>
       sha (string_bytes (last (split_on CHR ''.'' k1))) = sha (string_bytes (last (split_on CHR ''.'' k2))))"
proof -
  note p1 = connect_ApiKeyHash_pieces [OF assms(1), of sha old1]
  note p2 = connect_ApiKeyHash_pieces [OF assms(2), of sha old2]
  have "(connect_ApiKeyHash sha k1 old1 = connect_ApiKeyHash sha k2 old2) =
      (split_on CHR ''.'' (connect_ApiKeyHash sha k1 old1) = split_on CHR ''.'' (connect_ApiKeyHash sha k2 old2))"
    by (metis join_split_on)
  with p1 p2 show ?thesis by simp
qed

theorem ApiKeyHash_keeps_signer_witness:
  "split_on CHR ''.'' (connect_ApiKeyHash (\<lambda>bs. bs) ''a.b.c'' []) = [''a'', ''b'', RawURLEncoding [99]]"
proof -
  have p: "split_on CHR ''.'' ''a.b.c'' = [''a'', ''b'', ''c'']" by simp
  have "2 \<le> length (split_on CHR ''.'' ''a.b.c'')" by (simp add: p)
  from ApiKeyHash_keeps_signer [OF this this, of "\<lambda>bs. bs" "[]" "[]"] show ?thesis
    by (simp add: p string_bytes_def)
qed

text \<open>What \<open>NewLcClient\<close> dials with: after the options given, one chain of unary and one of stream
  interceptors. The signature verifier is in the unary chain exactly when a key was configured, and is
  outermost; the connection checker always is, and retrying is innermost. The chains are fixed then:
  \<open>SetServerSigningPubKey\<close> does not change them, so a key set later never adds the verifier.\<close>

theorem NewLcClient_interceptors:
  "\<exists>opts uic sic. DialOptions (NewLcClient ts chunk mk setters) =
       opts @ [WithChainUnaryClient uic, WithChainStreamClient sic] \<and>
     (SignatureVerifierInterceptor \<in> set uic) =
       (serverSigningPubKey (NewLcClient ts chunk mk setters) \<noteq> None) \<and>
     (SignatureVerifierInterceptor \<in> set uic \<longrightarrow> hd uic = SignatureVerifierInterceptor) \<and>
     ConnectionCheckerInterceptor \<in> set uic \<and>
     last uic = RetryUnaryInterceptor (RetryOptions (NewLcClient ts chunk mk setters)) \<and>
     DialOptions (SetServerSigningPubKey (NewLcClient ts chunk mk setters) k) =
       DialOptions (NewLcClient ts chunk mk setters)"
  by (auto simp: NewLcClient_def SetServerSigningPubKey_def unary_interceptors_def Let_def)

theorem NewLcClient_interceptors_witness:
  "\<exists>opts uic sic. DialOptions (NewLcClient [] 1 ref_factory [Option_ServerSigningPubKey (Some [9::8 word])] ::
       ref_client) = opts @ [WithChainUnaryClient uic, WithChainStreamClient sic] \<and>
     ConnectionCheckerInterceptor \<in> set uic"
  using NewLcClient_interceptors [of "[]" 1 ref_factory "[Option_ServerSigningPubKey (Some [9::8 word])]"]
  by blast

text \<open>After \<open>Disconnect\<close> every forwarding operation panics on the nil service client, before anything is
  sent: the connection checker's error is never reached.\<close>

theorem Disconnect_then_panics:
  assumes "Disconnect c v = ((r, c'), v')"
  shows "Set c' ctx key val w = (Panic NilDereference, w) \<and> Get c' ctx key w = (Panic NilDereference, w) \<and>
    GetAt c' ctx key tx w = (Panic NilDereference, w) \<and> ExecAll c' ctx b w = (Panic NilDereference, w) \<and>
    GetAll c' ctx b w = (Panic NilDereference, w) \<and> SetAll c' ctx sr w = (Panic NilDereference, w) \<and>
    SetMulti c' ctx mr w = (Panic NilDereference, w) \<and> VCNSetArtifacts c' ctx ar w = (Panic NilDereference, w) \<and>
    VCNSearchArtifacts c' ctx qr w = (Panic NilDereference, w) \<and>
    VCNGetClientSignature c' ctx gr opts w = (Panic NilDereference, w) \<and>
    Scan c' ctx b w = (Panic NilDereference, w) \<and> ZScan c' ctx b w = (Panic NilDereference, w) \<and>
    History c' ctx b w = (Panic NilDereference, w) \<and> ZAddAt c' ctx b w = (Panic NilDereference, w) \<and>
    ZScanExt c' ctx b w = (Panic NilDereference, w) \<and> HistoryExt c' ctx b w = (Panic NilDereference, w) \<and>
    Health c' ctx w = (Panic NilDereference, w) \<and> CurrentState c' ctx w = (Panic NilDereference, w) \<and>
    Feats c' ctx w = (Panic NilDereference, w) \<and> VCNLabelsSet c' ctx ls opts w = (Panic NilDereference, w) \<and>
    VCNLabelsUpdate c' ctx hash ops opts w = (Panic NilDereference, w) \<and>
    VCNLabelsGet c' ctx lg opts w = (Panic NilDereference, w) \<and>
    VCNGetAttachment c' ctx s a h w = (Panic NilDereference, w)"
proof -
  have "ServiceClient c' = None"
    using assms by (auto simp: Disconnect_def Let_def split: prod.splits)
  then show ?thesis by (simp add: api_defs)
qed

theorem Disconnect_then_panics_witness:
  "Health (snd (fst (Disconnect (ref_client None) empty_world))) () empty_world =
     (Panic NilDereference, empty_world)"
  using Disconnect_then_panics [of "ref_client None" empty_world
      "fst (fst (Disconnect (ref_client None) empty_world))"
      "snd (fst (Disconnect (ref_client None) empty_world))"]
  by (metis prod.collapse)

section \<open>The state service\<close>

text \<open>The wrapper keeps each key's state: over any inner state service that keeps the contract, a state
  that was stored for an API key is what is read back for it, and storing it leaves the entries of keys
  in other slots alone.\<close>

theorem lcStateService_roundtrip:
  assumes "trusted_state ss locked cached slot"
    and "SetState (lcStateService sha ss) k s w = (Ok (), w1)"
    and "GetState (lcStateService sha ss) ctx k w1 = (Ok s', w2)"
  shows "s' = s \<and> cached w2 (obfuscateApiKey sha k) = Some s \<and>
    (\<forall>k'. slot (obfuscateApiKey sha k') \<noteq> slot (obfuscateApiKey sha k) \<longrightarrow>
       cached w2 (obfuscateApiKey sha k') = cached w (obfuscateApiKey sha k'))"
proof -
  have "wrapped_state ss locked cached slot" using assms(1) by (rule wrapped_state.intro)
  then have w: "trusted_state (lcStateService sha ss) locked
      (\<lambda>w k. cached w (obfuscateApiKey sha k)) (\<lambda>k. slot (obfuscateApiKey sha k))"
    by (rule wrapped_state.wrapper_trusted)
  from trusted_state.set_law [OF w assms(2)] trusted_state.get_law [OF w assms(3)]
  show ?thesis by auto
qed

theorem lcStateService_roundtrip_witness:
  "w_cache (snd (GetState (lcStateService (\<lambda>bs. bs) ref_state) () ''key''
      (snd (SetState (lcStateService (\<lambda>bs. bs) ref_state) ''key'' (state_at 3 [3]) empty_world))))
     (obfuscateApiKey (\<lambda>bs. bs) ''key'') = Some (state_at 3 [3])"
proof -
  let ?ss = "lcStateService (\<lambda>bs. bs) ref_state"
  let ?w1 = "snd (SetState ?ss ''key'' (state_at 3 [3]) empty_world)"
  have s: "SetState ?ss ''key'' (state_at 3 [3]) empty_world = (Ok (), ?w1)"
    and g: "GetState ?ss () ''key'' ?w1 = (Ok (state_at 3 [3]), snd (GetState ?ss () ''key'' ?w1))"
    by (simp_all add: wrapper_defs ref_state_def)
  from lcStateService_roundtrip [OF ref.trusted_state_axioms s g] show ?thesis by simp
qed

text \<open>The name a state is stored under does not depend on more of the API key than its SHA-256, and does
  not lose any of that: two keys share a name exactly when their SHA-256 agree. For a 32-byte hash the
  name has 44 characters.\<close>

theorem obfuscateApiKey_identifies_hash:
  "(obfuscateApiKey sha k1 = obfuscateApiKey sha k2) = (sha (string_bytes k1) = sha (string_bytes k2)) \<and>
   length (obfuscateApiKey sha k1) = 4 * ((length (sha (string_bytes k1)) + 2) div 3)"
  by (simp add: obfuscateApiKey_def StdEncoding_length)

text \<open>\<open>CurrentUUID\<close> never gives an empty identity: when the health call succeeds it is the first value
  of the server's header, and an error when there is none or it is empty.\<close>

theorem CurrentUUID_first_header:
  assumes "lcServiceClient_Health_hdr cc ctx () [HeaderOption, TrailerOption] w = (Ok (m, md), w')"
  shows "LcUuidProvider_CurrentUUID H (NewLcUUIDProvider cc) ctx w =
    ((case md H of [] \<Rightarrow> Fail ErrNoServerUuid | u # _ \<Rightarrow> if u = '''' then Fail ErrNoServerUuid else Ok u), w')"
  using assms by (auto simp: LcUuidProvider_CurrentUUID_def NewLcUUIDProvider_def tryE_def Let_def split: list.splits)

theorem CurrentUUID_first_header_witness:
  "LcUuidProvider_CurrentUUID ''h'' (NewLcUUIDProvider ref_conn) () (empty_world\<lparr>w_replies := [RepImmudb HealthResponse []]\<rparr>) =
    (Fail ErrNoServerUuid, empty_world\<lparr>w_sent := [(''/lc.schema.LcService/Health'', ReqEmpty)]\<rparr>)"
proof -
  have "lcServiceClient_Health_hdr ref_conn () () [HeaderOption, TrailerOption]
      (empty_world\<lparr>w_replies := [RepImmudb HealthResponse []]\<rparr>) =
    (Ok ([], \<lambda>_. []), empty_world\<lparr>w_sent := [(''/lc.schema.LcService/Health'', ReqEmpty)]\<rparr>)"
    by (simp add: stub_defs ref_defs)
  from CurrentUUID_first_header [OF this] show ?thesis by simp
qed

section \<open>Interceptors\<close>

text \<open>The unary chain of a client, around the transport \<open>nxt\<close>.\<close>

abbreviation unary_chain ::
    "((('w, 'ctx) invoker \<Rightarrow> ('w, 'ctx) invoker) list \<Rightarrow> ('w, 'ctx) invoker \<Rightarrow> ('w, 'ctx) invoker) \<Rightarrow>
     (RetryOption list \<Rightarrow> ('w, 'ctx) invoker \<Rightarrow> ('w, 'ctx) invoker) \<Rightarrow> (string list \<Rightarrow> 'ctx \<Rightarrow> 'ctx go) \<Rightarrow>
     ('ip, 'dp, 'tx, 'md, 'es, 'k) immudb \<Rightarrow> ('w, 'ctx, 'k, 'sf) LcClient \<Rightarrow> ('w, 'ctx) invoker \<Rightarrow>
     ('w, 'ctx) invoker" where
  "unary_chain chain retry addMD F c nxt \<equiv>
     chain (map (unary_interceptor_fun retry addMD F c) (unary_interceptors c)) nxt"

text \<open>C30. The client's interceptors never make up an answer: a call that succeeds through the whole chain was
  made by the transport, for the same method, request and reply, and its reply is passed on unchanged.
  The retry interceptor is assumed to pass calls through, which is its documented behaviour for the
  client's default of no retries.\<close>

theorem interceptors_pass_through:
  assumes "chains_left_to_right chain" and "pass_through (retry (RetryOptions c))"
    and "unary_chain chain retry addMD F c nxt ctx method req reply opts w = ((Ok u, reply', md), w')"
  shows "\<exists>ctx' opts'. nxt ctx' method req reply opts' w = ((Ok u, reply', md), w')"
proof -
  let ?is = "map (unary_interceptor_fun retry addMD F c) (unary_interceptors c)"
  have "list_all pass_through ?is"
    using assms(2)
    by (simp add: unary_interceptors_def Let_def checker.pass_through_axioms setter.pass_through_axioms
        verifier.pass_through_axioms)
  then have "pass_through (foldr (\<lambda>i. i) ?is)" by (rule pass_through_chain)
  from pass_through.success_passed [OF this] assms(1,3) show ?thesis
    by (simp add: chains_left_to_right_def)
qed

abbreviation ref_chain :: "ref_client \<Rightarrow> (world, unit) invoker" where
  "ref_chain c \<equiv> unary_chain (\<lambda>is. foldr (\<lambda>i. i) is) (\<lambda>opts i. i) (\<lambda>md ctx. Ok ctx) ref_immudb c (Invoke ref_conn)"

lemma ref_chain_laws:
  "chains_left_to_right (\<lambda>is. foldr (\<lambda>i. i) is)" "pass_through (\<lambda>i. i)"
  by (simp_all add: chains_left_to_right_def pass_through_id)

abbreviation state_world :: world where
  "state_world \<equiv> empty_world\<lparr>w_replies := [RepState (state_at 3 [3])]\<rparr>"

lemma ref_chain_run:
  "ref_chain (ref_client (Some [9])) () CurrentState_method ReqEmpty (RepState zero_ImmutableState) [] state_world =
     ((Ok (), RepState (state_at 3 [3]), \<lambda>_. []),
      empty_world\<lparr>w_sent := [(CurrentState_method, ReqEmpty)]\<rparr>)"
  by (simp add: unary_interceptors_def signatureVerifier_def connectionChecker_def apiKeySetter_def
      ref_conn_def empty_world_def ref_immudb_def state_at_def Let_def)

theorem interceptors_pass_through_witness:
  "\<exists>ctx' opts'. Invoke ref_conn ctx' CurrentState_method ReqEmpty (RepState zero_ImmutableState) opts' state_world =
     ((Ok (), RepState (state_at 3 [3]), \<lambda>_. []), empty_world\<lparr>w_sent := [(CurrentState_method, ReqEmpty)]\<rparr>)"
  by (rule interceptors_pass_through [where chain = "\<lambda>is. foldr (\<lambda>i. i) is" and retry = "\<lambda>opts i. i"
        and addMD = "\<lambda>md ctx. Ok ctx" and F = ref_immudb and c = "ref_client (Some [9])" and ctx = "()"
        and opts = "[]" and nxt = "Invoke ref_conn"])
    (rule ref_chain_laws, rule ref_chain_laws, rule ref_chain_run)

text \<open>C29. A client built with a signing key only ever returns a server state that carries a valid signature:
  whatever the transport answers and however the inner interceptors behave, a \<open>CurrentState\<close> that
  succeeds through the client's chain gives a state whose signature the key verifies.\<close>

theorem CurrentState_is_signed:
  assumes "chains_left_to_right chain" and "serverSigningPubKey c = Some key"
    and "ServiceClient c = Some cc" and "Invoke cc = unary_chain chain retry addMD F c nxt"
    and "CurrentState c ctx w = (Ok st, w')"
  shows "\<exists>v. CheckSignature F st key = Ok v"
proof -
  have sv: "Invoke cc = signatureVerifier F c
      (chain (map (unary_interceptor_fun retry addMD F c) (tl (unary_interceptors c))) nxt)"
    using assms(1,2,4) by (simp add: unary_interceptors_def chains_left_to_right_def Let_def)
  from assms(3,5) obtain reply md u v
    where call: "Invoke cc ctx CurrentState_method ReqEmpty (RepState zero_ImmutableState) [] w = ((Ok u, reply, md), v)"
      and st: "as_RepState reply = Ok st"
    by (auto simp: CurrentState_def lcServiceClient_CurrentState_def unary_def unary_hdr_def ok_simps
        CurrentState_method_def split: prod.splits go.splits)
  from signatureVerifier_CurrentState [OF call [unfolded sv]] assms(2) st show ?thesis
    by (auto simp: as_RepState_def)
qed

lemma signatureVerifier_cong:
  assumes "serverSigningPubKey c = serverSigningPubKey c'"
  shows "signatureVerifier F c = signatureVerifier F c'"
  by (intro ext) (unfold signatureVerifier_def assms, rule refl)

theorem CurrentState_is_signed_witness:
  "\<exists>v. CheckSignature ref_immudb (state_at 3 [3]) [9] = Ok v"
proof -
  let ?base = "ref_client (Some [9])"
  let ?cc = "ref_conn\<lparr>Invoke := ref_chain ?base\<rparr>"
  let ?c = "?base\<lparr>ServiceClient := Some ?cc\<rparr>"
  have "signatureVerifier ref_immudb ?c = signatureVerifier ref_immudb ?base"
    by (rule signatureVerifier_cong) simp
  moreover have "connectionChecker ?c = connectionChecker ?base"
    by (simp add: connectionChecker_def fun_eq_iff)
  moreover have "apiKeySetter (\<lambda>md ctx. Ok ctx) ?c = apiKeySetter (\<lambda>md ctx. Ok ctx) ?base"
    by (intro ext) (simp add: apiKeySetter_def apiKey_opts_def)
  ultimately have same: "ref_chain ?c = ref_chain ?base" by (simp add: unary_interceptors_def)
  have run: "fst (CurrentState ?c () state_world) = Ok (state_at 3 [3])"
    using ref_chain_run
    by (simp add: CurrentState_def lcServiceClient_CurrentState_def unary_def unary_hdr_def tryE_def
        CurrentState_method_def as_RepState_def)
  show ?thesis
    by (rule CurrentState_is_signed [where c = ?c and cc = ?cc and retry = "\<lambda>opts i. i"
          and addMD = "\<lambda>md ctx. Ok ctx" and nxt = "Invoke ref_conn", OF ref_chain_laws(1)])
      (use run same in \<open>auto simp: prod_eq_iff\<close>)
qed

text \<open>A client that is not connected sends nothing: through its chain every call fails without touching
  the world, whatever the method.\<close>

theorem disconnected_sends_nothing:
  assumes "chains_left_to_right chain" and "clientConn c = None \<or> ServiceClient c = None"
  shows "\<exists>r. unary_chain chain retry addMD F c nxt ctx method req reply opts w = ((r, reply, \<lambda>_. []), w) \<and>
    r \<noteq> Ok () \<and> (serverSigningPubKey c = None \<longrightarrow> r = Fail not_connected)"
  using assms
  by (auto simp: unary_interceptors_def chains_left_to_right_def connectionChecker_def signatureVerifier_def
      Let_def split: option.splits reply.splits go.splits)

theorem disconnected_sends_nothing_witness:
  "\<exists>r. ref_chain (ref_new None) () ''m'' ReqEmpty RepEmpty [] state_world = ((r, RepEmpty, \<lambda>_. []), state_world) \<and>
     r = Fail not_connected"
proof -
  have "clientConn (ref_new None) = None \<or> ServiceClient (ref_new None) = None"
    and "serverSigningPubKey (ref_new None) = None"
    by (simp_all add: ref_new_def NewLcClient_def default_LcClient_def option_defs Let_def)
  with disconnected_sends_nothing [OF ref_chain_laws(1), of "ref_new None" "\<lambda>opts i. i" "\<lambda>md ctx. Ok ctx"
      ref_immudb "Invoke ref_conn" "()" "''m''" ReqEmpty RepEmpty "[]" state_world]
  show ?thesis by auto
qed

text \<open>Without an API key the two setters differ: the unary one still adds the configured metadata pairs
  to the outgoing context, the stream one adds nothing at all.\<close>

theorem metadata_without_api_key:
  assumes "ApiKey c = ''''" and "MetadataPairs c \<noteq> []" and "addMD (MetadataPairs c) ctx = Ok ctx'"
  shows "apiKeySetter addMD c invoker ctx method req reply opts w = invoker ctx' method req reply opts w \<and>
    apiKeySetterStream addMD c streamer ctx desc method opts = streamer ctx desc method opts"
  using assms by (simp add: apiKeySetter_def apiKeySetterStream_def apiKey_opts_def)

theorem metadata_without_api_key_witness:
  "apiKeySetter (\<lambda>md ctx. Ok (ctx @ md))
     ((default_LcClient [] 1 id :: (unit, string list, unit, int) LcClient)\<lparr>MetadataPairs := [''k'', ''v'']\<rparr>)
     (\<lambda>ctx m r rep opts w. ((if ctx = [''k'', ''v''] then Ok () else Fail EOF, rep, \<lambda>_. []), w))
     [] ''m'' ReqEmpty RepEmpty [] () = ((Ok (), RepEmpty, \<lambda>_. []), ())"
  by (subst metadata_without_api_key [where ctx' = "[''k'', ''v'']", THEN conjunct1])
    (simp_all add: default_LcClient_def)

section \<open>Streams and files\<close>

text \<open>C32. \<open>StreamScan\<close> returns exactly what the stream delivered: it ends with a list of entries if and only if
  the stream it opened delivered those keys and values, in that order, and then ended.\<close>

theorem StreamScan_returns_delivered:
  assumes "ServiceClient c = Some cc"
  shows "(StreamScan S c ctx req w = Some (Ok \<lparr>Entries_Entries = es\<rparr>, w')) =
     (\<exists>gs w1 items. lcServiceClient_StreamScan cc ctx req [] w = (Ok gs, w1) \<and>
        delivers (StreamServiceFactory c) S cc (StreamChunkSize c) gs w1 items w' \<and>
        es = map (\<lambda>(k, v). stream_entry k v) items)"
  using assms by (rule StreamScan_iff)

theorem StreamScan_returns_delivered_witness:
  "StreamScan ref_lib (ref_client None) () [] (empty_world\<lparr>w_items := [([1], [2]), ([3], [4])]\<rparr>) =
     Some (Ok \<lparr>Entries_Entries = [stream_entry [1] [2], stream_entry [3] [4]]\<rparr>, empty_world)"
proof -
  let ?w = "empty_world\<lparr>w_items := [([1], [2]), ([3], [4])]\<rparr>"
  have opn: "lcServiceClient_StreamScan ref_conn () [] [] ?w = (Ok 0, ?w)"
    by (simp add: lcServiceClient_StreamScan_def ref_conn_def tryE_def)
  have "delivers (ref_factory 65536) ref_lib ref_conn 65536 0 ?w [([1], [2]), ([3], [4])] empty_world"
    by (auto simp: ref_factory_def ref_lib_def empty_world_def intro!: delivers.intros)
  with opn show ?thesis
    by (subst StreamScan_returns_delivered [OF ref_client_simps(2)]) fastforce
qed

text \<open>C33. The receiving loops return: over a stream package whose streams have finitely many messages left,
  \<open>StreamScan\<close>, \<open>StreamHistory\<close> and \<open>StreamZScan\<close> give a result for every request and world.\<close>

theorem streams_return:
  assumes "finite_stream (StreamServiceFactory c) S pending"
  shows "StreamScan S c ctx req w \<noteq> None \<and> StreamHistory S c ctx req w \<noteq> None \<and>
    StreamZScan S c ctx req w \<noteq> None"
  using finite_stream.scans_return [OF assms refl] by (metis option.distinct(1))

theorem streams_return_witness:
  "StreamHistory ref_lib (ref_client None) () [] (empty_world\<lparr>w_items := [([1], [2])]\<rparr>) \<noteq> None"
proof -
  have "finite_stream (StreamServiceFactory (ref_client None)) ref_lib
      (\<lambda>w. length (w_items w) + length (w_zitems w))"
    using ref_streams.finite_stream_axioms by simp
  from streams_return [OF this] show ?thesis by blast
qed

text \<open>Collecting the keys and values to be verified keeps every declared length: each collected key and
  value has exactly the size its descriptor declares, and the descriptors that are sent declare the same
  sizes; bytes that the single read did not give are zeros.\<close>

theorem collect_kvs_sizes:
  assumes "byte_readers S" and "collect_kvs S kvs w = (Ok (stdKVs, kvs'), w')"
  shows "list_all2 (\<lambda>kv std. \<exists>k v. Key kv = Some k \<and> Value kv = Some v \<and>
           int (length (KeyValue_Key std)) = Size k \<and> int (length (KeyValue_Value std)) = Size v) kvs stdKVs \<and>
     list_all2 (\<lambda>kv kv'. map_option Size (Key kv') = map_option Size (Key kv) \<and>
           map_option Size (Value kv') = map_option Size (Value kv)) kvs kvs'"
  by (rule byte_readers.collect_kvs_lengths [OF assms])

theorem collect_kvs_sizes_witness:
  "\<exists>stdKVs. fst (collect_kvs ref_lib [\<lparr>Key = Some \<lparr>Content = [5], Size = 2\<rparr>,
       Value = Some \<lparr>Content = [6], Size = 1\<rparr>\<rparr>] empty_world) = Ok stdKVs \<and>
     list_all2 (\<lambda>kv std. int (length (KeyValue_Key std)) = 2)
       [\<lparr>Key = Some \<lparr>Content = [5 :: 8 word], Size = 2\<rparr>, Value = Some \<lparr>Content = [6], Size = 1\<rparr>\<rparr>] (fst stdKVs)"
proof -
  let ?kvs = "[\<lparr>Key = Some \<lparr>Content = [5], Size = 2\<rparr>, Value = Some \<lparr>Content = [6], Size = 1\<rparr>\<rparr>]"
  have "fst (collect_kvs ref_lib ?kvs empty_world) = Ok ([\<lparr>KeyValue_Key = [5, 0], KeyValue_Value = [6]\<rparr>], ?kvs)"
    by (simp add: tee_read_def tryE_def ref_lib_def)
  then have run: "collect_kvs ref_lib ?kvs empty_world =
      (Ok ([\<lparr>KeyValue_Key = [5, 0], KeyValue_Value = [6]\<rparr>], ?kvs), snd (collect_kvs ref_lib ?kvs empty_world))"
    by (simp add: prod_eq_iff)
  from collect_kvs_sizes [OF ref_readers.byte_readers_axioms run] show ?thesis
    by (simp add: tee_read_def tryE_def ref_lib_def)
qed

text \<open>\<open>GetFile\<close> leaves in the file exactly the value of the entry it returns, as the server gave it, and
  changes no other file; \<open>SetFile\<close> uploads exactly the content of the file and changes none.\<close>

theorem files_transfer_content:
  assumes "file_system fs content"
  shows "(GetFile fs c ctx key p w = (Ok e, w') \<longrightarrow>
      (\<exists>w1. Get c ctx key w = (Ok e, w1) \<and> content w' = (content w1)(p \<mapsto> Entry_Value e))) \<and>
    (SetFile fs c ctx key p w = (Ok h, w') \<longrightarrow>
      (\<exists>bs w1. content w p = Some bs \<and> content w1 = content w \<and> Set c ctx key bs w1 = (Ok h, w')))"
  using file_system.GetFile_downloads [OF assms, of c ctx key p w e w']
    file_system.SetFile_uploads [OF assms, of c ctx key p w h w'] by blast

abbreviation file_world :: world where
  "file_world \<equiv> empty_world\<lparr>w_replies := [RepEntry (stream_entry [1] [7, 8])]\<rparr>"

theorem files_transfer_content_witness:
  "w_files (snd (GetFile ref_files (ref_client None) () [1] ''f'' file_world)) ''f'' = Some [7, 8]"
proof -
  let ?run = "GetFile ref_files (ref_client None) () [1] ''f'' file_world"
  have "fst ?run = Ok (stream_entry [1] [7, 8])"
    by (simp add: GetFile_def stub_defs tryE_def ref_defs)
  then have run: "?run = (Ok (stream_entry [1] [7, 8]), snd ?run)" by (metis prod.collapse)
  from files_transfer_content [OF ref_files.file_system_axioms, THEN conjunct1, rule_format, OF run]
  show ?thesis by (auto simp: stream_entry_def zero_Entry_def)
qed

end
