(* ===== verification/Connection_Guarantees.thy ===== *)
theory Connection_Guarantees
  imports Client_Guarantees Trust_Guarantees
begin

text \<open>
  What is left of a client when connecting again fails. \<open>Connect\<close> assigns the connection before it looks at
  the error of the dial, and returns before it assigns the rest: the client is without a connection but keeps
  the service client and the state service of the session before. \<open>refuses\<close> says of a call that it fails
  without touching the world. And what is left of it after \<open>Disconnect\<close>.
\<close>

section \<open>A chain without a connection\<close>

definition offline :: "go_error \<Rightarrow> bool" where
  "offline e = (e \<in> {not_connected, public_key_not_loaded})"

definition refuses :: "('w, 'a) io \<Rightarrow> bool" where
  "refuses m = (\<forall>w. \<exists>e. m w = (Fail e, w) \<and> offline e)"


lemma refuses_derefE: "p = Some x \<Longrightarrow> refuses (f x) \<Longrightarrow> refuses (derefE p f)"
  by simp




section \<open>A verified operation whose request is refused\<close>


section \<open>A failed reconnection\<close>









section \<open>After Disconnect\<close>







end
