(* ===== verification/Lc_Server.thy ===== *)
theory Lc_Server
  imports Lc_Service
begin

text \<open>
  The server side of the service \<open>lc.schema.LcService\<close> (\<open>schema/lc_grpc.pb.go\<close>): the interface
  \<open>LcServiceServer\<close>, the server that implements nothing, the handler of each method and the tables of
  handlers of \<open>LcService_ServiceDesc\<close>.

  A handler decodes the request into a message of its type, and calls the method, through the server's
  interceptor if there is one. Messages travel as in \<open>Grpc_Types\<close>; a message of another type is a
  decoding error, and an interceptor that passes on a message of another type makes the type assertion
  of the handler panic. The locale \<open>transport\<close> is what gRPC does between a stub and its handler.
\<close>

section \<open>Messages of a request\<close>

text \<open>The zero messages that handlers decode into, for immudb's types. \<open>VerifiableSetRequest\<close> has its inner
  request by value in this model; the message is overwritten before anything reads it.\<close>

definition zero_SetRequest :: SetRequest where
  "zero_SetRequest = \<lparr>SetRequest_KVs = []\<rparr>"

definition zero_KeyRequest :: KeyRequest where
  "zero_KeyRequest = \<lparr>KeyRequest_Key = [], KeyRequest_AtTx = 0, KeyRequest_SinceTx = 0\<rparr>"

definition zero_VerifiableSetRequest :: VerifiableSetRequest where
  "zero_VerifiableSetRequest = \<lparr>VerifiableSetRequest_SetRequest = zero_SetRequest, VerifiableSetRequest_ProveSinceTx = 0\<rparr>"

definition zero_VerifiableGetRequest :: VerifiableGetRequest where
  "zero_VerifiableGetRequest = \<lparr>VerifiableGetRequest_KeyRequest = None, VerifiableGetRequest_ProveSinceTx = 0\<rparr>"

definition to_ReqArtifacts :: "request \<Rightarrow> VCNArtifactsRequest option" where
  [service_defs]: "to_ReqArtifacts r = (case r of ReqArtifacts m \<Rightarrow> Some m | _ \<Rightarrow> None)"

definition to_ReqSearch :: "request \<Rightarrow> VCNSearchRequest option" where
  [service_defs]: "to_ReqSearch r = (case r of ReqSearch m \<Rightarrow> Some m | _ \<Rightarrow> None)"

definition to_ReqArtifactsGet :: "request \<Rightarrow> VCNArtifactsGetRequest option" where
  [service_defs]: "to_ReqArtifactsGet r = (case r of ReqArtifactsGet m \<Rightarrow> Some m | _ \<Rightarrow> None)"

definition to_ReqLabelsGet :: "request \<Rightarrow> VCNLabelsGetRequest option" where
  [service_defs]: "to_ReqLabelsGet r = (case r of ReqLabelsGet m \<Rightarrow> Some m | _ \<Rightarrow> None)"

definition to_ReqLabelsSet :: "request \<Rightarrow> VCNLabelsSetRequest option" where
  [service_defs]: "to_ReqLabelsSet r = (case r of ReqLabelsSet m \<Rightarrow> Some m | _ \<Rightarrow> None)"

definition to_ReqLabelsUpdate :: "request \<Rightarrow> VCNLabelsUpdateRequest option" where
  [service_defs]: "to_ReqLabelsUpdate r = (case r of ReqLabelsUpdate m \<Rightarrow> Some m | _ \<Rightarrow> None)"

definition to_ReqAttachment :: "request \<Rightarrow> VCNGetAttachmentRequest option" where
  [service_defs]: "to_ReqAttachment r = (case r of ReqAttachment m \<Rightarrow> Some m | _ \<Rightarrow> None)"

definition to_ReqClientSignature :: "request \<Rightarrow> VCNGetClientSignatureRequest option" where
  [service_defs]: "to_ReqClientSignature r = (case r of ReqClientSignature m \<Rightarrow> Some m | _ \<Rightarrow> None)"

definition to_ReqEmpty :: "request \<Rightarrow> unit option" where
  [service_defs]: "to_ReqEmpty r = (case r of ReqEmpty \<Rightarrow> Some () | _ \<Rightarrow> None)"

definition to_ReqReport :: "request \<Rightarrow> ReportOptions option" where
  [service_defs]: "to_ReqReport r = (case r of ReqReport m \<Rightarrow> Some m | _ \<Rightarrow> None)"

definition to_ReqSet :: "request \<Rightarrow> SetRequest option" where
  [service_defs]: "to_ReqSet r = (case r of ReqSet m \<Rightarrow> Some m | _ \<Rightarrow> None)"

definition to_ReqSetMulti :: "request \<Rightarrow> SetMultiRequest option" where
  [service_defs]: "to_ReqSetMulti r = (case r of ReqSetMulti m \<Rightarrow> Some m | _ \<Rightarrow> None)"

definition to_ReqKey :: "request \<Rightarrow> KeyRequest option" where
  [service_defs]: "to_ReqKey r = (case r of ReqKey m \<Rightarrow> Some m | _ \<Rightarrow> None)"

definition to_ReqVerifiableSet :: "request \<Rightarrow> VerifiableSetRequest option" where
  [service_defs]: "to_ReqVerifiableSet r = (case r of ReqVerifiableSet m \<Rightarrow> Some m | _ \<Rightarrow> None)"

definition to_ReqVerifiableGet :: "request \<Rightarrow> VerifiableGetRequest option" where
  [service_defs]: "to_ReqVerifiableGet r = (case r of ReqVerifiableGet m \<Rightarrow> Some m | _ \<Rightarrow> None)"

definition to_ReqGetExtMulti :: "request \<Rightarrow> VerifiableGetExtMultiRequest option" where
  [service_defs]: "to_ReqGetExtMulti r = (case r of ReqGetExtMulti m \<Rightarrow> Some m | _ \<Rightarrow> None)"

definition to_ReqData :: "request \<Rightarrow> Data option" where
  [service_defs]: "to_ReqData r = (case r of ReqData m \<Rightarrow> Some m | _ \<Rightarrow> None)"

definition to_ReqImmudb :: "immudb_message \<Rightarrow> request \<Rightarrow> wire option" where
  [service_defs]: "to_ReqImmudb k r = (case r of ReqImmudb k' m \<Rightarrow> if k' = k then Some m else None | _ \<Rightarrow> None)"

section \<open>The interface of the server\<close>

text \<open>\<open>grpc.ServerStream\<close>: the server's end of a stream.\<close>

record 'w ServerStream =
  ServerSendMsg :: "reply \<Rightarrow> ('w, unit) io"
  ServerRecvMsg :: "request \<Rightarrow> ('w, request) io"

record ('w, 'ctx) LcServiceServer =
  Srv_VCNSetArtifacts :: "'ctx \<Rightarrow> VCNArtifactsRequest \<Rightarrow> ('w, VCNArtifactsResponse) io"
  Srv_VCNSearchArtifacts :: "'ctx \<Rightarrow> VCNSearchRequest \<Rightarrow> ('w, EntryList) io"
  Srv_VCNGetArtifacts :: "'ctx \<Rightarrow> VCNArtifactsGetRequest \<Rightarrow> ('w, EntryList) io"
  Srv_VCNLabelsGet :: "'ctx \<Rightarrow> VCNLabelsGetRequest \<Rightarrow> ('w, VCNLabelsGetResponse) io"
  Srv_VCNLabelsSet :: "'ctx \<Rightarrow> VCNLabelsSetRequest \<Rightarrow> ('w, VCNLabelsSetResponse) io"
  Srv_VCNLabelsUpdate :: "'ctx \<Rightarrow> VCNLabelsUpdateRequest \<Rightarrow> ('w, VCNLabelsUpdateResponse) io"
  Srv_VCNGetAttachment :: "'ctx \<Rightarrow> VCNGetAttachmentRequest \<Rightarrow> ('w, VCNGetAttachmentResponse) io"
  Srv_VCNGetClientSignature :: "'ctx \<Rightarrow> VCNGetClientSignatureRequest \<Rightarrow> ('w, VCNGetClientSignatureResponse) io"
  Srv_CurrentState :: "'ctx \<Rightarrow> unit \<Rightarrow> ('w, ImmutableState) io"
  Srv_Health :: "'ctx \<Rightarrow> unit \<Rightarrow> ('w, wire) io"
  Srv_ReportTamper :: "'ctx \<Rightarrow> ReportOptions \<Rightarrow> ('w, unit) io"
  Srv_Feats :: "'ctx \<Rightarrow> unit \<Rightarrow> ('w, Features) io"
  Srv_Set :: "'ctx \<Rightarrow> SetRequest \<Rightarrow> ('w, TxHeader) io"
  Srv_SetMulti :: "'ctx \<Rightarrow> SetMultiRequest \<Rightarrow> ('w, SetMultiResponse) io"
  Srv_Get :: "'ctx \<Rightarrow> KeyRequest \<Rightarrow> ('w, Entry) io"
  Srv_VerifiableSet :: "'ctx \<Rightarrow> VerifiableSetRequest \<Rightarrow> ('w, VerifiableTx) io"
  Srv_VerifiableGet :: "'ctx \<Rightarrow> VerifiableGetRequest \<Rightarrow> ('w, VerifiableEntry) io"
  Srv_GetAll :: "'ctx \<Rightarrow> wire \<Rightarrow> ('w, Entries) io"
  Srv_ExecAll :: "'ctx \<Rightarrow> wire \<Rightarrow> ('w, TxHeader) io"
  Srv_Scan :: "'ctx \<Rightarrow> wire \<Rightarrow> ('w, Entries) io"
  Srv_History :: "'ctx \<Rightarrow> wire \<Rightarrow> ('w, Entries) io"
  Srv_ZAdd :: "'ctx \<Rightarrow> wire \<Rightarrow> ('w, TxHeader) io"
  Srv_VerifiableZAdd :: "'ctx \<Rightarrow> wire \<Rightarrow> ('w, VerifiableTx) io"
  Srv_ZScan :: "'ctx \<Rightarrow> wire \<Rightarrow> ('w, ZEntries) io"
  Srv_SendData :: "'w ServerStream \<Rightarrow> ('w, unit) io"
  Srv_VerifiableGetExt :: "'ctx \<Rightarrow> VerifiableGetRequest \<Rightarrow> ('w, VerifiableItemExt) io"
  Srv_VerifiableGetExtMulti :: "'ctx \<Rightarrow> VerifiableGetExtMultiRequest \<Rightarrow> ('w, VerifiableGetExtMultiResponse) io"
  Srv_ZScanExt :: "'ctx \<Rightarrow> wire \<Rightarrow> ('w, ZItemExtList) io"
  Srv_HistoryExt :: "'ctx \<Rightarrow> wire \<Rightarrow> ('w, ItemExtList) io"
  Srv_StreamGet :: "KeyRequest \<Rightarrow> 'w ServerStream \<Rightarrow> ('w, unit) io"
  Srv_StreamSet :: "'w ServerStream \<Rightarrow> ('w, unit) io"
  Srv_StreamVerifiableGet :: "VerifiableGetRequest \<Rightarrow> 'w ServerStream \<Rightarrow> ('w, unit) io"
  Srv_StreamVerifiableSet :: "'w ServerStream \<Rightarrow> ('w, unit) io"
  Srv_StreamScan :: "wire \<Rightarrow> 'w ServerStream \<Rightarrow> ('w, unit) io"
  Srv_StreamZScan :: "wire \<Rightarrow> 'w ServerStream \<Rightarrow> ('w, unit) io"
  Srv_StreamHistory :: "wire \<Rightarrow> 'w ServerStream \<Rightarrow> ('w, unit) io"
  Srv_StreamExecAll :: "'w ServerStream \<Rightarrow> ('w, unit) io"

text \<open>\<^verbatim>\<open>status.Errorf(codes.Unimplemented, "method M not implemented")\<close> for every method.\<close>

definition not_implemented :: "string \<Rightarrow> go_error" where
  "not_implemented m = StatusError ''Unimplemented'' (''method '' @ m @ '' not implemented'')"

definition UnimplementedLcServiceServer :: "('w, 'ctx) LcServiceServer" where
  "UnimplementedLcServiceServer =
    \<lparr>Srv_VCNSetArtifacts = \<lambda>ctx inp. fail (not_implemented ''VCNSetArtifacts''),
     Srv_VCNSearchArtifacts = \<lambda>ctx inp. fail (not_implemented ''VCNSearchArtifacts''),
     Srv_VCNGetArtifacts = \<lambda>ctx inp. fail (not_implemented ''VCNGetArtifacts''),
     Srv_VCNLabelsGet = \<lambda>ctx inp. fail (not_implemented ''VCNLabelsGet''),
     Srv_VCNLabelsSet = \<lambda>ctx inp. fail (not_implemented ''VCNLabelsSet''),
     Srv_VCNLabelsUpdate = \<lambda>ctx inp. fail (not_implemented ''VCNLabelsUpdate''),
     Srv_VCNGetAttachment = \<lambda>ctx inp. fail (not_implemented ''VCNGetAttachment''),
     Srv_VCNGetClientSignature = \<lambda>ctx inp. fail (not_implemented ''VCNGetClientSignature''),
     Srv_CurrentState = \<lambda>ctx inp. fail (not_implemented ''CurrentState''),
     Srv_Health = \<lambda>ctx inp. fail (not_implemented ''Health''),
     Srv_ReportTamper = \<lambda>ctx inp. fail (not_implemented ''ReportTamper''),
     Srv_Feats = \<lambda>ctx inp. fail (not_implemented ''Feats''),
     Srv_Set = \<lambda>ctx inp. fail (not_implemented ''Set''),
     Srv_SetMulti = \<lambda>ctx inp. fail (not_implemented ''SetMulti''),
     Srv_Get = \<lambda>ctx inp. fail (not_implemented ''Get''),
     Srv_VerifiableSet = \<lambda>ctx inp. fail (not_implemented ''VerifiableSet''),
     Srv_VerifiableGet = \<lambda>ctx inp. fail (not_implemented ''VerifiableGet''),
     Srv_GetAll = \<lambda>ctx inp. fail (not_implemented ''GetAll''),
     Srv_ExecAll = \<lambda>ctx inp. fail (not_implemented ''ExecAll''),
     Srv_Scan = \<lambda>ctx inp. fail (not_implemented ''Scan''),
     Srv_History = \<lambda>ctx inp. fail (not_implemented ''History''),
     Srv_ZAdd = \<lambda>ctx inp. fail (not_implemented ''ZAdd''),
     Srv_VerifiableZAdd = \<lambda>ctx inp. fail (not_implemented ''VerifiableZAdd''),
     Srv_ZScan = \<lambda>ctx inp. fail (not_implemented ''ZScan''),
     Srv_SendData = \<lambda>stream. fail (not_implemented ''SendData''),
     Srv_VerifiableGetExt = \<lambda>ctx inp. fail (not_implemented ''VerifiableGetExt''),
     Srv_VerifiableGetExtMulti = \<lambda>ctx inp. fail (not_implemented ''VerifiableGetExtMulti''),
     Srv_ZScanExt = \<lambda>ctx inp. fail (not_implemented ''ZScanExt''),
     Srv_HistoryExt = \<lambda>ctx inp. fail (not_implemented ''HistoryExt''),
     Srv_StreamGet = \<lambda>inp stream. fail (not_implemented ''StreamGet''),
     Srv_StreamSet = \<lambda>stream. fail (not_implemented ''StreamSet''),
     Srv_StreamVerifiableGet = \<lambda>inp stream. fail (not_implemented ''StreamVerifiableGet''),
     Srv_StreamVerifiableSet = \<lambda>stream. fail (not_implemented ''StreamVerifiableSet''),
     Srv_StreamScan = \<lambda>inp stream. fail (not_implemented ''StreamScan''),
     Srv_StreamZScan = \<lambda>inp stream. fail (not_implemented ''StreamZScan''),
     Srv_StreamHistory = \<lambda>inp stream. fail (not_implemented ''StreamHistory''),
     Srv_StreamExecAll = \<lambda>stream. fail (not_implemented ''StreamExecAll'')\<rparr>"

section \<open>Handlers\<close>

type_synonym ('w, 'ctx) UnaryHandler = "'ctx \<Rightarrow> request \<Rightarrow> ('w, reply) io"

type_synonym ('w, 'ctx) UnaryServerInterceptor =
  "'ctx \<Rightarrow> request \<Rightarrow> string \<Rightarrow> ('w, 'ctx) UnaryHandler \<Rightarrow> ('w, reply) io"

type_synonym ('w, 'ctx) MethodHandler =
  "'ctx \<Rightarrow> (request \<Rightarrow> ('w, request) io) \<Rightarrow> ('w, 'ctx) UnaryServerInterceptor option \<Rightarrow> ('w, reply) io"

text \<open>The shape all handlers of unary methods share.\<close>

definition unary_handler ::
    "request \<Rightarrow> (request \<Rightarrow> 'i option) \<Rightarrow> ('o \<Rightarrow> reply) \<Rightarrow> string \<Rightarrow> ('ctx \<Rightarrow> 'i \<Rightarrow> ('w, 'o) io) \<Rightarrow>
     ('w, 'ctx) MethodHandler" where
  "unary_handler zero typed wrap path method ctx dec interceptor =
     tryE (dec zero) (\<lambda>m.
     case typed m of
       None \<Rightarrow> fail other_type
     | Some inp \<Rightarrow>
         (case interceptor of
            None \<Rightarrow> tryE (method ctx inp) (\<lambda>out. ret (wrap out))
          | Some f \<Rightarrow> f ctx m path (\<lambda>ctx req. case typed req of
                None \<Rightarrow> panic TypeAssertion
              | Some inp' \<Rightarrow> tryE (method ctx inp') (\<lambda>out. ret (wrap out)))))"

definition LcService_VCNSetArtifacts_Handler :: "('w, 'ctx) LcServiceServer \<Rightarrow> ('w, 'ctx) MethodHandler" where
  [service_defs]: "LcService_VCNSetArtifacts_Handler srv =
     unary_handler (ReqArtifacts zero_VCNArtifactsRequest) to_ReqArtifacts RepArtifacts ''/lc.schema.LcService/VCNSetArtifacts'' (Srv_VCNSetArtifacts srv)"

definition LcService_VCNSearchArtifacts_Handler :: "('w, 'ctx) LcServiceServer \<Rightarrow> ('w, 'ctx) MethodHandler" where
  [service_defs]: "LcService_VCNSearchArtifacts_Handler srv =
     unary_handler (ReqSearch zero_VCNSearchRequest) to_ReqSearch RepEntryList ''/lc.schema.LcService/VCNSearchArtifacts'' (Srv_VCNSearchArtifacts srv)"

definition LcService_VCNGetArtifacts_Handler :: "('w, 'ctx) LcServiceServer \<Rightarrow> ('w, 'ctx) MethodHandler" where
  [service_defs]: "LcService_VCNGetArtifacts_Handler srv =
     unary_handler (ReqArtifactsGet zero_VCNArtifactsGetRequest) to_ReqArtifactsGet RepEntryList ''/lc.schema.LcService/VCNGetArtifacts'' (Srv_VCNGetArtifacts srv)"

definition LcService_VCNLabelsGet_Handler :: "('w, 'ctx) LcServiceServer \<Rightarrow> ('w, 'ctx) MethodHandler" where
  [service_defs]: "LcService_VCNLabelsGet_Handler srv =
     unary_handler (ReqLabelsGet zero_VCNLabelsGetRequest) to_ReqLabelsGet RepLabelsGet ''/lc.schema.LcService/VCNLabelsGet'' (Srv_VCNLabelsGet srv)"

definition LcService_VCNLabelsSet_Handler :: "('w, 'ctx) LcServiceServer \<Rightarrow> ('w, 'ctx) MethodHandler" where
  [service_defs]: "LcService_VCNLabelsSet_Handler srv =
     unary_handler (ReqLabelsSet zero_VCNLabelsSetRequest) to_ReqLabelsSet RepLabelsSet ''/lc.schema.LcService/VCNLabelsSet'' (Srv_VCNLabelsSet srv)"

definition LcService_VCNLabelsUpdate_Handler :: "('w, 'ctx) LcServiceServer \<Rightarrow> ('w, 'ctx) MethodHandler" where
  [service_defs]: "LcService_VCNLabelsUpdate_Handler srv =
     unary_handler (ReqLabelsUpdate zero_VCNLabelsUpdateRequest) to_ReqLabelsUpdate RepLabelsUpdate ''/lc.schema.LcService/VCNLabelsUpdate'' (Srv_VCNLabelsUpdate srv)"

definition LcService_VCNGetAttachment_Handler :: "('w, 'ctx) LcServiceServer \<Rightarrow> ('w, 'ctx) MethodHandler" where
  [service_defs]: "LcService_VCNGetAttachment_Handler srv =
     unary_handler (ReqAttachment zero_VCNGetAttachmentRequest) to_ReqAttachment RepAttachment ''/lc.schema.LcService/VCNGetAttachment'' (Srv_VCNGetAttachment srv)"

definition LcService_VCNGetClientSignature_Handler :: "('w, 'ctx) LcServiceServer \<Rightarrow> ('w, 'ctx) MethodHandler" where
  [service_defs]: "LcService_VCNGetClientSignature_Handler srv =
     unary_handler (ReqClientSignature zero_VCNGetClientSignatureRequest) to_ReqClientSignature RepClientSignature ''/lc.schema.LcService/VCNGetClientSignature'' (Srv_VCNGetClientSignature srv)"

definition LcService_CurrentState_Handler :: "('w, 'ctx) LcServiceServer \<Rightarrow> ('w, 'ctx) MethodHandler" where
  [service_defs]: "LcService_CurrentState_Handler srv =
     unary_handler ReqEmpty to_ReqEmpty RepState ''/lc.schema.LcService/CurrentState'' (Srv_CurrentState srv)"

definition LcService_Health_Handler :: "('w, 'ctx) LcServiceServer \<Rightarrow> ('w, 'ctx) MethodHandler" where
  [service_defs]: "LcService_Health_Handler srv =
     unary_handler ReqEmpty to_ReqEmpty (RepImmudb HealthResponse) ''/lc.schema.LcService/Health'' (Srv_Health srv)"

definition LcService_ReportTamper_Handler :: "('w, 'ctx) LcServiceServer \<Rightarrow> ('w, 'ctx) MethodHandler" where
  [service_defs]: "LcService_ReportTamper_Handler srv =
     unary_handler (ReqReport zero_ReportOptions) to_ReqReport (\<lambda>_. RepEmpty) ''/lc.schema.LcService/ReportTamper'' (Srv_ReportTamper srv)"

definition LcService_Feats_Handler :: "('w, 'ctx) LcServiceServer \<Rightarrow> ('w, 'ctx) MethodHandler" where
  [service_defs]: "LcService_Feats_Handler srv =
     unary_handler ReqEmpty to_ReqEmpty RepFeatures ''/lc.schema.LcService/Feats'' (Srv_Feats srv)"

definition LcService_Set_Handler :: "('w, 'ctx) LcServiceServer \<Rightarrow> ('w, 'ctx) MethodHandler" where
  [service_defs]: "LcService_Set_Handler srv =
     unary_handler (ReqSet zero_SetRequest) to_ReqSet RepTxHeader ''/lc.schema.LcService/Set'' (Srv_Set srv)"

definition LcService_SetMulti_Handler :: "('w, 'ctx) LcServiceServer \<Rightarrow> ('w, 'ctx) MethodHandler" where
  [service_defs]: "LcService_SetMulti_Handler srv =
     unary_handler (ReqSetMulti zero_SetMultiRequest) to_ReqSetMulti RepSetMulti ''/lc.schema.LcService/SetMulti'' (Srv_SetMulti srv)"

definition LcService_Get_Handler :: "('w, 'ctx) LcServiceServer \<Rightarrow> ('w, 'ctx) MethodHandler" where
  [service_defs]: "LcService_Get_Handler srv =
     unary_handler (ReqKey zero_KeyRequest) to_ReqKey RepEntry ''/lc.schema.LcService/Get'' (Srv_Get srv)"

definition LcService_VerifiableSet_Handler :: "('w, 'ctx) LcServiceServer \<Rightarrow> ('w, 'ctx) MethodHandler" where
  [service_defs]: "LcService_VerifiableSet_Handler srv =
     unary_handler (ReqVerifiableSet zero_VerifiableSetRequest) to_ReqVerifiableSet RepVerifiableTx ''/lc.schema.LcService/VerifiableSet'' (Srv_VerifiableSet srv)"

definition LcService_VerifiableGet_Handler :: "('w, 'ctx) LcServiceServer \<Rightarrow> ('w, 'ctx) MethodHandler" where
  [service_defs]: "LcService_VerifiableGet_Handler srv =
     unary_handler (ReqVerifiableGet zero_VerifiableGetRequest) to_ReqVerifiableGet RepVerifiableEntry ''/lc.schema.LcService/VerifiableGet'' (Srv_VerifiableGet srv)"

definition LcService_GetAll_Handler :: "('w, 'ctx) LcServiceServer \<Rightarrow> ('w, 'ctx) MethodHandler" where
  [service_defs]: "LcService_GetAll_Handler srv =
     unary_handler (ReqImmudb KeyListRequest []) (to_ReqImmudb KeyListRequest) RepEntries ''/lc.schema.LcService/GetAll'' (Srv_GetAll srv)"

definition LcService_ExecAll_Handler :: "('w, 'ctx) LcServiceServer \<Rightarrow> ('w, 'ctx) MethodHandler" where
  [service_defs]: "LcService_ExecAll_Handler srv =
     unary_handler (ReqImmudb ExecAllRequest []) (to_ReqImmudb ExecAllRequest) RepTxHeader ''/lc.schema.LcService/ExecAll'' (Srv_ExecAll srv)"

definition LcService_Scan_Handler :: "('w, 'ctx) LcServiceServer \<Rightarrow> ('w, 'ctx) MethodHandler" where
  [service_defs]: "LcService_Scan_Handler srv =
     unary_handler (ReqImmudb ScanRequest []) (to_ReqImmudb ScanRequest) RepEntries ''/lc.schema.LcService/Scan'' (Srv_Scan srv)"

definition LcService_History_Handler :: "('w, 'ctx) LcServiceServer \<Rightarrow> ('w, 'ctx) MethodHandler" where
  [service_defs]: "LcService_History_Handler srv =
     unary_handler (ReqImmudb HistoryRequest []) (to_ReqImmudb HistoryRequest) RepEntries ''/lc.schema.LcService/History'' (Srv_History srv)"

definition LcService_ZAdd_Handler :: "('w, 'ctx) LcServiceServer \<Rightarrow> ('w, 'ctx) MethodHandler" where
  [service_defs]: "LcService_ZAdd_Handler srv =
     unary_handler (ReqImmudb ZAddRequest []) (to_ReqImmudb ZAddRequest) RepTxHeader ''/lc.schema.LcService/ZAdd'' (Srv_ZAdd srv)"

definition LcService_VerifiableZAdd_Handler :: "('w, 'ctx) LcServiceServer \<Rightarrow> ('w, 'ctx) MethodHandler" where
  [service_defs]: "LcService_VerifiableZAdd_Handler srv =
     unary_handler (ReqImmudb VerifiableZAddRequest []) (to_ReqImmudb VerifiableZAddRequest) RepVerifiableTx ''/lc.schema.LcService/VerifiableZAdd'' (Srv_VerifiableZAdd srv)"

definition LcService_ZScan_Handler :: "('w, 'ctx) LcServiceServer \<Rightarrow> ('w, 'ctx) MethodHandler" where
  [service_defs]: "LcService_ZScan_Handler srv =
     unary_handler (ReqImmudb ZScanRequest []) (to_ReqImmudb ZScanRequest) RepZEntries ''/lc.schema.LcService/ZScan'' (Srv_ZScan srv)"

definition LcService_VerifiableGetExt_Handler :: "('w, 'ctx) LcServiceServer \<Rightarrow> ('w, 'ctx) MethodHandler" where
  [service_defs]: "LcService_VerifiableGetExt_Handler srv =
     unary_handler (ReqVerifiableGet zero_VerifiableGetRequest) to_ReqVerifiableGet RepItemExt ''/lc.schema.LcService/VerifiableGetExt'' (Srv_VerifiableGetExt srv)"

definition LcService_VerifiableGetExtMulti_Handler :: "('w, 'ctx) LcServiceServer \<Rightarrow> ('w, 'ctx) MethodHandler" where
  [service_defs]: "LcService_VerifiableGetExtMulti_Handler srv =
     unary_handler (ReqGetExtMulti zero_VerifiableGetExtMultiRequest) to_ReqGetExtMulti RepGetExtMulti ''/lc.schema.LcService/VerifiableGetExtMulti'' (Srv_VerifiableGetExtMulti srv)"

definition LcService_ZScanExt_Handler :: "('w, 'ctx) LcServiceServer \<Rightarrow> ('w, 'ctx) MethodHandler" where
  [service_defs]: "LcService_ZScanExt_Handler srv =
     unary_handler (ReqImmudb ZScanRequest []) (to_ReqImmudb ZScanRequest) RepZItemExtList ''/lc.schema.LcService/ZScanExt'' (Srv_ZScanExt srv)"

definition LcService_HistoryExt_Handler :: "('w, 'ctx) LcServiceServer \<Rightarrow> ('w, 'ctx) MethodHandler" where
  [service_defs]: "LcService_HistoryExt_Handler srv =
     unary_handler (ReqImmudb HistoryRequest []) (to_ReqImmudb HistoryRequest) RepItemExtList ''/lc.schema.LcService/HistoryExt'' (Srv_HistoryExt srv)"

section \<open>Streams at the server\<close>

definition LcService_SendData_Handler :: "('w, 'ctx) LcServiceServer \<Rightarrow> 'w ServerStream \<Rightarrow> ('w, unit) io" where
  [service_defs]: "LcService_SendData_Handler srv stream = Srv_SendData srv stream"

definition lcServiceSendDataServer_Send :: "'w ServerStream \<Rightarrow> Response \<Rightarrow> ('w, unit) io" where
  [service_defs]: "lcServiceSendDataServer_Send x m = ServerSendMsg x (RepResponse m)"

definition lcServiceSendDataServer_Recv :: "'w ServerStream \<Rightarrow> ('w, Data) io" where
  [service_defs]: "lcServiceSendDataServer_Recv x =
     tryE (ServerRecvMsg x (ReqData zero_Data)) (\<lambda>m. case to_ReqData m of None \<Rightarrow> fail other_type | Some m' \<Rightarrow> ret m')"

definition LcService_StreamGet_Handler :: "('w, 'ctx) LcServiceServer \<Rightarrow> 'w ServerStream \<Rightarrow> ('w, unit) io" where
  [service_defs]: "LcService_StreamGet_Handler srv stream =
     tryE (ServerRecvMsg stream (ReqKey zero_KeyRequest)) (\<lambda>m.
     case to_ReqKey m of None \<Rightarrow> fail other_type | Some inp \<Rightarrow> Srv_StreamGet srv inp stream)"

definition lcServiceStreamGetServer_Send :: "'w ServerStream \<Rightarrow> wire \<Rightarrow> ('w, unit) io" where
  [service_defs]: "lcServiceStreamGetServer_Send x m = ServerSendMsg x (RepImmudb Chunk m)"

definition LcService_StreamSet_Handler :: "('w, 'ctx) LcServiceServer \<Rightarrow> 'w ServerStream \<Rightarrow> ('w, unit) io" where
  [service_defs]: "LcService_StreamSet_Handler srv stream = Srv_StreamSet srv stream"

definition lcServiceStreamSetServer_SendAndClose :: "'w ServerStream \<Rightarrow> TxHeader \<Rightarrow> ('w, unit) io" where
  [service_defs]: "lcServiceStreamSetServer_SendAndClose x m = ServerSendMsg x (RepTxHeader m)"

definition lcServiceStreamSetServer_Recv :: "'w ServerStream \<Rightarrow> ('w, wire) io" where
  [service_defs]: "lcServiceStreamSetServer_Recv x =
     tryE (ServerRecvMsg x (ReqImmudb Chunk [])) (\<lambda>m. case to_ReqImmudb Chunk m of None \<Rightarrow> fail other_type | Some m' \<Rightarrow> ret m')"

definition LcService_StreamVerifiableGet_Handler :: "('w, 'ctx) LcServiceServer \<Rightarrow> 'w ServerStream \<Rightarrow> ('w, unit) io" where
  [service_defs]: "LcService_StreamVerifiableGet_Handler srv stream =
     tryE (ServerRecvMsg stream (ReqVerifiableGet zero_VerifiableGetRequest)) (\<lambda>m.
     case to_ReqVerifiableGet m of None \<Rightarrow> fail other_type | Some inp \<Rightarrow> Srv_StreamVerifiableGet srv inp stream)"

definition lcServiceStreamVerifiableGetServer_Send :: "'w ServerStream \<Rightarrow> wire \<Rightarrow> ('w, unit) io" where
  [service_defs]: "lcServiceStreamVerifiableGetServer_Send x m = ServerSendMsg x (RepImmudb Chunk m)"

definition LcService_StreamVerifiableSet_Handler :: "('w, 'ctx) LcServiceServer \<Rightarrow> 'w ServerStream \<Rightarrow> ('w, unit) io" where
  [service_defs]: "LcService_StreamVerifiableSet_Handler srv stream = Srv_StreamVerifiableSet srv stream"

definition lcServiceStreamVerifiableSetServer_SendAndClose :: "'w ServerStream \<Rightarrow> VerifiableTx \<Rightarrow> ('w, unit) io" where
  [service_defs]: "lcServiceStreamVerifiableSetServer_SendAndClose x m = ServerSendMsg x (RepVerifiableTx m)"

definition lcServiceStreamVerifiableSetServer_Recv :: "'w ServerStream \<Rightarrow> ('w, wire) io" where
  [service_defs]: "lcServiceStreamVerifiableSetServer_Recv x =
     tryE (ServerRecvMsg x (ReqImmudb Chunk [])) (\<lambda>m. case to_ReqImmudb Chunk m of None \<Rightarrow> fail other_type | Some m' \<Rightarrow> ret m')"

definition LcService_StreamScan_Handler :: "('w, 'ctx) LcServiceServer \<Rightarrow> 'w ServerStream \<Rightarrow> ('w, unit) io" where
  [service_defs]: "LcService_StreamScan_Handler srv stream =
     tryE (ServerRecvMsg stream (ReqImmudb ScanRequest [])) (\<lambda>m.
     case to_ReqImmudb ScanRequest m of None \<Rightarrow> fail other_type | Some inp \<Rightarrow> Srv_StreamScan srv inp stream)"

definition lcServiceStreamScanServer_Send :: "'w ServerStream \<Rightarrow> wire \<Rightarrow> ('w, unit) io" where
  [service_defs]: "lcServiceStreamScanServer_Send x m = ServerSendMsg x (RepImmudb Chunk m)"

definition LcService_StreamZScan_Handler :: "('w, 'ctx) LcServiceServer \<Rightarrow> 'w ServerStream \<Rightarrow> ('w, unit) io" where
  [service_defs]: "LcService_StreamZScan_Handler srv stream =
     tryE (ServerRecvMsg stream (ReqImmudb ZScanRequest [])) (\<lambda>m.
     case to_ReqImmudb ZScanRequest m of None \<Rightarrow> fail other_type | Some inp \<Rightarrow> Srv_StreamZScan srv inp stream)"

definition lcServiceStreamZScanServer_Send :: "'w ServerStream \<Rightarrow> wire \<Rightarrow> ('w, unit) io" where
  [service_defs]: "lcServiceStreamZScanServer_Send x m = ServerSendMsg x (RepImmudb Chunk m)"

definition LcService_StreamHistory_Handler :: "('w, 'ctx) LcServiceServer \<Rightarrow> 'w ServerStream \<Rightarrow> ('w, unit) io" where
  [service_defs]: "LcService_StreamHistory_Handler srv stream =
     tryE (ServerRecvMsg stream (ReqImmudb HistoryRequest [])) (\<lambda>m.
     case to_ReqImmudb HistoryRequest m of None \<Rightarrow> fail other_type | Some inp \<Rightarrow> Srv_StreamHistory srv inp stream)"

definition lcServiceStreamHistoryServer_Send :: "'w ServerStream \<Rightarrow> wire \<Rightarrow> ('w, unit) io" where
  [service_defs]: "lcServiceStreamHistoryServer_Send x m = ServerSendMsg x (RepImmudb Chunk m)"

definition LcService_StreamExecAll_Handler :: "('w, 'ctx) LcServiceServer \<Rightarrow> 'w ServerStream \<Rightarrow> ('w, unit) io" where
  [service_defs]: "LcService_StreamExecAll_Handler srv stream = Srv_StreamExecAll srv stream"

definition lcServiceStreamExecAllServer_SendAndClose :: "'w ServerStream \<Rightarrow> TxHeader \<Rightarrow> ('w, unit) io" where
  [service_defs]: "lcServiceStreamExecAllServer_SendAndClose x m = ServerSendMsg x (RepTxHeader m)"

definition lcServiceStreamExecAllServer_Recv :: "'w ServerStream \<Rightarrow> ('w, wire) io" where
  [service_defs]: "lcServiceStreamExecAllServer_Recv x =
     tryE (ServerRecvMsg x (ReqImmudb Chunk [])) (\<lambda>m. case to_ReqImmudb Chunk m of None \<Rightarrow> fail other_type | Some m' \<Rightarrow> ret m')"

section \<open>The tables of the service descriptor\<close>

definition LcService_ServiceDesc_MethodHandlers ::
    "('w, 'ctx) LcServiceServer \<Rightarrow> (string \<times> ('w, 'ctx) MethodHandler) list" where
  "LcService_ServiceDesc_MethodHandlers srv =
    [(''VCNSetArtifacts'', LcService_VCNSetArtifacts_Handler srv),
     (''VCNSearchArtifacts'', LcService_VCNSearchArtifacts_Handler srv),
     (''VCNGetArtifacts'', LcService_VCNGetArtifacts_Handler srv),
     (''VCNLabelsGet'', LcService_VCNLabelsGet_Handler srv),
     (''VCNLabelsSet'', LcService_VCNLabelsSet_Handler srv),
     (''VCNLabelsUpdate'', LcService_VCNLabelsUpdate_Handler srv),
     (''VCNGetAttachment'', LcService_VCNGetAttachment_Handler srv),
     (''VCNGetClientSignature'', LcService_VCNGetClientSignature_Handler srv),
     (''CurrentState'', LcService_CurrentState_Handler srv),
     (''Health'', LcService_Health_Handler srv),
     (''ReportTamper'', LcService_ReportTamper_Handler srv),
     (''Feats'', LcService_Feats_Handler srv),
     (''Set'', LcService_Set_Handler srv),
     (''SetMulti'', LcService_SetMulti_Handler srv),
     (''Get'', LcService_Get_Handler srv),
     (''VerifiableSet'', LcService_VerifiableSet_Handler srv),
     (''VerifiableGet'', LcService_VerifiableGet_Handler srv),
     (''GetAll'', LcService_GetAll_Handler srv),
     (''ExecAll'', LcService_ExecAll_Handler srv),
     (''Scan'', LcService_Scan_Handler srv),
     (''History'', LcService_History_Handler srv),
     (''ZAdd'', LcService_ZAdd_Handler srv),
     (''VerifiableZAdd'', LcService_VerifiableZAdd_Handler srv),
     (''ZScan'', LcService_ZScan_Handler srv),
     (''VerifiableGetExt'', LcService_VerifiableGetExt_Handler srv),
     (''VerifiableGetExtMulti'', LcService_VerifiableGetExtMulti_Handler srv),
     (''ZScanExt'', LcService_ZScanExt_Handler srv),
     (''HistoryExt'', LcService_HistoryExt_Handler srv)]"

definition LcService_ServiceDesc_StreamHandlers ::
    "('w, 'ctx) LcServiceServer \<Rightarrow> (string \<times> ('w ServerStream \<Rightarrow> ('w, unit) io)) list" where
  "LcService_ServiceDesc_StreamHandlers srv =
    [(''SendData'', LcService_SendData_Handler srv),
     (''streamGet'', LcService_StreamGet_Handler srv),
     (''streamSet'', LcService_StreamSet_Handler srv),
     (''streamVerifiableGet'', LcService_StreamVerifiableGet_Handler srv),
     (''streamVerifiableSet'', LcService_StreamVerifiableSet_Handler srv),
     (''streamScan'', LcService_StreamScan_Handler srv),
     (''streamZScan'', LcService_StreamZScan_Handler srv),
     (''streamHistory'', LcService_StreamHistory_Handler srv),
     (''streamExecAll'', LcService_StreamExecAll_Handler srv)]"

lemma tables_names:
  "map fst (LcService_ServiceDesc_MethodHandlers srv) = LcService_ServiceDesc_Methods"
  "map fst (LcService_ServiceDesc_StreamHandlers srv) = map StreamName LcService_ServiceDesc_Streams"
  by (simp_all add: LcService_ServiceDesc_MethodHandlers_def LcService_ServiceDesc_StreamHandlers_def
      LcService_ServiceDesc_Methods_def LcService_ServiceDesc_Streams_def)

text \<open>
  The descriptor, its tables as functions of the implementation that their handlers are called with, and the
  registration of an implementation with a registrar, which is a parameter.
\<close>

record ('w, 'ctx) ServiceDesc =
  ServiceDesc_ServiceName :: string
  ServiceDesc_Methods :: "('w, 'ctx) LcServiceServer \<Rightarrow> (string \<times> ('w, 'ctx) MethodHandler) list"
  ServiceDesc_Streams :: "('w, 'ctx) LcServiceServer \<Rightarrow> (StreamDesc \<times> ('w ServerStream \<Rightarrow> ('w, unit) io)) list"
  ServiceDesc_Metadata :: string

definition LcService_ServiceDesc :: "('w, 'ctx) ServiceDesc" where
  "LcService_ServiceDesc = \<lparr>ServiceDesc_ServiceName = LcService_ServiceName,
     ServiceDesc_Methods = LcService_ServiceDesc_MethodHandlers,
     ServiceDesc_Streams = (\<lambda>srv. zip LcService_ServiceDesc_Streams (map snd (LcService_ServiceDesc_StreamHandlers srv))),
     ServiceDesc_Metadata = ''lc.proto''\<rparr>"

definition RegisterLcServiceServer ::
    "(('w, 'ctx) ServiceDesc \<Rightarrow> ('w, 'ctx) LcServiceServer \<Rightarrow> ('w, unit) io) \<Rightarrow> ('w, 'ctx) LcServiceServer \<Rightarrow> ('w, unit) io" where
  "RegisterLcServiceServer RegisterService srv = RegisterService LcService_ServiceDesc srv"

text \<open>Every stream of a registered implementation has the handler of its name.\<close>

lemma registered_streams:
  "map (\<lambda>(d, h). (StreamName d, h)) (ServiceDesc_Streams LcService_ServiceDesc srv) = LcService_ServiceDesc_StreamHandlers srv"
  by (simp add: LcService_ServiceDesc_def LcService_ServiceDesc_Streams_def LcService_ServiceDesc_StreamHandlers_def)

section \<open>Between a stub and its handler\<close>

text \<open>
  \<open>agrees carry m n\<close>: what \<open>n\<close> returns, \<open>m\<close> returns, an error as the transport carries it.
\<close>

definition agrees :: "(go_error \<Rightarrow> go_error) \<Rightarrow> ('w, 'a) io \<Rightarrow> ('w, 'a) io \<Rightarrow> bool" where
  "agrees carry m n = (\<forall>w w'. (\<forall>x. n w = (Ok x, w') \<longrightarrow> m w = (Ok x, w')) \<and>
     (\<forall>e. n w = (Fail e, w') \<longrightarrow> m w = (Fail (carry e), w')))"

definition full_method :: "string \<Rightarrow> string" where
  "full_method m = ''/'' @ LcService_ServiceName @ ''/'' @ m"

text \<open>
  gRPC with a server that has no interceptor, when the network does its part: the handler registered under the
  full method name gets the request and its reply, or its error as a status, gets to the caller.
\<close>

locale transport =
  fixes cc :: "('w, 'ctx) ClientConn" and srv :: "('w, 'ctx) LcServiceServer" and carry :: "go_error \<Rightarrow> go_error"
  assumes delivers: "(m, h) \<in> set (LcService_ServiceDesc_MethodHandlers srv) \<Longrightarrow>
        h ctx (\<lambda>_. ret req) None w = (Ok rep, w') \<Longrightarrow>
        \<exists>md. Invoke cc ctx (full_method m) req out opts w = ((Ok (), rep, md), w')"
    and refuses: "(m, h) \<in> set (LcService_ServiceDesc_MethodHandlers srv) \<Longrightarrow>
        h ctx (\<lambda>_. ret req) None w = (Fail e, w') \<Longrightarrow>
        \<exists>out' md. Invoke cc ctx (full_method m) req out opts w = ((Fail (carry e), out', md), w')"
begin

lemma unary_reaches:
  assumes reg: "(m, unary_handler z typed wrap p method) \<in> set (LcService_ServiceDesc_MethodHandlers srv)"
    and path: "path = full_method m" and typed: "typed req = Some inp" and proj: "\<And>x. proj (wrap x) = Ok x"
  shows "agrees carry (unary cc ctx path req out proj opts) (method ctx inp)"
proof -
  have "unary cc ctx path req out proj opts w = (Ok x, w')" if "method ctx inp w = (Ok x, w')" for w x w'
  proof -
    from that typed have "unary_handler z typed wrap p method ctx (\<lambda>_. ret req) None w = (Ok (wrap x), w')"
      by (simp add: unary_handler_def tryE_def)
    from delivers [OF reg this, of out opts] path proj show ?thesis
      by (auto simp: unary_def unary_hdr_def tryE_def)
  qed
  moreover have "unary cc ctx path req out proj opts w = (Fail (carry e), w')" if "method ctx inp w = (Fail e, w')" for w e w'
  proof -
    from that typed have "unary_handler z typed wrap p method ctx (\<lambda>_. ret req) None w = (Fail e, w')"
      by (simp add: unary_handler_def tryE_def)
    from refuses [OF reg this, of out opts] path show ?thesis
      by (auto simp: unary_def unary_hdr_def tryE_def)
  qed
  ultimately show ?thesis by (auto simp: agrees_def)
qed

end

end
