(* ===== verification/Service_Guarantees.thy ===== *)
theory Service_Guarantees
  imports Reference_World Lc_Server
begin

text \<open>
  The client stubs and the service descriptor agree (\<open>lc_grpc.pb.go\<close>): every path a stub calls is
  the service name followed by a method, or a stream of the right kind, that \<open>LcService_ServiceDesc\<close>
  lists, and over a transport that does its part a call of a stub is a call of the server's method.
\<close>

section \<open>The paths that are served\<close>

definition served_methods :: "string list" where
  "served_methods = map (\<lambda>m. ''/'' @ LcService_ServiceName @ ''/'' @ m) LcService_ServiceDesc_Methods"

definition served_streams :: "(StreamDesc \<times> string) list" where
  "served_streams = map (\<lambda>d. (d, ''/'' @ LcService_ServiceName @ ''/'' @ StreamName d)) LcService_ServiceDesc_Streams"

text \<open>A connection to a server that refuses what its descriptor does not list.\<close>

definition unimplemented :: go_error where
  "unimplemented = StatusError ''Unimplemented'' ''unknown method''"

definition served_only :: "('w, 'ctx) ClientConn \<Rightarrow> ('w, 'ctx) ClientConn" where
  "served_only cc = cc
    \<lparr>Invoke := (\<lambda>ctx method req reply opts w. if method \<in> set served_methods
        then Invoke cc ctx method req reply opts w else ((Fail unimplemented, reply, \<lambda>_. []), w)),
     NewStream := (\<lambda>ctx desc method opts. if (desc, method) \<in> set served_streams
        then NewStream cc ctx desc method opts else fail unimplemented)\<rparr>"

lemma served_paths:
  "''/lc.schema.LcService/VCNSetArtifacts'' \<in> set served_methods"
  "''/lc.schema.LcService/VCNSearchArtifacts'' \<in> set served_methods"
  "''/lc.schema.LcService/VCNGetArtifacts'' \<in> set served_methods"
  "''/lc.schema.LcService/VCNLabelsGet'' \<in> set served_methods"
  "''/lc.schema.LcService/VCNLabelsSet'' \<in> set served_methods"
  "''/lc.schema.LcService/VCNLabelsUpdate'' \<in> set served_methods"
  "''/lc.schema.LcService/VCNGetAttachment'' \<in> set served_methods"
  "''/lc.schema.LcService/VCNGetClientSignature'' \<in> set served_methods"
  "''/lc.schema.LcService/CurrentState'' \<in> set served_methods"
  "''/lc.schema.LcService/Health'' \<in> set served_methods"
  "''/lc.schema.LcService/ReportTamper'' \<in> set served_methods"
  "''/lc.schema.LcService/Feats'' \<in> set served_methods"
  "''/lc.schema.LcService/Set'' \<in> set served_methods"
  "''/lc.schema.LcService/SetMulti'' \<in> set served_methods"
  "''/lc.schema.LcService/Get'' \<in> set served_methods"
  "''/lc.schema.LcService/VerifiableSet'' \<in> set served_methods"
  "''/lc.schema.LcService/VerifiableGet'' \<in> set served_methods"
  "''/lc.schema.LcService/GetAll'' \<in> set served_methods"
  "''/lc.schema.LcService/ExecAll'' \<in> set served_methods"
  "''/lc.schema.LcService/Scan'' \<in> set served_methods"
  "''/lc.schema.LcService/History'' \<in> set served_methods"
  "''/lc.schema.LcService/ZAdd'' \<in> set served_methods"
  "''/lc.schema.LcService/VerifiableZAdd'' \<in> set served_methods"
  "''/lc.schema.LcService/ZScan'' \<in> set served_methods"
  "''/lc.schema.LcService/VerifiableGetExt'' \<in> set served_methods"
  "''/lc.schema.LcService/VerifiableGetExtMulti'' \<in> set served_methods"
  "''/lc.schema.LcService/ZScanExt'' \<in> set served_methods"
  "''/lc.schema.LcService/HistoryExt'' \<in> set served_methods"
  by code_simp+

lemma served_stream_paths:
  "(LcService_ServiceDesc_Streams ! 0, ''/lc.schema.LcService/SendData'') \<in> set served_streams"
  "(LcService_ServiceDesc_Streams ! 1, ''/lc.schema.LcService/streamGet'') \<in> set served_streams"
  "(LcService_ServiceDesc_Streams ! 2, ''/lc.schema.LcService/streamSet'') \<in> set served_streams"
  "(LcService_ServiceDesc_Streams ! 3, ''/lc.schema.LcService/streamVerifiableGet'') \<in> set served_streams"
  "(LcService_ServiceDesc_Streams ! 4, ''/lc.schema.LcService/streamVerifiableSet'') \<in> set served_streams"
  "(LcService_ServiceDesc_Streams ! 5, ''/lc.schema.LcService/streamScan'') \<in> set served_streams"
  "(LcService_ServiceDesc_Streams ! 6, ''/lc.schema.LcService/streamZScan'') \<in> set served_streams"
  "(LcService_ServiceDesc_Streams ! 7, ''/lc.schema.LcService/streamHistory'') \<in> set served_streams"
  "(LcService_ServiceDesc_Streams ! 8, ''/lc.schema.LcService/streamExecAll'') \<in> set served_streams"
  by code_simp+

lemma served_only_simps [simp]:
  "NewStream (served_only cc) ctx desc method opts = (if (desc, method) \<in> set served_streams
     then NewStream cc ctx desc method opts else fail unimplemented)"
  "SendMsg (served_only cc) = SendMsg cc" "CloseSend (served_only cc) = CloseSend cc"
  by (simp_all add: served_only_def)

lemma unary_served:
  assumes "method \<in> set served_methods"
  shows "unary (served_only cc) ctx method inp out proj opts = unary cc ctx method inp out proj opts"
  using assms by (simp add: unary_def unary_hdr_def served_only_def)

text \<open>Every unary call of the client names a method that the service descriptor lists, under the service's
  name: a server that refuses everything else answers each of them as one that refuses nothing.\<close>

theorem unary_calls_are_served:
  "lcServiceClient_VCNSetArtifacts (served_only cc) ctx inp1 opts = lcServiceClient_VCNSetArtifacts cc ctx inp1 opts \<and>
   lcServiceClient_VCNSearchArtifacts (served_only cc) ctx inp2 opts = lcServiceClient_VCNSearchArtifacts cc ctx inp2 opts \<and>
   lcServiceClient_VCNGetArtifacts (served_only cc) ctx inp3 opts = lcServiceClient_VCNGetArtifacts cc ctx inp3 opts \<and>
   lcServiceClient_VCNLabelsGet (served_only cc) ctx inp4 opts = lcServiceClient_VCNLabelsGet cc ctx inp4 opts \<and>
   lcServiceClient_VCNLabelsSet (served_only cc) ctx inp5 opts = lcServiceClient_VCNLabelsSet cc ctx inp5 opts \<and>
   lcServiceClient_VCNLabelsUpdate (served_only cc) ctx inp6 opts = lcServiceClient_VCNLabelsUpdate cc ctx inp6 opts \<and>
   lcServiceClient_VCNGetAttachment (served_only cc) ctx inp7 opts = lcServiceClient_VCNGetAttachment cc ctx inp7 opts \<and>
   lcServiceClient_VCNGetClientSignature (served_only cc) ctx inp8 opts = lcServiceClient_VCNGetClientSignature cc ctx inp8 opts \<and>
   lcServiceClient_CurrentState (served_only cc) ctx inp9 opts = lcServiceClient_CurrentState cc ctx inp9 opts \<and>
   lcServiceClient_Health (served_only cc) ctx inp10 opts = lcServiceClient_Health cc ctx inp10 opts \<and>
   lcServiceClient_ReportTamper (served_only cc) ctx inp11 opts = lcServiceClient_ReportTamper cc ctx inp11 opts \<and>
   lcServiceClient_Feats (served_only cc) ctx inp12 opts = lcServiceClient_Feats cc ctx inp12 opts \<and>
   lcServiceClient_Set (served_only cc) ctx inp13 opts = lcServiceClient_Set cc ctx inp13 opts \<and>
   lcServiceClient_SetMulti (served_only cc) ctx inp14 opts = lcServiceClient_SetMulti cc ctx inp14 opts \<and>
   lcServiceClient_Get (served_only cc) ctx inp15 opts = lcServiceClient_Get cc ctx inp15 opts \<and>
   lcServiceClient_VerifiableSet (served_only cc) ctx inp16 opts = lcServiceClient_VerifiableSet cc ctx inp16 opts \<and>
   lcServiceClient_VerifiableGet (served_only cc) ctx inp17 opts = lcServiceClient_VerifiableGet cc ctx inp17 opts \<and>
   lcServiceClient_GetAll (served_only cc) ctx inp18 opts = lcServiceClient_GetAll cc ctx inp18 opts \<and>
   lcServiceClient_ExecAll (served_only cc) ctx inp19 opts = lcServiceClient_ExecAll cc ctx inp19 opts \<and>
   lcServiceClient_Scan (served_only cc) ctx inp20 opts = lcServiceClient_Scan cc ctx inp20 opts \<and>
   lcServiceClient_History (served_only cc) ctx inp21 opts = lcServiceClient_History cc ctx inp21 opts \<and>
   lcServiceClient_ZAdd (served_only cc) ctx inp22 opts = lcServiceClient_ZAdd cc ctx inp22 opts \<and>
   lcServiceClient_VerifiableZAdd (served_only cc) ctx inp23 opts = lcServiceClient_VerifiableZAdd cc ctx inp23 opts \<and>
   lcServiceClient_ZScan (served_only cc) ctx inp24 opts = lcServiceClient_ZScan cc ctx inp24 opts \<and>
   lcServiceClient_VerifiableGetExt (served_only cc) ctx inp25 opts = lcServiceClient_VerifiableGetExt cc ctx inp25 opts \<and>
   lcServiceClient_VerifiableGetExtMulti (served_only cc) ctx inp26 opts = lcServiceClient_VerifiableGetExtMulti cc ctx inp26 opts \<and>
   lcServiceClient_ZScanExt (served_only cc) ctx inp27 opts = lcServiceClient_ZScanExt cc ctx inp27 opts \<and>
   lcServiceClient_HistoryExt (served_only cc) ctx inp28 opts = lcServiceClient_HistoryExt cc ctx inp28 opts"
  unfolding service_defs by (intro conjI unary_served served_paths)

text \<open>Every stream the client opens is one the service descriptor lists, with the descriptor's own kind of
  streaming and name.\<close>

theorem streams_are_served:
  "lcServiceClient_SendData (served_only cc) ctx opts = lcServiceClient_SendData cc ctx opts \<and>
   lcServiceClient_StreamGet (served_only cc) ctx inp2 opts = lcServiceClient_StreamGet cc ctx inp2 opts \<and>
   lcServiceClient_StreamSet (served_only cc) ctx opts = lcServiceClient_StreamSet cc ctx opts \<and>
   lcServiceClient_StreamVerifiableGet (served_only cc) ctx inp4 opts = lcServiceClient_StreamVerifiableGet cc ctx inp4 opts \<and>
   lcServiceClient_StreamVerifiableSet (served_only cc) ctx opts = lcServiceClient_StreamVerifiableSet cc ctx opts \<and>
   lcServiceClient_StreamScan (served_only cc) ctx inp6 opts = lcServiceClient_StreamScan cc ctx inp6 opts \<and>
   lcServiceClient_StreamZScan (served_only cc) ctx inp7 opts = lcServiceClient_StreamZScan cc ctx inp7 opts \<and>
   lcServiceClient_StreamHistory (served_only cc) ctx inp8 opts = lcServiceClient_StreamHistory cc ctx inp8 opts \<and>
   lcServiceClient_StreamExecAll (served_only cc) ctx opts = lcServiceClient_StreamExecAll cc ctx opts"
  unfolding service_defs by (simp add: served_stream_paths [simplified])

section \<open>From a stub to the server's method\<close>

lemma handlers_registered:
  "(''VCNSetArtifacts'', LcService_VCNSetArtifacts_Handler srv) \<in> set (LcService_ServiceDesc_MethodHandlers srv)"
  "(''VCNSearchArtifacts'', LcService_VCNSearchArtifacts_Handler srv) \<in> set (LcService_ServiceDesc_MethodHandlers srv)"
  "(''VCNGetArtifacts'', LcService_VCNGetArtifacts_Handler srv) \<in> set (LcService_ServiceDesc_MethodHandlers srv)"
  "(''VCNLabelsGet'', LcService_VCNLabelsGet_Handler srv) \<in> set (LcService_ServiceDesc_MethodHandlers srv)"
  "(''VCNLabelsSet'', LcService_VCNLabelsSet_Handler srv) \<in> set (LcService_ServiceDesc_MethodHandlers srv)"
  "(''VCNLabelsUpdate'', LcService_VCNLabelsUpdate_Handler srv) \<in> set (LcService_ServiceDesc_MethodHandlers srv)"
  "(''VCNGetAttachment'', LcService_VCNGetAttachment_Handler srv) \<in> set (LcService_ServiceDesc_MethodHandlers srv)"
  "(''VCNGetClientSignature'', LcService_VCNGetClientSignature_Handler srv) \<in> set (LcService_ServiceDesc_MethodHandlers srv)"
  "(''CurrentState'', LcService_CurrentState_Handler srv) \<in> set (LcService_ServiceDesc_MethodHandlers srv)"
  "(''Health'', LcService_Health_Handler srv) \<in> set (LcService_ServiceDesc_MethodHandlers srv)"
  "(''ReportTamper'', LcService_ReportTamper_Handler srv) \<in> set (LcService_ServiceDesc_MethodHandlers srv)"
  "(''Feats'', LcService_Feats_Handler srv) \<in> set (LcService_ServiceDesc_MethodHandlers srv)"
  "(''Set'', LcService_Set_Handler srv) \<in> set (LcService_ServiceDesc_MethodHandlers srv)"
  "(''SetMulti'', LcService_SetMulti_Handler srv) \<in> set (LcService_ServiceDesc_MethodHandlers srv)"
  "(''Get'', LcService_Get_Handler srv) \<in> set (LcService_ServiceDesc_MethodHandlers srv)"
  "(''VerifiableSet'', LcService_VerifiableSet_Handler srv) \<in> set (LcService_ServiceDesc_MethodHandlers srv)"
  "(''VerifiableGet'', LcService_VerifiableGet_Handler srv) \<in> set (LcService_ServiceDesc_MethodHandlers srv)"
  "(''GetAll'', LcService_GetAll_Handler srv) \<in> set (LcService_ServiceDesc_MethodHandlers srv)"
  "(''ExecAll'', LcService_ExecAll_Handler srv) \<in> set (LcService_ServiceDesc_MethodHandlers srv)"
  "(''Scan'', LcService_Scan_Handler srv) \<in> set (LcService_ServiceDesc_MethodHandlers srv)"
  "(''History'', LcService_History_Handler srv) \<in> set (LcService_ServiceDesc_MethodHandlers srv)"
  "(''ZAdd'', LcService_ZAdd_Handler srv) \<in> set (LcService_ServiceDesc_MethodHandlers srv)"
  "(''VerifiableZAdd'', LcService_VerifiableZAdd_Handler srv) \<in> set (LcService_ServiceDesc_MethodHandlers srv)"
  "(''ZScan'', LcService_ZScan_Handler srv) \<in> set (LcService_ServiceDesc_MethodHandlers srv)"
  "(''VerifiableGetExt'', LcService_VerifiableGetExt_Handler srv) \<in> set (LcService_ServiceDesc_MethodHandlers srv)"
  "(''VerifiableGetExtMulti'', LcService_VerifiableGetExtMulti_Handler srv) \<in> set (LcService_ServiceDesc_MethodHandlers srv)"
  "(''ZScanExt'', LcService_ZScanExt_Handler srv) \<in> set (LcService_ServiceDesc_MethodHandlers srv)"
  "(''HistoryExt'', LcService_HistoryExt_Handler srv) \<in> set (LcService_ServiceDesc_MethodHandlers srv)"
  by (simp_all add: LcService_ServiceDesc_MethodHandlers_def)

lemmas registered = handlers_registered [unfolded service_defs]

context transport
begin

lemma reaches:
  "agrees carry (lcServiceClient_VCNSetArtifacts cc ctx inp1 opts) (Srv_VCNSetArtifacts srv ctx inp1)"
  "agrees carry (lcServiceClient_VCNSearchArtifacts cc ctx inp2 opts) (Srv_VCNSearchArtifacts srv ctx inp2)"
  "agrees carry (lcServiceClient_VCNGetArtifacts cc ctx inp3 opts) (Srv_VCNGetArtifacts srv ctx inp3)"
  "agrees carry (lcServiceClient_VCNLabelsGet cc ctx inp4 opts) (Srv_VCNLabelsGet srv ctx inp4)"
  "agrees carry (lcServiceClient_VCNLabelsSet cc ctx inp5 opts) (Srv_VCNLabelsSet srv ctx inp5)"
  "agrees carry (lcServiceClient_VCNLabelsUpdate cc ctx inp6 opts) (Srv_VCNLabelsUpdate srv ctx inp6)"
  "agrees carry (lcServiceClient_VCNGetAttachment cc ctx inp7 opts) (Srv_VCNGetAttachment srv ctx inp7)"
  "agrees carry (lcServiceClient_VCNGetClientSignature cc ctx inp8 opts) (Srv_VCNGetClientSignature srv ctx inp8)"
  "agrees carry (lcServiceClient_CurrentState cc ctx inp9 opts) (Srv_CurrentState srv ctx inp9)"
  "agrees carry (lcServiceClient_Health cc ctx inp10 opts) (Srv_Health srv ctx inp10)"
  "agrees carry (lcServiceClient_ReportTamper cc ctx inp11 opts) (Srv_ReportTamper srv ctx inp11)"
  "agrees carry (lcServiceClient_Feats cc ctx inp12 opts) (Srv_Feats srv ctx inp12)"
  "agrees carry (lcServiceClient_Set cc ctx inp13 opts) (Srv_Set srv ctx inp13)"
  "agrees carry (lcServiceClient_SetMulti cc ctx inp14 opts) (Srv_SetMulti srv ctx inp14)"
  "agrees carry (lcServiceClient_Get cc ctx inp15 opts) (Srv_Get srv ctx inp15)"
  "agrees carry (lcServiceClient_VerifiableSet cc ctx inp16 opts) (Srv_VerifiableSet srv ctx inp16)"
  "agrees carry (lcServiceClient_VerifiableGet cc ctx inp17 opts) (Srv_VerifiableGet srv ctx inp17)"
  "agrees carry (lcServiceClient_GetAll cc ctx inp18 opts) (Srv_GetAll srv ctx inp18)"
  "agrees carry (lcServiceClient_ExecAll cc ctx inp19 opts) (Srv_ExecAll srv ctx inp19)"
  "agrees carry (lcServiceClient_Scan cc ctx inp20 opts) (Srv_Scan srv ctx inp20)"
  "agrees carry (lcServiceClient_History cc ctx inp21 opts) (Srv_History srv ctx inp21)"
  "agrees carry (lcServiceClient_ZAdd cc ctx inp22 opts) (Srv_ZAdd srv ctx inp22)"
  "agrees carry (lcServiceClient_VerifiableZAdd cc ctx inp23 opts) (Srv_VerifiableZAdd srv ctx inp23)"
  "agrees carry (lcServiceClient_ZScan cc ctx inp24 opts) (Srv_ZScan srv ctx inp24)"
  "agrees carry (lcServiceClient_VerifiableGetExt cc ctx inp25 opts) (Srv_VerifiableGetExt srv ctx inp25)"
  "agrees carry (lcServiceClient_VerifiableGetExtMulti cc ctx inp26 opts) (Srv_VerifiableGetExtMulti srv ctx inp26)"
  "agrees carry (lcServiceClient_ZScanExt cc ctx inp27 opts) (Srv_ZScanExt srv ctx inp27)"
  "agrees carry (lcServiceClient_HistoryExt cc ctx inp28 opts) (Srv_HistoryExt srv ctx inp28)"
  unfolding service_defs
  by (rule unary_reaches, rule registered; simp add: service_defs full_method_def LcService_ServiceName_def)+

end

lemma agrees_Fail: "agrees carry m n \<Longrightarrow> n w = (Fail e, w') \<Longrightarrow> m w = (Fail (carry e), w')"
  by (simp add: agrees_def)

text \<open>C40. Every unary call reaches its method: over a transport that does its part, what the server's method
  returns for a request is what the client's stub of the same name returns, and an error arrives as the
  transport carries it. Stub, descriptor and handler agree on the path and on the types of all 28 methods.\<close>

theorem stubs_reach_their_methods:
  assumes "transport cc srv carry"
  shows "agrees carry (lcServiceClient_VCNSetArtifacts cc ctx inp1 opts) (Srv_VCNSetArtifacts srv ctx inp1) \<and>
   agrees carry (lcServiceClient_VCNSearchArtifacts cc ctx inp2 opts) (Srv_VCNSearchArtifacts srv ctx inp2) \<and>
   agrees carry (lcServiceClient_VCNGetArtifacts cc ctx inp3 opts) (Srv_VCNGetArtifacts srv ctx inp3) \<and>
   agrees carry (lcServiceClient_VCNLabelsGet cc ctx inp4 opts) (Srv_VCNLabelsGet srv ctx inp4) \<and>
   agrees carry (lcServiceClient_VCNLabelsSet cc ctx inp5 opts) (Srv_VCNLabelsSet srv ctx inp5) \<and>
   agrees carry (lcServiceClient_VCNLabelsUpdate cc ctx inp6 opts) (Srv_VCNLabelsUpdate srv ctx inp6) \<and>
   agrees carry (lcServiceClient_VCNGetAttachment cc ctx inp7 opts) (Srv_VCNGetAttachment srv ctx inp7) \<and>
   agrees carry (lcServiceClient_VCNGetClientSignature cc ctx inp8 opts) (Srv_VCNGetClientSignature srv ctx inp8) \<and>
   agrees carry (lcServiceClient_CurrentState cc ctx inp9 opts) (Srv_CurrentState srv ctx inp9) \<and>
   agrees carry (lcServiceClient_Health cc ctx inp10 opts) (Srv_Health srv ctx inp10) \<and>
   agrees carry (lcServiceClient_ReportTamper cc ctx inp11 opts) (Srv_ReportTamper srv ctx inp11) \<and>
   agrees carry (lcServiceClient_Feats cc ctx inp12 opts) (Srv_Feats srv ctx inp12) \<and>
   agrees carry (lcServiceClient_Set cc ctx inp13 opts) (Srv_Set srv ctx inp13) \<and>
   agrees carry (lcServiceClient_SetMulti cc ctx inp14 opts) (Srv_SetMulti srv ctx inp14) \<and>
   agrees carry (lcServiceClient_Get cc ctx inp15 opts) (Srv_Get srv ctx inp15) \<and>
   agrees carry (lcServiceClient_VerifiableSet cc ctx inp16 opts) (Srv_VerifiableSet srv ctx inp16) \<and>
   agrees carry (lcServiceClient_VerifiableGet cc ctx inp17 opts) (Srv_VerifiableGet srv ctx inp17) \<and>
   agrees carry (lcServiceClient_GetAll cc ctx inp18 opts) (Srv_GetAll srv ctx inp18) \<and>
   agrees carry (lcServiceClient_ExecAll cc ctx inp19 opts) (Srv_ExecAll srv ctx inp19) \<and>
   agrees carry (lcServiceClient_Scan cc ctx inp20 opts) (Srv_Scan srv ctx inp20) \<and>
   agrees carry (lcServiceClient_History cc ctx inp21 opts) (Srv_History srv ctx inp21) \<and>
   agrees carry (lcServiceClient_ZAdd cc ctx inp22 opts) (Srv_ZAdd srv ctx inp22) \<and>
   agrees carry (lcServiceClient_VerifiableZAdd cc ctx inp23 opts) (Srv_VerifiableZAdd srv ctx inp23) \<and>
   agrees carry (lcServiceClient_ZScan cc ctx inp24 opts) (Srv_ZScan srv ctx inp24) \<and>
   agrees carry (lcServiceClient_VerifiableGetExt cc ctx inp25 opts) (Srv_VerifiableGetExt srv ctx inp25) \<and>
   agrees carry (lcServiceClient_VerifiableGetExtMulti cc ctx inp26 opts) (Srv_VerifiableGetExtMulti srv ctx inp26) \<and>
   agrees carry (lcServiceClient_ZScanExt cc ctx inp27 opts) (Srv_ZScanExt srv ctx inp27) \<and>
   agrees carry (lcServiceClient_HistoryExt cc ctx inp28 opts) (Srv_HistoryExt srv ctx inp28)"
  by (intro conjI transport.reaches [OF assms])

text \<open>A server in the same process: the transport is a look-up in the table of handlers.\<close>

definition in_process :: "('w, 'ctx) LcServiceServer \<Rightarrow> ('w, 'ctx) ClientConn" where
  "in_process srv =
    \<lparr>Invoke = (\<lambda>ctx method req reply opts w.
       case map_of (map (\<lambda>(m, h). (full_method m, h)) (LcService_ServiceDesc_MethodHandlers srv)) method of
         None \<Rightarrow> ((Fail unimplemented, reply, \<lambda>_. []), w)
       | Some h \<Rightarrow> (case h ctx (\<lambda>_. ret req) None w of
           (Ok rep, w') \<Rightarrow> ((Ok (), rep, \<lambda>_. []), w')
         | (Fail e, w') \<Rightarrow> ((Fail e, reply, \<lambda>_. []), w')
         | (Panic p, w') \<Rightarrow> ((Panic p, reply, \<lambda>_. []), w'))),
     NewStream = (\<lambda>ctx desc method opts. fail unimplemented),
     SendMsg = (\<lambda>x req. fail unimplemented),
     CloseSend = (\<lambda>x. fail unimplemented),
     RecvMsg = (\<lambda>x reply. fail unimplemented),
     CloseConn = ret ()\<rparr>"

lemma full_method_inj [simp]: "full_method a = full_method b \<longleftrightarrow> a = b"
  by (simp add: full_method_def)

lemma in_process_handler:
  assumes "(m, h) \<in> set (LcService_ServiceDesc_MethodHandlers srv)"
  shows "map_of (map (\<lambda>(m, h). (full_method m, h)) (LcService_ServiceDesc_MethodHandlers srv)) (full_method m) = Some h"
proof (rule map_of_is_SomeI)
  have "distinct LcService_ServiceDesc_Methods" by code_simp
  then have "distinct (map full_method LcService_ServiceDesc_Methods)" by (simp add: distinct_map inj_on_def)
  moreover have "map fst (map (\<lambda>(m, h). (full_method m, h)) (LcService_ServiceDesc_MethodHandlers srv)) =
      map full_method LcService_ServiceDesc_Methods"
    by (simp add: tables_names(1) [of srv, symmetric] split_def)
  ultimately show "distinct (map fst (map (\<lambda>(m, h). (full_method m, h)) (LcService_ServiceDesc_MethodHandlers srv)))"
    by simp
qed (use assms in force)

interpretation in_process: transport "in_process srv" srv "\<lambda>e. e" for srv
proof unfold_locales
  fix m h ctx req rep w w' out opts
  assume "(m, h) \<in> set (LcService_ServiceDesc_MethodHandlers srv)" "h ctx (\<lambda>_. ret req) None w = (Ok rep, w')"
  then show "\<exists>md. Invoke (in_process srv) ctx (full_method m) req out opts w = ((Ok (), rep, md), w')"
    by (simp add: in_process_def in_process_handler)
next
  fix m h ctx req e w w' out opts
  assume "(m, h) \<in> set (LcService_ServiceDesc_MethodHandlers srv)" "h ctx (\<lambda>_. ret req) None w = (Fail e, w')"
  then show "\<exists>out' md. Invoke (in_process srv) ctx (full_method m) req out opts w = ((Fail e, out', md), w')"
    by (simp add: in_process_def in_process_handler)
qed

text \<open>A server that only takes artifacts, and counts them.\<close>

definition counting_server :: "(nat, unit) LcServiceServer" where
  "counting_server = UnimplementedLcServiceServer\<lparr>Srv_VCNSetArtifacts := (\<lambda>ctx inp w.
     (Ok zero_VCNArtifactsResponse, w + length (VCNArtifactsRequest_Artifacts inp)))\<rparr>"

theorem stubs_reach_their_methods_witness:
  "lcServiceClient_VCNSetArtifacts (in_process counting_server) ()
     (zero_VCNArtifactsRequest\<lparr>VCNArtifactsRequest_Artifacts := [Some zero_VCNArtifact]\<rparr>) [] 3 = (Ok zero_VCNArtifactsResponse, 4)"
  using stubs_reach_their_methods [OF in_process.transport_axioms [of counting_server], THEN conjunct1, of "()"]
  by (simp add: agrees_def counting_server_def)

text \<open>A server that embeds \<open>UnimplementedLcServiceServer\<close> and overrides nothing answers every unary call of a
  client with \<open>Unimplemented\<close> and the name of the method, and nothing else happens.\<close>

theorem unimplemented_methods_say_so:
  assumes "transport cc UnimplementedLcServiceServer carry"
  shows "lcServiceClient_VCNSetArtifacts cc ctx inp1 opts w = (Fail (carry (not_implemented ''VCNSetArtifacts'')), w) \<and>
   lcServiceClient_VCNSearchArtifacts cc ctx inp2 opts w = (Fail (carry (not_implemented ''VCNSearchArtifacts'')), w) \<and>
   lcServiceClient_VCNGetArtifacts cc ctx inp3 opts w = (Fail (carry (not_implemented ''VCNGetArtifacts'')), w) \<and>
   lcServiceClient_VCNLabelsGet cc ctx inp4 opts w = (Fail (carry (not_implemented ''VCNLabelsGet'')), w) \<and>
   lcServiceClient_VCNLabelsSet cc ctx inp5 opts w = (Fail (carry (not_implemented ''VCNLabelsSet'')), w) \<and>
   lcServiceClient_VCNLabelsUpdate cc ctx inp6 opts w = (Fail (carry (not_implemented ''VCNLabelsUpdate'')), w) \<and>
   lcServiceClient_VCNGetAttachment cc ctx inp7 opts w = (Fail (carry (not_implemented ''VCNGetAttachment'')), w) \<and>
   lcServiceClient_VCNGetClientSignature cc ctx inp8 opts w = (Fail (carry (not_implemented ''VCNGetClientSignature'')), w) \<and>
   lcServiceClient_CurrentState cc ctx inp9 opts w = (Fail (carry (not_implemented ''CurrentState'')), w) \<and>
   lcServiceClient_Health cc ctx inp10 opts w = (Fail (carry (not_implemented ''Health'')), w) \<and>
   lcServiceClient_ReportTamper cc ctx inp11 opts w = (Fail (carry (not_implemented ''ReportTamper'')), w) \<and>
   lcServiceClient_Feats cc ctx inp12 opts w = (Fail (carry (not_implemented ''Feats'')), w) \<and>
   lcServiceClient_Set cc ctx inp13 opts w = (Fail (carry (not_implemented ''Set'')), w) \<and>
   lcServiceClient_SetMulti cc ctx inp14 opts w = (Fail (carry (not_implemented ''SetMulti'')), w) \<and>
   lcServiceClient_Get cc ctx inp15 opts w = (Fail (carry (not_implemented ''Get'')), w) \<and>
   lcServiceClient_VerifiableSet cc ctx inp16 opts w = (Fail (carry (not_implemented ''VerifiableSet'')), w) \<and>
   lcServiceClient_VerifiableGet cc ctx inp17 opts w = (Fail (carry (not_implemented ''VerifiableGet'')), w) \<and>
   lcServiceClient_GetAll cc ctx inp18 opts w = (Fail (carry (not_implemented ''GetAll'')), w) \<and>
   lcServiceClient_ExecAll cc ctx inp19 opts w = (Fail (carry (not_implemented ''ExecAll'')), w) \<and>
   lcServiceClient_Scan cc ctx inp20 opts w = (Fail (carry (not_implemented ''Scan'')), w) \<and>
   lcServiceClient_History cc ctx inp21 opts w = (Fail (carry (not_implemented ''History'')), w) \<and>
   lcServiceClient_ZAdd cc ctx inp22 opts w = (Fail (carry (not_implemented ''ZAdd'')), w) \<and>
   lcServiceClient_VerifiableZAdd cc ctx inp23 opts w = (Fail (carry (not_implemented ''VerifiableZAdd'')), w) \<and>
   lcServiceClient_ZScan cc ctx inp24 opts w = (Fail (carry (not_implemented ''ZScan'')), w) \<and>
   lcServiceClient_VerifiableGetExt cc ctx inp25 opts w = (Fail (carry (not_implemented ''VerifiableGetExt'')), w) \<and>
   lcServiceClient_VerifiableGetExtMulti cc ctx inp26 opts w = (Fail (carry (not_implemented ''VerifiableGetExtMulti'')), w) \<and>
   lcServiceClient_ZScanExt cc ctx inp27 opts w = (Fail (carry (not_implemented ''ZScanExt'')), w) \<and>
   lcServiceClient_HistoryExt cc ctx inp28 opts w = (Fail (carry (not_implemented ''HistoryExt'')), w)"
  by (intro conjI; rule agrees_Fail, rule transport.reaches [OF assms])
    (simp_all add: UnimplementedLcServiceServer_def)

theorem unimplemented_methods_say_so_witness:
  "lcServiceClient_VCNSetArtifacts (in_process UnimplementedLcServiceServer) () zero_VCNArtifactsRequest [] (0 :: nat) =
     (Fail (not_implemented ''VCNSetArtifacts''), 0)"
  by (rule unimplemented_methods_say_so [OF in_process.transport_axioms, THEN conjunct1])

end
