(* ===== verification/Lc_Proto.thy ===== *)
theory Lc_Proto
  imports Lc_Server
begin

text \<open>
  The protocol definition (\<open>schema/lc.proto\<close>) and the tables of types that the generated code keeps of it
  (\<open>file_lc_proto_goTypes\<close> and \<open>file_lc_proto_depIdxs\<close> of \<open>schema/lc.pb.go\<close>), with what ties the rest of the
  generated code to it: the tables decode to the protocol's types, the service descriptor has its calls, and
  stubs and handlers use the messages it declares.
\<close>

section \<open>Messages and calls of the protocol\<close>

text \<open>
  A field with its label, type, name and number; a named type is a message or an enum, by its full name. A message
  has its own enums, nested messages and fields. A call has a request and a response, each of them one message or a stream.
\<close>

datatype proto_type = PBytes | PString | PBool | PUInt64 | PInt64 | PInt32 | PNamed string

datatype proto_field = one proto_type string nat | many proto_type string nat

datatype proto_message =
  Message (pm_name: string) (pm_enums: "(string \<times> (string \<times> nat) list) list") (pm_nested: "proto_message list")
    (pm_fields: "proto_field list")

text \<open>\<open>Rpc name cs req ss resp dep\<close>: \<open>cs\<close> and \<open>ss\<close> say that the client and the server stream.\<close>

datatype rpc =
  Rpc (rpc_name: string) (rpc_client_stream: bool) (rpc_request: string) (rpc_server_stream: bool)
    (rpc_response: string) (rpc_deprecated: bool)

definition lc_proto_messages :: "proto_message list" where
  "lc_proto_messages =
    [Message ''TamperReport'' [] []
       [one PUInt64 ''index'' 1,
        one PBytes ''key'' 2,
        one PBytes ''root'' 3],
     Message ''ReportOptions'' [] []
       [one (PNamed ''lc.schema.TamperReport'') ''payload'' 1,
        one (PNamed ''immudb.schema.Signature'') ''signature'' 2],
     Message ''DataValue'' [] []
       [one PString ''name'' 1,
        one PString ''type'' 2,
        one PBytes ''value'' 3],
     Message ''Data'' [] []
       [one PString ''key'' 1,
        one PInt64 ''msgID'' 2,
        one PString ''dbName'' 3,
        one PString ''tableName'' 4,
        one PString ''operation'' 5,
        one PBytes ''data'' 6],
     Message ''Response'' [] []
       [one PInt32 ''status'' 1,
        one PString ''msg'' 2,
        one PInt64 ''msgID'' 3,
        one (PNamed ''immudb.schema.VerifiableTx'') ''VerifiableTx'' 4,
        one (PNamed ''immudb.schema.ImmutableState'') ''state'' 5],
     Message ''VerifiableItemExt'' [] []
       [one (PNamed ''immudb.schema.VerifiableEntry'') ''item'' 1,
        one (PNamed ''google.protobuf.Timestamp'') ''timestamp'' 2,
        one (PNamed ''google.protobuf.Timestamp'') ''apikeyRevoked'' 3,
        one PString ''ledgerName'' 4,
        one PString ''publicKey'' 5,
        one PString ''UID'' 6],
     Message ''ItemExt'' [] []
       [one (PNamed ''immudb.schema.Entry'') ''item'' 1,
        one (PNamed ''google.protobuf.Timestamp'') ''timestamp'' 2,
        one (PNamed ''google.protobuf.Timestamp'') ''apikeyRevoked'' 3,
        one PString ''ledgerName'' 4,
        one PString ''publicKey'' 5,
        one PString ''UID'' 6],
     Message ''ItemExtList'' [] []
       [many (PNamed ''lc.schema.ItemExt'') ''items'' 1],
     Message ''ZItemExt'' [] []
       [one (PNamed ''immudb.schema.ZEntry'') ''item'' 1,
        one (PNamed ''google.protobuf.Timestamp'') ''timestamp'' 2,
        one (PNamed ''google.protobuf.Timestamp'') ''apikeyRevoked'' 3,
        one PString ''ledgerName'' 4,
        one PString ''publicKey'' 5,
        one PString ''UID'' 6],
     Message ''ZItemExtList'' [] []
       [many (PNamed ''lc.schema.ZItemExt'') ''items'' 1],
     Message ''Features'' [] []
       [many PString ''feat'' 1,
        one PString ''version'' 2,
        one PString ''buildTime'' 3,
        one PString ''component'' 4],
     Message ''VerifiableGetExtMultiRequest'' [] []
       [many (PNamed ''immudb.schema.VerifiableGetRequest'') ''requests'' 1],
     Message ''VerifiableGetExtMultiResponse'' [] []
       [many (PNamed ''lc.schema.VerifiableItemExt'') ''items'' 1,
        many PString ''errors'' 2],
     Message ''SetMultiRequest'' [] []
       [many (PNamed ''immudb.schema.SetRequest'') ''requests'' 1],
     Message ''SetMultiResponse'' [] []
       [many (PNamed ''immudb.schema.TxHeader'') ''transactions'' 1,
        many PString ''errors'' 2],
     Message ''VCNAttachment'' [] []
       [one PBytes ''content'' 1,
        one PBytes ''signature'' 2],
     Message ''VCNDependency'' 
       [(''Type'', [(''Direct'', 0), (''Indirect'', 1), (''Base'', 2)])]
       []
       [one PString ''hash'' 1,
        one (PNamed ''lc.schema.VCNDependency.Type'') ''type'' 2],
     Message ''VCNArtifact'' [] []
       [one PBytes ''artifact'' 1,
        one PBytes ''signature'' 2,
        many (PNamed ''lc.schema.VCNDependency'') ''dependencies'' 3,
        many (PNamed ''lc.schema.VCNAttachment'') ''attachments'' 4],
     Message ''VCNArtifactsRequest'' [] []
       [many (PNamed ''lc.schema.VCNArtifact'') ''artifacts'' 1,
        one (PNamed ''google.protobuf.Timestamp'') ''signedAt'' 2],
     Message ''VCNArtifactsGetRequest'' [] []
       [many PString ''hashes'' 1,
        one PBool ''verify'' 2,
        one PUInt64 ''proveSinceTx'' 3,
        one PString ''UID'' 4,
        one PString ''signerID'' 5],
     Message ''Proof'' [] []
       [one (PNamed ''immudb.schema.VerifiableTx'') ''verifiableTx'' 1,
        one (PNamed ''immudb.schema.InclusionProof'') ''inclusionProof'' 2,
        one (PNamed ''immudb.schema.KVMetadata'') ''metadata'' 3,
        one PBytes ''immudbFullKey'' 4],
     Message ''VCNArtifactsResponse'' [] []
       [one (PNamed ''immudb.schema.TxHeader'') ''transaction'' 1],
     Message ''VCNSearchRequest'' 
       [(''Type'', [(''Artifact'', 0), (''Dependencies'', 1), (''WhatIncludes'', 2),
            (''ArtifactTimed'', 4), (''Attachment'', 5), (''ByApiKey'', 6),
            (''ByName'', 7), (''History'', 8)]),
        (''ArtifactType'', [(''Direct'', 0), (''Indirect'', 1), (''Base'', 2)])]
       []
       [one PString ''hash'' 1,
        one PString ''signerID'' 2,
        one (PNamed ''lc.schema.VCNSearchRequest.ArtifactType'') ''aType'' 3,
        one (PNamed ''lc.schema.VCNSearchRequest.Type'') ''type'' 4,
        one PUInt64 ''Limit'' 5,
        one PBool ''Desc'' 6,
        one PInt64 ''startTS'' 8,
        one PInt64 ''endTS'' 9,
        one PString ''attachName'' 10,
        one PString ''artifactName'' 11,
        one PString ''UID'' 12,
        one PBytes ''continuationToken'' 13],
     Message ''Entry'' [] []
       [one PBytes ''key'' 1,
        one PBytes ''value'' 2,
        one PUInt64 ''tx'' 3,
        one (PNamed ''google.protobuf.Timestamp'') ''timestamp'' 4,
        one (PNamed ''google.protobuf.Timestamp'') ''apikeyRevoked'' 5,
        one PString ''ledgerName'' 6,
        one (PNamed ''lc.schema.Proof'') ''proof'' 7,
        one PString ''publicKey'' 8,
        one PString ''UID'' 9],
     Message ''EntryList'' [] []
       [many (PNamed ''lc.schema.Entry'') ''entries'' 1,
        one PBytes ''continuationToken'' 2],
     Message ''VCNLabelsUpdateRequest'' 
       [(''VCNLabelsOpType'', [(''ADD'', 0), (''DELETE'', 1)])]
       [Message ''VCNLabelsOp'' [] []
           [one (PNamed ''lc.schema.VCNLabelsUpdateRequest.VCNLabelsOpType'') ''opType'' 1,
            many PString ''labels'' 2]]
       [one PString ''hash'' 1,
        many (PNamed ''lc.schema.VCNLabelsUpdateRequest.VCNLabelsOp'') ''ops'' 2],
     Message ''VCNLabelsUpdateResponse'' [] []
       [one (PNamed ''immudb.schema.TxHeader'') ''transaction'' 1],
     Message ''LabelsSetRequest'' [] []
       [one PString ''hash'' 1,
        many PString ''labels'' 2],
     Message ''VCNLabelsSetRequest'' [] []
       [many (PNamed ''lc.schema.LabelsSetRequest'') ''request'' 1],
     Message ''VCNLabelsSetResponse'' [] []
       [one (PNamed ''immudb.schema.TxHeader'') ''transaction'' 1],
     Message ''LabelsGetRequest'' [] []
       [one PString ''hash'' 1,
        one PString ''signerID'' 2],
     Message ''VCNLabelsGetRequest'' [] []
       [many (PNamed ''lc.schema.LabelsGetRequest'') ''request'' 1],
     Message ''LabelsGetResponse'' [] []
       [one PString ''hash'' 1,
        many PString ''labels'' 2],
     Message ''VCNLabelsGetResponse'' [] []
       [many (PNamed ''lc.schema.LabelsGetResponse'') ''response'' 1],
     Message ''VCNGetAttachmentRequest'' [] []
       [one PString ''signerID'' 1,
        one PString ''artifactHash'' 2,
        one PString ''attachmentHash'' 3],
     Message ''VCNGetAttachmentResponse'' [] []
       [one PBytes ''attachment'' 1],
     Message ''VCNGetClientSignatureRequest'' [] []
       [one PString ''artifactHash'' 1,
        one PString ''signerID'' 2,
        one PUInt64 ''atTx'' 3],
     Message ''VCNGetClientSignatureResponse'' [] []
       [one PBytes ''signatureJSON'' 1]]"

definition lc_proto_rpcs :: "rpc list" where
  "lc_proto_rpcs =
    [Rpc ''VCNSetArtifacts'' False ''lc.schema.VCNArtifactsRequest'' False ''lc.schema.VCNArtifactsResponse'' False,
     Rpc ''VCNSearchArtifacts'' False ''lc.schema.VCNSearchRequest'' False ''lc.schema.EntryList'' False,
     Rpc ''VCNGetArtifacts'' False ''lc.schema.VCNArtifactsGetRequest'' False ''lc.schema.EntryList'' False,
     Rpc ''VCNLabelsGet'' False ''lc.schema.VCNLabelsGetRequest'' False ''lc.schema.VCNLabelsGetResponse'' False,
     Rpc ''VCNLabelsSet'' False ''lc.schema.VCNLabelsSetRequest'' False ''lc.schema.VCNLabelsSetResponse'' False,
     Rpc ''VCNLabelsUpdate'' False ''lc.schema.VCNLabelsUpdateRequest'' False ''lc.schema.VCNLabelsUpdateResponse'' False,
     Rpc ''VCNGetAttachment'' False ''lc.schema.VCNGetAttachmentRequest'' False ''lc.schema.VCNGetAttachmentResponse'' False,
     Rpc ''VCNGetClientSignature'' False ''lc.schema.VCNGetClientSignatureRequest'' False ''lc.schema.VCNGetClientSignatureResponse'' False,
     Rpc ''CurrentState'' False ''google.protobuf.Empty'' False ''immudb.schema.ImmutableState'' False,
     Rpc ''Health'' False ''google.protobuf.Empty'' False ''immudb.schema.HealthResponse'' False,
     Rpc ''ReportTamper'' False ''lc.schema.ReportOptions'' False ''google.protobuf.Empty'' False,
     Rpc ''Feats'' False ''google.protobuf.Empty'' False ''lc.schema.Features'' False,
     Rpc ''Set'' False ''immudb.schema.SetRequest'' False ''immudb.schema.TxHeader'' True,
     Rpc ''SetMulti'' False ''lc.schema.SetMultiRequest'' False ''lc.schema.SetMultiResponse'' True,
     Rpc ''Get'' False ''immudb.schema.KeyRequest'' False ''immudb.schema.Entry'' True,
     Rpc ''VerifiableSet'' False ''immudb.schema.VerifiableSetRequest'' False ''immudb.schema.VerifiableTx'' True,
     Rpc ''VerifiableGet'' False ''immudb.schema.VerifiableGetRequest'' False ''immudb.schema.VerifiableEntry'' True,
     Rpc ''GetAll'' False ''immudb.schema.KeyListRequest'' False ''immudb.schema.Entries'' True,
     Rpc ''ExecAll'' False ''immudb.schema.ExecAllRequest'' False ''immudb.schema.TxHeader'' True,
     Rpc ''Scan'' False ''immudb.schema.ScanRequest'' False ''immudb.schema.Entries'' True,
     Rpc ''History'' False ''immudb.schema.HistoryRequest'' False ''immudb.schema.Entries'' True,
     Rpc ''ZAdd'' False ''immudb.schema.ZAddRequest'' False ''immudb.schema.TxHeader'' True,
     Rpc ''VerifiableZAdd'' False ''immudb.schema.VerifiableZAddRequest'' False ''immudb.schema.VerifiableTx'' True,
     Rpc ''ZScan'' False ''immudb.schema.ZScanRequest'' False ''immudb.schema.ZEntries'' True,
     Rpc ''SendData'' True ''lc.schema.Data'' True ''lc.schema.Response'' True,
     Rpc ''VerifiableGetExt'' False ''immudb.schema.VerifiableGetRequest'' False ''lc.schema.VerifiableItemExt'' True,
     Rpc ''VerifiableGetExtMulti'' False ''lc.schema.VerifiableGetExtMultiRequest'' False ''lc.schema.VerifiableGetExtMultiResponse'' True,
     Rpc ''ZScanExt'' False ''immudb.schema.ZScanRequest'' False ''lc.schema.ZItemExtList'' True,
     Rpc ''HistoryExt'' False ''immudb.schema.HistoryRequest'' False ''lc.schema.ItemExtList'' True,
     Rpc ''streamGet'' False ''immudb.schema.KeyRequest'' True ''immudb.schema.Chunk'' True,
     Rpc ''streamSet'' True ''immudb.schema.Chunk'' False ''immudb.schema.TxHeader'' True,
     Rpc ''streamVerifiableGet'' False ''immudb.schema.VerifiableGetRequest'' True ''immudb.schema.Chunk'' True,
     Rpc ''streamVerifiableSet'' True ''immudb.schema.Chunk'' False ''immudb.schema.VerifiableTx'' True,
     Rpc ''streamScan'' False ''immudb.schema.ScanRequest'' True ''immudb.schema.Chunk'' True,
     Rpc ''streamZScan'' False ''immudb.schema.ZScanRequest'' True ''immudb.schema.Chunk'' True,
     Rpc ''streamHistory'' False ''immudb.schema.HistoryRequest'' True ''immudb.schema.Chunk'' True,
     Rpc ''streamExecAll'' True ''immudb.schema.Chunk'' False ''immudb.schema.TxHeader'' True]"

section \<open>The tables of the generated code\<close>

text \<open>
  The Go type of every enum and message, and of the messages of other packages that are mentioned; then, as indices
  into it, the types of the fields that have a named one, the request and response types of the calls, and the
  offsets of these parts.
\<close>

definition file_lc_proto_goTypes :: "string list" where
  "file_lc_proto_goTypes =
    [''VCNDependency_Type'', ''VCNSearchRequest_Type'', ''VCNSearchRequest_ArtifactType'',
     ''VCNLabelsUpdateRequest_VCNLabelsOpType'', ''TamperReport'', ''ReportOptions'', ''DataValue'',
     ''Data'', ''Response'', ''VerifiableItemExt'', ''ItemExt'', ''ItemExtList'', ''ZItemExt'',
     ''ZItemExtList'', ''Features'', ''VerifiableGetExtMultiRequest'',
     ''VerifiableGetExtMultiResponse'', ''SetMultiRequest'', ''SetMultiResponse'', ''VCNAttachment'',
     ''VCNDependency'', ''VCNArtifact'', ''VCNArtifactsRequest'', ''VCNArtifactsGetRequest'', ''Proof'',
     ''VCNArtifactsResponse'', ''VCNSearchRequest'', ''Entry'', ''EntryList'',
     ''VCNLabelsUpdateRequest'', ''VCNLabelsUpdateResponse'', ''LabelsSetRequest'',
     ''VCNLabelsSetRequest'', ''VCNLabelsSetResponse'', ''LabelsGetRequest'', ''VCNLabelsGetRequest'',
     ''LabelsGetResponse'', ''VCNLabelsGetResponse'', ''VCNGetAttachmentRequest'',
     ''VCNGetAttachmentResponse'', ''VCNGetClientSignatureRequest'', ''VCNGetClientSignatureResponse'',
     ''VCNLabelsUpdateRequest_VCNLabelsOp'', ''schema.Signature'', ''schema.VerifiableTx'',
     ''schema.ImmutableState'', ''schema.VerifiableEntry'', ''timestamppb.Timestamp'', ''schema.Entry'',
     ''schema.ZEntry'', ''schema.VerifiableGetRequest'', ''schema.SetRequest'', ''schema.TxHeader'',
     ''schema.InclusionProof'', ''schema.KVMetadata'', ''emptypb.Empty'', ''schema.KeyRequest'',
     ''schema.VerifiableSetRequest'', ''schema.KeyListRequest'', ''schema.ExecAllRequest'',
     ''schema.ScanRequest'', ''schema.HistoryRequest'', ''schema.ZAddRequest'',
     ''schema.VerifiableZAddRequest'', ''schema.ZScanRequest'', ''schema.Chunk'',
     ''schema.HealthResponse'', ''schema.Entries'', ''schema.ZEntries'']"

definition file_lc_proto_depIdxs :: "nat list" where
  "file_lc_proto_depIdxs =
    [4, 43, 44, 45, 46, 47, 47, 48, 47, 47, 10, 49, 47, 47, 12, 50, 9, 51, 52, 0, 20, 19, 21, 47, 44,
     53, 54, 52, 2, 1, 47, 47, 24, 27, 42, 52, 31, 52, 34, 36, 3, 22, 26, 23, 35, 32, 29, 38, 40, 55,
     55, 5, 55, 51, 17, 56, 57, 50, 58, 59, 60, 61, 62, 63, 64, 7, 50, 15, 64, 61, 56, 65, 50, 65, 60,
     64, 61, 65, 25, 28, 28, 37, 33, 30, 39, 41, 45, 66, 55, 14, 52, 18, 48, 44, 46, 67, 52, 67, 67, 52,
     44, 68, 8, 9, 16, 13, 11, 65, 52, 65, 44, 65, 65, 65, 52, 78, 41, 41, 41, 0]"

section \<open>From the protocol to the tables\<close>

fun field_type :: "proto_field \<Rightarrow> proto_type" where
  "field_type (one t n i) = t"
| "field_type (many t n i) = t"

fun field_number :: "proto_field \<Rightarrow> nat" where
  "field_number (one t n i) = i"
| "field_number (many t n i) = i"

fun named :: "proto_type \<Rightarrow> string list" where
  "named (PNamed n) = [n]"
| "named t = []"

definition proto_package :: string where
  "proto_package = ''lc.schema.''"

text \<open>Go's name of a message: nested names with underscores, other packages by the name of their import.\<close>

definition go_type :: "string \<Rightarrow> string" where
  "go_type n =
     (if take 10 n = proto_package then map (\<lambda>ch. if ch = CHR ''.'' then CHR ''_'' else ch) (drop 10 n)
      else if take 14 n = ''immudb.schema.'' then ''schema.'' @ drop 14 n
      else if n = ''google.protobuf.Timestamp'' then ''timestamppb.Timestamp''
      else if n = ''google.protobuf.Empty'' then ''emptypb.Empty''
      else n)"

text \<open>Nested messages come after those of the top level.\<close>

definition all_messages :: "proto_message list \<Rightarrow> (string \<times> proto_message) list" where
  "all_messages ms = map (\<lambda>m. (proto_package @ pm_name m, m)) ms @
     concat (map (\<lambda>m. map (\<lambda>n. (proto_package @ pm_name m @ ''.'' @ pm_name n, n)) (pm_nested m)) ms)"

definition all_enums :: "proto_message list \<Rightarrow> (string \<times> (string \<times> nat) list) list" where
  "all_enums ms = concat (map (\<lambda>m. map (\<lambda>(e, vs). (proto_package @ pm_name m @ ''.'' @ e, vs)) (pm_enums m)) ms)"

definition field_references :: "proto_message list \<Rightarrow> string list" where
  "field_references ms = concat (map (\<lambda>(n, m). concat (map (\<lambda>f. named (field_type f)) (pm_fields m))) (all_messages ms))"

text \<open>The parts of the table of indices, and what they refer to.\<close>

definition dep_types :: "nat \<Rightarrow> nat \<Rightarrow> string list" where
  "dep_types a b = map (\<lambda>i. file_lc_proto_goTypes ! i) (take (b - a) (drop a file_lc_proto_depIdxs))"

definition sub_list_offsets :: "nat list" where
  "sub_list_offsets = rev (drop (length file_lc_proto_depIdxs - 5) file_lc_proto_depIdxs)"

lemma lc_offsets: "sub_list_offsets = [0, 41, 41, 41, 78]"
  by code_simp

text \<open>The first entries are the protocol's own enums and messages, in its order.\<close>

lemma go_types_in_order:
  "take 43 file_lc_proto_goTypes =
     map go_type (map fst (all_enums lc_proto_messages) @ map fst (all_messages lc_proto_messages))"
  by code_simp

lemma field_types_decode: "dep_types 0 41 = map go_type (field_references lc_proto_messages)"
  by code_simp

lemma request_types_decode: "dep_types 41 78 = map (\<lambda>r. go_type (rpc_request r)) lc_proto_rpcs"
  by code_simp

lemma response_types_decode: "dep_types 78 115 = map (\<lambda>r. go_type (rpc_response r)) lc_proto_rpcs"
  by code_simp

text \<open>Every named type of the package that a field or a call mentions is defined in it, and the numbers of the fields
  of a message are positive and distinct.\<close>

lemma references_defined:
  "\<forall>t \<in> set (field_references lc_proto_messages @ map rpc_request lc_proto_rpcs @ map rpc_response lc_proto_rpcs).
     take 10 t = proto_package \<longrightarrow> t \<in> set (map fst (all_enums lc_proto_messages) @ map fst (all_messages lc_proto_messages))"
  by code_simp

lemma field_numbers_distinct:
  "\<forall>(n, m) \<in> set (all_messages lc_proto_messages).
     distinct (map field_number (pm_fields m)) \<and> 0 \<notin> set (map field_number (pm_fields m))"
  by code_simp

text \<open>The enums of the messages are those of \<open>Lc_Messages\<close>, both ways.\<close>

lemma enum_names:
  "map (\<lambda>(e, vs). map (\<lambda>(s, n). (of_nat n, s)) vs) (all_enums lc_proto_messages) =
     [VCNDependency_Type_name, VCNSearchRequest_Type_name, VCNSearchRequest_ArtifactType_name,
      VCNLabelsUpdateRequest_VCNLabelsOpType_name]"
  by (simp add: all_enums_def lc_proto_messages_def VCNDependency_Type_name_def VCNSearchRequest_Type_name_def
      VCNSearchRequest_ArtifactType_name_def VCNLabelsUpdateRequest_VCNLabelsOpType_name_def)

lemma enum_values:
  "map (\<lambda>(e, vs). map (\<lambda>(s, n). (s, of_nat n)) vs) (all_enums lc_proto_messages) =
     [VCNDependency_Type_value, VCNSearchRequest_Type_value, VCNSearchRequest_ArtifactType_value,
      VCNLabelsUpdateRequest_VCNLabelsOpType_value]"
  by (simp add: all_enums_def lc_proto_messages_def VCNDependency_Type_value_def VCNSearchRequest_Type_value_def
      VCNSearchRequest_ArtifactType_value_def VCNLabelsUpdateRequest_VCNLabelsOpType_value_def)

section \<open>The messages that travel\<close>

text \<open>The name of the message a request or a reply is, in the protocol.\<close>

fun immudb_name :: "immudb_message \<Rightarrow> string" where
  "immudb_name KeyListRequest = ''immudb.schema.KeyListRequest''"
| "immudb_name ExecAllRequest = ''immudb.schema.ExecAllRequest''"
| "immudb_name ScanRequest = ''immudb.schema.ScanRequest''"
| "immudb_name HistoryRequest = ''immudb.schema.HistoryRequest''"
| "immudb_name ZAddRequest = ''immudb.schema.ZAddRequest''"
| "immudb_name VerifiableZAddRequest = ''immudb.schema.VerifiableZAddRequest''"
| "immudb_name ZScanRequest = ''immudb.schema.ZScanRequest''"
| "immudb_name HealthResponse = ''immudb.schema.HealthResponse''"
| "immudb_name Chunk = ''immudb.schema.Chunk''"

fun request_message :: "request \<Rightarrow> string" where
  "request_message (ReqArtifacts m) = ''lc.schema.VCNArtifactsRequest''"
| "request_message (ReqSearch m) = ''lc.schema.VCNSearchRequest''"
| "request_message (ReqArtifactsGet m) = ''lc.schema.VCNArtifactsGetRequest''"
| "request_message (ReqLabelsGet m) = ''lc.schema.VCNLabelsGetRequest''"
| "request_message (ReqLabelsSet m) = ''lc.schema.VCNLabelsSetRequest''"
| "request_message (ReqLabelsUpdate m) = ''lc.schema.VCNLabelsUpdateRequest''"
| "request_message (ReqAttachment m) = ''lc.schema.VCNGetAttachmentRequest''"
| "request_message (ReqClientSignature m) = ''lc.schema.VCNGetClientSignatureRequest''"
| "request_message ReqEmpty = ''google.protobuf.Empty''"
| "request_message (ReqReport m) = ''lc.schema.ReportOptions''"
| "request_message (ReqSet m) = ''immudb.schema.SetRequest''"
| "request_message (ReqSetMulti m) = ''lc.schema.SetMultiRequest''"
| "request_message (ReqKey m) = ''immudb.schema.KeyRequest''"
| "request_message (ReqVerifiableSet m) = ''immudb.schema.VerifiableSetRequest''"
| "request_message (ReqVerifiableGet m) = ''immudb.schema.VerifiableGetRequest''"
| "request_message (ReqGetExtMulti m) = ''lc.schema.VerifiableGetExtMultiRequest''"
| "request_message (ReqData m) = ''lc.schema.Data''"
| "request_message (ReqImmudb k m) = immudb_name k"

fun reply_message :: "reply \<Rightarrow> string" where
  "reply_message (RepArtifacts m) = ''lc.schema.VCNArtifactsResponse''"
| "reply_message (RepEntryList m) = ''lc.schema.EntryList''"
| "reply_message (RepLabelsGet m) = ''lc.schema.VCNLabelsGetResponse''"
| "reply_message (RepLabelsSet m) = ''lc.schema.VCNLabelsSetResponse''"
| "reply_message (RepLabelsUpdate m) = ''lc.schema.VCNLabelsUpdateResponse''"
| "reply_message (RepAttachment m) = ''lc.schema.VCNGetAttachmentResponse''"
| "reply_message (RepClientSignature m) = ''lc.schema.VCNGetClientSignatureResponse''"
| "reply_message (RepState m) = ''immudb.schema.ImmutableState''"
| "reply_message (RepImmudb k m) = immudb_name k"
| "reply_message RepEmpty = ''google.protobuf.Empty''"
| "reply_message (RepFeatures m) = ''lc.schema.Features''"
| "reply_message (RepTxHeader m) = ''immudb.schema.TxHeader''"
| "reply_message (RepSetMulti m) = ''lc.schema.SetMultiResponse''"
| "reply_message (RepEntry m) = ''immudb.schema.Entry''"
| "reply_message (RepVerifiableTx m) = ''immudb.schema.VerifiableTx''"
| "reply_message (RepVerifiableEntry m) = ''immudb.schema.VerifiableEntry''"
| "reply_message (RepEntries m) = ''immudb.schema.Entries''"
| "reply_message (RepZEntries m) = ''immudb.schema.ZEntries''"
| "reply_message (RepItemExt m) = ''lc.schema.VerifiableItemExt''"
| "reply_message (RepGetExtMulti m) = ''lc.schema.VerifiableGetExtMultiResponse''"
| "reply_message (RepZItemExtList m) = ''lc.schema.ZItemExtList''"
| "reply_message (RepItemExtList m) = ''lc.schema.ItemExtList''"
| "reply_message (RepResponse m) = ''lc.schema.Response''"

end
