(* ===== verification/Example_Programs.thy ===== *)
theory Example_Programs
  imports Client_Runs Go_Io
begin

text \<open>
  The example programs (\<open>examples/\<close>) that use the package as it is: \<open>helloworld.go\<close>, \<open>batch.go\<close>,
  \<open>sorted_set.go\<close>, \<open>set_and_get_file/main.go\<close> and \<open>streams/main.go\<close>.
  They are the repository's own clients of the client.

  The world of a program is that of the client next to what was printed, format strings with their
  arguments. \<^verbatim>\<open>if err != nil { log.Fatal(err) }\<close> ends the program with the error, which is what \<open>tryE\<close>
  does with a \<open>Fail\<close>: a run that ends in \<open>Ok\<close> is one that reached the end of \<open>main\<close>. Requests that the
  client only passes on are encoded by a parameter \<open>marshal\<close>.

  The other four examples are excluded from the build; they are in \<open>Legacy_Examples\<close>.
\<close>

section \<open>Programs that print\<close>

datatype fmt_arg =
    ArgU64 u64
  | ArgInt int
  | ArgBool bool
  | ArgBytes bytes
  | ArgString string
  | ArgFloat u64
  | ArgEntries Entries
  | ArgZEntries ZEntries
  | ArgNil

datatype printed = Printf string "fmt_arg list" | LogPrintf string "fmt_arg list"

type_synonym ('w, 'a) program = "('w \<times> printed list, 'a) io"

definition on_client :: "('w, 'a) io \<Rightarrow> ('w, 'a) program" where
  "on_client m = (\<lambda>(w, out). case m w of (r, w') \<Rightarrow> (r, (w', out)))"

definition print :: "printed \<Rightarrow> ('w, unit) program" where
  "print p = (\<lambda>(w, out). (Ok (), (w, out @ [p])))"

abbreviation printf :: "string \<Rightarrow> fmt_arg list \<Rightarrow> ('w, unit) program" where
  "printf fmt args \<equiv> print (Printf fmt args)"

definition tab :: char where
  "tab = CHR 0x09"

definition quoted :: string where
  "quoted = [CHR 0x22] @ ''%s'' @ [CHR 0x22]"

text \<open>\<open>client.Connect()\<close>, the client going on as it is left.\<close>

definition connected ::
    "('w, 'ctx) Platform \<Rightarrow> ('w, 'ctx, 'k, 'sf) LcClient \<Rightarrow> ('w, ('w, 'ctx, 'k, 'sf) LcClient) io" where
  "connected P c w = (case Connect P c w of ((r, c'), w') \<Rightarrow> (tryG r (\<lambda>_. Ok c'), w'))"

text \<open>What \<open>NewLcClient\<close> and the requests take from outside the repository.\<close>

datatype forwarded =
    FwdKeyList "bytes list"
  | FwdZAdd bytes u64 bytes
  | FwdZScan bytes
  | FwdScan bytes
  | FwdHistory bytes
  | FwdExecAll "(bytes \<times> bytes) list" "(bytes \<times> u64 \<times> bytes) list"

record ('w, 'ctx, 'sf) Environment =
  env_platform :: "('w, 'ctx) Platform"
  env_timestamp :: wire
  env_chunk :: int
  env_factory :: "int \<Rightarrow> 'sf"
  env_ctx :: 'ctx
  env_marshal :: "forwarded \<Rightarrow> wire"
  env_rand :: "nat \<Rightarrow> ('w, bytes) io"

definition connect_as ::
    "('w, 'ctx, 'sf) Environment \<Rightarrow> string \<Rightarrow> ('w, ('w, 'ctx, 'k, 'sf) LcClient) io" where
  "connect_as E apiKey = connected (env_platform E)
     (NewLcClient (env_timestamp E) (env_chunk E) (env_factory E)
        [Option_ApiKey apiKey, Option_Host ''localhost'', Option_Port 3324])"

section \<open>helloworld.go\<close>

definition index_line :: "TxHeader \<Rightarrow> printed" where
  "index_line h = Printf (''index:'' @ [tab, tab] @ ''%v'' @ [newline, newline]) [ArgU64 (TxHeader_Id h)]"

definition item_line :: "Entry \<Rightarrow> printed" where
  "item_line item = Printf (''My item:'' @ [newline] @ ''key:'' @ [tab, tab] @ ''%s'' @ [newline] @
     ''val:'' @ [tab, tab] @ ''%s'' @ [newline] @ ''index:'' @ [tab, tab] @ ''%d'' @ [newline])
     [ArgBytes (Entry_Key item), ArgBytes (Entry_Value item), ArgU64 (Entry_Tx item)]"

definition helloworld_main ::
    "('ip, 'dp, 'tx, 'md, 'es, 'k) immudb \<Rightarrow> ('w, 'ctx, 'sf) Environment \<Rightarrow> ('w, unit) program" where
  "helloworld_main F E =
     tryE (on_client (connect_as E ''jxnqdxcicasvajpfxldqdanquhabiqcjrwdb'')) (\<lambda>client.
     tryE (on_client (VerifiedSet F client (env_ctx E) (string_bytes ''key'') (string_bytes ''val''))) (\<lambda>index.
     tryE (derefE index (\<lambda>h. print (index_line h))) (\<lambda>_.
     tryE (on_client (VerifiedGet F client (env_ctx E) (string_bytes ''key''))) (\<lambda>item.
     derefE item (\<lambda>i. print (item_line i))))))"

section \<open>batch.go\<close>

definition batch_skv :: SetRequest where
  "batch_skv = \<lparr>SetRequest_KVs =
     [\<lparr>KeyValue_Key = string_bytes ''key1'', KeyValue_Value = string_bytes ''val1''\<rparr>,
      \<lparr>KeyValue_Key = string_bytes ''key2'', KeyValue_Value = string_bytes ''val3''\<rparr>,
      \<lparr>KeyValue_Key = string_bytes ''key3'', KeyValue_Value = string_bytes ''val3''\<rparr>]\<rparr>"

definition batch_keys :: forwarded where
  "batch_keys = FwdKeyList [string_bytes ''key1'', string_bytes ''key2'', string_bytes ''key3'']"

definition batch_main ::
    "('w, 'ctx, 'sf) Environment \<Rightarrow> ('w, unit) program" where
  "batch_main E =
     tryE (on_client (connect_as E ''cxdriebgcjebzeitwmflozxtaqtupmmewimc''))
       (\<lambda>client :: ('w, 'ctx, unit, 'sf) LcClient.
     tryE (on_client (SetAll client (env_ctx E) batch_skv)) (\<lambda>_.
     tryE (on_client (GetAll client (env_ctx E) (env_marshal E batch_keys))) (\<lambda>list.
     printf (''%v'' @ [newline]) [ArgEntries list])))"

section \<open>sorted_set.go\<close>

text \<open>The error of the last call is not looked at: a failed scan prints a nil list.\<close>

definition sorted_set_main ::
    "('ip, 'dp, 'tx, 'md, 'es, 'k) immudb \<Rightarrow> ('w, 'ctx, 'sf) Environment \<Rightarrow> ('w, unit) program" where
  "sorted_set_main F E =
     (let ctx = env_ctx E; mySortedSet = string_bytes ''mySortedSet''; key = string_bytes; val = string_bytes in
     tryE (on_client (connect_as E ''msvvnhdhfseqbveblqxruhasfrvkqlutctcj'')) (\<lambda>client.
     tryE (on_client (VerifiedSet F client ctx (key ''key1'') (val ''val1''))) (\<lambda>_.
     tryE (on_client (VerifiedSet F client ctx (key ''key2'') (val ''val2''))) (\<lambda>_.
     tryE (on_client (VerifiedSet F client ctx (key ''key3'') (val ''val3''))) (\<lambda>_.
     tryE (on_client (ZAddAt client ctx (env_marshal E (FwdZAdd mySortedSet 0x4014000000000000 (key ''key1''))))) (\<lambda>_.
     tryE (on_client (ZAddAt client ctx (env_marshal E (FwdZAdd mySortedSet 0x4058C00000000000 (key ''key3''))))) (\<lambda>_.
     tryE (on_client (ZAddAt client ctx (env_marshal E (FwdZAdd mySortedSet 0x3FF0000000000000 (key ''key2''))))) (\<lambda>_.
     (\<lambda>(w, out). case ZScan client ctx (env_marshal E (FwdZScan mySortedSet)) w of
        (Ok list, w') \<Rightarrow> printf (''%v'' @ [newline]) [ArgZEntries list] (w', out)
      | (Fail _, w') \<Rightarrow> printf (''%v'' @ [newline]) [ArgNil] (w', out)
      | (Panic p, w') \<Rightarrow> (Panic p, (w', out)))))))))))"

section \<open>set\_and\_get\_file/main.go\<close>

definition set_and_get_file_main ::
    "'w FileSystem \<Rightarrow> ('w, 'ctx, 'sf) Environment \<Rightarrow> ('w, unit) program" where
  "set_and_get_file_main fs E =
     tryE (on_client (connect_as E ''rfqjwunwrceixjvxcpdcxhyztdughmtibepw''))
       (\<lambda>client :: ('w, 'ctx, unit, 'sf) LcClient.
     (let fileKey = string_bytes ''fileKey'';
          inputFilePath = ''./some-input-file.txt'';
          outputFilePath = ''./some-output-file.txt''
      in tryE (on_client (SetFile fs client (env_ctx E) fileKey inputFilePath)) (\<lambda>_.
         tryE (print (LogPrintf (''SetFile SUCCESSful:'' @ [newline] @
           ''   content from local file '' @ quoted @ '' has been written to LC with key '' @ quoted)
           [ArgString inputFilePath, ArgBytes fileKey])) (\<lambda>_.
         tryE (on_client (GetFile fs client (env_ctx E) fileKey outputFilePath)) (\<lambda>_.
         print (LogPrintf (''GetFile SUCCESSful:'' @ [newline] @
           ''   file content from LC key '' @ quoted @ '' written to local file '' @ quoted)
           [ArgBytes fileKey, ArgString outputFilePath]))))))"

section \<open>streams/main.go\<close>

text \<open>The generated getter of immudb's \<open>TxHeader\<close>: zero on a nil header.\<close>

definition GetId :: "TxHeader option \<Rightarrow> u64" where
  "GetId h = (case h of None \<Rightarrow> 0 | Some h' \<Rightarrow> TxHeader_Id h')"

definition randomValue :: "('w, 'ctx, 'sf) Environment \<Rightarrow> int \<Rightarrow> ('w, bytes) io" where
  "randomValue E MB = (if MB < 0 then panic NegativeMake else env_rand E (nat MB))"

definition streamSetAndGet ::
    "('w, 'rd) StreamLib \<Rightarrow> 'ctx \<Rightarrow> ('w, 'ctx, 'k, 'rd) StreamClient \<Rightarrow> bytes \<Rightarrow> bytes \<Rightarrow> ('w, unit) program" where
  "streamSetAndGet S ctx client k v =
     tryE (on_client (tryE (new_kvs S [(k, v)]) (StreamSet client ctx))) (\<lambda>txMeta.
     tryE (printf (''StreamSet OK - TxID: %d'' @ [newline]) [ArgU64 (GetId (Some txMeta))]) (\<lambda>_.
     tryE (on_client (StreamGet S client ctx
       \<lparr>KeyRequest_Key = k, KeyRequest_AtTx = 0, KeyRequest_SinceTx = 0\<rparr>)) (\<lambda>entry.
     printf (''StreamGet OK - Entry key: %s, entry value length: %d (same as the set value: %t)'' @ [newline])
       [ArgBytes (Entry_Key entry), ArgInt (int (length (Entry_Value entry))),
        ArgBool (length (Entry_Value entry) = length v)])))"

text \<open>The second loop of \<open>streamVerifiedSetAndGet\<close>; \<open>i\<close> is the loop's index into \<open>vs\<close>.\<close>

fun verified_gets ::
    "('ip, 'dp, 'tx, 'md, 'es, 'k) immudb \<Rightarrow> ('w, 'rd) StreamLib \<Rightarrow> 'ctx \<Rightarrow> ('w, 'ctx, 'k, 'rd) StreamClient \<Rightarrow>
     bytes list \<Rightarrow> nat \<Rightarrow> bytes list \<Rightarrow> ('w, unit) program" where
  "verified_gets F S ctx client vs i [] = ret ()"
| "verified_gets F S ctx client vs i (k # ks) =
     tryE (on_client (StreamVerifiedGet F S client ctx
       \<lparr>VerifiableGetRequest_KeyRequest =
          Some \<lparr>KeyRequest_Key = k, KeyRequest_AtTx = 0, KeyRequest_SinceTx = 0\<rparr>,
        VerifiableGetRequest_ProveSinceTx = 0\<rparr>)) (\<lambda>entry.
     tryE (derefE entry (\<lambda>e.
       tryE (lift (index vs i)) (\<lambda>v.
       printf (''StreamVerifiedGet OK - Entry key: %s, entry value length: %d (same as the set value: %t)'' @
           [newline])
         [ArgBytes (Entry_Key e), ArgInt (int (length (Entry_Value e))),
          ArgBool (length (Entry_Value e) = length v)]))) (\<lambda>_.
     verified_gets F S ctx client vs (Suc i) ks))"

text \<open>The first loop: \<open>vs[i]\<close> panics when there are fewer values than keys.\<close>

fun key_values :: "('w, 'rd) StreamLib \<Rightarrow> bytes list \<Rightarrow> nat \<Rightarrow> bytes list \<Rightarrow> ('w, 'rd StreamKeyValue list) io" where
  "key_values S vs i [] = ret []"
| "key_values S vs i (k # ks) =
     tryE (new_value S k) (\<lambda>key.
     tryE (lift (index vs i)) (\<lambda>v.
     tryE (new_value S v) (\<lambda>val.
     tryE (key_values S vs (Suc i) ks) (\<lambda>sKVs.
     ret (\<lparr>Key = Some key, Value = Some val\<rparr> # sKVs)))))"

definition streamVerifiedSetAndGet ::
    "('ip, 'dp, 'tx, 'md, 'es, 'k) immudb \<Rightarrow> ('w, 'rd) StreamLib \<Rightarrow> 'ctx \<Rightarrow> ('w, 'ctx, 'k, 'rd) StreamClient \<Rightarrow>
     bytes list \<Rightarrow> bytes list \<Rightarrow> ('w, unit) program" where
  "streamVerifiedSetAndGet F S ctx client ks vs =
     tryE (on_client (key_values S vs 0 ks)) (\<lambda>sKVs.
     tryE (on_client (StreamVerifiedSet F S client ctx sKVs)) (\<lambda>txHeader.
     tryE (printf (''StreamVerifiedSet OK - TxID: %d'' @ [newline]) [ArgU64 (GetId txHeader)]) (\<lambda>_.
     verified_gets F S ctx client vs 0 ks)))"

text \<open>The part of \<open>main\<close> up to the scans.\<close>

definition streams_upload ::
    "('ip, 'dp, 'tx, 'md, 'es, 'k) immudb \<Rightarrow> ('w, 'rd) StreamLib \<Rightarrow>
     ('w, 'ctx, ('w, 'ctx, 'rd) StreamFactory) Environment \<Rightarrow> ('w, ('w, 'ctx, 'k, 'rd) StreamClient) program" where
  "streams_upload F S E =
     (let ctx = env_ctx E; k1 = string_bytes ''key1''; k2 = string_bytes ''key2''; k3 = string_bytes ''key3'';
          set' = string_bytes ''set1''; score1 = 0x4026000000000000; score4 = 0x4040800000000000; k4 = k3 in
     tryE (on_client (connect_as E ''APIKey1.JPOzsgjjXOQxNqTbTpvtoFXfmoHPzNuzqRvX'')) (\<lambda>client.
     tryE (on_client (randomValue E (push_bit 20 31))) (\<lambda>v1.
     tryE (streamSetAndGet S ctx client k1 v1) (\<lambda>_.
     tryE (on_client (randomValue E (push_bit 20 6))) (\<lambda>v2.
     tryE (on_client (randomValue E (push_bit 20 7))) (\<lambda>v3.
     tryE (streamVerifiedSetAndGet F S ctx client [k2, k3] [v2, v3]) (\<lambda>_.
     tryE (on_client (randomValue E (push_bit 20 8))) (\<lambda>v4.
     tryE (on_client (StreamExecAll client ctx (env_marshal E
       (FwdExecAll [(k4, v4)] [(set', score1, k1), (set', score4, k4)])))) (\<lambda>txMeta.
     tryE (printf (''StreamExecAll OK - TxID: %d'' @ [newline]) [ArgU64 (GetId (Some txMeta))]) (\<lambda>_.
     ret client))))))))))"

text \<open>Sequencing with the scans, which may not return.\<close>

fun tryO :: "('a go \<times> 's) option \<Rightarrow> ('a \<Rightarrow> 's \<Rightarrow> ('b go \<times> 's) option) \<Rightarrow> ('b go \<times> 's) option" where
  "tryO None f = None"
| "tryO (Some (Ok x, s)) f = f x s"
| "tryO (Some (Fail e, s)) f = Some (Fail e, s)"
| "tryO (Some (Panic p, s)) f = Some (Panic p, s)"

definition scanning ::
    "('w \<Rightarrow> ('a go \<times> 'w) option) \<Rightarrow> 'w \<times> printed list \<Rightarrow> ('a go \<times> ('w \<times> printed list)) option" where
  "scanning m = (\<lambda>(w, out). map_option (\<lambda>(r, w'). (r, (w', out))) (m w))"

fun print_all :: "printed list \<Rightarrow> ('w, unit) program" where
  "print_all [] = ret ()"
| "print_all (p # ps) = tryE (print p) (\<lambda>_. print_all ps)"

definition scan_line :: "bytes list \<Rightarrow> Entry \<Rightarrow> printed" where
  "scan_line ks e =
     (if Entry_Key e \<in> set ks
      then Printf (''  - key %s found, value len: %d'' @ [newline])
             [ArgBytes (Entry_Key e), ArgInt (int (length (Entry_Value e)))]
      else Printf (''  WARNING: unexpected key %s found'' @ [newline]) [ArgBytes (Entry_Key e)])"

definition zscan_line :: "bytes list \<Rightarrow> ZEntry \<Rightarrow> printed" where
  "zscan_line ks ze =
     (if ZEntry_Key ze \<in> set ks
      then Printf (''  - key %s found in set %s with score %.0f'' @ [newline])
             [ArgBytes (ZEntry_Key ze), ArgBytes (ZEntry_Set ze), ArgFloat (ZEntry_Score ze)]
      else Printf (''  WARNING: unexpected key %s found in set %s'' @ [newline])
             [ArgBytes (ZEntry_Key ze), ArgBytes (ZEntry_Set ze)])"

definition history_line :: "Entry \<Rightarrow> printed" where
  "history_line e = Printf (''  - key %s, value len: %d, tx: %d'' @ [newline])
     [ArgBytes (Entry_Key e), ArgInt (int (length (Entry_Value e))), ArgU64 (Entry_Tx e)]"

definition streams_main ::
    "('ip, 'dp, 'tx, 'md, 'es, 'k) immudb \<Rightarrow> ('w, 'rd) StreamLib \<Rightarrow>
     ('w, 'ctx, ('w, 'ctx, 'rd) StreamFactory) Environment \<Rightarrow> 'w \<times> printed list \<Rightarrow>
     (unit go \<times> ('w \<times> printed list)) option" where
  "streams_main F S E s =
     (let ctx = env_ctx E; k1 = string_bytes ''key1''; k2 = string_bytes ''key2''; k3 = string_bytes ''key3'';
          k4 = k3; set' = string_bytes ''set1'' in
     tryO (Some (streams_upload F S E s)) (\<lambda>client s.
     tryO (scanning (StreamScan S client ctx (env_marshal E (FwdScan (string_bytes ''key'')))) s) (\<lambda>entries s.
     let n = length (Entries_Entries entries) in
     if n \<noteq> 3 then Some (Fail (NewError (''StreamScan returned no error, but was expecting 3 entries, got '' @
       fmt_d (int n))), s) else
     tryO (Some (print_all (Printf (''StreamScan OK - Nb entries: %d'' @ [newline]) [ArgInt (int n)]
       # map (scan_line [k1, k2, k3]) (Entries_Entries entries)) s)) (\<lambda>_ s.
     tryO (scanning (StreamZScan S client ctx (env_marshal E (FwdZScan set'))) s) (\<lambda>zentries s.
     let n = length (ZEntries_Entries zentries) in
     if n = 0 then Some (Fail (NewError ''StreamZScan returned 0 entries''), s) else
     tryO (Some (print_all (Printf (''StreamZScan OK - Nb Z entries: %d'' @ [newline]) [ArgInt (int n)]
       # map (zscan_line [k1, k3]) (ZEntries_Entries zentries)) s)) (\<lambda>_ s.
     tryO (scanning (StreamHistory S client ctx (env_marshal E (FwdHistory k4))) s) (\<lambda>entries s.
     let n = length (Entries_Entries entries) in
     if n = 0 then Some (Fail (NewError ''StreamHistory returned 0 entries''), s) else
     Some (print_all (Printf (''StreamHistory OK - Nb historical entries: %d'' @ [newline]) [ArgInt (int n)]
       # map history_line (Entries_Entries entries)) s))))))))"

section \<open>Running a program\<close>

lemma on_client_Ok [ok_simps]:
  "(on_client m (w, out) = (Ok x, s)) = (\<exists>w'. m w = (Ok x, w') \<and> s = (w', out))"
  by (auto simp: on_client_def split: prod.splits)

lemma print_Ok [ok_simps]:
  "(print p (w, out) = (Ok u, s)) = (s = (w, out @ [p]))"
  by (auto simp: print_def)

lemma connected_Ok [ok_simps]:
  "(connected P c w = (Ok c', w')) = (Connect P c w = ((Ok (), c'), w'))"
  by (auto simp: connected_def tryG_Ok split: prod.splits)

lemma connect_as_factory:
  assumes "connect_as E k w = (Ok c, w')"
  shows "StreamServiceFactory c = env_factory E (env_chunk E)" "ApiKey c = k"
  using assms
  by (auto simp: connect_as_def ok_simps Connect_def NewLcClient_def default_LcClient_def option_defs Let_def
      split: prod.splits go.splits)

end
