(* ===== verification/Legacy_Examples.thy ===== *)
theory Legacy_Examples
  imports Example_Programs
begin

text \<open>
  The example programs that are excluded from the build (\<open>//go:build ignore\<close>): \<open>atomicOperations.go\<close>,
  \<open>scan_and_history.go\<close>, \<open>scan_on_fresh_snapshot.go\<close> and \<open>tls.go\<close>. They were written for an older version of
  the package, whose \<open>SafeSet\<close> and \<open>SafeGet\<close> are not in this repository: these two are parameters, in the
  record \<open>Legacy\<close>. The older request types are, like the current ones, encoded by \<open>env_marshal\<close>.
  What the programs do with the package as it is, in particular how they connect, is the model's.
\<close>

section \<open>The older operations\<close>

record SafeItem =
  Item_Key :: bytes
  Item_Value :: bytes
  Item_Index :: u64
  Item_Time :: string
  Item_Verified :: bool

record ('w, 'ctx, 'c) Legacy =
  SafeSet :: "'c \<Rightarrow> 'ctx \<Rightarrow> bytes \<Rightarrow> bytes \<Rightarrow> ('w, u64 \<times> bool) io"
  SafeGet :: "'c \<Rightarrow> 'ctx \<Rightarrow> bytes \<Rightarrow> ('w, SafeItem) io"

section \<open>atomicOperations.go\<close>

definition atomic_ops :: forwarded where
  "atomic_ops = FwdExecAll
     [(string_bytes ''key1'', string_bytes ''val1''), (string_bytes ''key2'', string_bytes ''val2'')]
     [(string_bytes ''mySet'', 0x4016666666666666, string_bytes ''key1''),
      (string_bytes ''mySet'', 0x402FCCCCCCCCCCCD, string_bytes ''key2'')]"

text \<open>As in \<open>sorted_set.go\<close> the error of \<open>ZScan\<close> is not looked at.\<close>

definition atomic_main :: "('w, 'ctx, 'sf) Environment \<Rightarrow> ('w, unit) program" where
  "atomic_main E =
     tryE (on_client (connect_as E ''iygjyyaoudcpelitsbdvciughnzxdujmbhxy''))
       (\<lambda>client :: ('w, 'ctx, unit, 'sf) LcClient.
     tryE (on_client (ExecAll client (env_ctx E) (env_marshal E atomic_ops))) (\<lambda>_.
     (\<lambda>(w, out). case ZScan client (env_ctx E) (env_marshal E (FwdZScan (string_bytes ''mySet''))) w of
        (Ok list, w') \<Rightarrow> printf (''%v'' @ [newline]) [ArgZEntries list] (w', out)
      | (Fail _, w') \<Rightarrow> printf (''%v'' @ [newline]) [ArgNil] (w', out)
      | (Panic p, w') \<Rightarrow> (Panic p, (w', out)))))"

section \<open>scan\_and\_history.go and scan\_on\_fresh\_snapshot.go\<close>

definition scan_and_history_main ::
    "('w, 'ctx, ('w, 'ctx, unit, 'sf) LcClient) Legacy \<Rightarrow> ('w, 'ctx, 'sf) Environment \<Rightarrow> ('w, unit) program" where
  "scan_and_history_main L E =
     (let ctx = env_ctx E; b = string_bytes in
     tryE (on_client (connect_as E ''vipicevtthnqiveufonnkhnoshkoyrbvpeyj'')) (\<lambda>client.
     tryE (on_client (SafeSet L client ctx (b ''aaa'') (b ''val1''))) (\<lambda>_.
     tryE (on_client (SafeSet L client ctx (b ''aab'') (b ''val2''))) (\<lambda>_.
     tryE (on_client (SafeSet L client ctx (b ''abb'') (b ''val3''))) (\<lambda>_.
     tryE (on_client (SafeSet L client ctx (b ''abb'') (b ''val4''))) (\<lambda>_.
     tryE (on_client (Scan client ctx (env_marshal E (FwdScan (b ''aa''))))) (\<lambda>list.
     tryE (printf (''%v'' @ [newline]) [ArgEntries list]) (\<lambda>_.
     tryE (on_client (History client ctx (env_marshal E (FwdHistory (b ''abb''))))) (\<lambda>list.
     printf (''%v'' @ [newline]) [ArgEntries list])))))))))"

text \<open>The second file is a copy of the first.\<close>

definition scan_on_fresh_snapshot_main ::
    "('w, 'ctx, ('w, 'ctx, unit, 'sf) LcClient) Legacy \<Rightarrow> ('w, 'ctx, 'sf) Environment \<Rightarrow> ('w, unit) program" where
  "scan_on_fresh_snapshot_main L E =
     (let ctx = env_ctx E; b = string_bytes in
     tryE (on_client (connect_as E ''vipicevtthnqiveufonnkhnoshkoyrbvpeyj'')) (\<lambda>client.
     tryE (on_client (SafeSet L client ctx (b ''aaa'') (b ''val1''))) (\<lambda>_.
     tryE (on_client (SafeSet L client ctx (b ''aab'') (b ''val2''))) (\<lambda>_.
     tryE (on_client (SafeSet L client ctx (b ''abb'') (b ''val3''))) (\<lambda>_.
     tryE (on_client (SafeSet L client ctx (b ''abb'') (b ''val4''))) (\<lambda>_.
     tryE (on_client (Scan client ctx (env_marshal E (FwdScan (b ''aa''))))) (\<lambda>list.
     tryE (printf (''%v'' @ [newline]) [ArgEntries list]) (\<lambda>_.
     tryE (on_client (History client ctx (env_marshal E (FwdHistory (b ''abb''))))) (\<lambda>list.
     printf (''%v'' @ [newline]) [ArgEntries list])))))))))"

theorem fresh_snapshot_is_scan_and_history: "scan_on_fresh_snapshot_main = scan_and_history_main"
  by (simp add: scan_on_fresh_snapshot_main_def scan_and_history_main_def fun_eq_iff)

section \<open>tls.go\<close>

text \<open>
  The platform's file reading, certificate parsing (\<open>None\<close> when no certificate could be added) and TLS
  credentials, which appear in the dial options encoded.
\<close>

record ('w, 'pool) TlsLib =
  ReadCert :: "string \<Rightarrow> ('w, bytes) io"
  AppendCertsFromPEM :: "bytes \<Rightarrow> 'pool option"
  NewTLS :: "'pool \<Rightarrow> wire"

definition loadTLSCertificate :: "('w, 'pool) TlsLib \<Rightarrow> ('w, wire) io" where
  "loadTLSCertificate T =
     tryE (ReadCert T ''cert/ca-cert.pem'') (\<lambda>cert.
     case AppendCertsFromPEM T cert of
       None \<Rightarrow> fail (NewError ''failed to add server CA's certificate'')
     | Some certPool \<Rightarrow> ret (NewTLS T certPool))"

definition tls_dialOptions :: "wire \<Rightarrow> DialOption list" where
  "tls_dialOptions tlsCredentials =
     [OtherDialOption tlsCredentials, WithKeepaliveParams (20 * 1000000000) (10 * 1000000000) True]"

definition tls_main ::
    "('w, 'pool) TlsLib \<Rightarrow> ('w, 'ctx, ('w, 'ctx, unit, 'sf) LcClient) Legacy \<Rightarrow> ('w, 'ctx, 'sf) Environment \<Rightarrow>
     ('w, unit) program" where
  "tls_main T L E =
     tryE (on_client (loadTLSCertificate T)) (\<lambda>tlsCredentials.
     tryE (on_client (connected (env_platform E)
       (NewLcClient (env_timestamp E) (env_chunk E) (env_factory E)
          [Option_ApiKey ''jxnqdxcicasvajpfxldqdanquhabiqcjrwdb'', Option_Host ''localhost'', Option_Port 3324,
           Option_DialOptions (tls_dialOptions tlsCredentials)]))) (\<lambda>client.
     tryE (on_client (SafeSet L client (env_ctx E) (string_bytes ''key'') (string_bytes ''val''))) (\<lambda>index.
     tryE (printf (''index:'' @ [tab, tab] @ ''%v'' @ [newline] @ ''verified:'' @ [tab] @ ''%t'' @ [newline, newline])
       [ArgU64 (fst index), ArgBool (snd index)]) (\<lambda>_.
     tryE (on_client (SafeGet L client (env_ctx E) (string_bytes ''key''))) (\<lambda>item.
     printf (''My item:'' @ [newline] @ ''key:'' @ [tab, tab] @ ''%s'' @ [newline] @
         ''val:'' @ [tab, tab] @ ''%s'' @ [newline] @ ''index:'' @ [tab, tab] @ ''%d'' @ [newline] @
         ''timestamp:'' @ [tab] @ ''%v'' @ [newline] @ ''verified:'' @ [tab] @ ''%t'' @ [newline])
       [ArgBytes (Item_Key item), ArgBytes (Item_Value item), ArgU64 (Item_Index item),
        ArgString (Item_Time item), ArgBool (Item_Verified item)])))))"

text \<open>A client that was made with its own dial options dials with those and the interceptors, nothing else.\<close>

lemma connected_dials:
  assumes "connected P (NewLcClient ts chunk mk [Option_ApiKey k, Option_Host h, Option_Port p, Option_DialOptions ds]) w =
     (Ok c, w')"
  shows "\<exists>cc v. grpc_Dial P (h @ '':'' @ fmt_d p)
      (ds @ [WithChainUnaryClient (unary_interceptors c), WithChainStreamClient (stream_interceptors c)]) w = (Ok cc, v)"
  using assms
  by (auto simp: connected_Ok Connect_def NewLcClient_def default_LcClient_def option_defs Let_def
      unary_interceptors_def stream_interceptors_def split: prod.splits go.splits)

end
