(* ===== verification/Example_Guarantees.thy ===== *)
theory Example_Guarantees
  imports Client_Guarantees Trust_Guarantees Legacy_Examples
begin

text \<open>
  What the example programs do from \<open>Connect\<close> to the last line they print.
\<close>

section \<open>Hello world\<close>

text \<open>A successful call of \<open>VerifiedSet\<close> or \<open>VerifiedGet\<close>, from the state it finds.\<close>

lemma VerifiedSet_Ok:
  assumes session: "client_session ss locked cached slot c"
    and run: "VerifiedSet F c ctx key val w = (Ok x, w')" and "cached w (ApiKey c) = Some st"
  shows "\<exists>answer tx ns. verifiedSet_check F st (ApiKey c) key val answer = Ok ns \<and>
     VerifiableTx_Tx answer = Some tx \<and> x = Tx_Header tx \<and> cached w' (ApiKey c) = Some ns"
  using client_session.check_then_store_outcome [OF session run [unfolded VerifiedSet_def]
      client_session.session_fetches_quiet(1) [OF session] assms(3)]
  by (auto simp: VerifiedSet_fetch_def Let_def ok_simps)

lemma VerifiedGet_Ok:
  assumes session: "client_session ss locked cached slot c"
    and run: "VerifiedGet F c ctx key w = (Ok x, w')" and "cached w (ApiKey c) = Some st"
  shows "\<exists>ve ns. verifyGet F st (Some ve) \<lparr>KeyRequest_Key = key, KeyRequest_AtTx = 0, KeyRequest_SinceTx = 0\<rparr>
       (ApiKeyHash c) = Ok ns \<and> x = VerifiableEntry_Entry ve \<and> cached w' (ApiKey c) = Some ns"
proof -
  from client_session.store_then_check_outcome [OF session run [unfolded VerifiedGet_def verifiedGet_def]
      client_session.session_fetches_quiet(2) [OF session] assms(3)]
  obtain y ns w1 w2 where "verifiedGet_fetch F c ctx \<lparr>KeyRequest_Key = key, KeyRequest_AtTx = 0,
      KeyRequest_SinceTx = 0\<rparr> st w1 = (Ok (y, ns), w2)" "cached w' (ApiKey c) = Some ns"
    "Ok x = tryG (check_signature F c ns) (\<lambda>_. Ok y)" by auto
  then show ?thesis
    by (cases "check_signature F c ns") (auto dest!: verifiedGet_fetch_Ok)
qed

text \<open>C25. The hello-world program, from \<open>Connect\<close> to its last line: when it reaches the end it has printed two
  lines. The first is the transaction of an answer that was verified to contain exactly the key and value
  sent; the second is an entry that was verified for that key from the state the first call left, not from
  the older one; and the state it leaves in the cache is reached from the one it found by those two proofs.\<close>

theorem helloworld_prints_verified:
  fixes F :: "('ip, 'dp, 'tx, 'md, 'es, 'k) immudb" and c :: "('w, 'ctx, 'k, 'sf) LcClient"
  assumes run: "helloworld_main F E (w, out) = (Ok (), (w', out'))"
    and connect: "connect_as E ''jxnqdxcicasvajpfxldqdanquhabiqcjrwdb'' w = (Ok c, w1)"
    and dial: "dials_quietly (env_platform E) (\<lambda>w. (locked w, cached w))"
    and new: "provides_trusted_state (env_platform E) locked cached slot"
    and st: "cached w1 (obfuscateApiKey (sha256 (env_platform E)) (ApiKey c)) = Some st"
  shows "\<exists>answer tx hdr ns1 ve i ns2.
     out' = out @ [index_line hdr, item_line i] \<and>
     verifiedSet_check F st (ApiKey c) (string_bytes ''key'') (string_bytes ''val'') answer = Ok ns1 \<and>
     VerifiableTx_Tx answer = Some tx \<and> Tx_Header tx = Some hdr \<and>
     verifyGet F ns1 (Some ve) \<lparr>KeyRequest_Key = string_bytes ''key'', KeyRequest_AtTx = 0, KeyRequest_SinceTx = 0\<rparr>
       (ApiKeyHash c) = Ok ns2 \<and> VerifiableEntry_Entry ve = Some i \<and>
     cached w' (obfuscateApiKey (sha256 (env_platform E)) (ApiKey c)) = Some ns2 \<and> trust_path F st ns2"
proof -
  let ?cached = "\<lambda>w k. cached w (obfuscateApiKey (sha256 (env_platform E)) k)"
  from connect have "Connect (env_platform E) (NewLcClient (env_timestamp E) (env_chunk E) (env_factory E)
      [Option_ApiKey ''jxnqdxcicasvajpfxldqdanquhabiqcjrwdb'', Option_Host ''localhost'', Option_Port 3324]) w =
      ((Ok (), c), w1)"
    by (simp add: connect_as_def ok_simps)
  from Connect_session [OF this dial new] obtain ss where session: "client_session
      (lcStateService (sha256 (env_platform E)) ss) locked ?cached
      (\<lambda>k. slot (obfuscateApiKey (sha256 (env_platform E)) k)) c" by blast
  from run connect obtain hdr w2 i
    where set: "VerifiedSet F c (env_ctx E) (string_bytes ''key'') (string_bytes ''val'') w1 = (Ok (Some hdr), w2)"
      and get: "VerifiedGet F c (env_ctx E) (string_bytes ''key'') w2 = (Ok (Some i), w')"
      and out: "out' = out @ [index_line hdr, item_line i]"
    by (auto simp: helloworld_main_def ok_simps)
  from VerifiedSet_Ok [OF session set st] obtain answer tx ns1
    where set': "verifiedSet_check F st (ApiKey c) (string_bytes ''key'') (string_bytes ''val'') answer = Ok ns1"
      "VerifiableTx_Tx answer = Some tx" "Tx_Header tx = Some hdr" "?cached w2 (ApiKey c) = Some ns1" by auto
  from VerifiedGet_Ok [OF session get set'(4)] obtain ve ns2
    where get': "verifyGet F ns1 (Some ve) \<lparr>KeyRequest_Key = string_bytes ''key'', KeyRequest_AtTx = 0,
        KeyRequest_SinceTx = 0\<rparr> (ApiKeyHash c) = Ok ns2"
      "VerifiableEntry_Entry ve = Some i" "?cached w' (ApiKey c) = Some ns2" by auto
  have "trust_path F st ns2"
    using advances_trust_path [OF verifiedSet_advances [OF set'(1)]] verifyGet_advances [OF get'(1)]
    by (rule trust_path_step)
  with out set' get' show ?thesis by blast
qed

text \<open>The reference server keeps the one key and value it is sent.\<close>

definition ref_env :: "(world, unit, (world, unit, bytes) StreamFactory) Environment" where
  "ref_env = \<lparr>env_platform = ref_platform, env_timestamp = [], env_chunk = 65536, env_factory = ref_factory,
     env_ctx = (), env_marshal = (\<lambda>_. []), env_rand = (\<lambda>n. ret (replicate n 7))\<rparr>"

abbreviation hello_spec :: bytes where
  "hello_spec \<equiv> string_bytes ''key'' @ 0 # string_bytes ''val''"

definition hello_world :: world where
  "hello_world = world_at (state_at 1 [1]) [RepVerifiableTx (ref_vtx [1] 2 hello_spec),
     RepVerifiableEntry (ref_ventry hello_spec 2 (string_bytes ''key'') (string_bytes ''val''))]"

definition hello_client :: "(world, unit, wire, (world, unit, bytes) StreamFactory) LcClient" where
  "hello_client = snd (fst (Connect ref_platform (NewLcClient [] 65536 ref_factory
     [Option_ApiKey ''jxnqdxcicasvajpfxldqdanquhabiqcjrwdb'', Option_Host ''localhost'', Option_Port 3324])
     hello_world))"

lemma hello_connect:
  "connect_as ref_env ''jxnqdxcicasvajpfxldqdanquhabiqcjrwdb'' hello_world = (Ok hello_client, hello_world)"
  by (simp add: connect_as_def connected_def ref_env_def hello_client_def ref_platform_def Connect_def
      NewLcStateService_def Let_def)

lemma hello_client_simps:
  "StateService hello_client = Some (lcStateService (sha256 ref_platform) ref_state)"
  "ServiceClient hello_client = Some ref_conn"
  "ApiKey hello_client = ''jxnqdxcicasvajpfxldqdanquhabiqcjrwdb''" "serverSigningPubKey hello_client = None"
  by (simp_all add: hello_client_def ref_platform_def Connect_def NewLcClient_def
      default_LcClient_def NewLcStateService_def option_defs Let_def)

lemmas hello_eval = VerifiedSet_def VerifiedSet_fetch_def VerifiedGet_def verifiedGet_def verifiedGet_fetch_def
  protocol_defs wrapper_defs stub_defs verifiedSet_check_def set_target_check_def verify_defs ref_defs Let_def
  index_def zero_Entry_def on_client_def print_def

lemma hello_run:
  "\<exists>w' out'. helloworld_main ref_immudb ref_env (hello_world, []) = (Ok (), (w', out'))"
proof -
  let ?set = "VerifiedSet ref_immudb hello_client () (string_bytes ''key'') (string_bytes ''val'') hello_world"
  let ?item = "zero_Entry\<lparr>Entry_Tx := 2, Entry_Key := string_bytes ''key'', Entry_Value := string_bytes ''val''\<rparr>"
  have "fst ?set = Ok (Some (ref_hdr 2 hello_spec))"
    by (simp add: hello_eval hello_client_simps hello_world_def)
  then obtain w2 where set: "?set = (Ok (Some (ref_hdr 2 hello_spec)), w2)" by (metis prod.collapse)
  have "fst (VerifiedGet ref_immudb hello_client () (string_bytes ''key'') (snd ?set)) = Ok (Some ?item)"
    by (simp add: hello_eval hello_client_simps hello_world_def)
  then obtain w' where get: "VerifiedGet ref_immudb hello_client () (string_bytes ''key'') w2 = (Ok (Some ?item), w')"
    unfolding set snd_conv by (metis prod.collapse)
  have env: "env_ctx ref_env = ()" by simp
  have "helloworld_main ref_immudb ref_env (hello_world, []) =
      (Ok (), (w', [index_line (ref_hdr 2 hello_spec), item_line ?item]))"
    by (simp add: helloworld_main_def env tryE_def on_client_def print_def hello_connect set get)
  then show ?thesis by blast
qed

theorem helloworld_prints_verified_witness:
  "\<exists>out' hdr i. snd (snd (helloworld_main ref_immudb ref_env (hello_world, []))) = [index_line hdr, item_line i]"
proof -
  obtain w' out' where run: "helloworld_main ref_immudb ref_env (hello_world, []) = (Ok (), (w', out'))"
    using hello_run by blast
  have dial: "dials_quietly (env_platform ref_env) (\<lambda>w. (w_locked w, w_cache w))"
    and new: "provides_trusted_state (env_platform ref_env) w_locked w_cache (\<lambda>k. k)"
    using ref_dials ref_provides by (simp_all add: ref_env_def)
  have st: "w_cache hello_world (obfuscateApiKey (sha256 (env_platform ref_env)) (ApiKey hello_client)) =
      Some (state_at 1 [1])"
    by (simp add: hello_world_def ref_defs)
  from helloworld_prints_verified [OF run hello_connect, OF dial new st] run show ?thesis by auto
qed

section \<open>Files\<close>










section \<open>Streams\<close>









section \<open>Transport security\<close>





end
