(* ===== verification/Spec2Isabelle.thy ===== *)
theory Spec2Isabelle
  imports Agreement_Guarantees Stream_Guarantees Key_Guarantees Connection_Guarantees Service_Guarantees Protocol_Guarantees
    Example_Guarantees
begin

text \<open>
  A model of the Go client of the CodeNotary Ledger Compliance service (package \<open>grpcclient\<close> and the
  message package \<open>schema\<close>) and its verification.

  THE PROGRAM. \<open>LcClient\<close> (\<open>grpcclient/lc_client.go\<close>) is a gRPC client of the service
  \<open>lc.schema.LcService\<close> (\<open>schema/lc_grpc.pb.go\<close>). \<open>NewLcClient\<close> folds option setters over defaults and
  appends its interceptors to the dial options; \<open>Connect\<close> derives a hash of the API key, dials, and
  builds a state service. Its operations come in two kinds. The forwarding ones (\<open>lc_api.go\<close>) build a
  request and return what the server answers. The verified ones (\<open>lc_api.go\<close>, \<open>lc_streams_api.go\<close>)
  do not trust the server: under a lock they read the last trusted state of the ledger from a local
  cache, ask the server for an answer with proofs, check the proofs against the trusted state, and
  store the state the answer leads to. The cache is immudb's state service, wrapped by
  \<open>lcStateService\<close> (\<open>lc_state_service.go\<close>) so that states are stored under an obfuscated API key.
  Interceptors around each call check that there is a connection, add the API key, and verify the
  signature of \<open>CurrentState\<close> answers. \<open>schema/cache.go\<close> computes cache keys for read requests.

  THE THEORIES, from the bottom.

  \<^item> \<open>Prelude\<close>, \<open>Go_Effects\<close>, \<open>Go_Strings\<close>: Go's types, outcomes and the few standard-library functions
    the code uses. A function with an error result is a value of \<open>'a go\<close>: \<open>Ok\<close>, \<open>Fail\<close> with an error,
    or \<open>Panic\<close>. An effectful one is \<open>'w \<Rightarrow> 'a go \<times> 'w\<close> over a world \<open>'w\<close>. \<open>tryE\<close> is the
    \<^verbatim>\<open>if err != nil { return nil, err }\<close> chain, \<open>deferE\<close> a deferred call that runs after errors and
    panics as well; \<open>triple\<close> and \<open>preserves\<close> speak of every outcome.

  \<^item> \<open>Immudb_Types\<close>, \<open>Grpc_Types\<close>: the third-party code, as types and as records of functions that stay
    parameters (\<open>immudb\<close>, \<open>ClientConn\<close>). Nothing is assumed of them except where a theorem says so.

  \<^item> \<open>Lc_Messages\<close>, \<open>Lc_Getters\<close> (\<open>schema/lc.pb.go\<close>), \<open>Cache_Keys\<close> (\<open>schema/cache.go\<close>, \<open>features.go\<close>,
    \<open>meta.go\<close>, \<open>signature.go\<close>), \<open>Lc_Service\<close> and \<open>Lc_Server\<close> (the two halves of \<open>schema/lc_grpc.pb.go\<close>):
    messages as records, a nil pointer as \<open>None\<close>, generated getters, cache keys, one definition per client
    stub and per handler. \<open>Lc_Proto\<close> (\<open>schema/lc.proto\<close>): the messages, enumerations and methods of the
    service as its definition file declares them, with the two tables of \<open>schema/lc.pb.go\<close> that number them.

  \<^item> \<open>State_Service\<close> (\<open>lc_state_service.go\<close>, \<open>lc_state_provider.go\<close>, \<open>lc_uuid_provider.go\<close>), \<open>Lc_Client\<close>
    (\<open>lc_client.go\<close>, \<open>lc_client_options.go\<close>, \<open>lc_logger.go\<close>), \<open>Interceptors\<close> (the three interceptor files).

  \<^item> \<open>Verification\<close>: the cryptographic checks, as pure functions of the trusted state and an answer.
    \<open>Client_Session\<close>: the protocol around them, in the two orders the code has. \<open>Verified_Ops\<close>,
    \<open>Api_Ops\<close>, \<open>Streams\<close>: the operations. \<open>Batch_Checks\<close>: the checks of a batch read as a list. \<open>Client_Runs\<close>: histories of calls as a step relation.

  \<^item> \<open>Client_Interface\<close>: the exported interface \<open>LcClientIf\<close> (\<open>lc_client.go\<close>), a record of its 45 methods,
    and the pointer to a client as its implementation. \<open>Client_Lifetime\<close>: any sequence of calls through
    it, \<open>Connect\<close> and \<open>Disconnect\<close> included, and what a well-formed client is.

  \<^item> \<open>Ledger\<close>: the ledger behind the proofs. \<open>recorded\<close> says what an accepted answer establishes about a key
    at a transaction, whichever call asked; every check establishes it and every path of proofs keeps it.

  \<^item> \<open>Concurrent_Sessions\<close>: the verified operations cut into phases, one per call of the state service or the
    server, and interleaved between any number of goroutines. \<open>Concurrent_Progress\<close>: every phase leads to
    the end of its call, so that whoever holds the lock can give it back. \<open>Concurrent_Ledger\<close>: what a returned
    call has vouched for stays recorded in the cached state, whatever other calls do to it.

  \<^item> \<open>Go_Io\<close>: \<open>bytes.Buffer\<close> and \<open>bufio.Reader\<close>, as far as stream requests are made of them.
    \<open>Example_Programs\<close> and \<open>Legacy_Examples\<close> (\<open>examples/\<close>): the nine programs that use the client, with
    what they print; the second theory has the four that are excluded from the build.

  \<^item> \<open>Reference_World\<close>: concrete parameters that keep every contract, in which the witnesses are evaluated;
    \<open>Reference_Ledger\<close>: an immudb whose hashes are the whole chain of transactions before them.

  \<^item> \<open>Trust_Guarantees\<close>, \<open>Batch_Guarantees\<close>, \<open>Key_Guarantees\<close>, \<open>Client_Guarantees\<close>, \<open>Connection_Guarantees\<close>,
    \<open>Service_Guarantees\<close>, \<open>Lifetime_Guarantees\<close>, \<open>Ledger_Guarantees\<close>, \<open>Concurrency_Guarantees\<close>,
    \<open>Agreement_Guarantees\<close>, \<open>Stream_Guarantees\<close>, \<open>Protocol_Guarantees\<close>, \<open>Example_Guarantees\<close> and the end of this theory: the properties, each with its witness.

  THE INTERFACES are locales. \<open>trusted_state\<close> is what a client relies on of a state service
  (lock, read, store), \<open>wrapped_state\<close> shows that the repository's wrapper keeps it;
  \<open>quiet_connection\<close> says that calls do not touch the cache; \<open>client_network\<close>,
  \<open>stream_network\<close> and \<open>network_runs\<close> say it of the connections, streams and files
  of a client, and \<open>client_session\<close>, \<open>stream_session\<close> and \<open>client_runs\<close>
  add its state service; \<open>exclusive_state\<close> says that the cache lock has one holder,
  \<open>live_state\<close> that a state service makes progress, \<open>platform\<close> what
  \<open>Connect\<close> relies on; \<open>ledger\<close> is what is known of immudb's hashes and proofs;
  \<open>state_verifier\<close> is what the four checks promise, \<open>pass_through\<close> what an
  interceptor promises, \<open>keyed_request\<close> what a cache key is, \<open>finite_stream\<close>,
  \<open>byte_readers\<close>, \<open>fresh_readers\<close> and \<open>file_system\<close> what streams,
  readers and files do; \<open>transport\<close> what gRPC does between a stub and its handler. Each is
  interpreted on the model's definitions.

  WHAT IS SHOWN. Two verified answers about a key at one transaction agree over the whole life of a client and
  between goroutines, what was written with verification, alone or in a stream, is read back, and the cached state of a client
  refines a map from keys and transactions to values to which entries are only added; of a batch read this holds
  of the item checked last, the others are the exception. After any history of calls the cache lock is free and the trusted state has moved
  only along verified proofs, so that the trusted transaction never goes back and the history it stands for is
  append-only, for any notion of one history continuing another that immudb's dual proofs respect; exactly which
  answers the checks of a read and of a write accept, and so that an accepted answer is bound to the requested key
  or to the key and value sent; how each verified operation ends on every
  branch, and in particular that the setters and the streams check the signature before they store while the
  plain getters store first; that the streamed and the plain checks agree; what cache keys and obfuscated
  names identify; the structure of the interceptor chain and what it guarantees; that receiving loops return
  and return exactly what was delivered; that a client stub reaches the server's method of its name; and that stubs and handlers use
  the request and reply types that the protocol definition declares for each method. Over
  a client's whole life, reconnections included, it stays well-formed, and no earlier call can block a later
  honest answer. Under any interleaving of goroutines one verified operation at a time is inside the cache
  lock, trust still moves along proofs only, and a goroutine that waits for the lock can always be brought to
  get it and to return. When connecting again fails, what is left of the client is refused every unary call
  but still streams over the old connection; after \<open>Disconnect\<close> forwarding, streaming and
  verified operations panic, the last with the lock released. The example programs print what was verified. A stream request made of fresh readers is
  verified exactly, although the client reads it with one \<open>Read\<close>; one whose reader was read from before need not be.

  BOUNDS. No fuel is used. The receiving loops are partial functions into \<open>option\<close>,
  \<open>None\<close> being a loop that does not return, and are shown to return when a stream has finitely
  many messages. Machine integers have their width: transaction ids are 64-bit words compared unsigned, the
  entry count of a header is a 32-bit word compared with the truncated length.

  WHAT IS ASSUMED of code outside the repository appears as hypotheses: a held cache lock can be released;
  reading a state returns the stored one or stores what was fetched; a failed store changes nothing; an immudb
  dual proof goes forward; interceptor chains run from left to right; \<open>EnumStringOf\<close> gives names
  or numbers; immudb's hashes have no collisions, and a transaction has one entry for a key (for the ledger);
  dialling and creating a state service leave the cache alone; taking the lock and reading the state leave
  the readers of a stream request alone (for streamed round trips); the cache lock excludes other holders, and the
  state services of one client share it (for interleavings) and is granted when free (for progress).

  NOT MODELLED. The data race on the signing key and the connection, which readers do not lock: in the
  interleavings a change by \<open>SetServerSigningPubKey\<close>, \<open>Disconnect\<close> or
  \<open>Connect\<close> takes effect between two phases of a call. Aliasing of pointers inside requests, but
  for the caller's \<open>VCNArtifactsGetRequest\<close>, in which \<open>ProveSinceTx\<close> is set, and the
  readers of a streamed request, which are replaced. Memory limits of \<open>make\<close>. Protobuf reflection,
  the raw descriptor and the wire encoding: the messages are records on both sides, and the fields, methods and tables
  are compared with \<open>lc.proto\<close> instead. \<open>SafeSet\<close> and \<open>SafeGet\<close>, which four examples call, are not in
  the repository and stay parameters.
\<close>

section \<open>A connected client\<close>

text \<open>C9. From \<open>Connect\<close> to a verified read: on a client that \<open>Connect\<close> has connected, an entry that
  \<open>VerifiedGet\<close> returns passed the check, for the key asked for, from the state the cache held under the
  obfuscated API key; the state it leads to carries a valid signature and is what the cache holds under
  that name afterwards.\<close>

theorem connected_VerifiedGet_is_verified:
  assumes connect: "Connect P c0 w0 = ((Ok (), c), w)"
    and dial: "dials_quietly P (\<lambda>w. (locked w, cached w))"
    and new: "provides_trusted_state P locked cached slot"
    and state: "cached w1 (obfuscateApiKey (sha256 P) (ApiKey c0)) = Some st"
    and read: "VerifiedGet F c ctx key w1 = (Ok x, w2)"
  shows "\<exists>ve ns. verifyGet F st (Some ve)
        \<lparr>KeyRequest_Key = key, KeyRequest_AtTx = 0, KeyRequest_SinceTx = 0\<rparr> (ApiKeyHash c) = Ok ns \<and>
      x = VerifiableEntry_Entry ve \<and> check_signature F c ns = Ok () \<and>
      cached w2 (obfuscateApiKey (sha256 P) (ApiKey c0)) = Some ns"
proof -
  let ?cached = "\<lambda>w k. cached w (obfuscateApiKey (sha256 P) k)"
  from Connect_session [OF connect dial new] obtain ss where key: "ApiKey c = ApiKey c0"
    and session: "client_session (lcStateService (sha256 P) ss) locked ?cached
        (\<lambda>k. slot (obfuscateApiKey (sha256 P) k)) c"
    by blast
  have st: "?cached w1 (ApiKey c) = Some st" using state key by simp
  from client_session.store_then_check_outcome [OF session
      read [unfolded VerifiedGet_def verifiedGet_def]
      client_session.session_fetches_quiet(2) [OF session] st]
  obtain y ns v1 v2 where fetch: "verifiedGet_fetch F c ctx \<lparr>KeyRequest_Key = key, KeyRequest_AtTx = 0,
        KeyRequest_SinceTx = 0\<rparr> st v1 = (Ok (y, ns), v2)"
    and after: "?cached w2 (ApiKey c) = Some ns"
    and res: "Ok x = tryG (check_signature F c ns) (\<lambda>_. Ok y)"
    by auto
  from res have "x = y" "check_signature F c ns = Ok ()"
    by (cases "check_signature F c ns"; simp)+
  with verifiedGet_fetch_Ok [OF fetch] after key show ?thesis by auto
qed

theorem connected_VerifiedGet_is_verified_witness:
  "\<exists>ns. w_cache (snd (VerifiedGet ref_immudb (ref_client (Some [9])) () [5] get_world))
     (obfuscateApiKey (sha256 ref_platform) ''signer.key'') = Some ns \<and>
   check_signature ref_immudb (ref_client (Some [9])) ns = Ok ()"
proof -
  let ?c = "ref_client (Some [9])"
  have connect: "Connect ref_platform (ref_new (Some [9])) empty_world = ((Ok (), ?c), empty_world)"
    by (simp add: ref_client_def ref_platform_def Connect_def NewLcStateService_def Let_def)
  have key: "ApiKey (ref_new (Some [9])) = ''signer.key''"
    by (simp add: ref_new_def NewLcClient_def default_LcClient_def option_defs Let_def)
  have "fst (VerifiedGet ref_immudb ?c () [5] get_world) = Ok (VerifiableEntry_Entry ref_answer)"
    by (simp add: VerifiedGet_def get_eval)
  then have read: "VerifiedGet ref_immudb ?c () [5] get_world =
      (Ok (VerifiableEntry_Entry ref_answer), snd (VerifiedGet ref_immudb ?c () [5] get_world))"
    by (metis prod.collapse)
  have state: "w_cache get_world (obfuscateApiKey (sha256 ref_platform) (ApiKey (ref_new (Some [9])))) =
      Some (state_at 1 [1])"
    by (simp add: ref_defs)
  from connected_VerifiedGet_is_verified [OF connect ref_dials ref_provides state read] key show ?thesis by auto
qed

end
